(* ===== verification/Prelude.thy ===== *)
theory Prelude
  imports Main "HOL-Library.Word"
begin

unbundle bit_operations_syntax

text \<open>
  Shared vocabulary of the development: the machine integers of the driver and the
  library, the outcomes of C code that can go wrong, updates of fixed-size arrays, the
  \<open>named_theorems\<close> collections the components add to, and the generic lemmas on words,
  lists and sums that their proofs use.

  A C function that cannot go wrong is a plain function of its inputs and of the state it
  reads. A function whose execution is undefined for some inputs (a NULL dereference, an
  index outside an array, a write past a buffer, a use of freed memory, a wrong free, a kernel
  service used against its rules) returns a value of
  \<open>'a res\<close>: \<open>Inl\<close> of the fault, or \<open>Inr\<close> of its result and new state. An error the
  code itself reports (a negative return value) is an ordinary result.
\<close>

type_synonym u8 = "8 word"
type_synonym u16 = "16 word"
type_synonym u32 = "32 word"
type_synonym u64 = "64 word"

datatype fault = NullDeref | OutOfBounds | BufferOverflow | UseAfterFree | BadFree | BadShift | BadConversion | KernelBug

type_synonym 'a res = "fault + 'a"

fun bindR :: "'a res \<Rightarrow> ('a \<Rightarrow> 'b res) \<Rightarrow> 'b res" where
  "bindR (Inl e) f = Inl e"
| "bindR (Inr x) f = f x"

definition guardR :: "bool \<Rightarrow> fault \<Rightarrow> unit res" where
  "guardR b e = (if b then Inr () else Inl e)"

definition derefR :: "'a option \<Rightarrow> 'a res" where
  "derefR p = (case p of None \<Rightarrow> Inl NullDeref | Some x \<Rightarrow> Inr x)"

text \<open>Reading and writing a C array: an index outside it is a fault.\<close>

definition nthR :: "'a list \<Rightarrow> nat \<Rightarrow> 'a res" where
  "nthR xs i = (if i < length xs then Inr (xs ! i) else Inl OutOfBounds)"

definition updR :: "'a list \<Rightarrow> nat \<Rightarrow> 'a \<Rightarrow> 'a list res" where
  "updR xs i x = (if i < length xs then Inr (xs[i := x]) else Inl OutOfBounds)"

text \<open>The index of an array is a C \<open>int\<close>: a negative one is outside the array too.\<close>

definition nthI :: "'a list \<Rightarrow> int \<Rightarrow> 'a res" where
  "nthI xs i = (if 0 \<le> i \<and> i < int (length xs) then Inr (xs ! nat i) else Inl OutOfBounds)"

definition updI :: "'a list \<Rightarrow> int \<Rightarrow> 'a \<Rightarrow> 'a list res" where
  "updI xs i x = (if 0 \<le> i \<and> i < int (length xs) then Inr (xs[nat i := x]) else Inl OutOfBounds)"

named_theorems fault_simps \<open>evaluation of the fault monad and of array accesses\<close>
named_theorems inv_intros \<open>preservation of a component's invariant by its operations\<close>

lemma bindR_eq_Inr [simp]: "bindR m f = Inr y \<longleftrightarrow> (\<exists>x. m = Inr x \<and> f x = Inr y)"
  by (cases m) auto

lemma bindR_eq_Inl: "bindR m f = Inl e \<longleftrightarrow> m = Inl e \<or> (\<exists>x. m = Inr x \<and> f x = Inl e)"
  by (cases m) auto

lemma bindR_cong [fundef_cong]:
  "m = m' \<Longrightarrow> (\<And>x. m' = Inr x \<Longrightarrow> f x = f' x) \<Longrightarrow> bindR m f = bindR m' f'"
  by (cases m') auto

lemma bindR_assoc: "bindR (bindR m f) g = bindR m (\<lambda>x. bindR (f x) g)"
  by (cases m) auto

lemma guardR_simps [simp, fault_simps]:
  "guardR True e = Inr ()" "guardR False e = Inl e"
  by (simp_all add: guardR_def)

lemma guardR_eq_Inr [simp]: "guardR b e = Inr u \<longleftrightarrow> b"
  by (simp add: guardR_def)

lemma derefR_simps [simp, fault_simps]:
  "derefR None = Inl NullDeref" "derefR (Some x) = Inr x"
  by (simp_all add: derefR_def)

lemma nthR_in [simp, fault_simps]: "i < length xs \<Longrightarrow> nthR xs i = Inr (xs ! i)"
  by (simp add: nthR_def)

lemma nthR_out [fault_simps]: "length xs \<le> i \<Longrightarrow> nthR xs i = Inl OutOfBounds"
  by (simp add: nthR_def)

lemma updR_in [simp, fault_simps]: "i < length xs \<Longrightarrow> updR xs i x = Inr (xs[i := x])"
  by (simp add: updR_def)

lemma updR_out [fault_simps]: "length xs \<le> i \<Longrightarrow> updR xs i x = Inl OutOfBounds"
  by (simp add: updR_def)

lemma nthI_in [simp, fault_simps]:
  "0 \<le> i \<Longrightarrow> i < int (length xs) \<Longrightarrow> nthI xs i = Inr (xs ! nat i)"
  by (simp add: nthI_def)

lemma nthI_out [fault_simps]:
  "i < 0 \<or> int (length xs) \<le> i \<Longrightarrow> nthI xs i = Inl OutOfBounds"
  by (auto simp: nthI_def)

lemma updI_in [simp, fault_simps]:
  "0 \<le> i \<Longrightarrow> i < int (length xs) \<Longrightarrow> updI xs i x = Inr (xs[nat i := x])"
  by (simp add: updI_def)

lemma option_eqI: "(\<And>e. x = Some e \<longleftrightarrow> y = Some e) \<Longrightarrow> x = y"
  by (cases x; cases y) auto

text \<open>Conversions between the C integer types.\<close>

definition s32 :: "int \<Rightarrow> int" where
  \<comment> \<open>conversion of an integer value to a 32-bit \<open>int\<close>\<close>
  "s32 i = sint (word_of_int i :: u32)"

lemma s32_id: "- 2147483648 \<le> i \<Longrightarrow> i < 2147483648 \<Longrightarrow> s32 i = i"
  by (simp add: s32_def signed_of_int signed_take_bit_int_eq_self)

lemma s32_sint_u32 [simp]: "word_of_int (s32 i) = (word_of_int i :: u32)"
  by (simp add: s32_def)

lemma word_of_int_sint_u32 [simp]: "(word_of_int (sint (w :: u32)) :: u32) = w"
  by simp

lemma s32_bounds: "- 2147483648 \<le> s32 i \<and> s32 i < 2147483648"
  using sint_ge [of "word_of_int i :: u32"] sint_lt [of "word_of_int i :: u32"]
  by (simp add: s32_def)

lemma take_bit_word_small: "unat w < 2 ^ n \<Longrightarrow> take_bit n w = w"
  by (rule word_unat_eq_iff [THEN iffD2]) (simp add: unsigned_take_bit_eq take_bit_nat_eq_self)

end
