(* ===== verification/CStdio.thy ===== *)
theory CStdio
  imports Prelude
begin

text \<open>
  The part of the C standard library the sources format and parse text with: the
  \<open>%d\<close>, \<open>%x\<close>, \<open>%0Nx\<close> and \<open>%-Ns\<close> conversions of \<open>sprintf\<close> and \<open>seq_printf\<close>, the
  \<open>%d\<close>, \<open>%x\<close> and \<open>%s\<close> conversions of \<open>sscanf\<close>, \<open>strtok\<close>, \<open>fgets\<close>, and \<open>strcpy\<close> into a
  buffer of a given size. A C string is the list of its characters before the NUL. The
  buffer operations keep the bytes after the NUL, since the library reads at a fixed
  offset of a line buffer whatever the length of the line.
\<close>

section \<open>Digits\<close>

definition digit_char :: "nat \<Rightarrow> char" where
  "digit_char d = char_of (if d < 10 then 48 + d else 87 + d)"

definition digit_val :: "char \<Rightarrow> nat option" where
  "digit_val c = (let n = (of_char c :: nat) in
     if 48 \<le> n \<and> n \<le> 57 then Some (n - 48)
     else if 97 \<le> n \<and> n \<le> 102 then Some (n - 87)
     else if 65 \<le> n \<and> n \<le> 70 then Some (n - 55)
     else None)"

definition is_digit :: "nat \<Rightarrow> char \<Rightarrow> bool" where
  "is_digit b c = (case digit_val c of None \<Rightarrow> False | Some d \<Rightarrow> d < b)"

fun show_base :: "nat \<Rightarrow> nat \<Rightarrow> string" where
  "show_base b n = (if b < 2 \<or> n < b then [digit_char n]
     else show_base b (n div b) @ [digit_char (n mod b)])"

declare show_base.simps [simp del]

fun scan_digits :: "nat \<Rightarrow> nat \<Rightarrow> string \<Rightarrow> nat \<times> string" where
  "scan_digits b acc [] = (acc, [])"
| "scan_digits b acc (c # cs) =
     (case digit_val c of
        None \<Rightarrow> (acc, c # cs)
      | Some d \<Rightarrow> if d < b then scan_digits b (acc * b + d) cs else (acc, c # cs))"

text \<open>The value that the base-\<open>b'\<close> digits of \<open>n\<close> have when they are read in base \<open>b\<close>.\<close>

fun reread :: "nat \<Rightarrow> nat \<Rightarrow> nat \<Rightarrow> nat" where
  "reread b' b n = (if b' < 2 \<or> n < b' then n else reread b' b (n div b') * b + n mod b')"

declare reread.simps [simp del]

lemma digit_val_digit_char [simp]: "d < 16 \<Longrightarrow> digit_val (digit_char d) = Some d"
  by (auto simp: digit_val_def digit_char_def Let_def)

lemma is_digit_digit_char [simp]: "d < 16 \<Longrightarrow> is_digit b (digit_char d) = (d < b)"
  by (simp add: is_digit_def)

lemma scan_digits_append:
  "\<forall>c \<in> set ds. is_digit b c \<Longrightarrow>
   scan_digits b acc (ds @ rest) = scan_digits b (fst (scan_digits b acc ds)) rest"
  by (induction ds arbitrary: acc) (auto simp: is_digit_def split: option.splits)

lemma scan_digits_stop:
  "rest = [] \<or> \<not> is_digit b (hd rest) \<Longrightarrow> scan_digits b acc rest = (acc, rest)"
  by (cases rest) (auto simp: is_digit_def split: option.splits)

lemma show_base_small: "n < b \<Longrightarrow> show_base b n = [digit_char n]"
  by (simp add: show_base.simps)

lemma show_base_step:
  "2 \<le> b \<Longrightarrow> b \<le> n \<Longrightarrow> show_base b n = show_base b (n div b) @ [digit_char (n mod b)]"
  by (subst show_base.simps) simp

lemma show_base_not_Nil [simp]: "show_base b n \<noteq> []"
  by (subst show_base.simps) simp

lemma digit_lt: "2 \<le> b' \<Longrightarrow> b' \<le> b \<Longrightarrow> b \<le> 16 \<Longrightarrow> n mod b' < b \<and> n mod b' < (16::nat)"
  using mod_less_divisor [of b' n] by linarith

lemma show_base_digits:
  "2 \<le> b' \<Longrightarrow> b' \<le> b \<Longrightarrow> b \<le> 16 \<Longrightarrow> \<forall>c \<in> set (show_base b' n). is_digit b c"
proof (induction b' n rule: show_base.induct)
  case (1 b' n)
  show ?case
  proof (cases "n < b'")
    case True
    with 1 show ?thesis by (simp add: show_base_small)
  next
    case False
    have m: "n mod b' < b" "n mod b' < 16" using digit_lt [of b' b n] 1 by auto
    from False 1 have "\<forall>c \<in> set (show_base b' (n div b')). is_digit b c" by simp
    with False 1 m show ?thesis by (auto simp: show_base_step [of b' n])
  qed
qed

lemma scan_show_base:
  assumes "2 \<le> b'" "b' \<le> b" "b \<le> 16"
  shows "fst (scan_digits b 0 (show_base b' n)) = reread b' b n"
  using assms
proof (induction b' n rule: show_base.induct)
  case (1 b' n)
  show ?case
  proof (cases "n < b'")
    case True
    with 1 show ?thesis by (simp add: show_base_small reread.simps)
  next
    case False
    have m: "n mod b' < b" "n mod b' < 16" using digit_lt [of b' b n] 1 by auto
    from False 1 have IH: "fst (scan_digits b 0 (show_base b' (n div b'))) = reread b' b (n div b')"
      by simp
    have ds: "\<forall>c \<in> set (show_base b' (n div b')). is_digit b c"
      using 1 by (intro show_base_digits) auto
    show ?thesis using False 1 m
      by (subst reread.simps) (simp add: show_base_step scan_digits_append [OF ds] IH)
  qed
qed

lemma scan_digits_show:
  assumes "2 \<le> b'" "b' \<le> b" "b \<le> 16" "rest = [] \<or> \<not> is_digit b (hd rest)"
  shows "scan_digits b 0 (show_base b' n @ rest) = (reread b' b n, rest)"
  using assms
  by (simp add: scan_digits_append show_base_digits scan_show_base scan_digits_stop)

lemma reread_same_gen: "b = b' \<Longrightarrow> reread b' b n = n"
proof (induction b' b n rule: reread.induct)
  case (1 b' b n)
  then show ?case by (subst reread.simps) auto
qed

lemma reread_same [simp]: "reread b b n = n"
  by (simp add: reread_same_gen)

lemma reread_small: "n < b' \<Longrightarrow> reread b' b n = n"
  by (simp add: reread.simps)

lemma reread_ge: "b' \<le> b \<Longrightarrow> n \<le> reread b' b n"
proof (induction b' b n rule: reread.induct)
  case (1 b' b n)
  show ?case
  proof (cases "b' < 2 \<or> n < b'")
    case True
    then show ?thesis by (simp add: reread.simps)
  next
    case False
    with 1 have "n div b' \<le> reread b' b (n div b')" by simp
    then have "n div b' * b' \<le> reread b' b (n div b') * b" using 1(2) by (rule mult_le_mono)
    then have "n div b' * b' + n mod b' \<le> reread b' b (n div b') * b + n mod b'" by linarith
    with False show ?thesis by (subst reread.simps) (simp only: div_mult_mod_eq if_False)
  qed
qed

text \<open>Reading in a larger base returns the same number only for a single digit.\<close>

lemma reread_eq_iff:
  assumes "2 \<le> b'" "b' < b"
  shows "reread b' b n = n \<longleftrightarrow> n < b'"
proof
  assume "n < b'"
  then show "reread b' b n = n" by (rule reread_small)
next
  assume eq: "reread b' b n = n"
  show "n < b'"
  proof (rule ccontr)
    assume "\<not> n < b'"
    then have pos: "0 < n div b'" using assms by (simp add: div_greater_zero_iff)
    have "n div b' * b' < n div b' * b" using pos assms by simp
    then have "n div b' * b' + n mod b' < n div b' * b + n mod b'" by linarith
    then have "n < n div b' * b + n mod b'" by (simp only: div_mult_mod_eq)
    also have "\<dots> \<le> reread b' b (n div b') * b + n mod b'"
      using assms by (simp add: reread_ge mult_le_mono)
    also have "\<dots> = reread b' b n" using \<open>\<not> n < b'\<close> assms by (subst (2) reread.simps) simp
    finally show False using eq by simp
  qed
qed

section \<open>Formatting\<close>

abbreviation newline :: char where "newline \<equiv> CHR 0x0A"
abbreviation NUL :: char where "NUL \<equiv> CHR 0x00"

definition fmt_x :: "nat \<Rightarrow> string" where \<comment> \<open>\<open>%x\<close>\<close>
  "fmt_x n = show_base 16 n"

definition fmt_d :: "int \<Rightarrow> string" where \<comment> \<open>\<open>%d\<close>\<close>
  "fmt_d i = (if i < 0 then CHR ''-'' # show_base 10 (nat (- i)) else show_base 10 (nat i))"

definition show_u :: "u32 \<Rightarrow> string" where \<comment> \<open>\<open>%d\<close> of an unsigned value\<close>
  "show_u w = fmt_d (sint w)"

definition fmt_0x :: "nat \<Rightarrow> nat \<Rightarrow> string" where \<comment> \<open>\<open>%0Wx\<close>\<close>
  "fmt_0x w n = (let s = fmt_x n in replicate (w - length s) (CHR ''0'') @ s)"

definition fmt_ls :: "nat \<Rightarrow> string \<Rightarrow> string" where \<comment> \<open>\<open>%-Ws\<close>\<close>
  "fmt_ls w s = s @ replicate (w - length s) (CHR '' '')"

text \<open>\<open>%s\<close> of a possibly NULL string: both the C library and the kernel print \<open>(null)\<close>.\<close>

definition fmt_s :: "string option \<Rightarrow> string" where
  "fmt_s s = (case s of None \<Rightarrow> ''(null)'' | Some t \<Rightarrow> t)"

section \<open>Scanning\<close>

definition isspace :: "char \<Rightarrow> bool" where
  "isspace c = (let n = (of_char c :: nat) in n = 32 \<or> (9 \<le> n \<and> n \<le> 13))"

definition scan_sign :: "string \<Rightarrow> bool \<times> string" where
  "scan_sign s = (case s of
      c # t \<Rightarrow> if c = CHR ''-'' then (True, t) else if c = CHR ''+'' then (False, t) else (False, s)
    | [] \<Rightarrow> (False, s))"

definition strip_0x :: "string \<Rightarrow> string" where
  "strip_0x s = (case s of
      c # d # t \<Rightarrow> if c = CHR ''0'' \<and> (d = CHR ''x'' \<or> d = CHR ''X'') then t else s
    | _ \<Rightarrow> s)"

definition scan_unsigned :: "nat \<Rightarrow> string \<Rightarrow> (nat \<times> string) option" where
  "scan_unsigned b s =
     (if s \<noteq> [] \<and> is_digit b (hd s) then Some (scan_digits b 0 s) else None)"

definition scan_d :: "string \<Rightarrow> (int \<times> string) option" where \<comment> \<open>\<open>%d\<close>\<close>
  "scan_d s = (let (neg, t) = scan_sign (dropWhile isspace s) in
     map_option (\<lambda>(v, r). (if neg then - int v else int v, r)) (scan_unsigned 10 t))"

definition scan_x :: "string \<Rightarrow> (int \<times> string) option" where \<comment> \<open>\<open>%x\<close>\<close>
  "scan_x s = (let (neg, t) = scan_sign (dropWhile isspace s) in
     map_option (\<lambda>(v, r). (if neg then - int v else int v, r)) (scan_unsigned 16 (strip_0x t)))"

definition scan_s :: "string \<Rightarrow> (string \<times> string) option" where \<comment> \<open>\<open>%s\<close>\<close>
  "scan_s s = (let t = dropWhile isspace s in
     if t = [] then None
     else Some (takeWhile (Not \<circ> isspace) t, dropWhile (Not \<circ> isspace) t))"

definition scan_lit :: "char \<Rightarrow> string \<Rightarrow> string option" where
  "scan_lit c s = (case s of d # t \<Rightarrow> if d = c then Some t else None | [] \<Rightarrow> None)"

section \<open>Buffers\<close>

text \<open>
  The C string at offset \<open>k\<close> of a buffer: up to the first NUL; reading past the end of the
  buffer is a fault.
\<close>

definition cstr_at :: "string \<Rightarrow> nat \<Rightarrow> string res" where
  "cstr_at buf k = (if NUL \<in> set (drop k buf) then Inr (takeWhile (\<lambda>c. c \<noteq> NUL) (drop k buf))
     else Inl OutOfBounds)"

text \<open>Storing a C string and its NUL into a buffer: a string that does not fit is a fault.\<close>

definition strcpyR :: "string \<Rightarrow> string \<Rightarrow> string res" where
  "strcpyR buf s = (if length s < length buf then Inr (s @ NUL # drop (Suc (length s)) buf)
     else Inl BufferOverflow)"

text \<open>A string printed into a \<open>char\<close> array of \<open>n\<close> bytes.\<close>

definition fitsR :: "nat \<Rightarrow> string \<Rightarrow> string res" where
  "fitsR n s = (if length s < n then Inr s else Inl BufferOverflow)"

text \<open>
  \<open>fgets(buf, n, f)\<close> on the unread contents of \<open>f\<close>: the bytes up to and including the
  newline, at most \<open>n - 1\<close> of them, and the rest; \<open>None\<close> at the end of the file.
\<close>

definition first_line :: "string \<Rightarrow> string" where
  "first_line s = (let l = takeWhile (\<lambda>c. c \<noteq> newline) s in
     if length l < length s then l @ [newline] else l)"

definition fgets :: "nat \<Rightarrow> string \<Rightarrow> (string \<times> string) option" where
  "fgets n s = (if s = [] then None
     else (let c = take (n - 1) (first_line s) in Some (c, drop (length c) s)))"

text \<open>
  The first call of \<open>strtok(buf, seps)\<close>: the token, if there is one, and the buffer with
  the separator after it overwritten by NUL.
\<close>

definition strtok :: "string \<Rightarrow> char list \<Rightarrow> (string option \<times> string) res" where
  "strtok buf seps =
     (if NUL \<notin> set buf then Inl OutOfBounds
      else (let s = takeWhile (\<lambda>c. c \<noteq> NUL) buf;
                pre = takeWhile (\<lambda>c. c \<in> set seps) s;
                t = dropWhile (\<lambda>c. c \<in> set seps) s;
                tok = takeWhile (\<lambda>c. c \<notin> set seps) t
            in if t = [] then Inr (None, buf)
               else Inr (Some tok, buf[length pre + length tok := NUL])))"

section \<open>Scanning what was printed\<close>

lemma is_digit_special:
  "\<not> is_digit b (CHR ''x'')" "\<not> is_digit b (CHR ''X'')" "\<not> is_digit b (CHR ''-'')"
  "\<not> is_digit b (CHR ''+'')" "\<not> is_digit b (CHR '':'')" "\<not> is_digit b (CHR '' '')"
  "\<not> is_digit b newline" "\<not> is_digit b NUL" "\<not> is_digit b (CHR 0x09)"
  by (simp_all add: is_digit_def digit_val_def)

lemma is_digit_not_space: "is_digit b c \<Longrightarrow> \<not> isspace c"
  by (auto simp: is_digit_def digit_val_def isspace_def Let_def split: if_splits)

lemma is_digit_neq:
  "is_digit b c \<Longrightarrow> c \<noteq> CHR ''x'' \<and> c \<noteq> CHR ''X'' \<and> c \<noteq> CHR ''-'' \<and> c \<noteq> CHR ''+''
     \<and> c \<noteq> newline \<and> c \<noteq> NUL \<and> c \<noteq> CHR '':'' \<and> c \<noteq> CHR '' '' \<and> c \<noteq> CHR 0x09"
  using is_digit_special by metis

lemma strip_0x_digits:
  assumes "\<forall>c \<in> set ds. is_digit b c" "ds \<noteq> []"
    "rest = [] \<or> (hd rest \<noteq> CHR ''x'' \<and> hd rest \<noteq> CHR ''X'')"
  shows "strip_0x (ds @ rest) = ds @ rest"
proof (cases ds)
  case (Cons c cs)
  have "cs @ rest = [] \<or> (hd (cs @ rest) \<noteq> CHR ''x'' \<and> hd (cs @ rest) \<noteq> CHR ''X'')"
    using assms Cons by (cases cs) (auto dest: is_digit_neq)
  then show ?thesis using Cons by (cases "cs @ rest") (auto simp: strip_0x_def)
qed (use assms in simp)

lemma scan_sign_digits:
  assumes "\<forall>c \<in> set ds. is_digit b c" "ds \<noteq> []"
  shows "scan_sign (ds @ rest) = (False, ds @ rest)"
  using assms by (cases ds) (auto simp: scan_sign_def dest: is_digit_neq)

lemma dropWhile_space_digits:
  assumes "\<forall>c \<in> set ds. is_digit b c" "ds \<noteq> []"
  shows "dropWhile isspace (ds @ rest) = ds @ rest"
  using assms by (cases ds) (auto dest: is_digit_not_space)

lemma hd_show_base_digit:
  "2 \<le> b' \<Longrightarrow> b' \<le> b \<Longrightarrow> b \<le> 16 \<Longrightarrow> is_digit b (hd (show_base b' n))"
  using show_base_digits [of b' b n] by (simp add: list.set_sel)

lemma scan_unsigned_show:
  assumes "2 \<le> b'" "b' \<le> b" "b \<le> 16" "rest = [] \<or> \<not> is_digit b (hd rest)"
  shows "scan_unsigned b (show_base b' n @ rest) = Some (reread b' b n, rest)"
  using assms by (simp add: scan_unsigned_def scan_digits_show hd_show_base_digit)

lemma scan_x_show_base:
  assumes "2 \<le> b'" "b' \<le> 16"
    "rest = [] \<or> (\<not> is_digit 16 (hd rest) \<and> hd rest \<noteq> CHR ''x'' \<and> hd rest \<noteq> CHR ''X'')"
  shows "scan_x (show_base b' n @ rest) = Some (int (reread b' 16 n), rest)"
proof -
  have ds: "\<forall>c \<in> set (show_base b' n). is_digit 16 c" using assms by (intro show_base_digits) auto
  have strip: "strip_0x (show_base b' n @ rest) = show_base b' n @ rest"
    using ds assms(3) by (intro strip_0x_digits) auto
  have "scan_unsigned 16 (show_base b' n @ rest) = Some (reread b' 16 n, rest)"
    using assms by (intro scan_unsigned_show) auto
  then show ?thesis using assms
    by (simp add: scan_x_def dropWhile_space_digits [OF ds] scan_sign_digits [OF ds] strip)
qed

lemma scan_x_fmt_x:
  assumes "rest = [] \<or> \<not> is_digit 16 (hd rest)"
  shows "scan_x (CHR ''0'' # CHR ''x'' # fmt_x n @ rest) = Some (int n, rest)"
  using assms
  by (simp add: scan_x_def fmt_x_def scan_sign_def strip_0x_def scan_unsigned_show isspace_def)

lemma scan_d_fmt_d:
  assumes "rest = [] \<or> \<not> is_digit 10 (hd rest)"
  shows "scan_d (fmt_d i @ rest) = Some (i, rest)"
proof (cases "i < 0")
  case True
  then show ?thesis using assms
    by (simp add: fmt_d_def scan_d_def scan_sign_def scan_unsigned_show isspace_def)
next
  case False
  have ds: "\<forall>c \<in> set (show_base 10 (nat i)). is_digit 10 c" by (rule show_base_digits) auto
  from False show ?thesis using assms
    by (simp add: fmt_d_def scan_d_def dropWhile_space_digits [OF ds] scan_sign_digits [OF ds]
        scan_unsigned_show)
qed

text \<open>Characters and lengths of printed numbers.\<close>

lemma set_show_base:
  "2 \<le> b \<Longrightarrow> b \<le> 16 \<Longrightarrow> c \<in> set (show_base b n) \<Longrightarrow> is_digit 16 c"
  using show_base_digits [of b 16 n] by auto

lemmas set_show_base_dec = set_show_base [of 10, simplified]
lemmas set_show_base_hex = set_show_base [of 16, simplified]

lemma set_fmt_d: "c \<in> set (fmt_d i) \<Longrightarrow> is_digit 16 c \<or> c = CHR ''-''"
  by (auto simp: fmt_d_def dest: set_show_base_dec split: if_splits)

lemma set_fmt_x: "c \<in> set (fmt_x n) \<Longrightarrow> is_digit 16 c"
  by (auto simp: fmt_x_def dest: set_show_base_hex)

lemma length_show_base:
  assumes "2 \<le> b" "n < b ^ k" "0 < k"
  shows "length (show_base b n) \<le> k"
  using assms
proof (induction b n arbitrary: k rule: show_base.induct)
  case (1 b n)
  show ?case
  proof (cases "n < b")
    case True
    with 1 show ?thesis by (simp add: show_base_small)
  next
    case False
    with 1 obtain j where k: "k = Suc j" "0 < j" by (cases k; cases "k - 1") auto
    have "n div b < b ^ j" using 1 k by (simp add: less_mult_imp_div_less mult.commute)
    then have "length (show_base b (n div b)) \<le> j" using 1 k False by simp
    then show ?thesis using False 1 k by (simp add: show_base_step)
  qed
qed

lemma show_base_length_iff:
  assumes "2 \<le> b" "0 < k"
  shows "length (show_base b n) \<le> k \<longleftrightarrow> n < b ^ k"
  using assms
proof (induction b n arbitrary: k rule: show_base.induct)
  case (1 b n)
  show ?case
  proof (cases "n < b")
    case True
    with 1 show ?thesis using power_increasing [of 1 k b]
      by (simp add: show_base_small Suc_leI)
  next
    case ge: False
    show ?thesis
    proof (cases "k = 1")
      case True
      with ge 1 show ?thesis by (simp add: show_base_step)
    next
      case False
      with 1 obtain j where k: "k = Suc j" "0 < j" by (cases k; cases "k - 1") auto
      have "n div b < b ^ j \<longleftrightarrow> n < b ^ k"
        using 1 k div_less_iff_less_mult [of b n "b ^ j"] by (simp add: mult.commute)
      then show ?thesis using ge 1 k by (simp add: show_base_step)
    qed
  qed
qed

section \<open>Lines\<close>

lemma first_line_append:
  "newline \<notin> set l \<Longrightarrow> first_line (l @ newline # rest) = l @ [newline]"
proof -
  assume "newline \<notin> set l"
  then have "takeWhile (\<lambda>c. c \<noteq> newline) (l @ newline # rest) = l"
    by (subst takeWhile_append2) auto
  then show ?thesis by (simp add: first_line_def)
qed

lemma fgets_line:
  assumes "newline \<notin> set l" "length l + 2 \<le> n"
  shows "fgets n (l @ newline # rest) = Some (l @ [newline], rest)"
  using assms by (simp add: fgets_def first_line_append Let_def)

lemma first_line_not_Nil: "s \<noteq> [] \<Longrightarrow> first_line s \<noteq> []"
  by (cases s) (auto simp: first_line_def Let_def)

lemma length_first_line: "length (first_line s) \<le> length s"
  using length_takeWhile_le [of "\<lambda>c. c \<noteq> newline" s]
  by (auto simp: first_line_def Let_def simp del: length_takeWhile_le)

lemma fgets_shorter: "2 \<le> n \<Longrightarrow> fgets n s = Some (c, r) \<Longrightarrow> length r < length s"
  by (auto simp: fgets_def Let_def first_line_not_Nil split: if_splits)

lemma fgets_length: "0 < n \<Longrightarrow> fgets n s = Some (c, r) \<Longrightarrow> length c < n"
  by (auto simp: fgets_def Let_def split: if_splits)

lemma length_show_u: "length (show_u w) \<le> 11"
proof -
  have b: "- 2147483648 \<le> sint w" "sint w < 2147483648"
    using sint_ge [of w] sint_lt [of w] by simp_all
  have "length (show_base 10 (nat (sint w))) \<le> 10" "length (show_base 10 (nat (- sint w))) \<le> 10"
    using b by (intro length_show_base; simp)+
  then show ?thesis by (simp add: show_u_def fmt_d_def)
qed

lemma show_u_0: "show_u 0 = ''0''"
  by code_simp

end
