(* ===== verification/Parvar.thy ===== *)
theory Parvar
  imports CStdio
begin

text \<open>
  The parameter file reader of the user library (\<open>set_parvar_mat_path\<close> and its helpers in
  \<open>lib/vi53xx_xdma.c\<close>). The matio library is not part of the sources: its functions are
  the fields of a record \<open>matio\<close> that every operation takes, and the calls that open,
  read or free something are logged in the order the code makes them.
\<close>

record matvar =
  mv_name :: string
  mv_data_type :: nat
  mv_dims :: "nat \<times> nat"
  mv_data :: "u32 list"

record matio =
  mat_open :: "string \<Rightarrow> nat option"
  mat_var_read_next :: "nat \<Rightarrow> matvar option"
  mat_var_read :: "nat \<Rightarrow> string \<Rightarrow> matvar option"
  mat_var_get_size :: "matvar \<Rightarrow> nat"
  mat_t_uint32 :: nat

datatype mat_event = MatOpen nat | MatClose nat | MatVarReadNext matvar | MatVarRead matvar | MatVarFree matvar

record parvar_mat =
  mat_path :: string
  pm_size :: nat
  pm_data :: "u32 list option"
  rows :: u32
  columns :: u32
  matfile :: "nat option"
  pm_tmp :: "matvar option"
  pm_matvar :: "matvar option"
  pm_data_type :: int
  mat_log :: "mat_event list" \<comment> \<open>not a field of the source: the matio calls made so far\<close>

definition zero_parvar :: "mat_event list \<Rightarrow> parvar_mat" where
  "zero_parvar log = \<lparr>mat_path = [], pm_size = 0, pm_data = None, rows = 0, columns = 0,
     matfile = None, pm_tmp = None, pm_matvar = None, pm_data_type = 0, mat_log = log\<rparr>"

definition log_mat :: "mat_event \<Rightarrow> parvar_mat \<Rightarrow> parvar_mat" where
  "log_mat e p = p\<lparr>mat_log := mat_log p @ [e]\<rparr>"

text \<open>\<open>init_parvar_mat\<close> is called with \<open>matfile\<close> open. A failed \<open>Mat_VarRead\<close> is dereferenced.\<close>

definition init_parvar_mat :: "matio \<Rightarrow> nat \<Rightarrow> parvar_mat \<Rightarrow> parvar_mat res" where
  "init_parvar_mat m f p =
     (case mat_var_read_next m f of
        None \<Rightarrow> Inr (p\<lparr>pm_tmp := None\<rparr>)
      | Some tmp \<Rightarrow>
          bindR (derefR (mat_var_read m f (mv_name tmp))) (\<lambda>v.
            let p1 = log_mat (MatVarRead v) (log_mat (MatVarReadNext tmp) p)
              \<lparr>pm_tmp := Some tmp, pm_matvar := Some v\<rparr>
            in if mv_data_type v = mat_t_uint32 m
               then Inr (p1\<lparr>rows := of_nat (fst (mv_dims v)), columns := of_nat (snd (mv_dims v)),
                      pm_size := mat_var_get_size m v div 4, pm_data := Some (mv_data v),
                      pm_data_type := 1\<rparr>)
               else Inr (p1\<lparr>pm_data_type := 0\<rparr>)))"

definition check_parvar_mat_data_type_uint32 :: "parvar_mat \<Rightarrow> int" where
  "check_parvar_mat_data_type_uint32 p = pm_data_type p"

definition get_rows :: "parvar_mat \<Rightarrow> u32" where
  "get_rows p = rows p"

definition get_columns :: "parvar_mat \<Rightarrow> u32" where
  "get_columns p = columns p"

definition get_parvar_data :: "parvar_mat \<Rightarrow> u32 list option" where
  "get_parvar_data p = pm_data p"

definition get_parvar_mat_size :: "parvar_mat \<Rightarrow> nat" where
  "get_parvar_mat_size p = pm_size p"

definition release_parvar_mat :: "parvar_mat \<Rightarrow> parvar_mat" where
  "release_parvar_mat p =
     (let p1 = (case pm_matvar p of None \<Rightarrow> p
                | Some v \<Rightarrow> log_mat (MatVarFree v) p\<lparr>pm_matvar := None, pm_data := None\<rparr>)
      in case matfile p1 of None \<Rightarrow> p1
         | Some f \<Rightarrow> log_mat (MatClose f) p1\<lparr>matfile := None\<rparr>)"

fun convert_to_lower :: "string \<Rightarrow> string" where
  "convert_to_lower [] = []"
| "convert_to_lower (c # cs) =
     (let n = (of_char c :: nat) in
      (if 65 \<le> n \<and> n \<le> 90 then char_of (n + (97 - 65)) else c) # convert_to_lower cs)"

text \<open>The format of \<open>sprintf(pmt.mat_path, format, str, str)\<close>.\<close>

definition parvar_path :: "string \<Rightarrow> string" where
  "parvar_path str = ''/home/rtpc/codegen/simodels/'' @ str @
     ''/external/code/src/simulink_'' @ str @ ''/parvar.mat''"

definition set_parvar_mat_path :: "matio \<Rightarrow> string option \<Rightarrow> parvar_mat \<Rightarrow> (int \<times> parvar_mat) res" where
  "set_parvar_mat_path m name p =
     (case name of
        None \<Rightarrow> Inr (- 1, p)
      | Some nm \<Rightarrow>
          bindR (fitsR 256 nm) (\<lambda>str0.
          let str = convert_to_lower str0; p0 = zero_parvar (mat_log p) in
          bindR (fitsR 512 (parvar_path str)) (\<lambda>path.
          let p1 = p0\<lparr>mat_path := path\<rparr> in
          case mat_open m path of
            None \<Rightarrow> Inr (- 1, p1)
          | Some f \<Rightarrow>
              bindR (init_parvar_mat m f (log_mat (MatOpen f) p1\<lparr>matfile := Some f\<rparr>))
                (\<lambda>p2. Inr (0, p2)))))"

section \<open>Lower case\<close>

lemma length_convert_to_lower [simp]: "length (convert_to_lower s) = length s"
  by (induction s) (auto simp: Let_def)

lemma convert_to_lower_no_upper:
  "c \<in> set (convert_to_lower s) \<Longrightarrow> \<not> (65 \<le> (of_char c :: nat) \<and> (of_char c :: nat) \<le> 90)"
  by (induction s) (auto simp: Let_def split: if_splits)

lemma convert_to_lower_id:
  "\<forall>c \<in> set s. \<not> (65 \<le> (of_char c :: nat) \<and> (of_char c :: nat) \<le> 90) \<Longrightarrow> convert_to_lower s = s"
  by (induction s) (auto simp: Let_def)

lemma convert_to_lower_idem: "convert_to_lower (convert_to_lower s) = convert_to_lower s"
  by (rule convert_to_lower_id) (use convert_to_lower_no_upper in blast)

section \<open>Opening and releasing\<close>

lemma length_parvar_path: "length (parvar_path s) = 67 + 2 * length s"
  by (simp add: parvar_path_def)

lemma set_parvar_mat_path_NULL: "set_parvar_mat_path m None p = Inr (- 1, p)"
  by (simp add: set_parvar_mat_path_def)

lemma release_parvar_mat_closed [simp]:
  "matfile (release_parvar_mat p) = None" "pm_matvar (release_parvar_mat p) = None"
  by (auto simp: release_parvar_mat_def log_mat_def Let_def split: option.splits)

lemma release_parvar_mat_idem: "release_parvar_mat (release_parvar_mat p) = release_parvar_mat p"
  by (subst (1) release_parvar_mat_def) (simp add: Let_def)

section \<open>Properties\<close>

text \<open>C38: Setting the parameter file path overflows a fixed buffer of the library exactly when the
  name has 223 characters or more: the name is copied into 256 bytes and appears twice in a path
  of 512 bytes.\<close>

theorem parvar_path_overflow_iff:
  "set_parvar_mat_path m (Some nm) p = Inl BufferOverflow \<longleftrightarrow> 223 \<le> length nm"
proof -
  have i: "init_parvar_mat m f q \<noteq> Inl BufferOverflow" for f q
    by (auto simp: init_parvar_mat_def derefR_def bindR_eq_Inl Let_def split: option.splits if_splits)
  show ?thesis
    by (auto simp: set_parvar_mat_path_def fitsR_def length_parvar_path bindR_eq_Inl Let_def i split: option.splits)
qed

text \<open>Releasing the parameter file frees the variable and closes the file exactly when they
  are held, leaves neither pointer behind and does nothing the second time; setting a new path
  without releasing first forgets the old file, which is then never closed.\<close>

lemma parvar_release:
  "matfile (release_parvar_mat p) = None \<and> pm_matvar (release_parvar_mat p) = None \<and>
   release_parvar_mat (release_parvar_mat p) = release_parvar_mat p \<and>
   mat_log (release_parvar_mat p) = mat_log p @
     (case pm_matvar p of None \<Rightarrow> [] | Some v \<Rightarrow> [MatVarFree v]) @
     (case matfile p of None \<Rightarrow> [] | Some f \<Rightarrow> [MatClose f]) \<and>
   (set_parvar_mat_path m (Some nm) p = Inr (- 1, p') \<longrightarrow> matfile p' = None \<and> mat_log p' = mat_log p)"
proof -
  have "mat_log (release_parvar_mat p) = mat_log p @
     (case pm_matvar p of None \<Rightarrow> [] | Some v \<Rightarrow> [MatVarFree v]) @
     (case matfile p of None \<Rightarrow> [] | Some f \<Rightarrow> [MatClose f])"
    by (auto simp: release_parvar_mat_def log_mat_def Let_def split: option.splits)
  moreover have "set_parvar_mat_path m (Some nm) p = Inr (- 1, p') \<longrightarrow> matfile p' = None \<and> mat_log p' = mat_log p"
    by (auto simp: set_parvar_mat_path_def Let_def zero_parvar_def split: option.splits)
  ultimately show ?thesis using release_parvar_mat_closed release_parvar_mat_idem by blast
qed

lemma parvar_release_witness:
  "set_parvar_mat_path \<lparr>mat_open = \<lambda>_. None, mat_var_read_next = \<lambda>_. None, mat_var_read = \<lambda>_ _. None,
     mat_var_get_size = \<lambda>_. 0, mat_t_uint32 = 13\<rparr> (Some ''m'') ((zero_parvar [])\<lparr>matfile := Some 3\<rparr>) =
     Inr (- 1, (zero_parvar [])\<lparr>mat_path := parvar_path ''m''\<rparr>) \<and>
   matfile ((zero_parvar [])\<lparr>mat_path := parvar_path ''m''\<rparr>) = None"
proof -
  let ?m = "\<lparr>mat_open = \<lambda>_. None, mat_var_read_next = \<lambda>_. None, mat_var_read = \<lambda>_ _. None,
     mat_var_get_size = \<lambda>_. 0, mat_t_uint32 = 13\<rparr>"
  have "convert_to_lower ''m'' = ''m''" by (simp add: Let_def)
  then have s: "set_parvar_mat_path ?m (Some ''m'') ((zero_parvar [])\<lparr>matfile := Some 3\<rparr>) =
     Inr (- 1, (zero_parvar [])\<lparr>mat_path := parvar_path ''m''\<rparr>)"
    by (simp add: set_parvar_mat_path_def fitsR_def length_parvar_path zero_parvar_def Let_def
        del: convert_to_lower.simps)
  then show ?thesis using parvar_release [of "(zero_parvar [])\<lparr>matfile := Some 3\<rparr>" ?m "''m''"] by blast
qed

end
