(* ===== verification/IdBitmap.thy ===== *)
theory IdBitmap
  imports Prelude
begin

unbundle bit_operations_syntax

text \<open>
  The identifier pool of the user library (\<open>init_id_bitmap\<close>, \<open>get_unique_id\<close> and
  \<open>destroy_id\<close> of \<open>lib/vi53xx_xdma.c\<close>): 128 identifiers, one bit each, in an array of 16
  bytes. The abstract state is the set of identifiers in use; the locale \<open>id_pool\<close> states
  the contract of such a pool and is interpreted on the bitmap.
\<close>

abbreviation (input) MAX_DEV_HANDLE :: nat where "MAX_DEV_HANDLE \<equiv> 128"
abbreviation (input) BITMAP_SIZE :: nat where "BITMAP_SIZE \<equiv> 16"

type_synonym id_bitmap = "u8 list"

definition bm_ok :: "id_bitmap \<Rightarrow> bool" where
  "bm_ok bm \<longleftrightarrow> length bm = BITMAP_SIZE"

definition init_id_bitmap :: "id_bitmap \<Rightarrow> id_bitmap" where
  "init_id_bitmap bm = foldl (\<lambda>b i. b[i := 0]) bm [0..<BITMAP_SIZE]"

text \<open>The loop of \<open>get_unique_id\<close> from index \<open>i\<close>; the identifier 0 is also the result of a full pool.\<close>

function get_unique_id_from :: "nat \<Rightarrow> id_bitmap \<Rightarrow> nat \<times> id_bitmap" where
  "get_unique_id_from i bm =
     (if i < MAX_DEV_HANDLE then
        (let index = i div 8; offset = i mod 8 in
         if bm ! index AND push_bit offset 1 = 0
         then (i, bm[index := bm ! index OR push_bit offset 1])
         else get_unique_id_from (Suc i) bm)
      else (0, bm))"
  by pat_completeness auto
termination
  by (relation "measure (\<lambda>(i, bm). MAX_DEV_HANDLE - i)") auto

declare get_unique_id_from.simps [simp del]

definition get_unique_id :: "id_bitmap \<Rightarrow> nat \<times> id_bitmap" where
  "get_unique_id bm = get_unique_id_from 0 bm"

definition destroy_id :: "int \<Rightarrow> id_bitmap \<Rightarrow> id_bitmap" where
  "destroy_id k bm =
     (if 0 \<le> k \<and> k < int MAX_DEV_HANDLE then
        (let index = nat k div 8; offset = nat k mod 8
         in bm[index := bm ! index AND NOT (push_bit offset 1)])
      else bm)"

text \<open>The identifiers in use.\<close>

definition ids :: "id_bitmap \<Rightarrow> nat set" where
  "ids bm = {i. i < MAX_DEV_HANDLE \<and> bit (bm ! (i div 8)) (i mod 8)}"

section \<open>Bits of a byte array\<close>

lemma bit_set_byte:
  "k < 8 \<Longrightarrow> bit ((w :: u8) OR 2 ^ k) j \<longleftrightarrow> bit w j \<or> j = k"
  by (auto simp: bit_simps)

lemma bit_clear_byte:
  "k < 8 \<Longrightarrow> bit ((w :: u8) AND NOT (2 ^ k)) j \<longleftrightarrow> bit w j \<and> j \<noteq> k"
  by (auto simp: bit_simps dest: bit_imp_le_length)

lemma byte_free_iff: "(w :: u8) AND 2 ^ k = 0 \<longleftrightarrow> \<not> bit w k"
  using bit_iff_and_push_bit_not_eq_0 [of w k] by simp

lemma div8_lt: "i < MAX_DEV_HANDLE \<Longrightarrow> i div 8 < BITMAP_SIZE"
  by auto

lemma div_mod_8_eq: "i div 8 = j div 8 \<Longrightarrow> j mod 8 = i mod 8 \<Longrightarrow> j = (i :: nat)"
  by (metis div_mult_mod_eq)

lemma mem_ids: "i \<in> ids bm \<longleftrightarrow> i < MAX_DEV_HANDLE \<and> bit (bm ! (i div 8)) (i mod 8)"
  by (simp add: ids_def)

lemma ids_bound: "ids bm \<subseteq> {..<MAX_DEV_HANDLE}"
  by (auto simp: ids_def)

lemma not_full: "k < MAX_DEV_HANDLE \<Longrightarrow> k \<notin> ids bm \<Longrightarrow> ids bm \<noteq> {..<MAX_DEV_HANDLE}"
  by (metis lessThan_iff)

lemma finite_ids [simp]: "finite (ids bm)"
  by (rule finite_subset [OF ids_bound]) simp

lemma ids_set_bit:
  assumes "bm_ok bm" "i < MAX_DEV_HANDLE"
  shows "ids (bm[i div 8 := bm ! (i div 8) OR 2 ^ (i mod 8)]) = insert i (ids bm)"
  using assms div8_lt [of i]
  by (auto simp: mem_ids nth_list_update bm_ok_def bit_set_byte split: if_splits
      dest: div_mod_8_eq)

lemma ids_clear_bit:
  assumes "bm_ok bm" "i < MAX_DEV_HANDLE"
  shows "ids (bm[i div 8 := bm ! (i div 8) AND NOT (2 ^ (i mod 8))]) = ids bm - {i}"
  using assms div8_lt [of i]
  by (auto simp: mem_ids nth_list_update bm_ok_def bit_clear_byte split: if_splits
      dest: div_mod_8_eq)

section \<open>The operations on the set of identifiers\<close>

lemma init_id_bitmap_eq: "bm_ok bm \<Longrightarrow> init_id_bitmap bm = replicate BITMAP_SIZE 0"
  by (auto simp: init_id_bitmap_def bm_ok_def upt_rec numeral_eq_Suc length_Suc_conv)

lemma init_id_bitmap_ok [inv_intros]: "bm_ok bm \<Longrightarrow> bm_ok (init_id_bitmap bm)"
  by (simp add: init_id_bitmap_eq bm_ok_def)

lemma ids_init: "bm_ok bm \<Longrightarrow> ids (init_id_bitmap bm) = {}"
  by (auto simp: init_id_bitmap_eq mem_ids div8_lt)

lemma get_unique_id_from_free:
  assumes "bm_ok bm" "i \<le> j" "j < MAX_DEV_HANDLE" "j \<notin> ids bm" "\<forall>k. i \<le> k \<and> k < j \<longrightarrow> k \<in> ids bm"
  shows "get_unique_id_from i bm = (j, bm[j div 8 := bm ! (j div 8) OR push_bit (j mod 8) 1])"
  using assms
proof (induction i bm rule: get_unique_id_from.induct)
  case (1 i bm)
  show ?case
  proof (cases "i = j")
    case True
    with 1 show ?thesis
      by (subst get_unique_id_from.simps) (simp add: byte_free_iff mem_ids Let_def)
  next
    case False
    then have "i \<in> ids bm" and lt: "i < MAX_DEV_HANDLE" using 1 by auto
    then have used: "bm ! (i div 8) AND 2 ^ (i mod 8) \<noteq> 0"
      by (simp add: byte_free_iff mem_ids)
    have "get_unique_id_from (Suc i) bm = (j, bm[j div 8 := bm ! (j div 8) OR push_bit (j mod 8) 1])"
      using 1 False lt used by (intro "1.IH") auto
    then show ?thesis using lt used by (subst get_unique_id_from.simps) simp
  qed
qed

lemma get_unique_id_from_full:
  assumes "\<forall>k. i \<le> k \<and> k < MAX_DEV_HANDLE \<longrightarrow> k \<in> ids bm"
  shows "get_unique_id_from i bm = (0, bm)"
  using assms
proof (induction i bm rule: get_unique_id_from.induct)
  case (1 i bm)
  show ?case
  proof (cases "i < MAX_DEV_HANDLE")
    case True
    with 1 have used: "bm ! (i div 8) AND 2 ^ (i mod 8) \<noteq> 0"
      by (simp add: byte_free_iff mem_ids)
    with True 1 have "get_unique_id_from (Suc i) bm = (0, bm)" by (intro "1.IH") auto
    then show ?thesis using True used by (subst get_unique_id_from.simps) simp
  next
    case False
    then show ?thesis by (subst get_unique_id_from.simps) simp
  qed
qed

lemma get_unique_id_full: "ids bm = {..<MAX_DEV_HANDLE} \<Longrightarrow> get_unique_id bm = (0, bm)"
  by (simp add: get_unique_id_def get_unique_id_from_full)

lemma get_unique_id_fresh:
  assumes "bm_ok bm" "ids bm \<noteq> {..<MAX_DEV_HANDLE}" "get_unique_id bm = (i, bm')"
  shows "i = (LEAST k. k \<notin> ids bm) \<and> i < MAX_DEV_HANDLE \<and> i \<notin> ids bm \<and>
    ids bm' = insert i (ids bm) \<and> bm_ok bm'"
proof -
  define j where "j = (LEAST k. k \<notin> ids bm)"
  obtain k where k: "k < MAX_DEV_HANDLE" "k \<notin> ids bm" using assms(2) ids_bound [of bm] by blast
  have j: "j \<notin> ids bm" unfolding j_def by (rule LeastI [of _ k]) (rule k(2))
  have "j \<le> k" unfolding j_def by (rule Least_le) (rule k(2))
  then have lt: "j < MAX_DEV_HANDLE" using k by simp
  have "\<forall>k. k < j \<longrightarrow> k \<in> ids bm" unfolding j_def using not_less_Least by blast
  then have "get_unique_id bm = (j, bm[j div 8 := bm ! (j div 8) OR push_bit (j mod 8) 1])"
    using assms(1) j lt unfolding get_unique_id_def by (intro get_unique_id_from_free) auto
  then show ?thesis using assms j lt ids_set_bit [OF assms(1) lt]
    by (simp add: j_def [symmetric] bm_ok_def)
qed

lemma get_unique_id_ok [inv_intros]:
  assumes "bm_ok bm"
  shows "bm_ok (snd (get_unique_id bm))"
  using get_unique_id_fresh [OF assms] get_unique_id_full [of bm] assms
  by (cases "ids bm = {..<MAX_DEV_HANDLE}"; cases "get_unique_id bm") auto

lemma destroy_id_ok [inv_intros]: "bm_ok bm \<Longrightarrow> bm_ok (destroy_id k bm)"
  by (simp add: destroy_id_def bm_ok_def Let_def)

lemma ids_destroy: "bm_ok bm \<Longrightarrow> 0 \<le> k \<Longrightarrow> ids (destroy_id k bm) = ids bm - {nat k}"
  using ids_bound [of bm] ids_clear_bit [of bm "nat k"] by (auto simp: destroy_id_def Let_def)

lemma ids_destroy_neg: "k < 0 \<Longrightarrow> destroy_id k bm = bm"
  by (simp add: destroy_id_def)

section \<open>The contract of an identifier pool\<close>

locale id_pool =
  fixes cap :: nat
    and alloc :: "'s \<Rightarrow> nat \<times> 's"
    and release :: "nat \<Rightarrow> 's \<Rightarrow> 's"
    and used :: "'s \<Rightarrow> nat set"
    and ok :: "'s \<Rightarrow> bool"
  assumes used_bound: "ok s \<Longrightarrow> used s \<subseteq> {..<cap}"
    and alloc_least: "ok s \<Longrightarrow> used s \<noteq> {..<cap} \<Longrightarrow> fst (alloc s) = (LEAST k. k \<notin> used s)"
    and alloc_used: "ok s \<Longrightarrow> used s \<noteq> {..<cap} \<Longrightarrow> used (snd (alloc s)) = insert (fst (alloc s)) (used s)"
    and alloc_ok: "ok s \<Longrightarrow> ok (snd (alloc s))"
    and release_used: "ok s \<Longrightarrow> used (release i s) = used s - {i}"
    and release_ok: "ok s \<Longrightarrow> ok (release i s)"
begin

lemma exists_free: "ok s \<Longrightarrow> used s \<noteq> {..<cap} \<Longrightarrow> \<exists>k < cap. k \<notin> used s"
  using used_bound by blast

lemma alloc_fresh:
  assumes "ok s" "used s \<noteq> {..<cap}"
  shows "fst (alloc s) \<notin> used s" "fst (alloc s) < cap"
proof -
  obtain k where k: "k < cap" "k \<notin> used s" using exists_free [OF assms] by blast
  show "fst (alloc s) \<notin> used s"
    unfolding alloc_least [OF assms] by (rule LeastI [of _ k]) (rule k(2))
  have "fst (alloc s) \<le> k" unfolding alloc_least [OF assms] by (rule Least_le) (rule k(2))
  then show "fst (alloc s) < cap" using k by simp
qed

text \<open>Allocating again and again from an empty pool hands out 0, 1, 2 and so on.\<close>

primrec alloc_many :: "nat \<Rightarrow> 's \<Rightarrow> nat list \<times> 's" where
  "alloc_many 0 s = ([], s)"
| "alloc_many (Suc n) s = (let (xs, s1) = alloc_many n s; (x, s2) = alloc s1 in (xs @ [x], s2))"

lemma alloc_many_from_empty:
  assumes "ok s" "used s = {}" "n \<le> cap"
  shows "fst (alloc_many n s) = [0..<n] \<and> used (snd (alloc_many n s)) = {..<n} \<and>
    ok (snd (alloc_many n s))"
  using assms(3)
proof (induction n)
  case 0
  with assms show ?case by simp
next
  case (Suc n)
  obtain xs s1 where m: "alloc_many n s = (xs, s1)" by force
  obtain x s2 where a: "alloc s1 = (x, s2)" by force
  from Suc m have s1: "xs = [0..<n]" "used s1 = {..<n}" "ok s1" by auto
  have ne: "used s1 \<noteq> {..<cap}" using s1 Suc.prems by auto
  have "x = (LEAST k. k \<notin> {..<n})" using alloc_least [OF s1(3) ne] a s1 by simp
  also have "\<dots> = n" by (intro Least_equality) auto
  finally have "x = n" .
  then show ?case using m a s1 alloc_used [OF s1(3) ne] alloc_ok [OF s1(3)]
    by (auto simp: lessThan_Suc)
qed

text \<open>A released identifier is handed out again before any larger one.\<close>

lemma alloc_after_release:
  assumes "ok s" "i \<in> used s"
  shows "fst (alloc (release i s)) \<le> i"
proof -
  have u: "used (release i s) = used s - {i}" by (rule release_used [OF assms(1)])
  then have ne: "used (release i s) \<noteq> {..<cap}" using assms used_bound [OF assms(1)] by blast
  show ?thesis unfolding alloc_least [OF release_ok [OF assms(1)] ne] u
    by (rule Least_le) simp
qed

end

interpretation bitmap: id_pool MAX_DEV_HANDLE get_unique_id "\<lambda>i. destroy_id (int i)" ids bm_ok
proof unfold_locales
  fix s :: id_bitmap and i :: nat
  assume ok: "bm_ok s"
  show "ids s \<subseteq> {..<MAX_DEV_HANDLE}" by (rule ids_bound)
  show "bm_ok (snd (get_unique_id s))" using ok by (rule get_unique_id_ok)
  show "ids (destroy_id (int i) s) = ids s - {i}" using ids_destroy [OF ok, of "int i"] by simp
  show "bm_ok (destroy_id (int i) s)" using ok by (rule destroy_id_ok)
  assume "ids s \<noteq> {..<MAX_DEV_HANDLE}"
  then show "fst (get_unique_id s) = (LEAST k. k \<notin> ids s)"
    and "ids (snd (get_unique_id s)) = insert (fst (get_unique_id s)) (ids s)"
    using get_unique_id_fresh [OF ok] by (cases "get_unique_id s"; force)+
qed

section \<open>Properties\<close>

text \<open>C1: The identifier pool hands out the least identifier that is not in use and marks
  exactly that one, and a full pool hands out 0 again and stays as it is: the caller cannot tell
  a full pool from the first identifier.\<close>

theorem get_unique_id_spec:
  assumes "bm_ok bm"
  shows "(ids bm \<noteq> {..<MAX_DEV_HANDLE} \<longrightarrow>
       fst (get_unique_id bm) = (LEAST k. k \<notin> ids bm) \<and> fst (get_unique_id bm) < MAX_DEV_HANDLE \<and>
       fst (get_unique_id bm) \<notin> ids bm \<and>
       ids (snd (get_unique_id bm)) = insert (fst (get_unique_id bm)) (ids bm)) \<and>
     (ids bm = {..<MAX_DEV_HANDLE} \<longrightarrow> get_unique_id bm = (0, bm))"
proof (cases "ids bm = {..<MAX_DEV_HANDLE}")
  case True
  then show ?thesis by (simp add: get_unique_id_full)
next
  case False
  then show ?thesis
    using bitmap.alloc_least [OF assms False] bitmap.alloc_used [OF assms False]
      bitmap.alloc_fresh [OF assms False] by simp
qed

lemma get_unique_id_spec_witness:
  "fst (get_unique_id (1 # replicate 15 0)) = (LEAST k. k \<notin> ids (1 # replicate 15 0))"
proof -
  have "7 \<notin> ids (1 # replicate 15 0)" by (simp add: mem_ids)
  then have "ids (1 # replicate 15 0) \<noteq> {..<MAX_DEV_HANDLE}" by (rule not_full [rotated]) simp
  moreover have "bm_ok (1 # replicate 15 0)" by (simp add: bm_ok_def)
  ultimately show ?thesis using get_unique_id_spec by blast
qed

end
