(* ===== verification/SlotTable.thy ===== *)
theory SlotTable
  imports Prelude
begin

text \<open>
  The library keeps its open boards in arrays of 128 pointers, NULL where a slot is free:
  an entry is found by a scan for its key, stored by a compare-and-swap of the first NULL
  slot, and removed by setting every slot with the key to NULL. An array of pointers is a
  list of options here. The locale \<open>keyed_slots\<close> is the contract the two tables of the
  library share.
\<close>

fun slot_find :: "('e \<Rightarrow> 'k) \<Rightarrow> 'k \<Rightarrow> 'e option list \<Rightarrow> 'e option" where
  "slot_find key k [] = None"
| "slot_find key k (None # xs) = slot_find key k xs"
| "slot_find key k (Some e # xs) = (if key e = k then Some e else slot_find key k xs)"

fun slot_cas :: "'e \<Rightarrow> 'e option list \<Rightarrow> 'e option list option" where
  "slot_cas e [] = None"
| "slot_cas e (None # xs) = Some (Some e # xs)"
| "slot_cas e (Some x # xs) = map_option ((#) (Some x)) (slot_cas e xs)"

fun slot_clear :: "('e \<Rightarrow> 'k) \<Rightarrow> 'k \<Rightarrow> 'e option list \<Rightarrow> 'e option list" where
  "slot_clear key k [] = []"
| "slot_clear key k (None # xs) = None # slot_clear key k xs"
| "slot_clear key k (Some e # xs) =
     (if key e = k then None else Some e) # slot_clear key k xs"

fun slots :: "'e option list \<Rightarrow> 'e list" where
  "slots [] = []"
| "slots (None # xs) = slots xs"
| "slots (Some e # xs) = e # slots xs"

definition slots_ok :: "('e \<Rightarrow> 'k) \<Rightarrow> 'e option list \<Rightarrow> bool" where
  "slots_ok key t \<longleftrightarrow> distinct (map key (slots t))"

lemma slots_append [simp]: "slots (xs @ ys) = slots xs @ slots ys"
  by (induction xs rule: slots.induct) auto

lemma slots_replicate_None [simp]: "slots (replicate n None) = []"
  by (induction n) auto

lemma set_slots: "e \<in> set (slots t) \<longleftrightarrow> Some e \<in> set t"
  by (induction t rule: slots.induct) auto

lemma slot_find_None_iff: "slot_find key k t = None \<longleftrightarrow> k \<notin> key ` set (slots t)"
  by (induction key k t rule: slot_find.induct) auto

lemma slot_find_SomeD: "slot_find key k t = Some e \<Longrightarrow> e \<in> set (slots t) \<and> key e = k"
  by (induction key k t rule: slot_find.induct) (auto split: if_splits)

lemma slot_find_Some_iff:
  "slots_ok key t \<Longrightarrow> slot_find key k t = Some e \<longleftrightarrow> e \<in> set (slots t) \<and> key e = k"
proof (induction key k t rule: slot_find.induct)
  case (3 key k x xs)
  then show ?case by (cases "key x = k") (auto simp: slots_ok_def image_iff dest: slot_find_SomeD)
qed (auto simp: slots_ok_def)

lemma slot_cas_slots:
  "slot_cas e t = Some t' \<Longrightarrow>
   \<exists>xs ys. slots t = xs @ ys \<and> slots t' = xs @ e # ys \<and> length t' = length t"
proof (induction e t arbitrary: t' rule: slot_cas.induct)
  case (2 e xs)
  then show ?case by (intro exI [of _ "[]"] exI [of _ "slots xs"]) auto
next
  case (3 e x xs)
  then obtain u where u: "slot_cas e xs = Some u" "t' = Some x # u" by auto
  from 3(1) [OF u(1)] obtain as bs
    where "slots xs = as @ bs" "slots u = as @ e # bs" "length u = length xs" by blast
  then show ?case using u by (intro exI [of _ "x # as"] exI [of _ bs]) auto
qed simp

lemma slot_cas_set: "slot_cas e t = Some t' \<Longrightarrow> set (slots t') = insert e (set (slots t))"
  using slot_cas_slots [of e t t'] by auto

lemma slot_cas_length: "slot_cas e t = Some t' \<Longrightarrow> length t' = length t"
  using slot_cas_slots [of e t t'] by auto

lemma slot_cas_None_iff: "slot_cas e t = None \<longleftrightarrow> None \<notin> set t"
  by (induction e t rule: slot_cas.induct) auto

lemma slot_cas_ok:
  "slots_ok key t \<Longrightarrow> key e \<notin> key ` set (slots t) \<Longrightarrow> slot_cas e t = Some t' \<Longrightarrow> slots_ok key t'"
  using slot_cas_slots [of e t t'] by (auto simp: slots_ok_def)

lemma slots_clear: "slots (slot_clear key k t) = filter (\<lambda>e. key e \<noteq> k) (slots t)"
  by (induction key k t rule: slot_clear.induct) auto

lemma length_slot_clear [simp]: "length (slot_clear key k t) = length t"
  by (induction key k t rule: slot_clear.induct) auto

lemma filter_key_single:
  "distinct (map f xs) \<Longrightarrow> x \<in> set xs \<Longrightarrow> filter (\<lambda>y. f y = f x) xs = [x]"
  by (induction xs) (auto simp: filter_empty_conv intro: rev_image_eqI)

lemma slot_clear_absent: "k \<notin> key ` set (slots t) \<Longrightarrow> slot_clear key k t = t"
  by (induction key k t rule: slot_clear.induct) auto

lemma slot_clear_ok: "slots_ok key t \<Longrightarrow> slots_ok key (slot_clear key k t)"
  by (auto simp: slots_ok_def slots_clear intro: distinct_map_filter)

lemma slots_ok_empty [simp]: "slots_ok key (replicate n None)"
  by (simp add: slots_ok_def)

lemma length_slots_le: "length (slots t) \<le> length t"
  by (induction t rule: slots.induct) auto

lemma length_slots_full: "None \<notin> set t \<Longrightarrow> length (slots t) = length t"
  by (induction t rule: slots.induct) auto

lemma length_slots_less: "None \<in> set t \<Longrightarrow> length (slots t) < length t"
  by (induction t rule: slots.induct) (auto simp: length_slots_le less_Suc_eq_le)

text \<open>The loops that set every slot of a table to NULL.\<close>

lemma clear_all:
  "foldl (\<lambda>t n. t[n := None]) t [0..<length t] = replicate (length t) None"
proof -
  have len: "length (foldl (\<lambda>t n. t[n := None]) t [0..<k]) = length t" for k
    by (induction k) auto
  have nth: "i < k \<Longrightarrow> i < length t \<Longrightarrow> foldl (\<lambda>t n. t[n := None]) t [0..<k] ! i = None" for i k
    by (induction k) (auto simp: nth_list_update len less_Suc_eq)
  show ?thesis by (rule nth_equalityI) (simp_all add: len nth)
qed

section \<open>The contract of a table of entries found by a key\<close>

locale keyed_slots =
  fixes key :: "'e \<Rightarrow> 'k"
    and find :: "'k \<Rightarrow> 't \<Rightarrow> 'e option"
    and put :: "'e \<Rightarrow> 't \<Rightarrow> 't option"
    and del :: "'k \<Rightarrow> 't \<Rightarrow> 't"
    and ents :: "'t \<Rightarrow> 'e set"
    and ok :: "'t \<Rightarrow> bool"
  assumes find_iff: "ok t \<Longrightarrow> find k t = Some e \<longleftrightarrow> e \<in> ents t \<and> key e = k"
    and put_ents: "ok t \<Longrightarrow> find (key e) t = None \<Longrightarrow> put e t = Some t' \<Longrightarrow> ents t' = insert e (ents t)"
    and put_ok: "ok t \<Longrightarrow> find (key e) t = None \<Longrightarrow> put e t = Some t' \<Longrightarrow> ok t'"
    and del_ents: "ok t \<Longrightarrow> ents (del k t) = {e \<in> ents t. key e \<noteq> k}"
    and del_ok: "ok t \<Longrightarrow> ok (del k t)"
begin

lemma find_None_iff: "ok t \<Longrightarrow> find k t = None \<longleftrightarrow> (\<forall>e \<in> ents t. key e \<noteq> k)"
  using find_iff [of t k] by (cases "find k t") auto

lemma keys_unique: "ok t \<Longrightarrow> e \<in> ents t \<Longrightarrow> e' \<in> ents t \<Longrightarrow> key e = key e' \<Longrightarrow> e = e'"
  using find_iff [of t "key e" e] find_iff [of t "key e" e'] by auto

lemma find_put:
  assumes "ok t" "find (key e) t = None" "put e t = Some t'"
  shows "find k t' = (if k = key e then Some e else find k t)"
proof (rule option_eqI)
  fix x
  have fresh: "\<And>y. y \<in> ents t \<Longrightarrow> key y \<noteq> key e"
    using find_None_iff [OF assms(1), of "key e"] assms(2) by simp
  have "find k t' = Some x \<longleftrightarrow> (x = e \<or> x \<in> ents t) \<and> key x = k"
    using find_iff [OF put_ok [OF assms]] put_ents [OF assms] by simp
  then show "find k t' = Some x \<longleftrightarrow> (if k = key e then Some e else find k t) = Some x"
    using find_iff [OF assms(1), of k x] fresh [of x] by auto
qed

lemma find_del:
  assumes "ok t"
  shows "find k' (del k t) = (if k' = k then None else find k' t)"
proof (rule option_eqI)
  fix x
  show "find k' (del k t) = Some x \<longleftrightarrow> (if k' = k then None else find k' t) = Some x"
    using find_iff [OF del_ok [OF assms]] find_iff [OF assms] del_ents [OF assms] by auto
qed

lemma del_after_put:
  assumes "ok t" "find (key e) t = None" "put e t = Some t'"
  shows "ents (del (key e) t') = ents t"
  using assms put_ents [OF assms] del_ents [OF put_ok [OF assms]] find_None_iff [OF assms(1)]
  by auto

end

end
