(* ===== verification/LibIdx.thy ===== *)
theory LibIdx
  imports IdBitmap SlotTable
begin

text \<open>
  The board index table of the user library (\<open>dev_boardid_to_idx_list\<close> of
  \<open>lib/vi53xx_xdma.c\<close>): each board id that asked for an index owns a slot with a unique
  index from the identifier pool. The operations work on the pair of the pool and the
  table, which are separate globals of the source.
\<close>

record boardid_to_idx =
  db_idx :: int
  db_board_id :: u32

type_synonym idx_list = "boardid_to_idx option list"

definition init_dev_boaid_to_idx_list :: "idx_list \<Rightarrow> idx_list" where
  "init_dev_boaid_to_idx_list t = foldl (\<lambda>t n. t[n := None]) t [0..<MAX_DEV_HANDLE]"

text \<open>\<open>_get_idx\<close>: 0 when the board has no index.\<close>

definition i_get_idx :: "u32 \<Rightarrow> idx_list \<Rightarrow> int" where
  "i_get_idx board_id t =
     (case slot_find db_board_id board_id t of Some db \<Rightarrow> db_idx db | None \<Rightarrow> 0)"

text \<open>
  \<open>get_idx\<close>: \<open>malloc_ok\<close> says whether the allocation succeeds, \<open>errno\<close> is the error number
  it leaves.
\<close>

definition get_idx :: "bool \<Rightarrow> int \<Rightarrow> u32 \<Rightarrow> id_bitmap \<times> idx_list \<Rightarrow> int \<times> id_bitmap \<times> idx_list" where
  "get_idx malloc_ok errno board_id = (\<lambda>(bm, t).
     case slot_find db_board_id board_id t of
       Some db \<Rightarrow> (db_idx db, bm, t)
     | None \<Rightarrow>
         if \<not> malloc_ok then (- errno, bm, t)
         else (let (i, bm') = get_unique_id bm;
                   db = \<lparr>db_idx = int i, db_board_id = board_id\<rparr>
               in case slot_cas db t of
                    Some t' \<Rightarrow> (db_idx db, bm', t')
                  | None \<Rightarrow> (0, bm', t)))"

definition release_idx :: "u32 \<Rightarrow> id_bitmap \<times> idx_list \<Rightarrow> id_bitmap \<times> idx_list" where
  "release_idx board_id = (\<lambda>(bm, t).
     (let idx = i_get_idx board_id t
      in (destroy_id idx bm, slot_clear db_board_id board_id t)))"

interpretation idx_table: keyed_slots db_board_id "slot_find db_board_id" slot_cas
  "slot_clear db_board_id" "\<lambda>t. set (slots t)" "slots_ok db_board_id"
  by unfold_locales
    (auto simp: slot_find_Some_iff slot_cas_set slot_find_None_iff slots_clear
      intro: slot_cas_ok slot_clear_ok)

section \<open>The invariant of the index table\<close>

text \<open>
  No board has two entries, no index is given to two boards, and the indices given are
  exactly the identifiers in use.
\<close>

definition idx_inv :: "id_bitmap \<times> idx_list \<Rightarrow> bool" where
  "idx_inv = (\<lambda>(bm, t). bm_ok bm \<and> length t = MAX_DEV_HANDLE \<and> slots_ok db_board_id t \<and>
     distinct (map db_idx (slots t)) \<and> db_idx ` set (slots t) = int ` ids bm)"

lemma init_dev_boaid_to_idx_list_eq:
  assumes "length t = MAX_DEV_HANDLE"
  shows "init_dev_boaid_to_idx_list t = replicate MAX_DEV_HANDLE None"
  using clear_all [of t] by (simp add: init_dev_boaid_to_idx_list_def assms)

lemma card_entries:
  assumes "idx_inv (bm, t)"
  shows "length (slots t) = card (ids bm)"
proof -
  have "length (slots t) = card (db_idx ` set (slots t))"
    using assms distinct_card [of "map db_idx (slots t)"] by (simp add: idx_inv_def)
  also have "\<dots> = card (int ` ids bm)" using assms by (simp add: idx_inv_def)
  also have "\<dots> = card (ids bm)" by (rule card_image) simp
  finally show ?thesis .
qed

lemma full_iff:
  assumes "idx_inv (bm, t)"
  shows "None \<in> set t \<longleftrightarrow> ids bm \<noteq> {..<MAX_DEV_HANDLE}"
proof
  assume "None \<in> set t"
  then have "card (ids bm) < MAX_DEV_HANDLE"
    using card_entries [OF assms] length_slots_less [of t] assms by (simp add: idx_inv_def)
  then show "ids bm \<noteq> {..<MAX_DEV_HANDLE}" by force
next
  assume ne: "ids bm \<noteq> {..<MAX_DEV_HANDLE}"
  have "card (ids bm) < card {..<MAX_DEV_HANDLE}"
    using ne ids_bound by (intro psubset_card_mono) auto
  then show "None \<in> set t"
    using card_entries [OF assms] length_slots_full [of t] assms by (auto simp: idx_inv_def)
qed

lemma get_idx_known:
  "slot_find db_board_id b t = Some db \<Longrightarrow> get_idx m en b (bm, t) = (db_idx db, bm, t)"
  by (simp add: get_idx_def)

lemma get_idx_new:
  assumes "idx_inv (bm, t)" "slot_find db_board_id b t = None" "ids bm \<noteq> {..<MAX_DEV_HANDLE}"
  obtains i bm' t' where "get_idx True en b (bm, t) = (int i, bm', t')"
    "i = (LEAST k. k \<notin> ids bm)" "i \<notin> ids bm" "i < MAX_DEV_HANDLE" "ids bm' = insert i (ids bm)" "bm_ok bm'"
    "slot_cas \<lparr>db_idx = int i, db_board_id = b\<rparr> t = Some t'" "get_unique_id bm = (i, bm')"
proof -
  obtain i bm' where u: "get_unique_id bm = (i, bm')" by force
  have ok: "bm_ok bm" using assms by (simp add: idx_inv_def)
  have "None \<in> set t" using full_iff [OF assms(1)] assms(3) by simp
  then obtain t' where t': "slot_cas \<lparr>db_idx = int i, db_board_id = b\<rparr> t = Some t'"
    using slot_cas_None_iff [of "\<lparr>db_idx = int i, db_board_id = b\<rparr>" t] by blast
  have "get_idx True en b (bm, t) = (int i, bm', t')"
    using assms(2) u t' by (simp add: get_idx_def)
  then show thesis using that get_unique_id_fresh [OF ok assms(3) u] t' u by blast
qed

lemma get_idx_inv [inv_intros]:
  assumes "idx_inv (bm, t)"
  shows "idx_inv (snd (get_idx m en b (bm, t)))"
proof (cases "slot_find db_board_id b t")
  case (Some db)
  then show ?thesis using assms by (simp add: get_idx_known)
next
  case new: None
  consider "\<not> m" | "m" "ids bm = {..<MAX_DEV_HANDLE}" | "m" "ids bm \<noteq> {..<MAX_DEV_HANDLE}" by blast
  then show ?thesis
  proof cases
    case 1
    then show ?thesis using new assms by (simp add: get_idx_def)
  next
    case 2
    then have "slot_cas db t = None" for db
      using full_iff [OF assms] by (simp add: slot_cas_None_iff)
    then show ?thesis using 2 new assms by (simp add: get_idx_def get_unique_id_full)
  next
    case 3
    obtain i bm' t' where g: "get_idx True en b (bm, t) = (int i, bm', t')" "i \<notin> ids bm"
      "ids bm' = insert i (ids bm)" "bm_ok bm'" "slot_cas \<lparr>db_idx = int i, db_board_id = b\<rparr> t = Some t'"
      by (rule get_idx_new [OF assms new 3(2), of en])
    obtain xs ys where sl: "slots t = xs @ ys" "slots t' = xs @ \<lparr>db_idx = int i, db_board_id = b\<rparr> # ys"
      "length t' = length t" using slot_cas_slots [OF g(5)] by blast
    have im: "db_idx ` set (slots t) = int ` ids bm" using assms by (simp add: idx_inv_def)
    then have "int i \<notin> db_idx ` set (slots t)" using g(2) by auto
    moreover have "b \<notin> db_board_id ` set (slots t)" using new by (simp add: slot_find_None_iff)
    ultimately have "idx_inv (bm', t')"
      using assms g(3,4) sl im by (auto simp: idx_inv_def slots_ok_def image_Un)
    then show ?thesis using 3 g(1) by simp
  qed
qed

lemma release_idx_inv [inv_intros]:
  assumes "idx_inv (bm, t)" "slot_find db_board_id b t \<noteq> None"
  shows "idx_inv (release_idx b (bm, t))"
proof -
  obtain db where db: "slot_find db_board_id b t = Some db" using assms(2) by blast
  then have e: "db \<in> set (slots t)" "db_board_id db = b" by (auto dest: slot_find_SomeD)
  have ok: "bm_ok bm" "slots_ok db_board_id t" "distinct (map db_idx (slots t))"
    and im: "db_idx ` set (slots t) = int ` ids bm" using assms by (auto simp: idx_inv_def)
  have pos: "0 \<le> db_idx db" using e im by force
  have uniq: "x = db" if "x \<in> set (slots t)" "db_board_id x = b" for x
    using idx_table.keys_unique [OF ok(2) that(1) e(1)] that e by simp
  have rest: "{x \<in> set (slots t). db_board_id x \<noteq> b} = set (slots t) - {db}"
    using e(2) by (auto intro: uniq)
  have inj: "inj_on db_idx (set (slots t))" using ok(3) by (simp add: distinct_map)
  have "db_idx ` {x \<in> set (slots t). db_board_id x \<noteq> b} = db_idx ` set (slots t) - {db_idx db}"
    unfolding rest using e(1) by (simp add: inj_on_image_set_diff [OF inj])
  also have "\<dots> = int ` (ids bm - {nat (db_idx db)})"
    unfolding im using pos by (auto simp: image_iff)
  finally have "db_idx ` {x \<in> set (slots t). db_board_id x \<noteq> b} = int ` (ids bm - {nat (db_idx db)})" .
  then show ?thesis using assms db ok pos
    by (auto simp: release_idx_def i_get_idx_def idx_inv_def destroy_id_ok ids_destroy slot_clear_ok
        slots_clear distinct_map_filter)
qed

section \<open>Properties\<close>

text \<open>C2: Asking for the index of a board keeps the table well formed (no board twice, no index
  twice, the bitmap holding exactly the indices given out); a board that has an index gets it
  back with nothing changed, and a new board gets the least free index, which a second call
  then returns.\<close>

theorem get_idx_correct:
  assumes "idx_inv (bm, t)" "get_idx True en b (bm, t) = (r, bm', t')"
    "slot_find db_board_id b t \<noteq> None \<or> ids bm \<noteq> {..<MAX_DEV_HANDLE}"
  shows "idx_inv (bm', t') \<and> get_idx m en' b (bm', t') = (r, bm', t') \<and>
    (if slot_find db_board_id b t = None then r = int (LEAST k. k \<notin> ids bm)
     else (bm', t') = (bm, t) \<and> r = i_get_idx b t)"
proof -
  have inv: "idx_inv (bm', t')" using get_idx_inv [OF assms(1), of True en b] assms(2) by simp
  show ?thesis
  proof (cases "slot_find db_board_id b t")
    case (Some db)
    then show ?thesis using assms(2) inv by (simp add: get_idx_def i_get_idx_def)
  next
    case None
    then have free: "ids bm \<noteq> {..<MAX_DEV_HANDLE}" using assms(3) by simp
    obtain i bm1 t1 where g: "get_idx True en b (bm, t) = (int i, bm1, t1)" "i = (LEAST k. k \<notin> ids bm)"
      "slot_cas \<lparr>db_idx = int i, db_board_id = b\<rparr> t = Some t1"
      by (rule get_idx_new [OF assms(1) None free])
    have "slot_find db_board_id b t1 = Some \<lparr>db_idx = int i, db_board_id = b\<rparr>"
      using idx_table.find_put [OF _ _ g(3), of b] None assms(1) by (simp add: idx_inv_def)
    then show ?thesis using g assms(2) inv None by (simp add: get_idx_def)
  qed
qed

lemma empty_table_inv: "idx_inv (replicate BITMAP_SIZE 0, replicate MAX_DEV_HANDLE None)"
proof -
  have "ids (replicate BITMAP_SIZE 0) = {}" by (auto simp: mem_ids div8_lt)
  then show ?thesis by (simp add: idx_inv_def bm_ok_def)
qed

lemma empty_not_full: "ids (replicate BITMAP_SIZE 0) \<noteq> {..<MAX_DEV_HANDLE}"
proof -
  have "0 \<notin> ids (replicate BITMAP_SIZE 0)" by (simp add: mem_ids)
  then show ?thesis by (rule not_full [rotated]) simp
qed

lemma get_idx_correct_witness:
  "idx_inv (snd (get_idx True 0 7 (replicate BITMAP_SIZE 0, replicate MAX_DEV_HANDLE None)))"
proof -
  obtain r bm' t' where g: "get_idx True 0 7 (replicate BITMAP_SIZE 0, replicate MAX_DEV_HANDLE None) = (r, bm', t')"
    by (cases "get_idx True 0 7 (replicate BITMAP_SIZE 0, replicate MAX_DEV_HANDLE None)") auto
  show ?thesis
    using get_idx_correct [OF empty_table_inv g disjI2 [OF empty_not_full]] by (simp add: g)
qed

text \<open>C40: Releasing a board that has no index releases the index 0 in the bitmap, whoever owns it:
  from a well-formed table in which some board holds index 0 the next new board is then given
  index 0 as well, so that two boards share an index.\<close>

theorem release_unknown_shares_index:
  assumes "idx_inv (bm, t)" "slot_find db_board_id b t = None"
    "slot_find db_board_id a t = Some \<lparr>db_idx = 0, db_board_id = a\<rparr>"
    "slot_find db_board_id c t = None" "None \<in> set t"
    "release_idx b (bm, t) = (bm1, t1)" "get_idx True en c (bm1, t1) = (r, bm2, t2)"
  shows "r = 0 \<and> i_get_idx a t2 = 0 \<and> i_get_idx c t2 = 0 \<and> a \<noteq> c \<and> \<not> idx_inv (bm2, t2)"
proof -
  have ok: "bm_ok bm" "slots_ok db_board_id t" using assms(1) by (auto simp: idx_inv_def)
  have b: "b \<notin> db_board_id ` set (slots t)" using assms(2) by (simp add: slot_find_None_iff)
  have "slot_clear db_board_id b t = t" by (rule slot_clear_absent [OF b])
  then have t1: "t1 = t" using assms(6) by (simp add: release_idx_def Let_def)
  have bm1: "bm1 = destroy_id 0 bm" using assms(2,6) by (simp add: release_idx_def i_get_idx_def Let_def)
  have ids1: "ids bm1 = ids bm - {0}" using ids_destroy [OF ok(1), of 0] by (simp add: bm1)
  have ok1: "bm_ok bm1" using ok(1) by (simp add: bm1 destroy_id_ok)
  have z: "0 \<notin> ids bm1" by (simp add: ids1)
  have full: "ids bm1 \<noteq> {..<MAX_DEV_HANDLE}" by (rule not_full [OF _ z]) simp
  have l: "(LEAST k. k \<notin> ids bm1) = 0" by (rule Least_equality) (simp_all add: z)
  obtain i bm' where u: "get_unique_id bm1 = (i, bm')" by force
  then have i: "i = 0" using get_unique_id_fresh [OF ok1 full u] l by simp
  obtain t' where t': "slot_cas \<lparr>db_idx = 0, db_board_id = c\<rparr> t = Some t'"
    using assms(5) slot_cas_None_iff [of "\<lparr>db_idx = 0, db_board_id = c\<rparr>" t] by blast
  have r: "r = 0" "t2 = t'" using assms(4,7) u i t' by (auto simp: get_idx_def t1)
  have find: "slot_find db_board_id k t2 = (if k = c then Some \<lparr>db_idx = 0, db_board_id = c\<rparr> else slot_find db_board_id k t)" for k
    using idx_table.find_put [OF ok(2) _ t', of k] assms(4) r(2) by simp
  have ne: "a \<noteq> c" using assms(3,4) by auto
  have "\<not> idx_inv (bm2, t2)"
  proof
    assume inv: "idx_inv (bm2, t2)"
    then have inj: "inj_on db_idx (set (slots t2))" by (simp add: idx_inv_def distinct_map)
    have "\<lparr>db_idx = 0, db_board_id = a\<rparr> \<in> set (slots t2)" "\<lparr>db_idx = 0, db_board_id = c\<rparr> \<in> set (slots t2)"
      using find [of a] find [of c] ne assms(3) by (auto dest: slot_find_SomeD)
    from inj_onD [OF inj _ this] show False using ne by simp
  qed
  then show ?thesis using r(1) find [of a] find [of c] ne assms(3) by (simp add: i_get_idx_def)
qed

lemma release_unknown_shares_index_witness:
  "let t0 = (replicate BITMAP_SIZE 0, replicate MAX_DEV_HANDLE None);
       (_, bm, t) = get_idx True 0 7 t0; (bm1, t1) = release_idx 8 (bm, t);
       (r, bm2, t2) = get_idx True 0 9 (bm1, t1)
   in r = 0 \<and> i_get_idx 7 t2 = 0 \<and> i_get_idx 9 t2 = 0 \<and> \<not> idx_inv (bm2, t2)"
proof -
  let ?start = "(replicate BITMAP_SIZE 0, replicate MAX_DEV_HANDLE None)"
  have u: "get_unique_id (replicate BITMAP_SIZE 0) = (0, 1 # replicate 15 0)"
    unfolding get_unique_id_def
    by (subst get_unique_id_from.simps) (simp add: replicate_Suc [of 15, simplified] del: replicate_Suc)
  let ?t = "Some \<lparr>db_idx = 0, db_board_id = 7\<rparr> # replicate 127 None"
  have n: "slot_find db_board_id k (replicate n None) = None" for k n
    by (simp add: slot_find_None_iff)
  have c: "slot_cas e (replicate MAX_DEV_HANDLE None) = Some (Some e # replicate 127 None)" for e :: boardid_to_idx
    using replicate_Suc [of 127 "None :: boardid_to_idx option"] by simp
  have g: "get_idx True 0 7 ?start = (0, 1 # replicate 15 0, ?t)"
    by (simp add: get_idx_def n u c)
  have inv: "idx_inv (1 # replicate 15 0, ?t)"
    using get_idx_inv [OF empty_table_inv, of True 0 7] by (simp add: g)
  have f: "slot_find db_board_id 8 ?t = None" "slot_find db_board_id 9 ?t = None"
    "slot_find db_board_id 7 ?t = Some \<lparr>db_idx = 0, db_board_id = 7\<rparr>" "None \<in> set ?t"
    by (simp_all add: n)
  obtain bm1 t1 where rl: "release_idx 8 (1 # replicate 15 0, ?t) = (bm1, t1)" by force
  obtain r bm2 t2 where g2: "get_idx True 0 9 (bm1, t1) = (r, bm2, t2)"
    by (cases "get_idx True 0 9 (bm1, t1)") auto
  have "r = 0 \<and> i_get_idx 7 t2 = 0 \<and> i_get_idx 9 t2 = 0 \<and> (7 :: u32) \<noteq> 9 \<and> \<not> idx_inv (bm2, t2)"
    by (rule release_unknown_shares_index [OF inv f(1,3,2,4) rl g2])
  then show ?thesis unfolding Let_def g prod.case rl g2 by blast
qed

end
