(* ===== verification/LibState.thy ===== *)
theory LibState
  imports Parvar LibIdx
begin

text \<open>
  The globals of the user library (\<open>lib/vi53xx_xdma.c\<close>) as one record, the operating
  system calls it makes as the fields of a second record that the operations take, and the
  log of the device files it opened and closed.
\<close>

record board_rec = \<comment> \<open>\<open>struct device_info\<close> of \<open>vi53xx_api.h\<close>\<close>
  bi_board_inst :: u32
  bi_board_id :: u32
  bi_board_type :: u32
  bi_board_name :: string

record dev_handle =
  dh_dev_handle :: int
  dh_board_id :: u32
  dh_dev_name :: string

datatype os_event = OsOpen string int | OsClose int

record lib =
  available_board_count :: int
  online_board_count :: int
  init_check_ok :: int
  board_info :: "board_rec list option"
  board_error_info :: "board_rec list option"
  bitmap :: id_bitmap
  dev_handle_list :: "dev_handle option list"
  boardid_to_idx_list :: idx_list
  pmt :: parvar_mat
  os_log :: "os_event list" \<comment> \<open>not a variable of the source: the device files opened and closed\<close>

text \<open>
  The environment of a call: the contents of a file, if it can be opened; the descriptor
  (or a negative number) that opening a device file returns, which may depend on what was
  opened before; whether each allocation of the call succeeds; \<open>errno\<close>; and the contents of
  the stack buffer \<open>line\<close> before it is written.
\<close>

record os =
  os_fopen :: "string \<Rightarrow> string option"
  os_open :: "os_event list \<Rightarrow> string \<Rightarrow> int"
  os_malloc :: "nat \<Rightarrow> bool"
  os_errno :: int
  os_line :: string

abbreviation (input) BOARD_NUM :: nat where "BOARD_NUM \<equiv> 128"

definition zero_board :: board_rec where
  "zero_board = \<lparr>bi_board_inst = 0, bi_board_id = 0, bi_board_type = 0, bi_board_name = []\<rparr>"

definition lib_start :: lib where
  "lib_start = \<lparr>available_board_count = 0, online_board_count = 0, init_check_ok = 0,
     board_info = None, board_error_info = None, bitmap = replicate BITMAP_SIZE 0,
     dev_handle_list = replicate MAX_DEV_HANDLE None,
     boardid_to_idx_list = replicate MAX_DEV_HANDLE None, pmt = zero_parvar [], os_log = []\<rparr>"

text \<open>The loops \<open>for (i = 0; i < available_board_count; i++)\<close> that look for a board.\<close>

function scan_boards :: "(board_rec \<Rightarrow> bool) \<Rightarrow> int \<Rightarrow> int \<Rightarrow> board_rec list option \<Rightarrow> board_rec option res" where
  "scan_boards p i cnt bi =
     (if i < cnt then
        bindR (derefR bi) (\<lambda>l.
        bindR (nthI l i) (\<lambda>b.
          if p b then Inr (Some b) else scan_boards p (i + 1) cnt bi))
      else Inr None)"
  by pat_completeness auto
termination
  by (relation "measure (\<lambda>(p, i, cnt, bi). nat (cnt - i))") auto

declare scan_boards.simps [simp del]

definition i_lib_get_board_name :: "u32 \<Rightarrow> lib \<Rightarrow> string option res" where
  "i_lib_get_board_name board_type s =
     bindR (scan_boards (\<lambda>b. bi_board_type b = board_type) 0 (available_board_count s) (board_info s))
       (\<lambda>r. Inr (map_option bi_board_name r))"

definition i_lib_get_board_instance :: "u32 \<Rightarrow> lib \<Rightarrow> u32 res" where
  "i_lib_get_board_instance board_id s =
     bindR (scan_boards (\<lambda>b. bi_board_id b = board_id) 0 (available_board_count s) (board_info s))
       (\<lambda>r. Inr (case r of None \<Rightarrow> 0 | Some b \<Rightarrow> bi_board_inst b))"

definition lib_get_board_name :: "u32 \<Rightarrow> lib \<Rightarrow> string option res" where
  "lib_get_board_name board_type s = i_lib_get_board_name board_type s"

definition lib_get_board_instance :: "u32 \<Rightarrow> lib \<Rightarrow> u32 res" where
  "lib_get_board_instance board_id s = i_lib_get_board_instance board_id s"

definition vi53xx_get_board_type :: "u32 \<Rightarrow> lib \<Rightarrow> u32 res" where
  "vi53xx_get_board_type board_id s =
     bindR (scan_boards (\<lambda>b. bi_board_id b = board_id) 0 (available_board_count s) (board_info s))
       (\<lambda>r. Inr (case r of None \<Rightarrow> 0 | Some b \<Rightarrow> bi_board_type b))"

definition get_available_board_count :: "lib \<Rightarrow> int" where
  "get_available_board_count s =
     (if available_board_count s > int MAX_DEV_HANDLE then 0 else available_board_count s)"

definition get_online_board_count :: "lib \<Rightarrow> int" where
  "get_online_board_count s = (if online_board_count s \<le> 0 then 0 else online_board_count s)"

definition set_online_board_count :: "int \<Rightarrow> lib \<Rightarrow> lib" where
  "set_online_board_count cnt s = s\<lparr>online_board_count := cnt\<rparr>"

definition free_mem :: "lib \<Rightarrow> lib" where
  "free_mem s = s\<lparr>board_info := None, board_error_info := None\<rparr>"

section \<open>Looking a board up\<close>

lemma scan_boards_find:
  assumes "0 \<le> i" "cnt \<le> int (length l)"
  shows "scan_boards p i cnt (Some l) = Inr (List.find p (drop (nat i) (take (nat cnt) l)))"
  using assms
proof (induction p i cnt "Some l" rule: scan_boards.induct)
  case (1 p i cnt)
  show ?case
  proof (cases "i < cnt")
    case True
    then have lt: "nat i < length (take (nat cnt) l)" using 1 by simp
    have d: "drop (nat i) (take (nat cnt) l) = l ! nat i # drop (nat (i + 1)) (take (nat cnt) l)"
      using Cons_nth_drop_Suc [OF lt] 1 True by (simp add: nat_add_distrib)
    show ?thesis
    proof (cases "p (l ! nat i)")
      case pos: True
      then show ?thesis using True 1 d by (subst scan_boards.simps) simp
    next
      case neg: False
      then have "scan_boards p (i + 1) cnt (Some l) =
          Inr (List.find p (drop (nat (i + 1)) (take (nat cnt) l)))"
        using True 1 by (intro "1.hyps") auto
      then show ?thesis using True neg 1 d by (subst scan_boards.simps) simp
    qed
  next
    case False
    then show ?thesis using 1 by (subst scan_boards.simps) simp
  qed
qed

lemma scan_boards_all:
  "cnt \<le> int (length l) \<Longrightarrow> scan_boards p 0 cnt (Some l) = Inr (List.find p (take (nat cnt) l))"
  by (simp add: scan_boards_find)

lemma scan_boards_NULL: "0 < cnt \<Longrightarrow> scan_boards p 0 cnt None = Inl NullDeref"
  by (simp add: scan_boards.simps)

lemma scan_boards_none [simp]: "cnt \<le> i \<Longrightarrow> scan_boards p i cnt bi = Inr None"
  by (simp add: scan_boards.simps)

lemma find_distinct:
  assumes "distinct (map f xs)" "x \<in> set xs"
  shows "List.find (\<lambda>y. f y = f x) xs = Some x"
  using assms by (induction xs) auto

end
