(* ===== verification/LibBoards.thy ===== *)
theory LibBoards
  imports LibState
begin

text \<open>
  Board discovery in the user library (\<open>extractValue\<close>, \<open>_check_boards_info\<close>,
  \<open>requst_mem\<close>, \<open>check_boards_info\<close> and \<open>free_board_info\<close> of \<open>lib/vi53xx_xdma.c\<close>): the
  board list is parsed from a proc file into an array of 128 records, and boards that share
  a board id are collected in a second array of the same size.
\<close>

section \<open>Parsing the board list\<close>

definition separators :: string where
  "separators = CHR '' '' # CHR 0x09 # [newline]"

text \<open>\<open>sscanf(line+11, "%x:%d:%x", &Inst, &id, &type) == 3\<close>\<close>

definition scan_entry :: "string \<Rightarrow> (u32 \<times> u32 \<times> u32) option" where
  "scan_entry s =
     (case scan_x s of None \<Rightarrow> None | Some (inst, r1) \<Rightarrow>
      case scan_lit (CHR '':'') r1 of None \<Rightarrow> None | Some r2 \<Rightarrow>
      case scan_d r2 of None \<Rightarrow> None | Some (bid, r3) \<Rightarrow>
      case scan_lit (CHR '':'') r3 of None \<Rightarrow> None | Some r4 \<Rightarrow>
      case scan_x r4 of None \<Rightarrow> None | Some (typ, r5) \<Rightarrow>
        Some (word_of_int inst, word_of_int bid, word_of_int typ))"

text \<open>
  The loop of \<open>extractValue\<close>: \<open>file\<close> is what is left to read, \<open>buf\<close> the line buffer with
  whatever earlier lines left in it, \<open>n\<close> the number of boards stored so far. A line without a
  word gives no token, and printing the NULL pointer as a name is a fault; it happens when the
  scan after it still finds fields.
\<close>

function extract_loop :: "string \<Rightarrow> string \<Rightarrow> board_rec list \<Rightarrow> nat \<Rightarrow> (nat \<times> board_rec list) res" where
  "extract_loop file buf info n =
     (case fgets 256 file of
        None \<Rightarrow> Inr (n, info)
      | Some (chunk, rest) \<Rightarrow>
          bindR (strcpyR buf chunk) (\<lambda>b1.
          bindR (strtok b1 separators) (\<lambda>(name, b2).
          bindR (cstr_at b2 11) (\<lambda>s.
          case scan_entry s of
            None \<Rightarrow> extract_loop rest b2 info n
          | Some (inst, bid, typ) \<Rightarrow>
              bindR (nthR info n) (\<lambda>_.
              bindR (derefR name) (\<lambda>tok.
              bindR (fitsR 32 tok) (\<lambda>nm.
              extract_loop rest b2
                (info[n := \<lparr>bi_board_inst = inst, bi_board_id = bid, bi_board_type = typ,
                            bi_board_name = nm\<rparr>]) (Suc n))))))))"
  by pat_completeness auto
termination
  by (relation "measure (\<lambda>(file, buf, info, n). length file)") (auto dest: fgets_shorter [rotated])

declare extract_loop.simps [simp del]

definition extractValue :: "os \<Rightarrow> string \<Rightarrow> board_rec list \<Rightarrow> (int \<times> board_rec list) res" where
  "extractValue env filename info =
     (case os_fopen env filename of
        None \<Rightarrow> Inr (- 1, info)
      | Some file \<Rightarrow>
          bindR (extract_loop file (os_line env) info 0) (\<lambda>(n, info'). Inr (int n, info')))"

section \<open>Boards that share a board id\<close>

text \<open>The inner loop of \<open>_check_boards_info\<close>: it also looks at \<open>info[count]\<close>.\<close>

function dup_from :: "board_rec list \<Rightarrow> nat \<Rightarrow> nat \<Rightarrow> nat \<Rightarrow> nat option res" where
  "dup_from info count i j =
     (if j < count + 1 then
        bindR (nthR info i) (\<lambda>a.
        bindR (nthR info j) (\<lambda>b.
          if bi_board_id a = bi_board_id b then Inr (Some j) else dup_from info count i (Suc j)))
      else Inr None)"
  by pat_completeness auto
termination
  by (relation "measure (\<lambda>(info, count, i, j). count + 1 - j)") auto

declare dup_from.simps [simp del]

function check_from :: "board_rec list \<Rightarrow> nat \<Rightarrow> nat \<Rightarrow> nat \<Rightarrow> board_rec list \<Rightarrow> (nat \<times> board_rec list) res" where
  "check_from info count i index err =
     (if i < count then
        bindR (dup_from info count i (i + 1)) (\<lambda>d.
          case d of
            None \<Rightarrow> check_from info count (Suc i) index err
          | Some j \<Rightarrow>
              bindR (updR err index (info ! i)) (\<lambda>err1.
              bindR (updR err1 (index + 1) (info ! j)) (\<lambda>err2.
                check_from info count (Suc i) (index + 2) err2)))
      else Inr (index, err))"
  by pat_completeness auto
termination
  by (relation "measure (\<lambda>(info, count, i, index, err). count - i)") auto

declare check_from.simps [simp del]

definition i_check_boards_info :: "board_rec list \<Rightarrow> board_rec list \<Rightarrow> nat \<Rightarrow> (nat \<times> board_rec list) res" where
  "i_check_boards_info info err count =
     (if count = 1 then Inr (0, err) else check_from info count 0 0 err)"

section \<open>The operations on the globals\<close>

definition vi53xx_get_error_boards_info :: "lib \<Rightarrow> board_rec list option" where
  "vi53xx_get_error_boards_info s = board_error_info s"

definition requst_mem :: "os \<Rightarrow> lib \<Rightarrow> int \<times> lib" where
  "requst_mem env s =
     (if \<not> os_malloc env 0 then (- 1, s\<lparr>board_info := None\<rparr>)
      else (let s1 = s\<lparr>board_info := Some (replicate BOARD_NUM zero_board)\<rparr>
            in if \<not> os_malloc env 1 then (- 1, s1\<lparr>board_error_info := None\<rparr>)
               else (0, s1\<lparr>board_error_info := Some (replicate BOARD_NUM zero_board)\<rparr>)))"

definition init_dev_handle_list :: "dev_handle option list \<Rightarrow> dev_handle option list" where
  "init_dev_handle_list t = foldl (\<lambda>t n. t[n := None]) t [0..<MAX_DEV_HANDLE]"

definition init_config :: "lib \<Rightarrow> lib" where
  "init_config s = s\<lparr>dev_handle_list := init_dev_handle_list (dev_handle_list s),
     boardid_to_idx_list := init_dev_boaid_to_idx_list (boardid_to_idx_list s),
     bitmap := init_id_bitmap (bitmap s)\<rparr>"

definition boards_file :: string where
  "boards_file = ''/proc/vi53xx/maping''"

definition check_boards_info :: "os \<Rightarrow> lib \<Rightarrow> (int \<times> lib) res" where
  "check_boards_info env s =
     (if init_check_ok s \<noteq> 0 then Inr (0, s)
      else (let s1 = init_config (s\<lparr>init_check_ok := 1\<rparr>);
                (ret, s2) = requst_mem env s1
            in if ret < 0 then Inr (ret, s2)
               else
                 bindR (derefR (board_info s2)) (\<lambda>info.
                 bindR (derefR (board_error_info s2)) (\<lambda>err.
                 bindR (extractValue env boards_file info) (\<lambda>(board_num, info').
                 let s3 = s2\<lparr>board_info := Some info'\<rparr>
                 in if board_num \<le> 0 then Inr (ret, s3)
                    else
                      bindR (i_check_boards_info info' err (nat board_num)) (\<lambda>(n, err').
                      Inr (int n, s3\<lparr>available_board_count := board_num,
                                    board_error_info := Some err'\<rparr>)))))))"

definition free_board_info :: "u32 \<Rightarrow> lib \<Rightarrow> lib" where
  "free_board_info board_id s =
     (let idx = i_get_idx board_id (boardid_to_idx_list s);
          s1 = free_mem s;
          s2 = s1\<lparr>bitmap := destroy_id idx (bitmap s1)\<rparr>;
          s3 = s2\<lparr>dev_handle_list := init_dev_handle_list (dev_handle_list s2)\<rparr>;
          s4 = s3\<lparr>boardid_to_idx_list := init_dev_boaid_to_idx_list (boardid_to_idx_list s3)\<rparr>;
          s5 = s4\<lparr>pmt := release_parvar_mat (pmt s4)\<rparr>
      in s5\<lparr>init_check_ok := 0\<rparr>)"

text \<open>\<open>release_board_info\<close>, which closing the last board calls.\<close>

definition release_board_info :: "lib \<Rightarrow> lib" where
  "release_board_info s =
     (set_online_board_count 0 (free_mem s\<lparr>available_board_count := 0\<rparr>))\<lparr>init_check_ok := 0\<rparr>"

section \<open>What the duplicate check returns\<close>

text \<open>
  The reference: for each board, the first later entry (the entry after the last board
  included) with the same board id, and the pairs in the order of the boards.
\<close>

definition first_dup :: "board_rec list \<Rightarrow> nat \<Rightarrow> nat \<Rightarrow> nat option" where
  "first_dup info count i =
     List.find (\<lambda>j. bi_board_id (info ! i) = bi_board_id (info ! j)) [i + 1..<count + 1]"

definition dup_pairs :: "board_rec list \<Rightarrow> nat \<Rightarrow> nat list \<Rightarrow> board_rec list" where
  "dup_pairs info count is =
     concat (map (\<lambda>i. case first_dup info count i of None \<Rightarrow> [] | Some j \<Rightarrow> [info ! i, info ! j]) is)"

lemma dup_from_find:
  assumes "count < length info" "i < length info"
  shows "dup_from info count i j =
    Inr (List.find (\<lambda>k. bi_board_id (info ! i) = bi_board_id (info ! k)) [j..<count + 1])"
  using assms
proof (induction info count i j rule: dup_from.induct)
  case (1 info count i j)
  show ?case
  proof (cases "j < count + 1")
    case True
    then have u: "[j..<count + 1] = j # [Suc j..<count + 1]" by (rule upt_conv_Cons)
    show ?thesis
    proof (cases "bi_board_id (info ! i) = bi_board_id (info ! j)")
      case eq: True
      then show ?thesis using True 1 unfolding u by (subst dup_from.simps) simp
    next
      case False
      have "dup_from info count i (Suc j) =
        Inr (List.find (\<lambda>k. bi_board_id (info ! i) = bi_board_id (info ! k)) [Suc j..<count + 1])"
        using True False 1 by (intro "1.IH") auto
      then show ?thesis using True False 1 unfolding u by (subst dup_from.simps) simp
    qed
  next
    case False
    then show ?thesis by (subst dup_from.simps) simp
  qed
qed

lemma dup_from_first_dup:
  "count < length info \<Longrightarrow> i < count \<Longrightarrow> dup_from info count i (Suc i) = Inr (first_dup info count i)"
  by (simp add: dup_from_find first_dup_def)

text \<open>Filling the error array from position \<open>k\<close>.\<close>

definition fill :: "'a list \<Rightarrow> nat \<Rightarrow> 'a list \<Rightarrow> 'a list" where
  "fill err k xs = take k err @ xs @ drop (k + length xs) err"

lemma fill_Nil [simp]: "fill err k [] = err"
  by (simp add: fill_def)

lemma fill_two:
  assumes "k + 2 + length xs \<le> length err"
  shows "fill (err[k := a, Suc k := b]) (Suc (Suc k)) xs = fill err k (a # b # xs)"
proof -
  have "take (Suc (Suc k)) (err[k := a, Suc k := b]) = take k err @ [a, b]"
    using assms by (auto simp: list_eq_iff_nth_eq nth_append nth_list_update nth_Cons' min_def)
  then show ?thesis by (simp add: fill_def)
qed

lemma fill_pair: "Suc k < length err \<Longrightarrow> fill err k [a, b] = err[k := a, Suc k := b]"
  using fill_two [of k "[]" err a b] by simp

lemma dup_pairs_Nil [simp]: "dup_pairs info count [] = []"
  by (simp add: dup_pairs_def)

lemma dup_pairs_Cons:
  "dup_pairs info count (i # is) =
     (case first_dup info count i of None \<Rightarrow> [] | Some j \<Rightarrow> [info ! i, info ! j]) @ dup_pairs info count is"
  by (simp add: dup_pairs_def)

lemma check_from_eq:
  assumes "count < length info"
  shows "check_from info count i index err =
    (if dup_pairs info count [i..<count] = [] \<or>
        index + length (dup_pairs info count [i..<count]) \<le> length err
     then Inr (index + length (dup_pairs info count [i..<count]), fill err index (dup_pairs info count [i..<count]))
     else Inl OutOfBounds)"
  using assms
proof (induction info count i index err rule: check_from.induct)
  case (1 info count i index err)
  show ?case
  proof (cases "i < count")
    case False
    then show ?thesis by (subst check_from.simps) simp
  next
    case True
    then have u: "[i..<count] = i # [Suc i..<count]" by (rule upt_conv_Cons)
    show ?thesis
    proof (cases "first_dup info count i")
      case None
      have "check_from info count i index err = check_from info count (Suc i) index err"
        using True None 1 by (subst check_from.simps) (simp add: dup_from_first_dup)
      then show ?thesis using 1 True None dup_from_first_dup [of count info i]
        by (simp add: u dup_pairs_Cons)
    next
      case (Some j)
      show ?thesis
      proof (cases "index + 1 < length err")
        case in_err: True
        have "check_from info count i index err =
            check_from info count (Suc i) (index + 2) (err[index := info ! i, index + 1 := info ! j])"
          using True Some in_err 1 by (subst check_from.simps) (simp add: dup_from_first_dup)
        also have "\<dots> =
          (if dup_pairs info count [Suc i..<count] = [] \<or>
              index + 2 + length (dup_pairs info count [Suc i..<count]) \<le> length err
           then Inr (index + 2 + length (dup_pairs info count [Suc i..<count]),
                fill (err[index := info ! i, index + 1 := info ! j]) (index + 2) (dup_pairs info count [Suc i..<count]))
           else Inl OutOfBounds)"
          using 1(2) [of "Some j" j] True Some in_err 1(3) dup_from_first_dup [of count info i] by simp
        finally show ?thesis using in_err
          by (auto simp: u dup_pairs_Cons Some fill_two fill_pair)
      next
        case False
        then show ?thesis using True Some 1
          by (subst check_from.simps) (auto simp: u dup_pairs_Cons dup_from_first_dup updR_def bindR_eq_Inl)
      qed
    qed
  qed
qed

lemma length_dup_pairs: "length (dup_pairs info count is) \<le> 2 * length is"
  by (induction "is") (auto simp: dup_pairs_Cons split: option.splits)

lemma dup_pairs_empty_iff:
  "dup_pairs info count is = [] \<longleftrightarrow> (\<forall>i \<in> set is. first_dup info count i = None)"
  by (induction "is") (auto simp: dup_pairs_Cons split: option.splits)

lemma even_dup_pairs: "even (length (dup_pairs info count is))"
  by (induction "is") (auto simp: dup_pairs_Cons split: option.splits)

lemma first_dup_None_iff:
  "first_dup info count i = None \<longleftrightarrow>
   (\<forall>j. i < j \<and> j \<le> count \<longrightarrow> bi_board_id (info ! i) \<noteq> bi_board_id (info ! j))"
  unfolding first_dup_def find_None_iff set_upt
  by (simp add: less_Suc_eq_le Suc_le_eq) blast

text \<open>No pair is reported exactly when the first \<open>count + 1\<close> board ids are all different.\<close>

lemma no_dup_iff_distinct:
  assumes "count < length info"
  shows "dup_pairs info count [0..<count] = [] \<longleftrightarrow> distinct (map bi_board_id (take (count + 1) info))"
proof -
  have "dup_pairs info count [0..<count] = [] \<longleftrightarrow>
    (\<forall>i j. i < j \<and> j \<le> count \<longrightarrow> bi_board_id (info ! i) \<noteq> bi_board_id (info ! j))"
    by (auto simp: dup_pairs_empty_iff first_dup_None_iff)
  also have "\<dots> \<longleftrightarrow> distinct (map bi_board_id (take (count + 1) info))"
  proof
    assume d: "\<forall>i j. i < j \<and> j \<le> count \<longrightarrow> bi_board_id (info ! i) \<noteq> bi_board_id (info ! j)"
    show "distinct (map bi_board_id (take (count + 1) info))"
      unfolding distinct_conv_nth
    proof (intro allI impI)
      fix i j
      assume "i < length (map bi_board_id (take (count + 1) info))"
        "j < length (map bi_board_id (take (count + 1) info))" "i \<noteq> j"
      then show "map bi_board_id (take (count + 1) info) ! i \<noteq> map bi_board_id (take (count + 1) info) ! j"
        using d assms by (cases i j rule: linorder_cases) (auto simp: less_Suc_eq_le dest: not_sym)
    qed
  next
    assume d: "distinct (map bi_board_id (take (count + 1) info))"
    show "\<forall>i j. i < j \<and> j \<le> count \<longrightarrow> bi_board_id (info ! i) \<noteq> bi_board_id (info ! j)"
    proof (intro allI impI)
      fix i j
      assume "i < j \<and> j \<le> count"
      then show "bi_board_id (info ! i) \<noteq> bi_board_id (info ! j)"
        using d assms nth_eq_iff_index_eq [OF d, of i j] by auto
    qed
  qed
  finally show ?thesis .
qed

lemma i_check_boards_info_eq:
  assumes "count < length info" "count \<noteq> 1"
  shows "i_check_boards_info info err count =
    (let ps = dup_pairs info count [0..<count] in
     if ps = [] \<or> length ps \<le> length err then Inr (length ps, fill err 0 ps) else Inl OutOfBounds)"
  using assms by (simp add: i_check_boards_info_def check_from_eq Let_def)

text \<open>What the check returns for up to 64 boards.\<close>

lemma duplicate_check_eq:
  assumes "count < length info" "count \<noteq> 1" "2 * count \<le> length err"
  shows "i_check_boards_info info err count = Inr (length (dup_pairs info count [0..<count]),
    fill err 0 (dup_pairs info count [0..<count]))"
proof -
  have "length (dup_pairs info count [0..<count]) \<le> length err"
    using length_dup_pairs [of info count "[0..<count]"] assms(3) by simp
  then show ?thesis using i_check_boards_info_eq [OF assms(1,2), of err] by (simp add: Let_def)
qed

lemma check_boards_result:
  assumes "count < length info" "2 * count \<le> length err"
  obtains n err' where "i_check_boards_info info err count = Inr (n, err')"
  using duplicate_check_eq [OF assms(1) _ assms(2)]
  by (cases "count = 1") (auto simp: i_check_boards_info_def)

section \<open>Properties\<close>

text \<open>C26: For every number of boards below 128, the duplicate check of the library leaves the error
  array alone and returns 0 for a single board; for any other number it writes, for each board
  that shares its id with a later entry (the entry after the last board included), that pair to
  the front of the error array, in the order of the boards, keeps the rest of the array and
  returns the number of entries written - or, when they are more than the 128 of the array, it
  writes out of bounds, which takes more than 64 boards. Except for a single board, nothing is
  reported exactly when the ids of the boards and of the entry after the last one are all
  different.\<close>

theorem duplicate_check:
  assumes "length info = BOARD_NUM" "length err = BOARD_NUM" "count < BOARD_NUM"
  shows "i_check_boards_info info err count =
      (let ps = dup_pairs info count [0..<count] in
       if count = 1 then Inr (0, err)
       else if length ps \<le> BOARD_NUM then Inr (length ps, ps @ drop (length ps) err)
       else Inl OutOfBounds) \<and>
    (BOARD_NUM < length (dup_pairs info count [0..<count]) \<longrightarrow> 64 < count) \<and>
    (dup_pairs info count [0..<count] = [] \<longleftrightarrow> distinct (map bi_board_id (take (count + 1) info)))"
proof -
  let ?ps = "dup_pairs info count [0..<count]"
  have c: "count < length info" using assms by simp
  have "length ?ps \<le> 2 * count" using length_dup_pairs [of info count "[0..<count]"] by simp
  moreover have "i_check_boards_info info err 1 = Inr (0, err)" by (simp add: i_check_boards_info_def)
  moreover have "fill err 0 ?ps = ?ps @ drop (length ?ps) err" by (simp add: fill_def)
  ultimately show ?thesis
    using no_dup_iff_distinct [OF c] i_check_boards_info_eq [OF c, of err] assms(2)
    by (cases "count = 1") (auto simp: Let_def)
qed

lemma duplicate_check_witness:
  "i_check_boards_info (replicate BOARD_NUM zero_board) (replicate BOARD_NUM zero_board) 2 =
     Inr (4, replicate BOARD_NUM zero_board)"
proof -
  have d: "dup_pairs (replicate BOARD_NUM zero_board) 2 [0..<2] = replicate 4 zero_board"
    by (simp add: dup_pairs_def first_dup_def upt_rec numeral_eq_Suc)
  have e: "replicate 4 zero_board @ drop 4 (replicate BOARD_NUM zero_board) = replicate BOARD_NUM zero_board"
    by (simp flip: replicate_add)
  have "length (replicate BOARD_NUM zero_board) = BOARD_NUM" "2 < BOARD_NUM" by simp_all
  from duplicate_check [OF this(1) this(1) this(2)] show ?thesis unfolding Let_def d using e by simp
qed

text \<open>Boards with different ids are still reported as duplicates when one of them has the id
  0: the check compares every board with the zeroed entry after the last one.\<close>

lemma phantom_duplicate:
  assumes "length info = BOARD_NUM" "length err = BOARD_NUM" "2 \<le> count" "count \<le> 64"
    "info ! count = zero_board" "i < count" "bi_board_id (info ! i) = 0"
  shows "\<exists>n err'. i_check_boards_info info err count = Inr (n, err') \<and> 0 < n"
proof -
  let ?l = "map bi_board_id (take (count + 1) info)"
  have len: "length ?l = count + 1" using assms by simp
  have "?l ! i = 0" "?l ! count = 0" using assms by (simp_all add: zero_board_def)
  then have "\<not> distinct ?l" using len assms(6) nth_eq_iff_index_eq [of ?l i count] by auto
  then have "dup_pairs info count [0..<count] \<noteq> []" using no_dup_iff_distinct [of count info] assms by simp
  then show ?thesis
    using duplicate_check_eq [of count info err] assms by simp
qed

lemma phantom_duplicate_witness:
  "\<exists>n err'. i_check_boards_info
       ((replicate BOARD_NUM zero_board)[0 := zero_board\<lparr>bi_board_id := 5\<rparr>])
       (replicate BOARD_NUM zero_board) 2 = Inr (n, err') \<and> 0 < n"
  by (rule phantom_duplicate [of _ _ _ 1]) (simp_all add: zero_board_def)

text \<open>When the first check runs out of memory it returns -1, but every later check then
  returns 0 without looking for boards, although no board list exists.\<close>

lemma failed_check_is_forgotten:
  assumes "init_check_ok s = 0" "\<not> os_malloc env 0"
  shows "\<exists>s'. check_boards_info env s = Inr (- 1, s') \<and> board_info s' = None \<and>
    check_boards_info env' s' = Inr (0, s')"
  using assms by (simp add: check_boards_info_def requst_mem_def init_config_def Let_def)

lemma failed_check_is_forgotten_witness:
  "let env = \<lparr>os_fopen = \<lambda>_. None, os_open = \<lambda>_ _. 3, os_malloc = \<lambda>_. False, os_errno = 12, os_line = []\<rparr>
   in \<exists>s'. check_boards_info env lib_start = Inr (- 1, s') \<and> check_boards_info env s' = Inr (0, s')"
proof -
  let ?env = "\<lparr>os_fopen = \<lambda>_. None, os_open = \<lambda>_ _. 3, os_malloc = \<lambda>_. False, os_errno = 12, os_line = []\<rparr>"
  have "init_check_ok lib_start = 0" "\<not> os_malloc ?env 0" by (simp_all add: lib_start_def)
  from failed_check_is_forgotten [OF this, of ?env] show ?thesis unfolding Let_def by blast
qed

end
