(* ===== verification/LibHandles.thy ===== *)
theory LibHandles
  imports LibBoards
begin

text \<open>
  Opening and closing boards in the user library (\<open>get_dev_handle\<close>, \<open>get_board_handle\<close>,
  \<open>vi53xx_device_open\<close>, \<open>release_dev_handle\<close> and \<open>vi53xx_device_close\<close> of
  \<open>lib/vi53xx_xdma.c\<close>). An open board owns a slot of \<open>dev_handle_list\<close> among the first
  \<open>available_board_count\<close> slots.
\<close>

abbreviation ENODEV :: int where "ENODEV \<equiv> 19"

definition handle_find :: "int \<Rightarrow> u32 \<Rightarrow> dev_handle option list \<Rightarrow> dev_handle option" where
  "handle_find cnt board_id t = slot_find dh_board_id board_id (take (nat cnt) t)"

definition handle_put :: "int \<Rightarrow> dev_handle \<Rightarrow> dev_handle option list \<Rightarrow> dev_handle option list option" where
  "handle_put cnt dh t = map_option (\<lambda>u. u @ drop (nat cnt) t) (slot_cas dh (take (nat cnt) t))"

definition get_dev_handle :: "u32 \<Rightarrow> lib \<Rightarrow> dev_handle option" where
  "get_dev_handle board_id s = handle_find (get_available_board_count s) board_id (dev_handle_list s)"

definition dev_path :: "string option \<Rightarrow> u32 \<Rightarrow> string" where
  "dev_path name inst = ''/dev/'' @ fmt_s name @ ''_'' @ show_u inst"

text \<open>\<open>get_board_handle\<close>: the descriptor of \<open>open(board_name, O_RDWR)\<close>, and the state with the call logged.\<close>

definition get_board_handle :: "os \<Rightarrow> u32 \<Rightarrow> lib \<Rightarrow> (int \<times> lib) res" where
  "get_board_handle env board_id s =
     bindR (vi53xx_get_board_type board_id s) (\<lambda>board_type.
     bindR (lib_get_board_instance board_id s) (\<lambda>board_inst.
     bindR (lib_get_board_name board_type s) (\<lambda>name.
     bindR (fitsR 32 (dev_path name board_inst)) (\<lambda>path.
     let h = os_open env (os_log s) path
     in Inr (h, s\<lparr>os_log := os_log s @ [OsOpen path h]\<rparr>)))))"

definition vi53xx_device_open :: "os \<Rightarrow> u32 \<Rightarrow> lib \<Rightarrow> (int \<times> lib) res" where
  "vi53xx_device_open env board_id s =
     (let cnt = get_available_board_count s in
      bindR (get_board_handle env board_id s) (\<lambda>(dev_handle, s1).
      if cnt = 0 then Inr (- ENODEV, s1)
      else if dev_handle < 0 then Inr (- ENODEV, s1)
      else case handle_find cnt board_id (dev_handle_list s1) of
        Some dh \<Rightarrow> Inr (dh_dev_handle dh, s1)
      | None \<Rightarrow>
          (let s2 = set_online_board_count (cnt + 1) s1
           in if \<not> os_malloc env 0
              then Inr (- os_errno env, s2\<lparr>os_log := os_log s2 @ [OsClose dev_handle]\<rparr>)
              else
                bindR (vi53xx_get_board_type board_id s2) (\<lambda>board_type.
                bindR (lib_get_board_name board_type s2) (\<lambda>name.
                bindR (lib_get_board_instance board_id s2) (\<lambda>inst.
                bindR (fitsR 32 (dev_path name inst)) (\<lambda>nm.
                let dh = \<lparr>dh_dev_handle = dev_handle, dh_board_id = board_id, dh_dev_name = nm\<rparr>
                in case handle_put cnt dh (dev_handle_list s2) of
                     Some t' \<Rightarrow> Inr (dh_dev_handle dh, s2\<lparr>dev_handle_list := t'\<rparr>)
                   | None \<Rightarrow> Inr (0, s2))))))))"

text \<open>\<open>release_dev_handle\<close>: every slot of the board is closed and cleared.\<close>

definition release_dev_handle :: "u32 \<Rightarrow> lib \<Rightarrow> lib" where
  "release_dev_handle i s =
     s\<lparr>os_log := os_log s @ map (\<lambda>dh. OsClose (dh_dev_handle dh))
                            (filter (\<lambda>dh. dh_board_id dh = i) (slots (dev_handle_list s))),
       dev_handle_list := slot_clear dh_board_id i (dev_handle_list s)\<rparr>"

definition lib_release_idx :: "u32 \<Rightarrow> lib \<Rightarrow> lib" where
  "lib_release_idx board_id s =
     (let (bm, t) = release_idx board_id (bitmap s, boardid_to_idx_list s)
      in s\<lparr>bitmap := bm, boardid_to_idx_list := t\<rparr>)"

definition vi53xx_device_close :: "u32 \<Rightarrow> lib \<Rightarrow> lib" where
  "vi53xx_device_close board_id s =
     (let cnt = get_available_board_count s;
          dev_online = get_online_board_count s;
          s1 = s\<lparr>pmt := release_parvar_mat (pmt s)\<rparr>
      in if cnt = 0 \<or> dev_online = 0
         then lib_release_idx board_id (release_board_info s1)
         else (let dev_online = dev_online - 1;
                   s2 = (if dev_online = 0 then release_board_info s1 else s1);
                   s3 = set_online_board_count dev_online s2
               in lib_release_idx board_id (release_dev_handle board_id s3)))"

section \<open>The table of open boards\<close>

definition handles_ok :: "int \<Rightarrow> dev_handle option list \<Rightarrow> bool" where
  "handles_ok cnt t \<longleftrightarrow> slots_ok dh_board_id t \<and> slots (drop (nat cnt) t) = []"

lemma slot_clear_append:
  "slot_clear key k (xs @ ys) = slot_clear key k xs @ slot_clear key k ys"
  by (induction key k xs rule: slot_clear.induct) auto

lemma drop_slot_clear: "drop n (slot_clear key k t) = slot_clear key k (drop n t)"
proof -
  have "slot_clear key k t = slot_clear key k (take n t) @ slot_clear key k (drop n t)"
    by (subst append_take_drop_id [of n t, symmetric], subst slot_clear_append) simp
  then have "drop n (slot_clear key k t) =
      drop n (slot_clear key k (take n t) @ slot_clear key k (drop n t))" by (rule arg_cong)
  then show ?thesis by (cases "n \<le> length t") auto
qed

lemma slots_take:
  "handles_ok cnt t \<Longrightarrow> slots (take (nat cnt) t) = slots t"
  using slots_append [of "take (nat cnt) t" "drop (nat cnt) t"] by (simp add: handles_ok_def)

lemma handle_find_iff:
  "handles_ok cnt t \<Longrightarrow> handle_find cnt k t = Some e \<longleftrightarrow> e \<in> set (slots t) \<and> dh_board_id e = k"
  using slots_take [of cnt t]
  by (simp add: handle_find_def slot_find_Some_iff slots_ok_def handles_ok_def)

lemma handle_put_slots:
  assumes "handles_ok cnt t" "handle_find cnt (dh_board_id e) t = None" "handle_put cnt e t = Some t'"
  shows "set (slots t') = insert e (set (slots t)) \<and> handles_ok cnt t' \<and> length t' = length t"
proof -
  obtain u where u: "slot_cas e (take (nat cnt) t) = Some u" "t' = u @ drop (nat cnt) t"
    using assms(3) by (auto simp: handle_put_def)
  have st: "slots (take (nat cnt) t) = slots t" and dr: "slots (drop (nat cnt) t) = []"
    using assms(1) slots_take by (auto simp: handles_ok_def)
  have len: "length u = length (take (nat cnt) t)" by (rule slot_cas_length [OF u(1)])
  have ok: "slots_ok dh_board_id (take (nat cnt) t)"
    using assms(1) st by (simp add: handles_ok_def slots_ok_def)
  have fresh: "dh_board_id e \<notin> dh_board_id ` set (slots (take (nat cnt) t))"
    using assms(2) by (simp add: handle_find_def slot_find_None_iff)
  have "slots_ok dh_board_id u" by (rule slot_cas_ok [OF ok fresh u(1)])
  moreover have "drop (nat cnt) t' = drop (nat cnt) t"
    using len by (cases "nat cnt \<le> length t") (auto simp: u(2))
  ultimately show ?thesis
    using slot_cas_set [OF u(1)] st dr len by (auto simp: handles_ok_def slots_ok_def u(2))
qed

interpretation handle_table: keyed_slots dh_board_id "handle_find cnt" "handle_put cnt"
  "slot_clear dh_board_id" "\<lambda>t. set (slots t)" "handles_ok cnt" for cnt
proof unfold_locales
  fix t t' k e
  assume ok: "handles_ok cnt t"
  show "handle_find cnt k t = Some e \<longleftrightarrow> e \<in> set (slots t) \<and> dh_board_id e = k"
    by (rule handle_find_iff [OF ok])
  show "set (slots (slot_clear dh_board_id k t)) = {e \<in> set (slots t). dh_board_id e \<noteq> k}"
    by (simp add: slots_clear)
  show "handles_ok cnt (slot_clear dh_board_id k t)"
    using ok by (simp add: handles_ok_def slot_clear_ok drop_slot_clear slots_clear)
  assume "handle_find cnt (dh_board_id e) t = None" "handle_put cnt e t = Some t'"
  then show "set (slots t') = insert e (set (slots t))" "handles_ok cnt t'"
    using handle_put_slots [OF ok] by auto
qed

section \<open>What opening and closing do\<close>

lemma get_available_board_count_le: "get_available_board_count s \<le> 128"
  by (simp add: get_available_board_count_def)

text \<open>The globals the lookups read are untouched by the calls in between.\<close>

lemma lookup_frame [simp]:
  "vi53xx_get_board_type b (s\<lparr>os_log := l\<rparr>) = vi53xx_get_board_type b s"
  "vi53xx_get_board_type b (set_online_board_count n s) = vi53xx_get_board_type b s"
  "lib_get_board_name t (s\<lparr>os_log := l\<rparr>) = lib_get_board_name t s"
  "lib_get_board_name t (set_online_board_count n s) = lib_get_board_name t s"
  "lib_get_board_instance b (s\<lparr>os_log := l\<rparr>) = lib_get_board_instance b s"
  "lib_get_board_instance b (set_online_board_count n s) = lib_get_board_instance b s"
  "dev_handle_list (set_online_board_count n s) = dev_handle_list s"
  by (simp_all add: vi53xx_get_board_type_def lib_get_board_name_def i_lib_get_board_name_def
      lib_get_board_instance_def i_lib_get_board_instance_def set_online_board_count_def)

lemma get_board_handle_cases:
  assumes "get_board_handle env b s = Inr (h, s1)"
  obtains ty inst name where "vi53xx_get_board_type b s = Inr ty" "lib_get_board_instance b s = Inr inst"
    "lib_get_board_name ty s = Inr name" "fitsR 32 (dev_path name inst) = Inr (dev_path name inst)"
    "h = os_open env (os_log s) (dev_path name inst)"
    "s1 = s\<lparr>os_log := os_log s @ [OsOpen (dev_path name inst) h]\<rparr>"
  using assms by (auto simp: get_board_handle_def Let_def fitsR_def split: if_splits)

text \<open>A board that is not open and for which there is room gets the descriptor just opened.\<close>

lemma device_open_new:
  assumes h: "get_board_handle env b s = Inr (h, s1)" "0 \<le> h"
    and cnt: "get_available_board_count s \<noteq> 0" and new: "get_dev_handle b s = None" and m: "os_malloc env 0"
  obtains nm where
    "vi53xx_device_open env b s =
      (let dh = \<lparr>dh_dev_handle = h, dh_board_id = b, dh_dev_name = nm\<rparr>;
           s2 = set_online_board_count (get_available_board_count s + 1) s1
       in case handle_put (get_available_board_count s) dh (dev_handle_list s) of
            Some t' \<Rightarrow> Inr (h, s2\<lparr>dev_handle_list := t'\<rparr>) | None \<Rightarrow> Inr (0, s2))"
    "s1 = s\<lparr>os_log := os_log s @ [OsOpen nm h]\<rparr>"
proof -
  obtain ty inst name where c: "vi53xx_get_board_type b s = Inr ty" "lib_get_board_instance b s = Inr inst"
    "lib_get_board_name ty s = Inr name" "fitsR 32 (dev_path name inst) = Inr (dev_path name inst)"
    "s1 = s\<lparr>os_log := os_log s @ [OsOpen (dev_path name inst) h]\<rparr>"
    by (rule get_board_handle_cases [OF h(1)])
  have f: "handle_find (get_available_board_count s) b (dev_handle_list s) = None"
    using new by (simp add: get_dev_handle_def)
  show thesis
    by (rule that [of "dev_path name inst"])
      (use h cnt m in \<open>simp_all add: vi53xx_device_open_def Let_def f c split: option.splits\<close>)
qed

text \<open>A board that is already open: the old descriptor is returned, the new one is kept open.\<close>

lemma device_open_again:
  assumes "get_board_handle env b s = Inr (h, s1)" "0 \<le> h"
    "get_available_board_count s \<noteq> 0" "get_dev_handle b s = Some dh"
  shows "vi53xx_device_open env b s = Inr (dh_dev_handle dh, s1)"
proof -
  have "dev_handle_list s1 = dev_handle_list s"
    using get_board_handle_cases [OF assms(1)] by (metis lib.select_convs(7) lib.surjective lib.update_convs(10))
  then show ?thesis using assms by (simp add: vi53xx_device_open_def Let_def get_dev_handle_def)
qed

section \<open>Properties\<close>

text \<open>A library that found one board, and a process that can open its file.\<close>

definition example_lib :: lib where
  "example_lib = lib_start\<lparr>available_board_count := 1, init_check_ok := 1,
     board_info := Some ((replicate BOARD_NUM zero_board)
       [0 := \<lparr>bi_board_inst = 0, bi_board_id = 5, bi_board_type = 0xB100, bi_board_name = ''es5341''\<rparr>]),
     board_error_info := Some (replicate BOARD_NUM zero_board)\<rparr>"

definition example_os :: os where
  "example_os = \<lparr>os_fopen = \<lambda>_. None, os_open = \<lambda>l _. 3 + int (length l), os_malloc = \<lambda>_. True,
     os_errno = 12, os_line = replicate 256 NUL\<rparr>"

lemma example_open:
  "get_board_handle example_os 5 example_lib =
     Inr (3, example_lib\<lparr>os_log := [OsOpen ''/dev/es5341_0'' 3]\<rparr>)"
proof -
  have r: "replicate BOARD_NUM zero_board = zero_board # replicate 127 zero_board"
    using replicate_Suc [of 127 zero_board] by simp
  have "show_u 0 = ''0''" by (rule show_u_0)
  then show ?thesis
    by (simp add: get_board_handle_def vi53xx_get_board_type_def lib_get_board_instance_def
        i_lib_get_board_instance_def lib_get_board_name_def i_lib_get_board_name_def scan_boards.simps
        example_lib_def example_os_def lib_start_def dev_path_def fmt_s_def fitsR_def r)
qed

text \<open>Opening a board that is not open returns the descriptor the system gave and records it:
  the board is then found, every other board is found as before, and the table stays well
  formed.\<close>

lemma device_open_records:
  assumes "get_board_handle env b s = Inr (h, s1)" "0 \<le> h" "get_available_board_count s \<noteq> 0"
    "get_dev_handle b s = None" "os_malloc env 0"
    "handles_ok (get_available_board_count s) (dev_handle_list s)"
    "None \<in> set (take (nat (get_available_board_count s)) (dev_handle_list s))"
  shows "\<exists>s'. vi53xx_device_open env b s = Inr (h, s') \<and>
    map_option dh_dev_handle (get_dev_handle b s') = Some h \<and>
    (\<forall>b'. b' \<noteq> b \<longrightarrow> get_dev_handle b' s' = get_dev_handle b' s) \<and>
    handles_ok (get_available_board_count s') (dev_handle_list s') \<and>
    online_board_count s' = get_available_board_count s + 1 \<and> board_info s' = board_info s"
proof -
  let ?cnt = "get_available_board_count s"
  obtain nm where o: "vi53xx_device_open env b s =
      (let dh = \<lparr>dh_dev_handle = h, dh_board_id = b, dh_dev_name = nm\<rparr>;
           s2 = set_online_board_count (?cnt + 1) s1
       in case handle_put ?cnt dh (dev_handle_list s) of
            Some t' \<Rightarrow> Inr (h, s2\<lparr>dev_handle_list := t'\<rparr>) | None \<Rightarrow> Inr (0, s2))"
    "s1 = s\<lparr>os_log := os_log s @ [OsOpen nm h]\<rparr>"
    by (rule device_open_new [OF assms(1-5)])
  let ?dh = "\<lparr>dh_dev_handle = h, dh_board_id = b, dh_dev_name = nm\<rparr>"
  have new: "handle_find ?cnt (dh_board_id ?dh) (dev_handle_list s) = None"
    using assms(4) by (simp add: get_dev_handle_def)
  obtain t' where t': "handle_put ?cnt ?dh (dev_handle_list s) = Some t'"
    using assms(7) slot_cas_None_iff [of ?dh "take (nat ?cnt) (dev_handle_list s)"]
    by (cases "slot_cas ?dh (take (nat ?cnt) (dev_handle_list s))") (auto simp: handle_put_def)
  let ?s = "(set_online_board_count (?cnt + 1) s1)\<lparr>dev_handle_list := t'\<rparr>"
  have cnt: "get_available_board_count ?s = ?cnt"
    by (simp add: get_available_board_count_def set_online_board_count_def o(2))
  have f: "get_dev_handle k ?s = (if k = b then Some ?dh else get_dev_handle k s)" for k
    using handle_table.find_put [OF assms(6) new t', of k] by (simp add: get_dev_handle_def cnt)
  have "handles_ok ?cnt t'" using handle_put_slots [OF assms(6) new t'] by blast
  then show ?thesis
    by (intro exI [of _ ?s]) (simp add: o(1) t' f cnt, simp add: set_online_board_count_def o(2))
qed

lemma example_handles:
  "get_available_board_count example_lib = 1" "get_dev_handle 5 example_lib = None"
  "handles_ok 1 (dev_handle_list example_lib)" "None \<in> set (take 1 (dev_handle_list example_lib))"
  "os_malloc example_os 0"
proof -
  have r: "replicate MAX_DEV_HANDLE None = None # replicate 127 (None :: dev_handle option)"
    using replicate_Suc [of 127 "None :: dev_handle option"] by simp
  show "get_available_board_count example_lib = 1" "get_dev_handle 5 example_lib = None"
    "handles_ok 1 (dev_handle_list example_lib)" "None \<in> set (take 1 (dev_handle_list example_lib))"
    "os_malloc example_os 0"
    by (simp_all add: get_available_board_count_def get_dev_handle_def handle_find_def handles_ok_def
        example_lib_def lib_start_def r example_os_def slots_ok_def)
qed

lemma device_open_records_witness:
  "\<exists>s'. vi53xx_device_open example_os 5 example_lib = Inr (3, s') \<and>
     map_option dh_dev_handle (get_dev_handle 5 s') = Some 3"
proof -
  have "\<exists>s'. vi53xx_device_open example_os 5 example_lib = Inr (3, s') \<and>
    map_option dh_dev_handle (get_dev_handle 5 s') = Some 3 \<and>
    (\<forall>b'. b' \<noteq> 5 \<longrightarrow> get_dev_handle b' s' = get_dev_handle b' example_lib) \<and>
    handles_ok (get_available_board_count s') (dev_handle_list s') \<and>
    online_board_count s' = get_available_board_count example_lib + 1 \<and> board_info s' = board_info example_lib"
    by (rule device_open_records [OF example_open]) (simp_all add: example_handles example_handles(4) [unfolded One_nat_def])
  then show ?thesis by blast
qed

text \<open>Opening a board that is already open returns its old descriptor, but the descriptor that
  was just opened for it is neither recorded nor closed.\<close>

lemma reopen_leaks_descriptor:
  assumes "get_board_handle env b s = Inr (h, s1)" "0 \<le> h" "get_available_board_count s \<noteq> 0"
    "get_dev_handle b s = Some dh"
  shows "\<exists>path. vi53xx_device_open env b s = Inr (dh_dev_handle dh, s\<lparr>os_log := os_log s @ [OsOpen path h]\<rparr>)"
proof -
  obtain nm where "s1 = s\<lparr>os_log := os_log s @ [OsOpen nm h]\<rparr>"
    by (rule get_board_handle_cases [OF assms(1)]) blast
  then show ?thesis using device_open_again [OF assms] by blast
qed

lemma reopen_leaks_descriptor_witness:
  "\<exists>s1 s2 path. vi53xx_device_open example_os 5 example_lib = Inr (3, s1) \<and>
     vi53xx_device_open example_os 5 s1 = Inr (3, s2) \<and> os_log s2 = os_log s1 @ [OsOpen path 4]"
proof -
  obtain nm where o: "vi53xx_device_open example_os 5 example_lib =
      (let dh = \<lparr>dh_dev_handle = 3, dh_board_id = 5, dh_dev_name = nm\<rparr>;
           s2 = set_online_board_count (1 + 1) (example_lib\<lparr>os_log := [OsOpen ''/dev/es5341_0'' 3]\<rparr>)
       in case handle_put 1 dh (dev_handle_list example_lib) of
            Some t' \<Rightarrow> Inr (3, s2\<lparr>dev_handle_list := t'\<rparr>) | None \<Rightarrow> Inr (0, s2))"
    by (rule device_open_new [OF example_open]) (simp_all add: example_handles example_handles(4) [unfolded One_nat_def])
  let ?dh = "\<lparr>dh_dev_handle = 3, dh_board_id = 5, dh_dev_name = nm\<rparr>"
  have r: "replicate MAX_DEV_HANDLE None = None # replicate 127 (None :: dev_handle option)"
    using replicate_Suc [of 127 "None :: dev_handle option"] by simp
  have put: "handle_put 1 ?dh (dev_handle_list example_lib) = Some (Some ?dh # replicate 127 None)"
    by (simp add: handle_put_def example_lib_def lib_start_def r)
  let ?s1 = "(set_online_board_count (1 + 1) (example_lib\<lparr>os_log := [OsOpen ''/dev/es5341_0'' 3]\<rparr>))
    \<lparr>dev_handle_list := Some ?dh # replicate 127 None\<rparr>"
  have s1: "vi53xx_device_open example_os 5 example_lib = Inr (3, ?s1)" using o put by (simp add: Let_def)
  have rb: "replicate BOARD_NUM zero_board = zero_board # replicate 127 zero_board"
    using replicate_Suc [of 127 zero_board] by simp
  have "show_u 0 = ''0''" by (rule show_u_0)
  then have h: "get_board_handle example_os 5 ?s1 =
      Inr (4, ?s1\<lparr>os_log := os_log ?s1 @ [OsOpen ''/dev/es5341_0'' 4]\<rparr>)"
    by (simp add: get_board_handle_def vi53xx_get_board_type_def lib_get_board_instance_def
        i_lib_get_board_instance_def lib_get_board_name_def i_lib_get_board_name_def scan_boards.simps
        example_lib_def example_os_def lib_start_def dev_path_def fmt_s_def fitsR_def rb set_online_board_count_def)
  have c: "get_available_board_count ?s1 \<noteq> 0" "get_dev_handle 5 ?s1 = Some ?dh"
    by (simp_all add: get_available_board_count_def get_dev_handle_def handle_find_def
        set_online_board_count_def example_lib_def)
  from reopen_leaks_descriptor [OF h _ c] obtain path where
    "vi53xx_device_open example_os 5 ?s1 = Inr (3, ?s1\<lparr>os_log := os_log ?s1 @ [OsOpen path 4]\<rparr>)" by auto
  with s1 show ?thesis by (intro exI [of _ ?s1] exI [of _ "?s1\<lparr>os_log := os_log ?s1 @ [OsOpen path 4]\<rparr>"] exI [of _ path]) simp
qed

lemma lib_release_idx_frame [simp]:
  "dev_handle_list (lib_release_idx b s) = dev_handle_list s"
  "available_board_count (lib_release_idx b s) = available_board_count s"
  "online_board_count (lib_release_idx b s) = online_board_count s"
  "board_info (lib_release_idx b s) = board_info s" "os_log (lib_release_idx b s) = os_log s"
  "init_check_ok (lib_release_idx b s) = init_check_ok s"
  by (simp_all add: lib_release_idx_def split_def Let_def)

text \<open>Closing a board while two or more count as online releases the board (its descriptor is
  closed and it is no longer found, the others are), but keeps the board list. As opening a
  board sets the online count to the number of boards plus one, closing the only board that was
  opened always ends in this case and the list is never freed.\<close>

lemma close_keeps_board_list:
  assumes "handles_ok (get_available_board_count s) (dev_handle_list s)"
    "get_available_board_count s \<noteq> 0" "2 \<le> online_board_count s" "get_dev_handle b s = Some dh"
  shows "get_dev_handle b (vi53xx_device_close b s) = None \<and>
    (\<forall>b'. b' \<noteq> b \<longrightarrow> get_dev_handle b' (vi53xx_device_close b s) = get_dev_handle b' s) \<and>
    os_log (vi53xx_device_close b s) = os_log s @ [OsClose (dh_dev_handle dh)] \<and>
    board_info (vi53xx_device_close b s) = board_info s \<and>
    online_board_count (vi53xx_device_close b s) = online_board_count s - 1"
proof -
  let ?cnt = "get_available_board_count s" and ?t = "dev_handle_list s"
  let ?s3 = "set_online_board_count (online_board_count s - 1) (s\<lparr>pmt := release_parvar_mat (pmt s)\<rparr>)"
  have c: "vi53xx_device_close b s = lib_release_idx b (release_dev_handle b ?s3)"
    using assms(2,3) by (simp add: vi53xx_device_close_def Let_def get_online_board_count_def)
  have cnt: "get_available_board_count (vi53xx_device_close b s) = ?cnt"
    by (simp add: c get_available_board_count_def release_dev_handle_def set_online_board_count_def)
  have t: "dev_handle_list (vi53xx_device_close b s) = slot_clear dh_board_id b ?t"
    by (simp add: c release_dev_handle_def set_online_board_count_def)
  have f: "get_dev_handle k (vi53xx_device_close b s) = (if k = b then None else get_dev_handle k s)" for k
    using handle_table.find_del [OF assms(1), of k b] by (simp add: get_dev_handle_def cnt t)
  have dh: "dh \<in> set (slots ?t)" "dh_board_id dh = b"
    using assms(4) handle_find_iff [OF assms(1), of b dh] by (simp_all add: get_dev_handle_def)
  have "distinct (map dh_board_id (slots ?t))" using assms(1) by (simp add: handles_ok_def slots_ok_def)
  then have "filter (\<lambda>e. dh_board_id e = b) (slots ?t) = [dh]"
    using filter_key_single dh by metis
  then show ?thesis
    by (simp add: f, simp add: c release_dev_handle_def set_online_board_count_def)
qed

lemma close_keeps_board_list_witness:
  "let dh = \<lparr>dh_dev_handle = 3, dh_board_id = 5, dh_dev_name = ''/dev/es5341_0''\<rparr>;
       s = example_lib\<lparr>online_board_count := 2, dev_handle_list := Some dh # replicate 127 None\<rparr>
   in get_dev_handle 5 (vi53xx_device_close 5 s) = None \<and> online_board_count (vi53xx_device_close 5 s) = 1"
proof -
  let ?dh = "\<lparr>dh_dev_handle = 3, dh_board_id = 5, dh_dev_name = ''/dev/es5341_0''\<rparr>"
  let ?s = "example_lib\<lparr>online_board_count := 2, dev_handle_list := Some ?dh # replicate 127 None\<rparr>"
  have c: "get_available_board_count ?s = 1"
    by (simp add: get_available_board_count_def example_lib_def)
  have h: "handles_ok (get_available_board_count ?s) (dev_handle_list ?s)" "get_dev_handle 5 ?s = Some ?dh"
    by (simp_all add: c get_dev_handle_def handle_find_def handles_ok_def slots_ok_def)
  from close_keeps_board_list [OF h(1) _ _ h(2)] c show ?thesis by (simp add: Let_def)
qed

text \<open>After the board list was given back with free_board_info the number of boards is still
  the old one, so opening any board dereferences the NULL list.\<close>

lemma open_after_free_board_info:
  assumes "0 < available_board_count s"
  shows "vi53xx_device_open env b (free_board_info b' s) = Inl NullDeref"
proof -
  have "vi53xx_get_board_type b (free_board_info b' s) = Inl NullDeref"
    using assms by (simp add: vi53xx_get_board_type_def free_board_info_def free_mem_def scan_boards_NULL Let_def)
  then show ?thesis by (simp add: vi53xx_device_open_def get_board_handle_def Let_def)
qed

lemma open_after_free_board_info_witness:
  "vi53xx_device_open example_os 5 (free_board_info 5 example_lib) = Inl NullDeref"
  by (rule open_after_free_board_info) (simp add: example_lib_def)

end
