(* ===== verification/XdmaInfo.thy ===== *)
theory XdmaInfo
  imports Prelude
begin

unbundle bit_operations_syntax

text \<open>
  What the user library and the kernel module share: the structure
  \<open>struct vi53xx_xdma_info\<close> that an ioctl passes, the ioctl request numbers, and the user
  memory that the pointers of the structure point to. User memory is split by type: the
  32-bit words that \<open>r_val\<close> points to and the bytes that \<open>buf\<close> points to.
\<close>

record xdma_info =
  x_bar :: int
  x_offset :: u32
  x_wr :: int
  x_w_val :: u32
  x_r_val :: u64
  x_dir :: u8
  x_channel :: int
  x_buf :: u64
  x_pos :: u64
  x_len :: u64

record umem =
  u_words :: "u64 \<Rightarrow> u32"
  u_bytes :: "u64 \<Rightarrow> u8"

section \<open>Request numbers\<close>

text \<open>\<open>_IOWR(type, nr, struct vi53xx_xdma_info)\<close>: the structure takes 56 bytes.\<close>

definition IOC :: "u32 \<Rightarrow> u32 \<Rightarrow> u32 \<Rightarrow> u32 \<Rightarrow> u32" where
  "IOC dir typ nr sz = push_bit 30 dir OR push_bit 8 typ OR nr OR push_bit 16 sz"

definition IOWR :: "u32 \<Rightarrow> u32 \<Rightarrow> u32" where
  "IOWR typ nr = IOC 3 typ nr 56"

definition IOC_TYPE :: "u32 \<Rightarrow> u32" where
  "IOC_TYPE cmd = drop_bit 8 cmd AND 0xFF"

definition IOC_NR :: "u32 \<Rightarrow> u32" where
  "IOC_NR cmd = cmd AND 0xFF"

abbreviation (input) RTPC_IOCTL_TYPE_XDMA :: u32 where "RTPC_IOCTL_TYPE_XDMA \<equiv> 1"
abbreviation (input) CMD_XDMA_INIT :: u32 where "CMD_XDMA_INIT \<equiv> 0"
abbreviation (input) CMD_XDMA_START :: u32 where "CMD_XDMA_START \<equiv> 1"
abbreviation (input) CMD_XDMA_STOP :: u32 where "CMD_XDMA_STOP \<equiv> 2"
abbreviation (input) CMD_XDMA_REG :: u32 where "CMD_XDMA_REG \<equiv> 3"
abbreviation (input) CMD_XDMA_PRINT :: u32 where "CMD_XDMA_PRINT \<equiv> 4"
abbreviation (input) CMD_XDMA_SETTING :: u32 where "CMD_XDMA_SETTING \<equiv> 5"
abbreviation (input) CMD_XDMA_EXIT :: u32 where "CMD_XDMA_EXIT \<equiv> 6"
abbreviation (input) CMD_XDMA_DUMP :: u32 where "CMD_XDMA_DUMP \<equiv> 7"

definition RTPC_IOCTL :: "u32 \<Rightarrow> u32" where
  "RTPC_IOCTL cmd = IOWR RTPC_IOCTL_TYPE_XDMA cmd"

text \<open>The driver gets back the type and the number the library encoded.\<close>

lemma IOC_decode:
  assumes "unat typ < 256" "unat nr < 256"
  shows "IOC_TYPE (IOC dir typ nr sz) = typ" "IOC_NR (IOC dir typ nr sz) = nr"
proof -
  have t: "take_bit 8 typ = typ" and n: "take_bit 8 nr = nr"
    using assms by (simp_all add: take_bit_word_small)
  have ff: "(0xFF :: u32) = mask 8" by (simp add: mask_numeral)
  have bits: "bit typ i \<Longrightarrow> i < 8" "bit nr i \<Longrightarrow> i < 8" for i
    using t n by (metis bit_take_bit_iff)+
  show "IOC_TYPE (IOC dir typ nr sz) = typ"
    unfolding IOC_TYPE_def IOC_def ff
    by (rule bit_word_eqI) (auto simp: bit_simps dest: bits)
  show "IOC_NR (IOC dir typ nr sz) = nr"
    unfolding IOC_NR_def IOC_def ff
    by (rule bit_word_eqI) (auto simp: bit_simps dest: bits)
qed

lemma IOWR_decode:
  assumes "unat typ < 256" "unat nr < 256"
  shows "IOC_TYPE (IOWR typ nr) = typ" "IOC_NR (IOWR typ nr) = nr"
  unfolding IOWR_def by (rule IOC_decode [OF assms])+

section \<open>The contract of an encoding\<close>

text \<open>
  Values that are packed into one word or one string and unpacked elsewhere: the decoder
  gives the value back. Packed values differ when the values do.
\<close>

locale codec =
  fixes enc :: "'a \<Rightarrow> 'b" and dec :: "'b \<Rightarrow> 'a" and ok :: "'a \<Rightarrow> bool"
  assumes dec_enc: "ok x \<Longrightarrow> dec (enc x) = x"
begin

lemma enc_inj: "ok x \<Longrightarrow> ok y \<Longrightarrow> enc x = enc y \<Longrightarrow> x = y"
  by (metis dec_enc)

lemma inj_on_enc: "inj_on enc {x. ok x}"
  by (rule inj_onI) (auto intro: enc_inj)

lemma enc_eq_iff: "ok x \<Longrightarrow> ok y \<Longrightarrow> enc x = enc y \<longleftrightarrow> x = y"
  using enc_inj by blast

end

interpretation ioctl_number: codec "\<lambda>(t, n). IOWR t n" "\<lambda>c. (IOC_TYPE c, IOC_NR c)"
  "\<lambda>(t, n). unat t < 256 \<and> unat n < 256"
proof unfold_locales
  fix x :: "u32 \<times> u32"
  obtain t n where x: "x = (t, n)" by force
  assume "case x of (t, n) \<Rightarrow> unat t < 256 \<and> unat n < 256"
  then have h: "unat t < 256 \<and> unat n < 256" unfolding x prod.case .
  from IOWR_decode [OF conjunct1 [OF h] conjunct2 [OF h]] show "(\<lambda>c. (IOC_TYPE c, IOC_NR c)) (case x of (t, n) \<Rightarrow> IOWR t n) = x"
    by (simp only: x prod.case IOWR_decode)
qed

section \<open>Properties\<close>

text \<open>The driver decodes from a request number exactly the type and command the library
  encoded, and different commands have different request numbers.\<close>

lemma request_numbers_decode:
  assumes "unat c < 256" "unat d < 256"
  shows "IOC_TYPE (RTPC_IOCTL c) = RTPC_IOCTL_TYPE_XDMA \<and> IOC_NR (RTPC_IOCTL c) = c \<and>
    (RTPC_IOCTL c = RTPC_IOCTL d \<longleftrightarrow> c = d)"
  using ioctl_number.enc_eq_iff [of "(1, c)" "(1, d)"] ioctl_number.dec_enc [of "(1, c)"] assms
  by (auto simp: RTPC_IOCTL_def)

lemma request_numbers_decode_witness:
  "IOC_NR (RTPC_IOCTL CMD_XDMA_DUMP) = CMD_XDMA_DUMP \<and> RTPC_IOCTL CMD_XDMA_DUMP \<noteq> RTPC_IOCTL CMD_XDMA_REG"
  using request_numbers_decode [of CMD_XDMA_DUMP CMD_XDMA_REG] by simp

end
