(* ===== verification/LibRegs.thy ===== *)
theory LibRegs
  imports LibHandles XdmaInfo
begin

text \<open>
  The register and DMA calls of the user library (\<open>lib/vi53xx_xdma.c\<close>): argument checks,
  the structure that is passed, and the ioctl. The kernel side is the argument \<open>ioctl\<close>
  (descriptor, request and structure to a result and a new world), the world an extension
  of the user memory, so that a concrete driver can be plugged in. A structure on the stack
  starts with unknown contents, the argument \<open>u\<close>; the address of a local variable whose
  pointer is passed is the argument \<open>sp\<close>.
\<close>

type_synonym 'a ioctl = "int \<Rightarrow> u32 \<Rightarrow> xdma_info \<Rightarrow> 'a umem_scheme \<Rightarrow> int \<times> 'a umem_scheme"

abbreviation (input) BAR0 :: int where "BAR0 \<equiv> 0"
abbreviation (input) BAR1 :: int where "BAR1 \<equiv> 1"
abbreviation (input) RTPC_READ :: int where "RTPC_READ \<equiv> 0"
abbreviation (input) RTPC_WRITE :: int where "RTPC_WRITE \<equiv> 1"
abbreviation (input) H2C_CHANNEL_STATUS_REG :: int where "H2C_CHANNEL_STATUS_REG \<equiv> 0x0044"
abbreviation (input) C2H_CHANNEL_STATUS_REG :: int where "C2H_CHANNEL_STATUS_REG \<equiv> 0x1044"

definition xdma_call_ioctl :: "'a ioctl \<Rightarrow> int \<Rightarrow> u32 \<Rightarrow> xdma_info \<Rightarrow> 'a umem_scheme \<Rightarrow> int \<times> 'a umem_scheme" where
  "xdma_call_ioctl ioctl dev_handle request arg w = ioctl dev_handle request arg w"

section \<open>The checks before an ioctl\<close>

definition vi53xx_xdma_read_write_reg :: "'a ioctl \<Rightarrow> int \<Rightarrow> xdma_info option \<Rightarrow> 'a umem_scheme \<Rightarrow> int \<times> 'a umem_scheme" where
  "vi53xx_xdma_read_write_reg ioctl dev_handle arg w =
     (case arg of None \<Rightarrow> (- 1, w)
      | Some reg \<Rightarrow>
          if x_bar reg < 0 \<or> x_bar reg > 1 then (- 1, w)
          else if x_wr reg < 0 \<or> x_wr reg > 1 then (- 1, w)
          else xdma_call_ioctl ioctl dev_handle (RTPC_IOCTL CMD_XDMA_REG) reg w)"

text \<open>\<open>pos\<close> and \<open>len\<close> are unsigned: the checks that they are negative never hold.\<close>

definition vi53xx_xdma_read :: "'a ioctl \<Rightarrow> int \<Rightarrow> xdma_info option \<Rightarrow> 'a umem_scheme \<Rightarrow> int \<times> 'a umem_scheme" where
  "vi53xx_xdma_read ioctl dev_handle arg w =
     (case arg of None \<Rightarrow> (- 1, w)
      | Some i \<Rightarrow>
          if x_buf i = 0 then (- 1, w)
          else if x_pos i < 0 then (- 1, w)
          else if x_len i < 0 then (- 1, w)
          else xdma_call_ioctl ioctl dev_handle (RTPC_IOCTL CMD_XDMA_PRINT) i w)"

definition vi53xx_xdma_write :: "'a ioctl \<Rightarrow> int \<Rightarrow> xdma_info option \<Rightarrow> 'a umem_scheme \<Rightarrow> int \<times> 'a umem_scheme" where
  "vi53xx_xdma_write ioctl dev_handle arg w =
     (case arg of None \<Rightarrow> (- 1, w)
      | Some i \<Rightarrow>
          if x_buf i = 0 then (- 1, w)
          else if x_pos i < 0 then (- 1, w)
          else if x_len i < 0 then (- 1, w)
          else xdma_call_ioctl ioctl dev_handle (RTPC_IOCTL CMD_XDMA_INIT) i w)"

definition i_vi53xx_xdma_start :: "'a ioctl \<Rightarrow> int \<Rightarrow> xdma_info option \<Rightarrow> 'a umem_scheme \<Rightarrow> int \<times> 'a umem_scheme" where
  "i_vi53xx_xdma_start ioctl dev_handle arg w =
     (case arg of None \<Rightarrow> (- 1, w)
      | Some i \<Rightarrow>
          if x_channel i < 0 \<or> x_channel i > 4 then (- 1, w)
          else if x_dir i < 0 \<or> x_dir i > 1 then (- 1, w)
          else xdma_call_ioctl ioctl dev_handle (RTPC_IOCTL CMD_XDMA_START) i w)"

definition i_vi53xx_xdma_stop :: "'a ioctl \<Rightarrow> int \<Rightarrow> xdma_info option \<Rightarrow> 'a umem_scheme \<Rightarrow> int \<times> 'a umem_scheme" where
  "i_vi53xx_xdma_stop ioctl dev_handle arg w =
     (case arg of None \<Rightarrow> (- 1, w)
      | Some i \<Rightarrow>
          if x_channel i < 0 \<or> x_channel i > 4 then (- 1, w)
          else if x_dir i < 0 \<or> x_dir i > 1 then (- 1, w)
          else xdma_call_ioctl ioctl dev_handle (RTPC_IOCTL CMD_XDMA_STOP) i w)"

definition i_vi53xx_xdma_mmap_setting :: "'a ioctl \<Rightarrow> int \<Rightarrow> xdma_info option \<Rightarrow> 'a umem_scheme \<Rightarrow> int \<times> 'a umem_scheme" where
  "i_vi53xx_xdma_mmap_setting ioctl dev_handle arg w =
     (case arg of None \<Rightarrow> (- 1, w)
      | Some i \<Rightarrow>
          if x_channel i < 0 \<or> x_channel i > 4 then (- 1, w)
          else if x_dir i < 0 \<or> x_dir i > 1 then (- 1, w)
          else xdma_call_ioctl ioctl dev_handle (RTPC_IOCTL CMD_XDMA_SETTING) i w)"

definition i_vi53xx_xdma_exit :: "'a ioctl \<Rightarrow> int \<Rightarrow> xdma_info option \<Rightarrow> 'a umem_scheme \<Rightarrow> int \<times> 'a umem_scheme" where
  "i_vi53xx_xdma_exit ioctl dev_handle arg w =
     (case arg of None \<Rightarrow> (- 1, w)
      | Some i \<Rightarrow>
          if x_channel i < 0 \<or> x_channel i > 4 then (- 1, w)
          else if x_dir i < 0 \<or> x_dir i > 1 then (- 1, w)
          else xdma_call_ioctl ioctl dev_handle (RTPC_IOCTL CMD_XDMA_EXIT) i w)"

definition vi53xx_xdma_dump :: "'a ioctl \<Rightarrow> int \<Rightarrow> xdma_info option \<Rightarrow> 'a umem_scheme \<Rightarrow> int \<times> 'a umem_scheme" where
  "vi53xx_xdma_dump ioctl dev_handle arg w =
     (case arg of None \<Rightarrow> (- 1, w)
      | Some i \<Rightarrow>
          if x_buf i = 0 then (- 1, w)
          else if x_pos i < 0 then (- 1, w)
          else if x_len i < 0 then (- 1, w)
          else if x_channel i < 0 \<or> x_channel i > 4 then (- 1, w)
          else xdma_call_ioctl ioctl dev_handle (RTPC_IOCTL CMD_XDMA_DUMP) i w)"

section \<open>The calls of the interface\<close>

text \<open>An \<open>int\<close> board id is converted to unsigned where the handle is looked up.\<close>

definition dev_handle_of :: "int \<Rightarrow> lib \<Rightarrow> dev_handle option" where
  "dev_handle_of board_id s = get_dev_handle (word_of_int board_id) s"

definition vi53xx_write_register :: "'a ioctl \<Rightarrow> xdma_info \<Rightarrow> lib \<Rightarrow> int \<Rightarrow> int \<Rightarrow> u32 \<Rightarrow> u32 \<Rightarrow> 'a umem_scheme \<Rightarrow> int \<times> 'a umem_scheme" where
  "vi53xx_write_register ioctl u s board_id bar offset val w =
     (let reg = u\<lparr>x_bar := bar, x_offset := offset, x_wr := RTPC_WRITE, x_w_val := val\<rparr>
      in case dev_handle_of board_id s of
           None \<Rightarrow> (- 1, w)
         | Some dh \<Rightarrow> vi53xx_xdma_read_write_reg ioctl (dh_dev_handle dh) (Some reg) w)"

definition vi53xx_read_register :: "'a ioctl \<Rightarrow> xdma_info \<Rightarrow> lib \<Rightarrow> int \<Rightarrow> int \<Rightarrow> u32 \<Rightarrow> u64 \<Rightarrow> 'a umem_scheme \<Rightarrow> int \<times> 'a umem_scheme" where
  "vi53xx_read_register ioctl u s board_id bar offset val w =
     (let reg = u\<lparr>x_bar := bar, x_offset := offset, x_wr := RTPC_READ, x_r_val := val\<rparr>
      in case dev_handle_of board_id s of
           None \<Rightarrow> (- 1, w)
         | Some dh \<Rightarrow> vi53xx_xdma_read_write_reg ioctl (dh_dev_handle dh) (Some reg) w)"

text \<open>\<open>direction\<close> is stored in an unsigned char.\<close>

definition vi53xx_xdma_stop :: "'a ioctl \<Rightarrow> xdma_info \<Rightarrow> lib \<Rightarrow> int \<Rightarrow> int \<Rightarrow> int \<Rightarrow> 'a umem_scheme \<Rightarrow> int \<times> 'a umem_scheme" where
  "vi53xx_xdma_stop ioctl u s board_id channel direction w =
     (let stop = u\<lparr>x_channel := channel, x_dir := word_of_int direction\<rparr>
      in case dev_handle_of board_id s of
           None \<Rightarrow> (- 1, w)
         | Some dh \<Rightarrow> i_vi53xx_xdma_stop ioctl (dh_dev_handle dh) (Some stop) w)"

definition vi53xx_xdma_start :: "'a ioctl \<Rightarrow> xdma_info \<Rightarrow> lib \<Rightarrow> int \<Rightarrow> int \<Rightarrow> int \<Rightarrow> 'a umem_scheme \<Rightarrow> int \<times> 'a umem_scheme" where
  "vi53xx_xdma_start ioctl u s board_id channel direction w =
     (let start = u\<lparr>x_channel := channel, x_dir := word_of_int direction\<rparr>
      in case dev_handle_of board_id s of
           None \<Rightarrow> (- 1, w)
         | Some dh \<Rightarrow> i_vi53xx_xdma_start ioctl (dh_dev_handle dh) (Some start) w)"

definition vi53xx_xdma_set_ch_buff :: "'a ioctl \<Rightarrow> xdma_info \<Rightarrow> lib \<Rightarrow> int \<Rightarrow> int \<Rightarrow> u64 \<Rightarrow> u64 \<Rightarrow> u64 \<Rightarrow> 'a umem_scheme \<Rightarrow> int \<times> 'a umem_scheme" where
  "vi53xx_xdma_set_ch_buff ioctl u s board_id channel buff pos len w =
     (let info = u\<lparr>x_channel := channel, x_buf := buff, x_pos := pos, x_len := len\<rparr>
      in case dev_handle_of board_id s of
           None \<Rightarrow> (- 1, w)
         | Some dh \<Rightarrow> vi53xx_xdma_write ioctl (dh_dev_handle dh) (Some info) w)"

definition vi53xx_xdma_get_ch_buff :: "'a ioctl \<Rightarrow> xdma_info \<Rightarrow> lib \<Rightarrow> int \<Rightarrow> int \<Rightarrow> u64 \<Rightarrow> u64 \<Rightarrow> u64 \<Rightarrow> 'a umem_scheme \<Rightarrow> int \<times> 'a umem_scheme" where
  "vi53xx_xdma_get_ch_buff ioctl u s board_id channel buff pos len w =
     (let info = u\<lparr>x_channel := channel, x_buf := buff, x_pos := pos, x_len := len\<rparr>
      in case dev_handle_of board_id s of
           None \<Rightarrow> (- 1, w)
         | Some dh \<Rightarrow> vi53xx_xdma_read ioctl (dh_dev_handle dh) (Some info) w)"

definition vi53xx_xdma_dump_ch_data :: "'a ioctl \<Rightarrow> xdma_info \<Rightarrow> lib \<Rightarrow> int \<Rightarrow> int \<Rightarrow> u64 \<Rightarrow> u64 \<Rightarrow> u64 \<Rightarrow> 'a umem_scheme \<Rightarrow> int \<times> 'a umem_scheme" where
  "vi53xx_xdma_dump_ch_data ioctl u s board_id channel buff pos len w =
     (case dev_handle_of board_id s of
        None \<Rightarrow> (- 1, w)
      | Some dh \<Rightarrow>
          (let info = u\<lparr>x_channel := channel, x_buf := buff, x_pos := pos, x_len := len\<rparr>
           in vi53xx_xdma_dump ioctl (dh_dev_handle dh) (Some info) w))"

text \<open>Reading a register into a local variable at \<open>sp\<close> that starts as 0.\<close>

definition read_local :: "'a ioctl \<Rightarrow> xdma_info \<Rightarrow> u64 \<Rightarrow> lib \<Rightarrow> int \<Rightarrow> int \<Rightarrow> u32 \<Rightarrow> 'a umem_scheme \<Rightarrow> u32 \<times> 'a umem_scheme" where
  "read_local ioctl u sp s board_id bar offset w =
     (let w0 = w\<lparr>u_words := (u_words w)(sp := 0)\<rparr>;
          (_, w1) = vi53xx_read_register ioctl u s board_id bar offset sp w0
      in (u_words w1 sp, w1))"

definition get_h2c_status :: "'a ioctl \<Rightarrow> xdma_info \<Rightarrow> u64 \<Rightarrow> lib \<Rightarrow> int \<Rightarrow> int \<Rightarrow> 'a umem_scheme \<Rightarrow> u32 \<times> 'a umem_scheme" where
  "get_h2c_status ioctl u sp s dev_handle channel w =
     read_local ioctl u sp s dev_handle BAR1 (word_of_int (H2C_CHANNEL_STATUS_REG + (channel - 1) * 0x100)) w"

definition get_c2h_status :: "'a ioctl \<Rightarrow> xdma_info \<Rightarrow> u64 \<Rightarrow> lib \<Rightarrow> int \<Rightarrow> int \<Rightarrow> 'a umem_scheme \<Rightarrow> u32 \<times> 'a umem_scheme" where
  "get_c2h_status ioctl u sp s dev_handle channel w =
     read_local ioctl u sp s dev_handle BAR1 (word_of_int (C2H_CHANNEL_STATUS_REG + (channel - 1) * 0x100)) w"

definition vi53xx_get_xdma_poll_status :: "'a ioctl \<Rightarrow> xdma_info \<Rightarrow> u64 \<Rightarrow> lib \<Rightarrow> int \<Rightarrow> int \<Rightarrow> int \<Rightarrow> 'a umem_scheme \<Rightarrow> u32 \<times> 'a umem_scheme" where
  "vi53xx_get_xdma_poll_status ioctl u sp s board_id channel dir w =
     (if dir = 0 then get_h2c_status ioctl u sp s board_id channel w
      else get_c2h_status ioctl u sp s board_id channel w)"

text \<open>
  \<open>mmap\<close> and \<open>munmap\<close> are arguments too. A failed \<open>mmap\<close> returns \<open>MAP_FAILED\<close>, the
  address \<open>-1\<close>, while the code tests for NULL.
\<close>

definition i_vi53xx_xdma_mmap :: "(int \<Rightarrow> u64 \<Rightarrow> 'a umem_scheme \<Rightarrow> u64 \<times> 'a umem_scheme) \<Rightarrow> int \<Rightarrow> u64 \<Rightarrow> lib \<Rightarrow> 'a umem_scheme \<Rightarrow> u64 \<times> lib \<times> 'a umem_scheme" where
  "i_vi53xx_xdma_mmap mmap dev_handle sz s w =
     (let (addr, w1) = mmap dev_handle sz w
      in if addr = 0 then (0, s\<lparr>os_log := os_log s @ [OsClose dev_handle]\<rparr>, w1)
         else (addr, s, w1))"

definition vi53xx_xdma_mmap :: "'a ioctl \<Rightarrow> (int \<Rightarrow> u64 \<Rightarrow> 'a umem_scheme \<Rightarrow> u64 \<times> 'a umem_scheme) \<Rightarrow> xdma_info \<Rightarrow> lib \<Rightarrow> int \<Rightarrow> int \<Rightarrow> int \<Rightarrow> u64 \<Rightarrow> 'a umem_scheme \<Rightarrow> u64 \<times> lib \<times> 'a umem_scheme" where
  "vi53xx_xdma_mmap ioctl mmap u s board_id channel direction sz w =
     (case dev_handle_of board_id s of
        None \<Rightarrow> (0, s, w)
      | Some dh \<Rightarrow>
          (let info = u\<lparr>x_channel := channel, x_dir := word_of_int direction\<rparr>;
               (_, w1) = i_vi53xx_xdma_mmap_setting ioctl (dh_dev_handle dh) (Some info) w
           in i_vi53xx_xdma_mmap mmap (dh_dev_handle dh) sz s w1))"

definition vi53xx_xdma_unmap :: "'a ioctl \<Rightarrow> (u64 \<Rightarrow> u64 \<Rightarrow> 'a umem_scheme \<Rightarrow> 'a umem_scheme) \<Rightarrow> xdma_info \<Rightarrow> lib \<Rightarrow> int \<Rightarrow> u64 \<Rightarrow> u64 \<Rightarrow> int \<Rightarrow> int \<Rightarrow> 'a umem_scheme \<Rightarrow> 'a umem_scheme" where
  "vi53xx_xdma_unmap ioctl munmap u s board_id addr sz channel direction w =
     (case dev_handle_of board_id s of
        None \<Rightarrow> w
      | Some dh \<Rightarrow>
          (let info = u\<lparr>x_channel := channel, x_dir := word_of_int direction\<rparr>;
               (_, w1) = i_vi53xx_xdma_exit ioctl (dh_dev_handle dh) (Some info) w
           in munmap addr sz w1))"

section \<open>Facts the clients use\<close>

lemma write_register_open:
  assumes "dev_handle_of b s = Some dh" "bar = 0 \<or> bar = 1"
  shows "vi53xx_write_register ioctl u s b bar off v w =
    ioctl (dh_dev_handle dh) (RTPC_IOCTL CMD_XDMA_REG)
      (u\<lparr>x_bar := bar, x_offset := off, x_wr := 1, x_w_val := v\<rparr>) w"
  using assms by (auto simp: vi53xx_write_register_def vi53xx_xdma_read_write_reg_def xdma_call_ioctl_def Let_def)

lemma read_register_open:
  assumes "dev_handle_of b s = Some dh" "bar = 0 \<or> bar = 1"
  shows "vi53xx_read_register ioctl u s b bar off p w =
    ioctl (dh_dev_handle dh) (RTPC_IOCTL CMD_XDMA_REG)
      (u\<lparr>x_bar := bar, x_offset := off, x_wr := 0, x_r_val := p\<rparr>) w"
  using assms by (auto simp: vi53xx_read_register_def vi53xx_xdma_read_write_reg_def xdma_call_ioctl_def Let_def)

lemma write_register_closed:
  "dev_handle_of b s = None \<Longrightarrow> vi53xx_write_register ioctl u s b bar off v w = (- 1, w)"
  by (simp add: vi53xx_write_register_def Let_def)

lemma write_register_bad_bar:
  "bar < 0 \<or> bar > 1 \<Longrightarrow> vi53xx_write_register ioctl u s b bar off v w = (- 1, w)"
  by (auto simp: vi53xx_write_register_def vi53xx_xdma_read_write_reg_def Let_def split: option.splits)

end
