(* ===== verification/RegFile.thy ===== *)
theory RegFile
  imports LibRegs
begin

text \<open>
  The contract the configuration routines of the user library rely on: a register write
  sets the register it names and no other. The routines are sequences of such writes; the
  lemmas here give the contents of every register after a sequence, once for all of them.
\<close>

locale reg_file =
  fixes wr :: "u32 \<Rightarrow> u32 \<Rightarrow> 'w \<Rightarrow> 'w"
    and rd :: "u32 \<Rightarrow> 'w \<Rightarrow> u32"
    and ok :: "'w \<Rightarrow> bool"
  assumes rd_wr: "ok w \<Longrightarrow> rd a (wr b v w) = (if a = b then v else rd a w)"
    and ok_wr: "ok w \<Longrightarrow> ok (wr b v w)"
begin

lemma rd_same: "ok w \<Longrightarrow> rd a (wr a v w) = v"
  by (simp add: rd_wr)

lemma rd_other: "ok w \<Longrightarrow> a \<noteq> b \<Longrightarrow> rd a (wr b v w) = rd a w"
  by (simp add: rd_wr)

lemma rd_sequence:
  "ok w \<Longrightarrow> ok (fold (\<lambda>(b, v). wr b v) ps w) \<and>
    rd a (fold (\<lambda>(b, v). wr b v) ps w) = (case map_of (rev ps) a of Some v \<Rightarrow> v | None \<Rightarrow> rd a w)"
proof (induction ps arbitrary: w)
  case Nil
  then show ?case by simp
next
  case (Cons p ps)
  obtain b v where p: "p = (b, v)" by force
  have "ok (wr b v w)" using Cons.prems by (rule ok_wr)
  from Cons.IH [OF this] show ?case
    using Cons.prems by (auto simp: p rd_wr map_add_def split: option.splits)
qed

lemma ok_sequence: "ok w \<Longrightarrow> ok (fold (\<lambda>(b, v). wr b v) ps w)"
  using rd_sequence [of w ps] by simp

lemma rd_untouched:
  "ok w \<Longrightarrow> a \<notin> fst ` set ps \<Longrightarrow> rd a (fold (\<lambda>(b, v). wr b v) ps w) = rd a w"
  using rd_sequence [of w ps a] by (simp add: map_of_eq_None_iff [of "rev ps" a, THEN iffD2])

end

text \<open>The writes of a library call on BAR 0 of a board, as a function of the world.\<close>

definition bar0_write :: "'a ioctl \<Rightarrow> xdma_info \<Rightarrow> lib \<Rightarrow> int \<Rightarrow> u32 \<Rightarrow> u32 \<Rightarrow> 'a umem_scheme \<Rightarrow> 'a umem_scheme" where
  "bar0_write ioctl u s board_id off val w = snd (vi53xx_write_register ioctl u s board_id BAR0 off val w)"

definition bar0_writes :: "'a ioctl \<Rightarrow> xdma_info \<Rightarrow> lib \<Rightarrow> int \<Rightarrow> (u32 \<times> u32) list \<Rightarrow> 'a umem_scheme \<Rightarrow> 'a umem_scheme" where
  "bar0_writes ioctl u s board_id ps w = fold (\<lambda>(off, val). bar0_write ioctl u s board_id off val) ps w"

lemma bar0_writes_Nil [simp]: "bar0_writes ioctl u s b [] w = w"
  by (simp add: bar0_writes_def)

lemma bar0_writes_Cons [simp]:
  "bar0_writes ioctl u s b ((off, v) # ps) w = bar0_writes ioctl u s b ps (bar0_write ioctl u s b off v w)"
  by (simp add: bar0_writes_def)

text \<open>The same contract for the BAR 0 registers of one open board, as its clients see it.\<close>

locale bar0_regs =
  fixes ioctl :: "'a ioctl" and u :: xdma_info and s :: lib and b :: int
    and rd :: "u32 \<Rightarrow> 'a umem_scheme \<Rightarrow> u32"
    and ok :: "'a umem_scheme \<Rightarrow> bool"
  assumes bar0_rd_wr: "ok w \<Longrightarrow> rd a (bar0_write ioctl u s b r v w) = (if a = r then v else rd a w)"
    and bar0_ok_wr: "ok w \<Longrightarrow> ok (bar0_write ioctl u s b r v w)"

sublocale bar0_regs \<subseteq> regs: reg_file "bar0_write ioctl u s b" rd ok
  by unfold_locales (auto simp: bar0_rd_wr bar0_ok_wr)

context bar0_regs begin

lemma rd_writes:
  assumes "ok w"
  shows "rd a (bar0_writes ioctl u s b ps w) =
    (case map_of (rev ps) a of Some v \<Rightarrow> v | None \<Rightarrow> rd a w)"
  using regs.rd_sequence [OF assms, of ps a] by (simp add: bar0_writes_def)

lemma ok_writes: "ok w \<Longrightarrow> ok (bar0_writes ioctl u s b ps w)"
  using regs.ok_sequence [of w ps] by (simp add: bar0_writes_def)

end

text \<open>The channels of the digital inputs and outputs.\<close>

lemma ch16_cases:
  assumes "1 \<le> ch" "ch \<le> (16 :: int)"
  shows "ch = 1 \<or> ch = 2 \<or> ch = 3 \<or> ch = 4 \<or> ch = 5 \<or> ch = 6 \<or> ch = 7 \<or> ch = 8 \<or>
    ch = 9 \<or> ch = 10 \<or> ch = 11 \<or> ch = 12 \<or> ch = 13 \<or> ch = 14 \<or> ch = 15 \<or> ch = 16"
  using assms by presburger

end
