(* ===== verification/DiCfg.thy ===== *)
theory DiCfg
  imports RegFile Complex_Main
begin

unbundle bit_operations_syntax

text \<open>
  The digital inputs of the ES5341 (\<open>lib/es5341_di_cfg.c\<close>): a threshold voltage is turned
  into a 10-bit code, packed with a 4-bit selector of the channel and level, written to the
  register of the channel's group while the other three groups are cleared, and latched.
  A \<open>float\<close> argument is the rational number it represents; scaling it by 1024 is exact, and
  a value that does not fit an unsigned int makes the conversion undefined. The division by
  the double 2.5 is the exact quotient. The delay between the two latch writes has no effect
  on the model.
\<close>

abbreviation (input) DIN1 :: u32 where "DIN1 \<equiv> 0x20100"
abbreviation (input) DIN2 :: u32 where "DIN2 \<equiv> 0x20110"
abbreviation (input) DIN3 :: u32 where "DIN3 \<equiv> 0x20120"
abbreviation (input) DIN4 :: u32 where "DIN4 \<equiv> 0x20130"
abbreviation (input) DIN_VLD :: u32 where "DIN_VLD \<equiv> 0x20150"

text \<open>The selector of each channel and level.\<close>

abbreviation (input) DI1_HIGHLEVEL_CONTROL :: u32 where "DI1_HIGHLEVEL_CONTROL \<equiv> 0x3"
abbreviation (input) DI1_LOWLEVEL_CONTROL :: u32 where "DI1_LOWLEVEL_CONTROL \<equiv> 0x4"
abbreviation (input) DI2_HIGHLEVEL_CONTROL :: u32 where "DI2_HIGHLEVEL_CONTROL \<equiv> 0x6"
abbreviation (input) DI2_LOWLEVEL_CONTROL :: u32 where "DI2_LOWLEVEL_CONTROL \<equiv> 0x5"
abbreviation (input) DI3_HIGHLEVEL_CONTROL :: u32 where "DI3_HIGHLEVEL_CONTROL \<equiv> 0x1"
abbreviation (input) DI3_LOWLEVEL_CONTROL :: u32 where "DI3_LOWLEVEL_CONTROL \<equiv> 0x2"
abbreviation (input) DI4_HIGHLEVEL_CONTROL :: u32 where "DI4_HIGHLEVEL_CONTROL \<equiv> 0x8"
abbreviation (input) DI4_LOWLEVEL_CONTROL :: u32 where "DI4_LOWLEVEL_CONTROL \<equiv> 0x7"
abbreviation (input) DI5_HIGHLEVEL_CONTROL :: u32 where "DI5_HIGHLEVEL_CONTROL \<equiv> 0x3"
abbreviation (input) DI5_LOWLEVEL_CONTROL :: u32 where "DI5_LOWLEVEL_CONTROL \<equiv> 0x4"
abbreviation (input) DI6_HIGHLEVEL_CONTROL :: u32 where "DI6_HIGHLEVEL_CONTROL \<equiv> 0x6"
abbreviation (input) DI6_LOWLEVEL_CONTROL :: u32 where "DI6_LOWLEVEL_CONTROL \<equiv> 0x5"
abbreviation (input) DI7_HIGHLEVEL_CONTROL :: u32 where "DI7_HIGHLEVEL_CONTROL \<equiv> 0x1"
abbreviation (input) DI7_LOWLEVEL_CONTROL :: u32 where "DI7_LOWLEVEL_CONTROL \<equiv> 0x2"
abbreviation (input) DI8_HIGHLEVEL_CONTROL :: u32 where "DI8_HIGHLEVEL_CONTROL \<equiv> 0x8"
abbreviation (input) DI8_LOWLEVEL_CONTROL :: u32 where "DI8_LOWLEVEL_CONTROL \<equiv> 0x7"
abbreviation (input) DI9_HIGHLEVEL_CONTROL :: u32 where "DI9_HIGHLEVEL_CONTROL \<equiv> 0x3"
abbreviation (input) DI9_LOWLEVEL_CONTROL :: u32 where "DI9_LOWLEVEL_CONTROL \<equiv> 0x4"
abbreviation (input) DI10_HIGHLEVEL_CONTROL :: u32 where "DI10_HIGHLEVEL_CONTROL \<equiv> 0x6"
abbreviation (input) DI10_LOWLEVEL_CONTROL :: u32 where "DI10_LOWLEVEL_CONTROL \<equiv> 0x5"
abbreviation (input) DI11_HIGHLEVEL_CONTROL :: u32 where "DI11_HIGHLEVEL_CONTROL \<equiv> 0x1"
abbreviation (input) DI11_LOWLEVEL_CONTROL :: u32 where "DI11_LOWLEVEL_CONTROL \<equiv> 0x2"
abbreviation (input) DI12_HIGHLEVEL_CONTROL :: u32 where "DI12_HIGHLEVEL_CONTROL \<equiv> 0x7"
abbreviation (input) DI12_LOWLEVEL_CONTROL :: u32 where "DI12_LOWLEVEL_CONTROL \<equiv> 0x8"
abbreviation (input) DI13_HIGHLEVEL_CONTROL :: u32 where "DI13_HIGHLEVEL_CONTROL \<equiv> 0x3"
abbreviation (input) DI13_LOWLEVEL_CONTROL :: u32 where "DI13_LOWLEVEL_CONTROL \<equiv> 0x4"
abbreviation (input) DI14_HIGHLEVEL_CONTROL :: u32 where "DI14_HIGHLEVEL_CONTROL \<equiv> 0x7"
abbreviation (input) DI14_LOWLEVEL_CONTROL :: u32 where "DI14_LOWLEVEL_CONTROL \<equiv> 0x8"
abbreviation (input) DI15_HIGHLEVEL_CONTROL :: u32 where "DI15_HIGHLEVEL_CONTROL \<equiv> 0x1"
abbreviation (input) DI15_LOWLEVEL_CONTROL :: u32 where "DI15_LOWLEVEL_CONTROL \<equiv> 0x2"
abbreviation (input) DI16_HIGHLEVEL_CONTROL :: u32 where "DI16_HIGHLEVEL_CONTROL \<equiv> 0x5"
abbreviation (input) DI16_LOWLEVEL_CONTROL :: u32 where "DI16_LOWLEVEL_CONTROL \<equiv> 0x6"

definition di_hl :: "u32 list list" where
  "di_hl =
    [[0,
      DI1_LOWLEVEL_CONTROL, DI2_LOWLEVEL_CONTROL, DI3_LOWLEVEL_CONTROL, DI4_LOWLEVEL_CONTROL,
      DI5_LOWLEVEL_CONTROL, DI6_LOWLEVEL_CONTROL, DI7_LOWLEVEL_CONTROL, DI8_LOWLEVEL_CONTROL,
      DI9_LOWLEVEL_CONTROL, DI10_LOWLEVEL_CONTROL, DI11_LOWLEVEL_CONTROL, DI12_LOWLEVEL_CONTROL,
      DI13_LOWLEVEL_CONTROL, DI14_LOWLEVEL_CONTROL, DI15_LOWLEVEL_CONTROL, DI16_LOWLEVEL_CONTROL],
     [0,
      DI1_HIGHLEVEL_CONTROL, DI2_HIGHLEVEL_CONTROL, DI3_HIGHLEVEL_CONTROL, DI4_HIGHLEVEL_CONTROL,
      DI5_HIGHLEVEL_CONTROL, DI6_HIGHLEVEL_CONTROL, DI7_HIGHLEVEL_CONTROL, DI8_HIGHLEVEL_CONTROL,
      DI9_HIGHLEVEL_CONTROL, DI10_HIGHLEVEL_CONTROL, DI11_HIGHLEVEL_CONTROL, DI12_HIGHLEVEL_CONTROL,
      DI13_HIGHLEVEL_CONTROL, DI14_HIGHLEVEL_CONTROL, DI15_HIGHLEVEL_CONTROL, DI16_HIGHLEVEL_CONTROL]]"

definition din_vld :: "'a ioctl \<Rightarrow> xdma_info \<Rightarrow> lib \<Rightarrow> u32 \<Rightarrow> u32 \<Rightarrow> 'a umem_scheme \<Rightarrow> 'a umem_scheme" where
  "din_vld ioctl u s board_id val w = bar0_write ioctl u s (sint board_id) DIN_VLD val w"

definition DIN1_config :: "'a ioctl \<Rightarrow> xdma_info \<Rightarrow> lib \<Rightarrow> u32 \<Rightarrow> u32 \<Rightarrow> 'a umem_scheme \<Rightarrow> 'a umem_scheme" where
  "DIN1_config ioctl u s board_id val w = bar0_write ioctl u s (sint board_id) DIN1 val w"

definition DIN2_config :: "'a ioctl \<Rightarrow> xdma_info \<Rightarrow> lib \<Rightarrow> u32 \<Rightarrow> u32 \<Rightarrow> 'a umem_scheme \<Rightarrow> 'a umem_scheme" where
  "DIN2_config ioctl u s board_id val w = bar0_write ioctl u s (sint board_id) DIN2 val w"

definition DIN3_config :: "'a ioctl \<Rightarrow> xdma_info \<Rightarrow> lib \<Rightarrow> u32 \<Rightarrow> u32 \<Rightarrow> 'a umem_scheme \<Rightarrow> 'a umem_scheme" where
  "DIN3_config ioctl u s board_id val w = bar0_write ioctl u s (sint board_id) DIN3 val w"

definition DIN4_config :: "'a ioctl \<Rightarrow> xdma_info \<Rightarrow> lib \<Rightarrow> u32 \<Rightarrow> u32 \<Rightarrow> 'a umem_scheme \<Rightarrow> 'a umem_scheme" where
  "DIN4_config ioctl u s board_id val w = bar0_write ioctl u s (sint board_id) DIN4 val w"

definition Call_DI_Config :: "'a ioctl \<Rightarrow> xdma_info \<Rightarrow> lib \<Rightarrow> u32 \<Rightarrow> int \<Rightarrow> u32 \<Rightarrow> 'a umem_scheme \<Rightarrow> 'a umem_scheme" where
  "Call_DI_Config ioctl u s b channel val w =
     (let w1 =
        (if channel \<in> {1, 2, 3, 4} then
           DIN1_config ioctl u s b 0 (DIN2_config ioctl u s b 0
             (DIN3_config ioctl u s b 0 (DIN4_config ioctl u s b val w)))
         else if channel \<in> {5, 6, 7, 8} then
           DIN1_config ioctl u s b 0 (DIN2_config ioctl u s b 0
             (DIN4_config ioctl u s b 0 (DIN3_config ioctl u s b val w)))
         else if channel \<in> {9, 10, 11, 12} then
           DIN1_config ioctl u s b 0 (DIN4_config ioctl u s b 0
             (DIN3_config ioctl u s b 0 (DIN2_config ioctl u s b val w)))
         else if channel \<in> {13, 14, 15, 16} then
           DIN4_config ioctl u s b 0 (DIN3_config ioctl u s b 0
             (DIN2_config ioctl u s b 0 (DIN1_config ioctl u s b val w)))
         else w)
      in din_vld ioctl u s b 0 (din_vld ioctl u s b 1 w1))"

text \<open>Conversion of a floating-point value to \<open>unsigned int\<close>: truncation, if the result fits.\<close>

definition c_uint :: "rat \<Rightarrow> u32 res" where
  "c_uint x = (if - 1 < x \<and> x < 4294967296 then Inr (word_of_int (if 0 \<le> x then \<lfloor>x\<rfloor> else \<lceil>x\<rceil>))
     else Inl BadConversion)"

definition get_input_code :: "rat \<Rightarrow> u32 res" where
  "get_input_code val =
     bindR (c_uint (val * 1024)) (\<lambda>n. c_uint (of_nat (unat n) / (5 / 2)))"

definition get_control :: "int \<Rightarrow> int \<Rightarrow> u32 res" where
  "get_control channel highlow = bindR (nthI di_hl highlow) (\<lambda>row. nthI row channel)"

definition get_reg_value :: "int \<Rightarrow> int \<Rightarrow> u32 \<Rightarrow> u32 res" where
  "get_reg_value channel highlow input_code =
     bindR (get_control channel highlow) (\<lambda>control.
       Inr (push_bit 12 control OR push_bit 2 input_code))"

definition get_di_value :: "int \<Rightarrow> int \<Rightarrow> rat \<Rightarrow> u32 res" where
  "get_di_value channel highlow val =
     bindR (get_input_code val) (\<lambda>code. get_reg_value channel highlow code)"

definition handler_di_config :: "'a ioctl \<Rightarrow> xdma_info \<Rightarrow> lib \<Rightarrow> u32 \<Rightarrow> int \<Rightarrow> int \<Rightarrow> rat \<Rightarrow> 'a umem_scheme \<Rightarrow> 'a umem_scheme res" where
  "handler_di_config ioctl u s board_id ch highlow value w =
     bindR (get_di_value ch highlow value) (\<lambda>val. Inr (Call_DI_Config ioctl u s board_id ch val w))"

text \<open>
  \<open>es5341_di_cfg_init\<close>: the loop that logs the boards in error reads the first \<open>ret\<close>
  entries of the error array.
\<close>

definition es5341_di_cfg_init :: "os \<Rightarrow> u32 \<Rightarrow> lib \<Rightarrow> (int \<times> lib) res" where
  "es5341_di_cfg_init env board_id s =
     bindR (check_boards_info env s) (\<lambda>(ret, s1).
     if ret \<noteq> 0 then
       bindR (if ret > 0 then
                bindR (derefR (vi53xx_get_error_boards_info s1))
                  (\<lambda>l. guardR (nat ret \<le> length l) OutOfBounds)
              else Inr ()) (\<lambda>_.
       Inr (- 1, free_board_info board_id s1))
     else
       bindR (vi53xx_device_open env board_id s1) (\<lambda>(h, s2).
         if h < 0 then Inr (- 1, s2) else Inr (0, s2)))"

definition es5341_di_cfg_exit :: "u32 \<Rightarrow> lib \<Rightarrow> lib" where
  "es5341_di_cfg_exit board_id s = vi53xx_device_close board_id s"

section \<open>The code of a voltage\<close>

lemma c_uint_nat: "n < 4294967296 \<Longrightarrow> c_uint (of_nat n) = Inr (of_nat n)"
  by (simp add: c_uint_def less_le_trans [of "-1" 0])

lemma c_uint_quotient:
  assumes "n < 4294967296"
  shows "c_uint (of_nat n / (5 / 2)) = Inr (of_nat (2 * n div 5))"
proof -
  have e: "(of_nat n / (5 / 2) :: rat) = of_nat (2 * n) / of_nat 5" by simp
  have f: "\<lfloor>(of_nat n / (5 / 2) :: rat)\<rfloor> = int (2 * n div 5)"
    unfolding e floor_divide_of_nat_eq by simp
  have lt: "(of_nat n / (5 / 2) :: rat) < 4294967296"
  proof -
    have "(of_nat n :: rat) < 4294967296"
      using assms by (metis of_nat_less_iff of_nat_numeral)
    then show ?thesis by simp
  qed
  have nn: "0 \<le> (of_nat n / (5 / 2) :: rat)" by simp
  then have "- 1 < (of_nat n / (5 / 2) :: rat)" by linarith
  with lt nn show ?thesis unfolding c_uint_def f by simp
qed

text \<open>A threshold is rounded down twice: to 1/1024 of a volt, then to a step of 2.5/1024 volt.\<close>

lemma get_input_code_eq:
  assumes "0 \<le> val" "val * 1024 < 4294967296"
  shows "get_input_code val = Inr (of_nat (2 * nat \<lfloor>val * 1024\<rfloor> div 5))"
proof -
  let ?n = "nat \<lfloor>val * 1024\<rfloor>"
  have fl: "0 \<le> \<lfloor>val * 1024\<rfloor>" using assms(1) by simp
  have "\<lfloor>val * 1024\<rfloor> < 4294967296" using assms(2) by (simp add: floor_less_iff)
  then have n: "?n < 4294967296" using fl by linarith
  have "- 1 < val * 1024" using assms(1) by (simp add: less_le_trans [of "-1" 0])
  then have c: "c_uint (val * 1024) = Inr (of_nat ?n)"
    using assms fl by (simp add: c_uint_def)
  have un: "unat (of_nat ?n :: u32) = ?n" using n by (simp add: unat_of_nat)
  show ?thesis unfolding get_input_code_def c bindR.simps un by (rule c_uint_quotient [OF n])
qed

text \<open>The code has ten bits exactly below 2.5 volt.\<close>

lemma code_small_iff:
  assumes "0 \<le> (val :: rat)"
  shows "2 * nat \<lfloor>val * 1024\<rfloor> div 5 < 1024 \<longleftrightarrow> val < 5 / 2"
proof -
  have fl: "0 \<le> \<lfloor>val * 1024\<rfloor>" using assms by simp
  have "2 * nat \<lfloor>val * 1024\<rfloor> div 5 < 1024 \<longleftrightarrow> nat \<lfloor>val * 1024\<rfloor> < 2560" by linarith
  also have "\<dots> \<longleftrightarrow> \<lfloor>val * 1024\<rfloor> < 2560" using fl by linarith
  also have "\<dots> \<longleftrightarrow> val < 5 / 2" by (simp add: floor_less_iff mult.commute)
  finally show ?thesis .
qed

lemma code_word:
  assumes "0 \<le> val" "val * 1024 < (4294967296 :: rat)"
  shows "unat (of_nat (2 * nat \<lfloor>val * 1024\<rfloor> div 5) :: u32) = 2 * nat \<lfloor>val * 1024\<rfloor> div 5"
proof -
  have "\<lfloor>val * 1024\<rfloor> < 4294967296" using assms(2) by (simp add: floor_less_iff)
  moreover have "0 \<le> \<lfloor>val * 1024\<rfloor>" using assms(1) by simp
  ultimately have "nat \<lfloor>val * 1024\<rfloor> < 4294967296" by linarith
  then have "2 * nat \<lfloor>val * 1024\<rfloor> div 5 < 4294967296" by linarith
  then show ?thesis by (simp add: unat_of_nat take_bit_nat_eq_self)
qed

section \<open>The register value\<close>

definition di_pack :: "u32 \<times> u32 \<Rightarrow> u32" where
  "di_pack = (\<lambda>(control, code). push_bit 12 control OR push_bit 2 code)"

definition di_unpack :: "u32 \<Rightarrow> u32 \<times> u32" where
  "di_unpack v = (drop_bit 12 v, take_bit 10 (drop_bit 2 v))"

lemma di_unpack_pack:
  assumes "unat control < 16" "unat code < 1024"
  shows "di_unpack (di_pack (control, code)) = (control, code)"
proof -
  have c: "take_bit 4 control = control" and d: "take_bit 10 code = code"
    using assms by (simp_all add: take_bit_word_small)
  have bits: "bit control i \<Longrightarrow> i < 4" "bit code i \<Longrightarrow> i < 10" for i
    using c d by (metis bit_take_bit_iff)+
  have "drop_bit 12 (di_pack (control, code)) = control"
    unfolding di_pack_def prod.case by (rule bit_word_eqI) (auto simp: bit_simps dest: bits)
  moreover have "take_bit 10 (drop_bit 2 (di_pack (control, code))) = code"
    unfolding di_pack_def prod.case by (rule bit_word_eqI) (auto simp: bit_simps dest: bits)
  ultimately show ?thesis by (simp add: di_unpack_def)
qed

interpretation di_value: codec di_pack di_unpack "\<lambda>(control, code). unat control < 16 \<and> unat code < 1024"
proof unfold_locales
  fix x :: "u32 \<times> u32"
  obtain c d where x: "x = (c, d)" by force
  assume "case x of (control, code) \<Rightarrow> unat control < 16 \<and> unat code < 1024"
  then have h: "unat c < 16 \<and> unat d < 1024" unfolding x prod.case .
  show "di_unpack (di_pack x) = x" unfolding x using h by (simp add: di_unpack_pack)
qed

text \<open>The selectors of the tables: one of 4 bits for each channel and level.\<close>

lemma get_control_table:
  assumes "1 \<le> ch" "ch \<le> 16" "hl = 0 \<or> hl = 1"
  shows "get_control ch hl = Inr (di_hl ! nat hl ! nat ch)" "unat (di_hl ! nat hl ! nat ch) < 16"
  using ch16_cases [OF assms(1,2)] assms(3)
  by (elim disjE; simp add: get_control_def di_hl_def)+

text \<open>Selector and code can be read back exactly from codes of ten bits.\<close>

lemma di_readable_iff:
  assumes "unat ctl < 16" "0 \<le> val" "val * 1024 < (4294967296 :: rat)"
  shows "di_unpack (di_pack (ctl, of_nat (2 * nat \<lfloor>val * 1024\<rfloor> div 5))) = (ctl, of_nat (2 * nat \<lfloor>val * 1024\<rfloor> div 5))
    \<longleftrightarrow> val < 5 / 2"
proof -
  let ?code = "of_nat (2 * nat \<lfloor>val * 1024\<rfloor> div 5) :: u32"
  have small: "unat ?code < 1024 \<longleftrightarrow> val < 5 / 2"
    unfolding code_word [OF assms(2,3)] by (rule code_small_iff [OF assms(2)])
  have "unat (take_bit 10 w) < 1024" for w :: u32
    using take_bit_nat_less_exp [of 10 "unat w"] by (simp add: unsigned_take_bit_eq)
  then have "unat ?code < 1024" if "di_unpack (di_pack (ctl, ?code)) = (ctl, ?code)"
    using that unfolding di_unpack_def by (metis snd_conv)
  then show ?thesis using small di_unpack_pack [OF assms(1)] by blast
qed

text \<open>
  At 3 volt the low level of channel 16 is configured with the selector of the high level of
  channel 14, which has the same group register.
\<close>

lemma high_threshold_changes_selector:
  "get_control 16 0 = Inr DI16_LOWLEVEL_CONTROL \<and> get_control 14 1 = Inr DI14_HIGHLEVEL_CONTROL \<and>
   (\<exists>val. get_di_value 16 0 3 = Inr val \<and> di_unpack val = (DI14_HIGHLEVEL_CONTROL, 204))"
proof -
  have t: "get_control 16 0 = Inr DI16_LOWLEVEL_CONTROL" "get_control 14 1 = Inr DI14_HIGHLEVEL_CONTROL"
    by (simp_all add: get_control_def di_hl_def)
  have "get_input_code 3 = Inr (of_nat (2 * nat \<lfloor>(3 :: rat) * 1024\<rfloor> div 5))" by (rule get_input_code_eq) simp_all
  then have c: "get_input_code 3 = Inr 1228" by simp
  show ?thesis by (simp add: t get_di_value_def c get_reg_value_def di_unpack_def)
qed

section \<open>The registers after a configuration\<close>

text \<open>The register of the group a channel belongs to: the groups are numbered backwards.\<close>

definition din_reg :: "int \<Rightarrow> u32" where
  "din_reg ch = (if ch \<le> 4 then DIN4 else if ch \<le> 8 then DIN3 else if ch \<le> 12 then DIN2 else DIN1)"

lemmas din_defs = Call_DI_Config_def DIN1_config_def DIN2_config_def DIN3_config_def DIN4_config_def din_vld_def

text \<open>The writes of a configuration: the four group registers in some order, then the latch.\<close>

lemma Call_DI_Config_eq:
  assumes "1 \<le> ch" "ch \<le> 16"
  shows "\<exists>ps. Call_DI_Config ioctl u s bid ch val w =
      bar0_writes ioctl u s (sint bid) (ps @ [(DIN_VLD, 1), (DIN_VLD, 0)]) w \<and>
    (\<forall>r. map_of (rev ps) r =
      (if r = din_reg ch then Some val else if r \<in> {DIN1, DIN2, DIN3, DIN4} then Some 0 else None))"
proof -
  have "ch \<in> {1, 2, 3, 4} \<or> ch \<in> {5, 6, 7, 8} \<or> ch \<in> {9, 10, 11, 12} \<or> ch \<in> {13, 14, 15, 16}"
    using ch16_cases [OF assms] by simp
  then consider "ch \<in> {1, 2, 3, 4}" | "ch \<in> {5, 6, 7, 8}" | "ch \<in> {9, 10, 11, 12}" | "ch \<in> {13, 14, 15, 16}"
    by blast
  then show ?thesis
  proof cases
    case 1
    then have "din_reg ch = DIN4" by (auto simp: din_reg_def)
    moreover have "Call_DI_Config ioctl u s bid ch val w = bar0_writes ioctl u s (sint bid)
        ([(DIN4, val), (DIN3, 0), (DIN2, 0), (DIN1, 0)] @ [(DIN_VLD, 1), (DIN_VLD, 0)]) w"
      using 1 by (elim insertE emptyE) (simp_all add: din_defs)
    ultimately show ?thesis by (intro exI [of _ "[(DIN4, val), (DIN3, 0), (DIN2, 0), (DIN1, 0)]"]) simp
  next
    case 2
    then have "din_reg ch = DIN3" by (auto simp: din_reg_def)
    moreover have "Call_DI_Config ioctl u s bid ch val w = bar0_writes ioctl u s (sint bid)
        ([(DIN3, val), (DIN4, 0), (DIN2, 0), (DIN1, 0)] @ [(DIN_VLD, 1), (DIN_VLD, 0)]) w"
      using 2 by (elim insertE emptyE) (simp_all add: din_defs)
    ultimately show ?thesis by (intro exI [of _ "[(DIN3, val), (DIN4, 0), (DIN2, 0), (DIN1, 0)]"]) simp
  next
    case 3
    then have "din_reg ch = DIN2" by (auto simp: din_reg_def)
    moreover have "Call_DI_Config ioctl u s bid ch val w = bar0_writes ioctl u s (sint bid)
        ([(DIN2, val), (DIN3, 0), (DIN4, 0), (DIN1, 0)] @ [(DIN_VLD, 1), (DIN_VLD, 0)]) w"
      using 3 by (elim insertE emptyE) (simp_all add: din_defs)
    ultimately show ?thesis by (intro exI [of _ "[(DIN2, val), (DIN3, 0), (DIN4, 0), (DIN1, 0)]"]) simp
  next
    case 4
    then have "din_reg ch = DIN1" by (auto simp: din_reg_def)
    moreover have "Call_DI_Config ioctl u s bid ch val w = bar0_writes ioctl u s (sint bid)
        ([(DIN1, val), (DIN2, 0), (DIN3, 0), (DIN4, 0)] @ [(DIN_VLD, 1), (DIN_VLD, 0)]) w"
      using 4 by (elim insertE emptyE) (simp_all add: din_defs)
    ultimately show ?thesis by (intro exI [of _ "[(DIN1, val), (DIN2, 0), (DIN3, 0), (DIN4, 0)]"]) simp
  qed
qed

context bar0_regs begin

lemma di_config_effect:
  assumes "ok w" "1 \<le> ch" "ch \<le> 16" "b = sint bid"
  shows "rd a (Call_DI_Config ioctl u s bid ch val w) =
    (if a = DIN_VLD then 0 else if a = din_reg ch then val
     else if a \<in> {DIN1, DIN2, DIN3, DIN4} then 0 else rd a w)"
proof -
  obtain ps where c: "Call_DI_Config ioctl u s bid ch val w =
      bar0_writes ioctl u s b (ps @ [(DIN_VLD, 1), (DIN_VLD, 0)]) w"
    and m: "\<And>r. map_of (rev ps) r =
      (if r = din_reg ch then Some val else if r \<in> {DIN1, DIN2, DIN3, DIN4} then Some 0 else None)"
    using Call_DI_Config_eq [OF assms(2,3)] assms(4) by metis
  have "map_of (rev (ps @ [(DIN_VLD, 1), (DIN_VLD, 0)])) a =
      (if a = DIN_VLD then Some 0 else map_of (rev ps) a)" by simp
  then have "rd a (Call_DI_Config ioctl u s bid ch val w) =
      (case (if a = DIN_VLD then Some 0 else map_of (rev ps) a) of Some v \<Rightarrow> v | None \<Rightarrow> rd a w)"
    by (simp only: c rd_writes [OF assms(1)])
  then show ?thesis
    by (simp only: m if_distrib [of "case_option _ _"] option.case)
qed

end

end
