(* ===== verification/DoCfg.thy ===== *)
theory DoCfg
  imports RegFile
begin

text \<open>
  The digital outputs of the ES5341 (\<open>lib/es5341_do_cfg.c\<close>): each of the 16 channels has an
  enable and a reference register, and the board one register for the secondary reference
  voltage. The sixteen functions \<open>DO1_config\<close> to \<open>DO16_config\<close> that a macro generates are
  one function of the two registers here.
\<close>

abbreviation (input) DO1_En :: u32 where "DO1_En \<equiv> 0x10100"
abbreviation (input) DO1_Ref :: u32 where "DO1_Ref \<equiv> 0x10104"
abbreviation (input) DO2_En :: u32 where "DO2_En \<equiv> 0x10108"
abbreviation (input) DO2_Ref :: u32 where "DO2_Ref \<equiv> 0x1010C"
abbreviation (input) DO3_En :: u32 where "DO3_En \<equiv> 0x10110"
abbreviation (input) DO3_Ref :: u32 where "DO3_Ref \<equiv> 0x10114"
abbreviation (input) DO4_En :: u32 where "DO4_En \<equiv> 0x10118"
abbreviation (input) DO4_Ref :: u32 where "DO4_Ref \<equiv> 0x1011C"
abbreviation (input) DO5_En :: u32 where "DO5_En \<equiv> 0x10120"
abbreviation (input) DO5_Ref :: u32 where "DO5_Ref \<equiv> 0x10124"
abbreviation (input) DO6_En :: u32 where "DO6_En \<equiv> 0x10128"
abbreviation (input) DO6_Ref :: u32 where "DO6_Ref \<equiv> 0x1012C"
abbreviation (input) DO7_En :: u32 where "DO7_En \<equiv> 0x10130"
abbreviation (input) DO7_Ref :: u32 where "DO7_Ref \<equiv> 0x10134"
abbreviation (input) DO8_En :: u32 where "DO8_En \<equiv> 0x10138"
abbreviation (input) DO8_Ref :: u32 where "DO8_Ref \<equiv> 0x1013C"
abbreviation (input) DO9_En :: u32 where "DO9_En \<equiv> 0x10140"
abbreviation (input) DO9_Ref :: u32 where "DO9_Ref \<equiv> 0x10144"
abbreviation (input) DO10_En :: u32 where "DO10_En \<equiv> 0x10148"
abbreviation (input) DO10_Ref :: u32 where "DO10_Ref \<equiv> 0x1014C"
abbreviation (input) DO11_En :: u32 where "DO11_En \<equiv> 0x10150"
abbreviation (input) DO11_Ref :: u32 where "DO11_Ref \<equiv> 0x10154"
abbreviation (input) DO12_En :: u32 where "DO12_En \<equiv> 0x10158"
abbreviation (input) DO12_Ref :: u32 where "DO12_Ref \<equiv> 0x1015C"
abbreviation (input) DO13_En :: u32 where "DO13_En \<equiv> 0x10160"
abbreviation (input) DO13_Ref :: u32 where "DO13_Ref \<equiv> 0x10164"
abbreviation (input) DO14_En :: u32 where "DO14_En \<equiv> 0x10168"
abbreviation (input) DO14_Ref :: u32 where "DO14_Ref \<equiv> 0x1016C"
abbreviation (input) DO15_En :: u32 where "DO15_En \<equiv> 0x10170"
abbreviation (input) DO15_Ref :: u32 where "DO15_Ref \<equiv> 0x10174"
abbreviation (input) DO16_En :: u32 where "DO16_En \<equiv> 0x10178"
abbreviation (input) DO16_Ref :: u32 where "DO16_Ref \<equiv> 0x1017C"
abbreviation (input) F_VOLT_SEC_REF :: u32 where "F_VOLT_SEC_REF \<equiv> 0x10180"

definition DO_config :: "u32 \<Rightarrow> u32 \<Rightarrow> 'a ioctl \<Rightarrow> xdma_info \<Rightarrow> lib \<Rightarrow> u32 \<Rightarrow> u8 \<Rightarrow> u8 \<Rightarrow> 'a umem_scheme \<Rightarrow> 'a umem_scheme" where
  "DO_config en_reg ref_reg ioctl u s board_id en ref w =
     bar0_write ioctl u s (sint board_id) ref_reg (ucast ref)
       (bar0_write ioctl u s (sint board_id) en_reg (ucast en) w)"

definition Call_DO_Config :: "'a ioctl \<Rightarrow> xdma_info \<Rightarrow> lib \<Rightarrow> u32 \<Rightarrow> int \<Rightarrow> u8 \<Rightarrow> u8 \<Rightarrow> 'a umem_scheme \<Rightarrow> 'a umem_scheme" where
  "Call_DO_Config ioctl u s b channel en ref w =
     (if channel = 1 then DO_config DO1_En DO1_Ref ioctl u s b en ref w
      else if channel = 2 then DO_config DO2_En DO2_Ref ioctl u s b en ref w
      else if channel = 3 then DO_config DO3_En DO3_Ref ioctl u s b en ref w
      else if channel = 4 then DO_config DO4_En DO4_Ref ioctl u s b en ref w
      else if channel = 5 then DO_config DO5_En DO5_Ref ioctl u s b en ref w
      else if channel = 6 then DO_config DO6_En DO6_Ref ioctl u s b en ref w
      else if channel = 7 then DO_config DO7_En DO7_Ref ioctl u s b en ref w
      else if channel = 8 then DO_config DO8_En DO8_Ref ioctl u s b en ref w
      else if channel = 9 then DO_config DO9_En DO9_Ref ioctl u s b en ref w
      else if channel = 10 then DO_config DO10_En DO10_Ref ioctl u s b en ref w
      else if channel = 11 then DO_config DO11_En DO11_Ref ioctl u s b en ref w
      else if channel = 12 then DO_config DO12_En DO12_Ref ioctl u s b en ref w
      else if channel = 13 then DO_config DO13_En DO13_Ref ioctl u s b en ref w
      else if channel = 14 then DO_config DO14_En DO14_Ref ioctl u s b en ref w
      else if channel = 15 then DO_config DO15_En DO15_Ref ioctl u s b en ref w
      else if channel = 16 then DO_config DO16_En DO16_Ref ioctl u s b en ref w
      else w)"

definition handler_f_voit_sec_ref :: "'a ioctl \<Rightarrow> xdma_info \<Rightarrow> lib \<Rightarrow> u32 \<Rightarrow> u8 \<Rightarrow> 'a umem_scheme \<Rightarrow> 'a umem_scheme" where
  "handler_f_voit_sec_ref ioctl u s board_id val w =
     bar0_write ioctl u s (sint board_id) F_VOLT_SEC_REF (ucast val) w"

definition handler_do_config :: "'a ioctl \<Rightarrow> xdma_info \<Rightarrow> lib \<Rightarrow> u32 \<Rightarrow> int \<Rightarrow> u8 \<Rightarrow> u8 \<Rightarrow> 'a umem_scheme \<Rightarrow> 'a umem_scheme" where
  "handler_do_config ioctl u s board_id channel en ref w = Call_DO_Config ioctl u s board_id channel en ref w"

definition es5341_do_cfg_init :: "os \<Rightarrow> u32 \<Rightarrow> lib \<Rightarrow> (int \<times> lib) res" where
  "es5341_do_cfg_init env board_id s =
     bindR (check_boards_info env s) (\<lambda>(ret, s1).
     if ret \<noteq> 0 then
       bindR (if ret > 0 then
                bindR (derefR (vi53xx_get_error_boards_info s1))
                  (\<lambda>l. guardR (nat ret \<le> length l) OutOfBounds)
              else Inr ()) (\<lambda>_.
       Inr (- 1, free_board_info board_id s1))
     else
       bindR (vi53xx_device_open env board_id s1) (\<lambda>(h, s2).
         if h < 0 then Inr (- 1, s2) else Inr (0, s2)))"

definition es5341_do_cfg_exit :: "u32 \<Rightarrow> lib \<Rightarrow> lib" where
  "es5341_do_cfg_exit board_id s = vi53xx_device_close board_id s"

section \<open>The registers of a channel\<close>

definition do_en_reg :: "int \<Rightarrow> u32" where
  "do_en_reg ch = 0x10100 + 8 * word_of_int (ch - 1)"

lemma Call_DO_Config_eq:
  "Call_DO_Config ioctl u s b ch en ref w =
     (if 1 \<le> ch \<and> ch \<le> 16
      then bar0_writes ioctl u s (sint b) [(do_en_reg ch, ucast en), (do_en_reg ch + 4, ucast ref)] w
      else w)"
proof (cases "1 \<le> ch \<and> ch \<le> 16")
  case True
  then have c: "ch = 1 \<or> ch = 2 \<or> ch = 3 \<or> ch = 4 \<or> ch = 5 \<or> ch = 6 \<or> ch = 7 \<or> ch = 8 \<or>
      ch = 9 \<or> ch = 10 \<or> ch = 11 \<or> ch = 12 \<or> ch = 13 \<or> ch = 14 \<or> ch = 15 \<or> ch = 16"
    by (intro ch16_cases) simp_all
  then show ?thesis
    by (elim disjE; simp add: Call_DO_Config_def DO_config_def do_en_reg_def)
next
  case False
  then show ?thesis by (auto simp: Call_DO_Config_def)
qed

lemma do_en_reg_inj:
  assumes "1 \<le> i" "i \<le> 16" "1 \<le> j" "j \<le> 16"
  shows "do_en_reg i = do_en_reg j \<longleftrightarrow> i = j" "do_en_reg i \<noteq> do_en_reg j + 4"
    "do_en_reg i \<noteq> F_VOLT_SEC_REF" "do_en_reg i + 4 \<noteq> F_VOLT_SEC_REF"
  using ch16_cases [OF assms(1,2)] ch16_cases [OF assms(3,4)]
  by (elim disjE; simp add: do_en_reg_def)+

context bar0_regs begin

lemma do_config_effect:
  assumes "ok w" "1 \<le> ch" "ch \<le> 16" "b = sint bid"
  shows "rd a (handler_do_config ioctl u s bid ch en ref w) =
    (if a = do_en_reg ch then ucast en else if a = do_en_reg ch + 4 then ucast ref else rd a w)"
proof -
  have "handler_do_config ioctl u s bid ch en ref w =
      bar0_writes ioctl u s b [(do_en_reg ch, ucast en), (do_en_reg ch + 4, ucast ref)] w"
    using assms by (simp only: handler_do_config_def Call_DO_Config_eq) simp
  then show ?thesis by (simp only: rd_writes [OF assms(1)]) simp
qed

end

end
