(* ===== verification/Scope.thy ===== *)
theory Scope
  imports RegFile
begin

unbundle bit_operations_syntax

text \<open>
  The oscilloscope module of the user library (\<open>scope_*\<close>, \<open>start_scope\<close>,
  \<open>clear_a_buff\<close> and \<open>get_buff_status\<close> of \<open>lib/vi53xx_xdma.c\<close>): each operation is a
  sequence of register writes on BAR 0 of one board, two of them after reading a register
  into a local variable. The delays between writes have no effect on the model. In
  \<open>scope_select_ch\<close> the shift of a byte into the sign bit of an \<open>int\<close> wraps, as gcc
  defines it.
\<close>

definition scope_init_config :: "'a ioctl \<Rightarrow> xdma_info \<Rightarrow> lib \<Rightarrow> int \<Rightarrow> 'a umem_scheme \<Rightarrow> 'a umem_scheme" where
  "scope_init_config ioctl u s dev_handle w =
     bar0_writes ioctl u s dev_handle
       [(0x04, 0x00), (0x0c, 0x00), (0x1004, 0x00), (0x100c, 0x00), (0x2004, 0x00), (0x200c, 0x00),
        (0x3004, 0xFFFFFFFF), (0x300c, 0xFFFFFFFF)] w"

text \<open>The loop that packs four bytes, from \<open>datachlsel[k]\<close>, into \<open>tmpval\<close>.\<close>

function pack_from :: "u8 list \<Rightarrow> nat \<Rightarrow> nat \<Rightarrow> u32 \<Rightarrow> u32 res" where
  "pack_from xs k i tmpval =
     (if i < 4 then bindR (nthR xs (i + k)) (\<lambda>b.
        pack_from xs k (Suc i) (tmpval OR push_bit (8 * i) (ucast b)))
      else Inr tmpval)"
  by pat_completeness auto
termination
  by (relation "measure (\<lambda>(xs, k, i, t). 4 - i)") auto

declare pack_from.simps [simp del]

definition scope_select_ch :: "'a ioctl \<Rightarrow> xdma_info \<Rightarrow> lib \<Rightarrow> int \<Rightarrow> u8 list \<Rightarrow> 'a umem_scheme \<Rightarrow> 'a umem_scheme res" where
  "scope_select_ch ioctl u s board_id datachlsel w =
     bindR (pack_from datachlsel 0 0 0) (\<lambda>lo.
     let w1 = bar0_write ioctl u s board_id 0x00 lo w in
     bindR (pack_from datachlsel 4 0 0) (\<lambda>hi.
     Inr (bar0_write ioctl u s board_id 0x08 hi w1)))"

definition scope_slect_mode :: "'a ioctl \<Rightarrow> xdma_info \<Rightarrow> lib \<Rightarrow> int \<Rightarrow> u8 \<Rightarrow> 'a umem_scheme \<Rightarrow> 'a umem_scheme" where
  "scope_slect_mode ioctl u s board_id modeSel w =
     (let v0 = 0; value = (if modeSel \<noteq> 0 then (v0 OR push_bit 16 1) + 1 else 1)
      in bar0_writes ioctl u s board_id [(0x2008, 0x0), (0x2000, value), (0x2008, 0x1)] w)"

definition start_scope :: "'a ioctl \<Rightarrow> xdma_info \<Rightarrow> lib \<Rightarrow> int \<Rightarrow> 'a umem_scheme \<Rightarrow> 'a umem_scheme" where
  "start_scope ioctl u s board_id w = bar0_writes ioctl u s board_id [(0x4000, 0x1), (0x4000, 0x0)] w"

definition scope_clock_sampling :: "'a ioctl \<Rightarrow> xdma_info \<Rightarrow> lib \<Rightarrow> int \<Rightarrow> 'a umem_scheme \<Rightarrow> 'a umem_scheme" where
  "scope_clock_sampling ioctl u s board_id w = bar0_write ioctl u s board_id 0x1000 150 w"

definition scope_count_sampling :: "'a ioctl \<Rightarrow> xdma_info \<Rightarrow> lib \<Rightarrow> int \<Rightarrow> u32 \<Rightarrow> 'a umem_scheme \<Rightarrow> 'a umem_scheme" where
  "scope_count_sampling ioctl u s board_id val w = bar0_write ioctl u s board_id 0x1008 val w"

definition clear_a_buff :: "'a ioctl \<Rightarrow> xdma_info \<Rightarrow> u64 \<Rightarrow> lib \<Rightarrow> int \<Rightarrow> 'a umem_scheme \<Rightarrow> 'a umem_scheme" where
  "clear_a_buff ioctl u sp s board_id w =
     (let (val, w1) = read_local ioctl u sp s board_id BAR0 0x2008 w;
          val1 = val OR push_bit 1 1;
          w2 = bar0_write ioctl u s board_id 0x2008 val1 w1;
          val2 = val1 AND NOT (push_bit 1 1)
      in bar0_write ioctl u s board_id 0x2008 val2 w2)"

definition get_buff_status :: "'a ioctl \<Rightarrow> xdma_info \<Rightarrow> u64 \<Rightarrow> lib \<Rightarrow> int \<Rightarrow> u32 \<Rightarrow> 'a umem_scheme \<Rightarrow> u32 \<times> 'a umem_scheme" where
  "get_buff_status ioctl u sp s board_id reg w = read_local ioctl u sp s board_id BAR0 reg w"

text \<open>The uninitialised structure on the stack may differ between the two stop calls.\<close>

definition scope_module_init :: "'a ioctl \<Rightarrow> xdma_info \<Rightarrow> xdma_info \<Rightarrow> lib \<Rightarrow> int \<Rightarrow> 'a umem_scheme \<Rightarrow> 'a umem_scheme" where
  "scope_module_init ioctl u u' s dev_handle w =
     (let (_, w1) = vi53xx_xdma_stop ioctl u s dev_handle 1 0 w;
          (_, w2) = vi53xx_xdma_stop ioctl u' s dev_handle 2 1 w1
      in scope_clock_sampling ioctl u s dev_handle (scope_init_config ioctl u s dev_handle w2))"

section \<open>Packing the channel selectors\<close>

definition pack4 :: "u8 \<Rightarrow> u8 \<Rightarrow> u8 \<Rightarrow> u8 \<Rightarrow> u32" where
  "pack4 a b c d = ucast a OR push_bit 8 (ucast b) OR push_bit 16 (ucast c) OR push_bit 24 (ucast d)"

definition byte_of :: "nat \<Rightarrow> u32 \<Rightarrow> u8" where
  "byte_of i v = ucast (drop_bit (8 * i) v)"

lemma pack_from_eq:
  assumes "k + 4 \<le> length xs"
  shows "pack_from xs k 0 0 = Inr (pack4 (xs ! k) (xs ! (k + 1)) (xs ! (k + 2)) (xs ! (k + 3)))"
  using assms
  by (simp add: pack_from.simps numeral_eq_Suc pack4_def add.commute or.assoc)

lemma pack_from_short:
  assumes "length xs \<le> k + 3"
  shows "pack_from xs k 0 0 = Inl OutOfBounds"
proof -
  consider "length xs \<le> k" | "length xs = k + 1" | "length xs = k + 2" | "length xs = k + 3"
    using assms by linarith
  then show ?thesis
    by cases (simp_all add: pack_from.simps nthR_def numeral_eq_Suc)
qed

lemma byte_of_pack4:
  "byte_of 0 (pack4 a b c d) = a" "byte_of 1 (pack4 a b c d) = b"
  "byte_of 2 (pack4 a b c d) = c" "byte_of 3 (pack4 a b c d) = d"
proof -
  have small: "bit x n \<Longrightarrow> n < 8" for x :: u8 and n
    using bit_imp_le_length [of x n] by simp
  show "byte_of 0 (pack4 a b c d) = a" "byte_of 1 (pack4 a b c d) = b"
    "byte_of 2 (pack4 a b c d) = c" "byte_of 3 (pack4 a b c d) = d"
    by (rule bit_word_eqI; auto simp: byte_of_def pack4_def bit_simps dest: small)+
qed

lemma byte_of_pack4_nth:
  assumes "i < 4"
  shows "byte_of i (pack4 (f 0) (f 1) (f 2) (f 3)) = f i"
proof -
  consider "i = 0" | "i = 1" | "i = 2" | "i = 3" using assms by linarith
  then show ?thesis by cases (simp_all only: byte_of_pack4)
qed

interpretation channel_select: codec "\<lambda>(a, b, c, d). pack4 a b c d"
  "\<lambda>v. (byte_of 0 v, byte_of 1 v, byte_of 2 v, byte_of 3 v)" "\<lambda>_. True"
  by unfold_locales (auto simp: byte_of_pack4 simp del: One_nat_def)

section \<open>The registers after each operation\<close>

context bar0_regs begin

lemma scope_select_ch_effect:
  assumes "ok w" "8 \<le> length xs"
  obtains w' where "scope_select_ch ioctl u s b xs w = Inr w'" "ok w'"
    "rd 0 w' = pack4 (xs ! 0) (xs ! 1) (xs ! 2) (xs ! 3)"
    "rd 8 w' = pack4 (xs ! 4) (xs ! 5) (xs ! 6) (xs ! 7)"
    "\<And>a. a \<noteq> 0 \<Longrightarrow> a \<noteq> 8 \<Longrightarrow> rd a w' = rd a w"
proof -
  let ?lo = "pack4 (xs ! 0) (xs ! 1) (xs ! 2) (xs ! 3)"
  let ?hi = "pack4 (xs ! 4) (xs ! 5) (xs ! 6) (xs ! 7)"
  have p: "pack_from xs 0 0 0 = Inr ?lo" "pack_from xs 4 0 0 = Inr ?hi"
    using pack_from_eq [of 0 xs] pack_from_eq [of 4 xs] assms(2) by (simp_all add: numeral_2_eq_2)
  have ok1: "ok (bar0_write ioctl u s b 0 ?lo w)" by (rule bar0_ok_wr [OF assms(1)])
  show thesis
    by (rule that [of "bar0_write ioctl u s b 8 ?hi (bar0_write ioctl u s b 0 ?lo w)"])
      (simp_all add: scope_select_ch_def p bar0_ok_wr ok1 bar0_rd_wr assms(1))
qed

lemma scope_init_config_effect:
  assumes "ok w"
  shows "rd a (scope_init_config ioctl u s b w) =
    (if a \<in> {0x04, 0x0c, 0x1004, 0x100c, 0x2004, 0x200c} then 0
     else if a \<in> {0x3004, 0x300c} then 0xFFFFFFFF else rd a w)"
  by (simp only: scope_init_config_def rd_writes [OF assms]) simp

lemma start_scope_pulse:
  assumes "ok w"
  shows "rd 0x4000 (start_scope ioctl u s b w) = 0"
    "a \<noteq> 0x4000 \<Longrightarrow> rd a (start_scope ioctl u s b w) = rd a w"
  by (simp_all only: start_scope_def rd_writes [OF assms]) simp_all

lemma scope_slect_mode_effect:
  assumes "ok w"
  shows "rd a (scope_slect_mode ioctl u s b m w) =
    (if a = 0x2000 then (if m = 0 then 1 else 0x10001) else if a = 0x2008 then 1 else rd a w)"
  by (simp only: scope_slect_mode_def Let_def rd_writes [OF assms]) simp

end

end
