(* ===== verification/Kernel.thy ===== *)
theory Kernel
  imports Prelude
begin

unbundle bit_operations_syntax

text \<open>
  The kernel services and the device registers, as the driver sees them. Neither is part of
  the sources. What the driver does to them is a trace of events, in the order of the
  calls; what they answer is given by the fields of a record \<open>kapi\<close>, functions of the
  trace so far (a register read, an allocation) or of the device (the length of a BAR),
  that every operation of the driver takes as an argument. So a theorem that does not
  restrict \<open>kapi\<close> holds for every device and every kernel.
\<close>

datatype kevent =
    IoRead u64 u32 | IoWrite u64 u32
  | DmaAlloc u64 u64 nat | DmaFree u64 u64 nat
  | MemUncached u64 nat | MemWriteback u64 nat
  | PciEnable | PciDisable | PciSetMaster | RegionsGot | RegionsReleased
  | Iomap nat u64 | Iounmap u64 | ConsistentMask u64
  | KAlloc u64 | VAlloc u64 | KFree u64
  | KobjectName string | CdevAdd u32 | CdevDel u32 | DeviceCreate string u32 u64 | DeviceDestroy u32
  | ClassCreate bool | ClassDestroy | ChrdevAlloc u32 nat | ChrdevUnregister u32 nat
  | ProcMkdir string bool | ProcCreate string bool | ProcRemoveSubtree string
  | ListAdd u64 | ListDel u64 | SetDrvdata u64
  | CopyFromUser nat nat | CopyToUser nat nat | Printk string
  | PciRegisterDriver int | PciUnregisterDriver

type_synonym trace = "kevent list"

record kapi =
  k_io :: "trace \<Rightarrow> u64 \<Rightarrow> u32"
  k_dma_alloc :: "trace \<Rightarrow> nat \<Rightarrow> (u64 \<times> u64) option"
  k_kmalloc :: "trace \<Rightarrow> u64"
  k_vmalloc :: "trace \<Rightarrow> u64"
  k_left :: "trace \<Rightarrow> nat \<Rightarrow> nat" \<comment> \<open>how many of \<open>n\<close> bytes a user copy leaves uncopied\<close>
  k_pci_enable_device :: "trace \<Rightarrow> int"
  k_pci_request_regions :: "trace \<Rightarrow> int"
  k_pci_resource_len :: "nat \<Rightarrow> u64"
  k_pci_iomap :: "trace \<Rightarrow> nat \<Rightarrow> u64"
  k_pci_set_dma_mask :: "u64 \<Rightarrow> int"
  k_kobject_set_name :: "trace \<Rightarrow> int"
  k_cdev_add :: "trace \<Rightarrow> int"
  k_device_create :: "trace \<Rightarrow> u64"
  k_proc_mkdir :: "trace \<Rightarrow> bool"
  k_proc_create :: "trace \<Rightarrow> bool"
  k_class_create :: "trace \<Rightarrow> bool"
  k_alloc_chrdev_region :: "trace \<Rightarrow> int \<times> u32"
  k_pci_register_driver :: "trace \<Rightarrow> int"
  k_dma_common_mmap :: "trace \<Rightarrow> u64 \<Rightarrow> u64 \<Rightarrow> u64 \<Rightarrow> int"

section \<open>Register access\<close>

text \<open>
  \<open>ioread32\<close> and \<open>iowrite32\<close> at \<open>reg_base + offset\<close>. The base of a BAR that is not
  mapped is NULL, and an access there is a fault.
\<close>

definition reg_addr :: "u64 \<Rightarrow> u32 \<Rightarrow> u64" where
  "reg_addr reg_base offset = reg_base + ucast offset"

definition read_register :: "kapi \<Rightarrow> u64 \<Rightarrow> trace \<Rightarrow> u32 \<times> trace" where
  "read_register k iomem tr = (let v = k_io k tr iomem in (v, tr @ [IoRead iomem v]))"

definition write_register :: "u32 \<Rightarrow> u64 \<Rightarrow> trace \<Rightarrow> trace" where
  "write_register v iomem tr = tr @ [IoWrite iomem v]"

text \<open>\<open>xdma_read_reg\<close> and \<open>xdma_write_reg\<close>, used inside \<open>libxdma.c\<close>.\<close>

definition xdma_read_reg :: "kapi \<Rightarrow> u64 \<Rightarrow> u32 \<Rightarrow> trace \<Rightarrow> (u32 \<times> trace) res" where
  "xdma_read_reg k reg_base offset tr =
     bindR (guardR (reg_base \<noteq> 0) NullDeref)
       (\<lambda>_. Inr (read_register k (reg_addr reg_base offset) tr))"

definition xdma_write_reg :: "u64 \<Rightarrow> u32 \<Rightarrow> u32 \<Rightarrow> trace \<Rightarrow> trace res" where
  "xdma_write_reg reg_base offset val tr =
     bindR (guardR (reg_base \<noteq> 0) NullDeref)
       (\<lambda>_. Inr (write_register val (reg_addr reg_base offset) tr))"

text \<open>\<open>read_reg\<close> and \<open>write_reg\<close>, the two register functions of the operations table.\<close>

definition read_reg :: "kapi \<Rightarrow> u64 \<Rightarrow> u32 \<Rightarrow> trace \<Rightarrow> (u32 \<times> trace) res" where
  "read_reg k reg_base offset tr =
     bindR (guardR (reg_base \<noteq> 0) NullDeref)
       (\<lambda>_. Inr (read_register k (reg_addr reg_base offset) tr))"

definition write_reg :: "u64 \<Rightarrow> u32 \<Rightarrow> u32 \<Rightarrow> trace \<Rightarrow> (u32 \<times> trace) res" where
  "write_reg reg_base offset val tr =
     bindR (guardR (reg_base \<noteq> 0) NullDeref)
       (\<lambda>_. Inr (0, write_register val (reg_addr reg_base offset) tr))"

named_theorems reg_simps \<open>register accesses through a mapped BAR\<close>

lemma xdma_read_reg_mapped [reg_simps]:
  "b \<noteq> 0 \<Longrightarrow> xdma_read_reg k b off tr =
     Inr (k_io k tr (reg_addr b off), tr @ [IoRead (reg_addr b off) (k_io k tr (reg_addr b off))])"
  by (simp add: xdma_read_reg_def read_register_def Let_def)

lemma xdma_write_reg_mapped [reg_simps]:
  "b \<noteq> 0 \<Longrightarrow> xdma_write_reg b off v tr = Inr (tr @ [IoWrite (reg_addr b off) v])"
  by (simp add: xdma_write_reg_def write_register_def)

lemma read_reg_mapped [reg_simps]:
  "b \<noteq> 0 \<Longrightarrow> read_reg k b off tr =
     Inr (k_io k tr (reg_addr b off), tr @ [IoRead (reg_addr b off) (k_io k tr (reg_addr b off))])"
  by (simp add: read_reg_def read_register_def Let_def)

lemma write_reg_mapped [reg_simps]:
  "b \<noteq> 0 \<Longrightarrow> write_reg b off v tr = Inr (0, tr @ [IoWrite (reg_addr b off) v])"
  by (simp add: write_reg_def write_register_def)

lemma reg_unmapped [reg_simps]:
  "xdma_read_reg k 0 off tr = Inl NullDeref" "xdma_write_reg 0 off v tr = Inl NullDeref"
  "read_reg k 0 off tr = Inl NullDeref" "write_reg 0 off v tr = Inl NullDeref"
  by (simp_all add: xdma_read_reg_def xdma_write_reg_def read_reg_def write_reg_def)

lemma reg_addr_inj [simp]: "reg_addr b o1 = reg_addr b o2 \<longleftrightarrow> o1 = o2"
proof -
  have up: "uint (ucast w :: u64) = uint w" for w :: u32
    by (rule uint_up_ucast) (simp add: is_up)
  have "o1 = o2" if "(ucast o1 :: u64) = ucast o2"
    using that up [of o1] up [of o2] by (simp add: word_uint_eq_iff)
  then show ?thesis by (auto simp: reg_addr_def)
qed

section \<open>A device whose registers keep what is written\<close>

text \<open>
  The value of the last write to an address, if there is one: the answer of a device that
  behaves as memory. It is the concrete \<open>kapi\<close> the witnesses use.
\<close>

fun last_write :: "trace \<Rightarrow> u64 \<Rightarrow> u32 option" where
  "last_write [] a = None"
| "last_write (e # tr) a =
     (case last_write tr a of
        Some v \<Rightarrow> Some v
      | None \<Rightarrow> (case e of IoWrite b v \<Rightarrow> if a = b then Some v else None | _ \<Rightarrow> None))"

definition ram_io :: "trace \<Rightarrow> u64 \<Rightarrow> u32" where
  "ram_io tr a = (case last_write tr a of Some v \<Rightarrow> v | None \<Rightarrow> 0)"

definition ram_kapi :: kapi where
  "ram_kapi = \<lparr>k_io = ram_io, k_dma_alloc = (\<lambda>tr n. Some (0x1000 * (of_nat (length tr) + 1), 0x80000000)),
     k_kmalloc = (\<lambda>tr. of_nat (length tr) + 1), k_vmalloc = (\<lambda>tr. of_nat (length tr) + 1), k_left = (\<lambda>_ _. 0),
     k_pci_enable_device = (\<lambda>_. 0),
     k_pci_request_regions = (\<lambda>_. 0), k_pci_resource_len = (\<lambda>i. if i < 2 then 0x100000 else 0),
     k_pci_iomap = (\<lambda>tr i. of_nat (i + 1) * 0x1000000), k_pci_set_dma_mask = (\<lambda>_. 0),
     k_kobject_set_name = (\<lambda>_. 0), k_cdev_add = (\<lambda>_. 0), k_device_create = (\<lambda>_. 1),
     k_proc_mkdir = (\<lambda>_. True), k_proc_create = (\<lambda>_. True), k_class_create = (\<lambda>_. True),
     k_alloc_chrdev_region = (\<lambda>tr. (0, push_bit 20 (of_nat (240 + length tr)))),
     k_pci_register_driver = (\<lambda>_. 0), k_dma_common_mmap = (\<lambda>_ _ _ _. 0)\<rparr>"

lemma last_write_append:
  "last_write (tr @ tr') a = (case last_write tr' a of Some v \<Rightarrow> Some v | None \<Rightarrow> last_write tr a)"
  by (induction tr) (auto split: option.splits)

lemma ram_io_write: "ram_io (tr @ [IoWrite a v]) b = (if a = b then v else ram_io tr b)"
  by (simp add: ram_io_def last_write_append)

lemma ram_io_read: "ram_io (tr @ [IoRead a v]) b = ram_io tr b"
  by (simp add: ram_io_def last_write_append split: option.splits)

end
