(* ===== verification/DriverTypes.thy ===== *)
theory DriverTypes
  imports Kernel CStdio
begin

unbundle bit_operations_syntax

text \<open>
  The structures of the kernel module (\<open>driver/libxdma.h\<close>, \<open>driver/board_info.h\<close>) as
  records, and the constants of its headers. Pointers to kernel memory are 64-bit words
  with NULL as 0; the pointers between the structures of one board
  (\<open>xpdev->xdev\<close>, an option, \<open>xcdev->xdev\<close>, the two \<open>dma_cfg\<close> pointers into \<open>xdev\<close>) are the nesting
  of the records, since each is set once and to the same object.
\<close>

abbreviation (input) MAX_DESC_NUM :: nat where "MAX_DESC_NUM \<equiv> 64"
abbreviation (input) XDMA_BAR_NUM :: nat where "XDMA_BAR_NUM \<equiv> 6"
abbreviation (input) XDMA_CHANNEL_NUM :: nat where "XDMA_CHANNEL_NUM \<equiv> 2"
abbreviation (input) H2C_DIR :: int where "H2C_DIR \<equiv> 0"
abbreviation (input) C2H_DIR :: int where "C2H_DIR \<equiv> 1"
abbreviation (input) CH1 :: int where "CH1 \<equiv> 1"
abbreviation (input) CH2 :: int where "CH2 \<equiv> 2"

abbreviation (input) H2C_CONTROL_REG :: u32 where "H2C_CONTROL_REG \<equiv> 0x0004"
abbreviation (input) C2H_CONTROL_REG :: u32 where "C2H_CONTROL_REG \<equiv> 0x1004"
abbreviation (input) H2C_SGDMA_DESC_LOW32_REG :: u32 where "H2C_SGDMA_DESC_LOW32_REG \<equiv> 0x4080"
abbreviation (input) H2C_SGDMA_DESC_HIGH32_REG :: u32 where "H2C_SGDMA_DESC_HIGH32_REG \<equiv> 0x4084"
abbreviation (input) H2C_SGDMA_DESC_ADJA_REG :: u32 where "H2C_SGDMA_DESC_ADJA_REG \<equiv> 0x4088"
abbreviation (input) H2C_SGDMA_DESC_ADD_REG :: u32 where "H2C_SGDMA_DESC_ADD_REG \<equiv> 0x408C"
abbreviation (input) C2H_SGDMA_DESC_LOW32_REG :: u32 where "C2H_SGDMA_DESC_LOW32_REG \<equiv> 0x5080"
abbreviation (input) C2H_SGDMA_DESC_HIGH32_REG :: u32 where "C2H_SGDMA_DESC_HIGH32_REG \<equiv> 0x5084"
abbreviation (input) C2H_SGDMA_DESC_ADJA_REG :: u32 where "C2H_SGDMA_DESC_ADJA_REG \<equiv> 0x5088"
abbreviation (input) C2H_SGDMA_DESC_ADD_REG :: u32 where "C2H_SGDMA_DESC_ADD_REG \<equiv> 0x508C"
abbreviation (input) SGDMA_DESC_MODE_EN_REG :: u32 where "SGDMA_DESC_MODE_EN_REG \<equiv> 0x6020"
abbreviation (input) MAX_EXTRA_ADJ :: u32 where "MAX_EXTRA_ADJ \<equiv> 15"
abbreviation (input) DESC_MAGIC :: u32 where "DESC_MAGIC \<equiv> 0xAD4B0000"
abbreviation (input) DMA_STOP :: u32 where "DMA_STOP \<equiv> 0"

definition PCI_DMA_H :: "u64 \<Rightarrow> u32" where
  "PCI_DMA_H addr = ucast (drop_bit 16 (drop_bit 16 addr))"

definition PCI_DMA_L :: "u64 \<Rightarrow> u32" where
  "PCI_DMA_L addr = ucast (addr AND 0xffffffff)"

record xdma_desc =
  d_control :: u32
  d_bytes :: u32
  d_src_addr_lo :: u32
  d_src_addr_hi :: u32
  d_dst_addr_lo :: u32
  d_dst_addr_hi :: u32
  d_next_lo :: u32
  d_next_hi :: u32

record xdma_cfg_info =
  direction :: u8
  SG_desc_num :: u8
  pData :: "u64 list"
  data_len :: "u32 list"
  data_phy_addr :: "u64 list"
  pFirst_desc :: u64
  first_desc_phy_addr :: u64
  cfg_size :: u64
  channel :: int
  ep_addr :: u32

record xdma_dev =
  xd_addr :: u64 \<comment> \<open>not a field of the source: where the structure is allocated\<close>
  bar :: "u64 list"
  regions_in_use :: int
  got_regions :: int
  C2H_dma_cfg :: "xdma_cfg_info list"
  H2C_dma_cfg :: "xdma_cfg_info list"

record timer_list =
  expires :: u64
  timer_set :: bool \<comment> \<open>set up by the kernel's \<open>setup_timer\<close>\<close>
  timer_pending :: bool \<comment> \<open>linked into the kernel's timer list\<close>

record device_info =
  di_board_id :: u32
  di_mdl_version :: u32
  di_fpga_version :: u32
  di_board_type :: u32
  di_serial :: u32
  di_led_blink :: u32
  di_board_inst :: u32
  di_device_name :: string
  di_reg_base :: u64
  di_state :: int
  di_create_flag :: int
  di_timer :: timer_list

record xdma_cdev =
  magic :: u64
  cdevno :: u32
  sys_device :: u64
  cdev_info :: device_info

record pci_dev =
  p_vendor :: u16
  p_device :: u16
  p_domain :: int
  p_bus_number :: u8
  p_devfn :: u32

record xdma_pci_dev =
  xp_pdev :: pci_dev
  xp_xdev :: "xdma_dev option"
  ctrl_cdev :: xdma_cdev
  xp_flags :: u32
  xp_bus :: int
  fmap :: "int list list"

text \<open>A structure that was just zeroed (\<open>kzalloc\<close>, \<open>memset\<close>).\<close>

definition zero_cfg :: xdma_cfg_info where
  "zero_cfg = \<lparr>direction = 0, SG_desc_num = 0, pData = replicate MAX_DESC_NUM 0,
     data_len = replicate MAX_DESC_NUM 0, data_phy_addr = replicate MAX_DESC_NUM 0,
     pFirst_desc = 0, first_desc_phy_addr = 0, cfg_size = 0, channel = 0, ep_addr = 0\<rparr>"

definition zero_xdev :: xdma_dev where
  "zero_xdev = \<lparr>xd_addr = 0, bar = replicate XDMA_BAR_NUM 0, regions_in_use = 0, got_regions = 0,
     C2H_dma_cfg = replicate XDMA_CHANNEL_NUM zero_cfg, H2C_dma_cfg = replicate XDMA_CHANNEL_NUM zero_cfg\<rparr>"

definition zero_info :: device_info where
  "zero_info = \<lparr>di_board_id = 0, di_mdl_version = 0, di_fpga_version = 0, di_board_type = 0,
     di_serial = 0, di_led_blink = 0, di_board_inst = 0, di_device_name = [], di_reg_base = 0,
     di_state = 0, di_create_flag = 0, di_timer = \<lparr>expires = 0, timer_set = False, timer_pending = False\<rparr>\<rparr>"

definition zero_cdev :: xdma_cdev where
  "zero_cdev = \<lparr>magic = 0, cdevno = 0, sys_device = 0, cdev_info = zero_info\<rparr>"

text \<open>A board of the kind the driver serves.\<close>

definition example_pci :: pci_dev where
  "example_pci = \<lparr>p_vendor = 0x10ee, p_device = 0x16F2, p_domain = 0, p_bus_number = 3, p_devfn = 0\<rparr>"

text \<open>The sizes the compiler gives the arrays of the structures.\<close>

definition cfg_wf :: "xdma_cfg_info \<Rightarrow> bool" where
  "cfg_wf c \<longleftrightarrow> length (pData c) = MAX_DESC_NUM \<and> length (data_len c) = MAX_DESC_NUM \<and>
     length (data_phy_addr c) = MAX_DESC_NUM"

definition xdev_wf :: "xdma_dev \<Rightarrow> bool" where
  "xdev_wf x \<longleftrightarrow> length (bar x) = XDMA_BAR_NUM \<and> length (C2H_dma_cfg x) = XDMA_CHANNEL_NUM \<and>
     length (H2C_dma_cfg x) = XDMA_CHANNEL_NUM \<and> (\<forall>c \<in> set (C2H_dma_cfg x) \<union> set (H2C_dma_cfg x). cfg_wf c)"

lemma zero_cfg_wf [simp]: "cfg_wf zero_cfg"
  by (simp add: cfg_wf_def zero_cfg_def)

lemma zero_xdev_wf [simp]: "xdev_wf zero_xdev"
  by (simp add: xdev_wf_def zero_xdev_def)

text \<open>Device numbers: the upper 12 bits are the major, the lower 20 the minor number.\<close>

definition MKDEV :: "u32 \<Rightarrow> u32 \<Rightarrow> u32" where
  "MKDEV ma mi = push_bit 20 ma OR mi"

definition MAJOR :: "u32 \<Rightarrow> u32" where
  "MAJOR dev = drop_bit 20 dev"

definition MINOR :: "u32 \<Rightarrow> u32" where
  "MINOR dev = dev AND 0xFFFFF"

lemma MINOR_bound: "unat (MINOR d) < 1048576"
proof -
  have "unat (d AND 0xFFFFF) \<le> unat (0xFFFFF :: u32)"
    by (rule word_and_le1 [THEN word_le_nat_alt [THEN iffD1]])
  then show ?thesis by (simp add: MINOR_def)
qed

lemma MINOR_mask: "MINOR d = take_bit 20 d"
  by (simp add: MINOR_def take_bit_eq_mask mask_numeral)

lemma MINOR_MKDEV: "unat mi < 1048576 \<Longrightarrow> MINOR (MKDEV ma mi) = mi"
proof -
  assume "unat mi < 1048576"
  then have "take_bit 20 mi = mi" by (simp add: take_bit_word_small)
  moreover have "take_bit 20 (push_bit 20 ma) = 0"
    by (rule bit_word_eqI) (auto simp: bit_simps)
  ultimately show ?thesis by (simp add: MINOR_mask MKDEV_def)
qed

lemma MAJOR_MKDEV:
  "unat mi < 1048576 \<Longrightarrow> unat ma < 4096 \<Longrightarrow> MAJOR (MKDEV ma mi) = ma"
proof -
  assume mi: "unat mi < 1048576" and ma: "unat ma < 4096"
  have m: "take_bit 20 mi = mi" using mi
    by (simp add: take_bit_word_small)
  have a: "take_bit 12 ma = ma" using ma
    by (simp add: take_bit_word_small)
  show ?thesis
    by (rule bit_word_eqI, subst m [symmetric], subst (2) a [symmetric])
      (auto simp: MAJOR_def MKDEV_def bit_simps)
qed

text \<open>The two halves of a DMA address give the address back.\<close>

lemma PCI_DMA_parts:
  "(push_bit 32 (ucast (PCI_DMA_H a)) OR ucast (PCI_DMA_L a) :: u64) = a"
proof (rule bit_word_eqI)
  fix n
  assume n: "n < LENGTH(64)"
  have m: "bit (0xffffffff :: u64) n \<longleftrightarrow> n < 32"
    using n bit_mask_iff [of 32 n, where 'a = u64] by (simp add: mask_numeral)
  show "bit (push_bit 32 (ucast (PCI_DMA_H a)) OR ucast (PCI_DMA_L a) :: u64) n = bit a n"
    using n m by (auto simp: PCI_DMA_H_def PCI_DMA_L_def bit_simps)
qed

end
