(* ===== verification/BoardRegistry.thy ===== *)
theory BoardRegistry
  imports DriverTypes
begin

text \<open>
  The board registry of the kernel module (\<open>driver/board_info.c\<close>): the table of board
  types with the number of boards seen of each, and the description of a board that is read
  from its registers. The table is the global \<open>vi53xx_inca_board_name_list\<close>: NULL, or ten
  entries of which the first entry without a name ends the list, allocated by \<open>kmalloc\<close> or,
  when that fails, by \<open>vmalloc\<close>.
\<close>

abbreviation (input) ES5341_ID :: u32 where "ES5341_ID \<equiv> 0xB100"
abbreviation (input) ES5311_ID :: u32 where "ES5311_ID \<equiv> 0xB000"
abbreviation (input) ES5342_ID :: u32 where "ES5342_ID \<equiv> 0xB200"
abbreviation (input) INCA_DT_COUNT :: nat where "INCA_DT_COUNT \<equiv> 10"
abbreviation (input) BOARD_TEPE_NUM :: nat where "BOARD_TEPE_NUM \<equiv> 3"
abbreviation (input) DEVICE_BOARD_TYPE :: u32 where "DEVICE_BOARD_TYPE \<equiv> 0x50300"
abbreviation (input) DEVICE_BOARD_ID :: u32 where "DEVICE_BOARD_ID \<equiv> 0x501C0"
abbreviation (input) DEVICE_MDL_VERSION :: u32 where "DEVICE_MDL_VERSION \<equiv> 0x50200"
abbreviation (input) DEVICE_FPGA_VERSION :: u32 where "DEVICE_FPGA_VERSION \<equiv> 0x50204"
abbreviation (input) DEVICE_LED_BLINK :: u32 where "DEVICE_LED_BLINK \<equiv> 0x50100"
abbreviation (input) ENOMEM :: int where "ENOMEM \<equiv> 12"

record board_entry = \<comment> \<open>\<open>struct board_info\<close>\<close>
  be_inca_dt :: u32
  be_board_name :: "string option"
  be_count :: u32

datatype origin = Kmalloc | Vmalloc

record board_table =
  bt_addr :: u64
  bt_origin :: origin
  bt_entries :: "board_entry list"

definition drv_get_board_name :: "u32 \<Rightarrow> string option" where
  "drv_get_board_name board_id =
     (if board_id = ES5341_ID then Some ''es5341''
      else if board_id = ES5311_ID then Some ''es5311''
      else if board_id = ES5342_ID then Some ''es5342''
      else None)"

text \<open>The loop of \<open>_get_board_instance\<close>; not found is \<open>-1\<close>, returned as unsigned.\<close>

function instance_from :: "u32 \<Rightarrow> nat \<Rightarrow> board_entry list \<Rightarrow> (u32 \<times> board_entry list) res" where
  "instance_from inca_dt n es =
     bindR (nthR es n) (\<lambda>e.
       if be_board_name e = None then Inr (- 1, es)
       else if inca_dt = be_inca_dt e then Inr (be_count e, es[n := e\<lparr>be_count := be_count e + 1\<rparr>])
       else instance_from inca_dt (Suc n) es)"
  by pat_completeness auto
termination
  by (relation "measure (\<lambda>(dt, n, es). length es - n)") (auto simp: nthR_def split: if_splits)

function major_idx_from :: "u32 \<Rightarrow> nat \<Rightarrow> board_entry list \<Rightarrow> u32 res" where
  "major_idx_from inca_dt n es =
     bindR (nthR es n) (\<lambda>e.
       if be_board_name e = None then Inr (- 1)
       else if inca_dt = be_inca_dt e then Inr (of_nat n)
       else major_idx_from inca_dt (Suc n) es)"
  by pat_completeness auto
termination
  by (relation "measure (\<lambda>(dt, n, es). length es - n)") (auto simp: nthR_def split: if_splits)

declare instance_from.simps [simp del] major_idx_from.simps [simp del]

definition drv_get_board_instance :: "u32 \<Rightarrow> board_table option \<Rightarrow> (u32 \<times> board_table option) res" where
  "drv_get_board_instance inca_dt bt =
     bindR (derefR bt) (\<lambda>t.
     bindR (instance_from inca_dt 0 (bt_entries t)) (\<lambda>(i, es).
       Inr (i, Some (t\<lparr>bt_entries := es\<rparr>))))"

definition get_major_idx :: "u32 \<Rightarrow> board_table option \<Rightarrow> u32 res" where
  "get_major_idx inca_dt bt = bindR (derefR bt) (\<lambda>t. major_idx_from inca_dt 0 (bt_entries t))"

definition zero_entry :: board_entry where
  "zero_entry = \<lparr>be_inca_dt = 0, be_board_name = None, be_count = 0\<rparr>"

definition init_entries :: "board_entry list" where
  "init_entries =
     (replicate INCA_DT_COUNT zero_entry)
       [0 := \<lparr>be_inca_dt = ES5341_ID, be_board_name = Some ''es5341'', be_count = 0\<rparr>,
        1 := \<lparr>be_inca_dt = ES5311_ID, be_board_name = Some ''es5311'', be_count = 0\<rparr>,
        2 := \<lparr>be_inca_dt = ES5342_ID, be_board_name = Some ''es5342'', be_count = 0\<rparr>]"

text \<open>The directory \<open>/proc/vi53xx\<close>: \<open>parent_dir\<close> says whether the global is not NULL.\<close>

definition create_board_proc :: "kapi \<Rightarrow> trace \<Rightarrow> int \<times> bool \<times> trace" where
  "create_board_proc k tr =
     (let parent_dir = k_proc_mkdir k tr; tr1 = tr @ [ProcMkdir ''vi53xx'' parent_dir]
      in if \<not> parent_dir then (- 1, parent_dir, tr1)
         else (let ok = k_proc_create k tr1; tr2 = tr1 @ [ProcCreate ''boards'' ok]
               in if \<not> ok then (- 1, parent_dir, tr2 @ [ProcRemoveSubtree ''vi53xx''])
                  else (0, parent_dir, tr2)))"

definition create_instance_board_id_mmap :: "kapi \<Rightarrow> bool \<Rightarrow> trace \<Rightarrow> int \<times> trace" where
  "create_instance_board_id_mmap k parent_dir tr =
     (if \<not> parent_dir then (- 1, tr)
      else (let ok = k_proc_create k tr; tr1 = tr @ [ProcCreate ''mapping'' ok]
            in if \<not> ok then (- 1, tr1 @ [ProcRemoveSubtree ''vi53xx'']) else (0, tr1)))"

definition create_boards_info_proc :: "kapi \<Rightarrow> trace \<Rightarrow> int \<times> bool \<times> trace" where
  "create_boards_info_proc k tr =
     (let (ret, parent_dir, tr1) = create_board_proc k tr;
          (ret, tr2) = create_instance_board_id_mmap k parent_dir tr1
      in (ret, parent_dir, tr2))"

definition create_proc_device :: "kapi \<Rightarrow> bool \<Rightarrow> string \<Rightarrow> trace \<Rightarrow> int \<times> trace" where
  "create_proc_device k parent_dir name tr =
     (if \<not> parent_dir then (- 1, tr)
      else (let ok = k_proc_create k tr; tr1 = tr @ [ProcCreate name ok]
            in if \<not> ok then (- 1, tr1) else (0, tr1)))"

definition remove_board_proc :: "trace \<Rightarrow> trace" where
  "remove_board_proc tr = tr @ [ProcRemoveSubtree ''vi53xx'']"

text \<open>\<open>init_board_info\<close>: the result of creating the proc files is not looked at.\<close>

definition init_board_info :: "kapi \<Rightarrow> bool \<Rightarrow> trace \<Rightarrow> int \<times> board_table option \<times> bool \<times> trace" where
  "init_board_info k parent_dir tr =
     (let p = k_kmalloc k tr; tr1 = tr @ [KAlloc p];
          (q, org, tr2) = (if p \<noteq> 0 then (p, Kmalloc, tr1)
                           else (k_vmalloc k tr1, Vmalloc, tr1 @ [VAlloc (k_vmalloc k tr1)]))
      in if q = 0 then (- ENOMEM, None, parent_dir, tr2)
         else (let (ret, parent_dir', tr3) = create_boards_info_proc k tr2
               in (0, Some \<lparr>bt_addr = q, bt_origin = org, bt_entries = init_entries\<rparr>, parent_dir', tr3)))"

text \<open>\<open>kfree\<close> of memory that came from \<open>vmalloc\<close> is a wrong free.\<close>

definition board_info_exit :: "board_table option \<Rightarrow> trace \<Rightarrow> (board_table option \<times> trace) res" where
  "board_info_exit bt tr =
     (let tr1 = remove_board_proc tr
      in case bt of
           None \<Rightarrow> Inr (None, tr1)
         | Some t \<Rightarrow>
             bindR (guardR (bt_origin t = Kmalloc) BadFree)
               (\<lambda>_. Inr (None, tr1 @ [KFree (bt_addr t)])))"

definition init_device_info :: "kapi \<Rightarrow> device_info \<Rightarrow> u64 \<Rightarrow> trace \<Rightarrow> (device_info \<times> trace) res" where
  "init_device_info k info reg_base tr =
     bindR (read_reg k reg_base DEVICE_BOARD_TYPE tr) (\<lambda>(board_type, tr1).
     bindR (fitsR 32 (fmt_s (drv_get_board_name board_type))) (\<lambda>nm.
     bindR (read_reg k reg_base DEVICE_BOARD_ID tr1) (\<lambda>(bid, tr2).
     bindR (read_reg k reg_base DEVICE_MDL_VERSION tr2) (\<lambda>(mdl, tr3).
     bindR (read_reg k reg_base DEVICE_FPGA_VERSION tr3) (\<lambda>(fpga, tr4).
     bindR (read_reg k reg_base DEVICE_BOARD_TYPE tr4) (\<lambda>(typ, tr5).
     bindR (read_reg k reg_base DEVICE_LED_BLINK tr5) (\<lambda>(led, tr6).
       Inr (info\<lparr>di_device_name := nm, di_board_id := bid, di_mdl_version := mdl,
              di_fpga_version := fpga, di_board_type := typ, di_serial := 0x9910001,
              di_led_blink := led, di_reg_base := reg_base, di_create_flag := 0\<rparr>, tr6))))))))"

section \<open>Names, indices and instances\<close>

text \<open>The well-formed tables: the three types of the initial table, with any counts.\<close>

definition known_types :: "u32 list" where
  "known_types = [ES5341_ID, ES5311_ID, ES5342_ID]"

definition table_ok :: "board_table option \<Rightarrow> bool" where
  "table_ok bt = (case bt of None \<Rightarrow> False | Some t \<Rightarrow>
     (\<exists>a b c. bt_entries t = init_entries[0 := (init_entries ! 0)\<lparr>be_count := a\<rparr>,
        1 := (init_entries ! 1)\<lparr>be_count := b\<rparr>, 2 := (init_entries ! 2)\<lparr>be_count := c\<rparr>]))"

definition count_of :: "u32 \<Rightarrow> board_table option \<Rightarrow> u32" where
  "count_of dt bt = (case bt of None \<Rightarrow> 0 | Some t \<Rightarrow>
     (case List.find (\<lambda>e. be_board_name e \<noteq> None \<and> be_inca_dt e = dt) (bt_entries t) of
        None \<Rightarrow> 0 | Some e \<Rightarrow> be_count e))"

lemma known_types_iff: "dt \<in> set known_types \<longleftrightarrow> drv_get_board_name dt \<noteq> None"
  by (auto simp: known_types_def drv_get_board_name_def)

lemma drv_get_board_name_inj:
  "drv_get_board_name a = Some n \<Longrightarrow> drv_get_board_name b = Some n \<Longrightarrow> a = b"
  by (auto simp: drv_get_board_name_def split: if_splits)

lemma board_name_fits: "fitsR 32 (fmt_s (drv_get_board_name t)) = Inr (fmt_s (drv_get_board_name t))"
  by (simp add: fmt_s_def drv_get_board_name_def fitsR_def)

lemma table_ok_cases:
  assumes "table_ok bt"
  obtains t a b c where "bt = Some t" "bt_entries t =
    [\<lparr>be_inca_dt = ES5341_ID, be_board_name = Some ''es5341'', be_count = a\<rparr>,
     \<lparr>be_inca_dt = ES5311_ID, be_board_name = Some ''es5311'', be_count = b\<rparr>,
     \<lparr>be_inca_dt = ES5342_ID, be_board_name = Some ''es5342'', be_count = c\<rparr>] @ replicate 7 zero_entry"
  using assms by (auto simp: table_ok_def init_entries_def numeral_eq_Suc split: option.splits)

lemma table_okI:
  "bt_entries t =
    [\<lparr>be_inca_dt = ES5341_ID, be_board_name = Some ''es5341'', be_count = a\<rparr>,
     \<lparr>be_inca_dt = ES5311_ID, be_board_name = Some ''es5311'', be_count = b\<rparr>,
     \<lparr>be_inca_dt = ES5342_ID, be_board_name = Some ''es5342'', be_count = c\<rparr>] @ replicate 7 zero_entry
   \<Longrightarrow> table_ok (Some t)"
  by (auto simp: table_ok_def init_entries_def numeral_eq_Suc)

lemma init_table_ok: "table_ok (Some \<lparr>bt_addr = p, bt_origin = g, bt_entries = init_entries\<rparr>)"
  by (rule table_okI) (simp add: init_entries_def numeral_eq_Suc)

text \<open>The board types with their position in the table, and the position of each.\<close>

lemma get_major_idx_known:
  assumes "table_ok bt" "i < 3"
  shows "get_major_idx (known_types ! i) bt = Inr (of_nat i)"
proof -
  obtain t a b c where t: "bt = Some t" "bt_entries t =
    [\<lparr>be_inca_dt = ES5341_ID, be_board_name = Some ''es5341'', be_count = a\<rparr>,
     \<lparr>be_inca_dt = ES5311_ID, be_board_name = Some ''es5311'', be_count = b\<rparr>,
     \<lparr>be_inca_dt = ES5342_ID, be_board_name = Some ''es5342'', be_count = c\<rparr>] @ replicate 7 zero_entry"
    by (rule table_ok_cases [OF assms(1)])
  have "i = 0 \<or> i = 1 \<or> i = 2" using assms(2) by linarith
  then show ?thesis
    by (elim disjE) (simp_all add: get_major_idx_def known_types_def t major_idx_from.simps)
qed

lemma get_board_instance_known:
  assumes "table_ok bt" "dt \<in> set known_types"
  obtains bt' where "drv_get_board_instance dt bt = Inr (count_of dt bt, bt')" "table_ok bt'"
    "count_of dt bt' = count_of dt bt + 1" "\<And>d. d \<noteq> dt \<Longrightarrow> count_of d bt' = count_of d bt"
proof -
  obtain t a b c where t: "bt = Some t" "bt_entries t =
    [\<lparr>be_inca_dt = ES5341_ID, be_board_name = Some ''es5341'', be_count = a\<rparr>,
     \<lparr>be_inca_dt = ES5311_ID, be_board_name = Some ''es5311'', be_count = b\<rparr>,
     \<lparr>be_inca_dt = ES5342_ID, be_board_name = Some ''es5342'', be_count = c\<rparr>] @ replicate 7 zero_entry"
    by (rule table_ok_cases [OF assms(1)])
  have "dt = ES5341_ID \<or> dt = ES5311_ID \<or> dt = ES5342_ID" using assms(2) by (simp add: known_types_def)
  then have "\<exists>bt'. drv_get_board_instance dt bt = Inr (count_of dt bt, bt') \<and> table_ok bt' \<and>
      count_of dt bt' = count_of dt bt + 1 \<and> (\<forall>d. d \<noteq> dt \<longrightarrow> count_of d bt' = count_of d bt)"
    by (elim disjE)
      (simp_all add: drv_get_board_instance_def count_of_def t instance_from.simps table_okI)
  then show thesis using that by blast
qed

lemma get_board_instance_unknown:
  assumes "table_ok bt" "dt \<notin> set known_types"
  shows "drv_get_board_instance dt bt = Inr (- 1, bt)"
proof -
  obtain t a b c where t: "bt = Some t" "bt_entries t =
    [\<lparr>be_inca_dt = ES5341_ID, be_board_name = Some ''es5341'', be_count = a\<rparr>,
     \<lparr>be_inca_dt = ES5311_ID, be_board_name = Some ''es5311'', be_count = b\<rparr>,
     \<lparr>be_inca_dt = ES5342_ID, be_board_name = Some ''es5342'', be_count = c\<rparr>] @ replicate 7 zero_entry"
    by (rule table_ok_cases [OF assms(1)])
  show ?thesis using assms(2)
    by (simp add: drv_get_board_instance_def t instance_from.simps known_types_def zero_entry_def)
qed

section \<open>Numbering the boards\<close>

text \<open>
  The contract of the instance counters: a known type gets the next number of its own
  counter and the other counters stay. A sequence of boards is then numbered consecutively
  per type, so two boards never share type and instance.
\<close>

fun take_numbers :: "('k \<Rightarrow> 's \<Rightarrow> (u32 \<times> 's) res) \<Rightarrow> 'k list \<Rightarrow> 's \<Rightarrow> (('k \<times> u32) list \<times> 's) res" where
  "take_numbers nxt [] s = Inr ([], s)"
| "take_numbers nxt (k # ks) s =
     bindR (nxt k s) (\<lambda>(i, s1).
     bindR (take_numbers nxt ks s1) (\<lambda>(l, s2). Inr ((k, i) # l, s2)))"

fun numbered :: "('k \<Rightarrow> u32) \<Rightarrow> 'k list \<Rightarrow> ('k \<times> u32) list" where
  "numbered f [] = []"
| "numbered f (k # ks) = (k, f k) # numbered (f(k := f k + 1)) ks"

lemma numbered_mem:
  "(k, v) \<in> set (numbered f ks) \<longleftrightarrow> (\<exists>n < count_list ks k. v = f k + of_nat n)"
proof (induction ks arbitrary: f)
  case Nil
  then show ?case by simp
next
  case (Cons a ks)
  have e: "(\<exists>n < Suc m. v = f a + of_nat n) \<longleftrightarrow> v = f a \<or> (\<exists>n < m. v = (f a + 1) + of_nat n)" for m
    by (subst Ex_less_Suc2) (simp add: add.assoc)
  show ?case
  proof (cases "k = a")
    case True
    then show ?thesis using Cons.IH [of "f(a := f a + 1)"] e [of "count_list ks a"]
      by (simp del: of_nat_Suc fun_upd_apply add: fun_upd_same)
  next
    case False
    then show ?thesis using Cons.IH [of "f(a := f a + 1)"]
      by (simp del: fun_upd_apply add: fun_upd_other)
  qed
qed

lemma numbered_nth:
  "j < length ks \<Longrightarrow> numbered f ks ! j = (ks ! j, f (ks ! j) + of_nat (count_list (take j ks) (ks ! j)))"
proof (induction ks arbitrary: f j)
  case Nil
  then show ?case by simp
next
  case (Cons a ks)
  then show ?case by (cases j) (auto simp: add.assoc)
qed

lemma length_numbered [simp]: "length (numbered f ks) = length ks"
  by (induction ks arbitrary: f) auto

lemma of_nat_Suc_nonzero: "Suc n < 4294967296 \<Longrightarrow> (1 + of_nat n :: u32) \<noteq> 0"
proof
  assume "Suc n < 4294967296" "(1 + of_nat n :: u32) = 0"
  then have "unat (of_nat (Suc n) :: u32) = 0" by simp
  then show False using \<open>Suc n < 4294967296\<close> by (simp add: unat_of_nat take_bit_nat_eq_self del: of_nat_Suc)
qed

lemma numbered_distinct: "length ks < 4294967296 \<Longrightarrow> distinct (numbered f ks)"
proof (induction ks arbitrary: f)
  case Nil
  then show ?case by simp
next
  case (Cons a ks)
  have "(a, f a) \<notin> set (numbered (f(a := f a + 1)) ks)"
  proof
    assume "(a, f a) \<in> set (numbered (f(a := f a + 1)) ks)"
    then obtain n where n: "n < count_list ks a" "f a = f a + 1 + of_nat n"
      by (auto simp: numbered_mem)
    then have "Suc n < 4294967296" using Cons.prems count_le_length [of ks a] by simp
    moreover have "(1 + of_nat n :: u32) = 0" using n(2) by (simp add: add.assoc)
    ultimately show False using of_nat_Suc_nonzero by blast
  qed
  then show ?case using Cons by simp
qed

locale instance_counter =
  fixes nxt :: "'k \<Rightarrow> 's \<Rightarrow> (u32 \<times> 's) res" and cnt :: "'k \<Rightarrow> 's \<Rightarrow> u32"
    and known :: "'k \<Rightarrow> bool" and ok :: "'s \<Rightarrow> bool"
  assumes nxt_known: "ok s \<Longrightarrow> known k \<Longrightarrow> \<exists>s'. nxt k s = Inr (cnt k s, s') \<and> ok s' \<and>
      cnt k s' = cnt k s + 1 \<and> (\<forall>d. d \<noteq> k \<longrightarrow> cnt d s' = cnt d s)"
begin

lemma take_numbers_known:
  assumes "ok s" "\<forall>k \<in> set ks. known k"
  shows "\<exists>s'. take_numbers nxt ks s = Inr (numbered (\<lambda>k. cnt k s) ks, s') \<and> ok s' \<and>
    (\<forall>k. cnt k s' = cnt k s + of_nat (count_list ks k))"
  using assms
proof (induction ks arbitrary: s)
  case Nil
  then show ?case by simp
next
  case (Cons a ks)
  obtain s1 where s1: "nxt a s = Inr (cnt a s, s1)" "ok s1" "cnt a s1 = cnt a s + 1"
    "\<And>d. d \<noteq> a \<Longrightarrow> cnt d s1 = cnt d s" using nxt_known [of s a] Cons.prems by auto
  obtain s2 where s2: "take_numbers nxt ks s1 = Inr (numbered (\<lambda>k. cnt k s1) ks, s2)" "ok s2"
    "\<And>k. cnt k s2 = cnt k s1 + of_nat (count_list ks k)" using Cons.IH [OF s1(2)] Cons.prems by auto
  have f: "(\<lambda>k. cnt k s1) = (\<lambda>k. cnt k s)(a := cnt a s + 1)" using s1 by auto
  show ?case
    by (rule exI [of _ s2]) (use s1 s2 in \<open>auto simp: f add.assoc\<close>)
qed

lemma take_numbers_distinct:
  assumes "ok s" "\<forall>k \<in> set ks. known k" "length ks < 4294967296"
  obtains l s' where "take_numbers nxt ks s = Inr (l, s')" "distinct l" "ok s'"
  using take_numbers_known [OF assms(1,2)] numbered_distinct [OF assms(3)] by blast

end

interpretation registry: instance_counter drv_get_board_instance count_of "\<lambda>dt. dt \<in> set known_types" table_ok
proof unfold_locales
  fix s :: "board_table option" and k :: u32
  assume a: "table_ok s" "k \<in> set known_types"
  show "\<exists>s'. drv_get_board_instance k s = Inr (count_of k s, s') \<and> table_ok s' \<and>
      count_of k s' = count_of k s + 1 \<and> (\<forall>d. d \<noteq> k \<longrightarrow> count_of d s' = count_of d s)"
    by (rule get_board_instance_known [OF a]) blast
qed

section \<open>Properties\<close>

text \<open>C23: The boards of a list of known types are numbered per type, each with the number of
  earlier boards of its type counted from the table's counter, so that for fewer than 2^32
  boards no two share type and instance.\<close>

theorem board_instances_unique:
  assumes "table_ok bt" "\<forall>dt \<in> set dts. drv_get_board_name dt \<noteq> None" "length dts < 4294967296"
  shows "\<exists>l bt'. take_numbers drv_get_board_instance dts bt = Inr (l, bt') \<and> table_ok bt' \<and> distinct l \<and>
    length l = length dts \<and>
    (\<forall>j < length dts. l ! j = (dts ! j, count_of (dts ! j) bt + of_nat (count_list (take j dts) (dts ! j))))"
proof -
  have k: "\<forall>k \<in> set dts. k \<in> set known_types" using assms(2) by (simp add: known_types_iff)
  then show ?thesis
    using registry.take_numbers_known [OF assms(1) k] numbered_distinct [OF assms(3)]
    by (auto simp: numbered_nth)
qed

lemma board_instances_unique_witness:
  "\<exists>l bt'. take_numbers drv_get_board_instance [ES5341_ID, ES5342_ID, ES5341_ID]
       (Some \<lparr>bt_addr = 1, bt_origin = Kmalloc, bt_entries = init_entries\<rparr>) = Inr (l, bt') \<and> distinct l"
proof -
  have "\<forall>dt \<in> set [ES5341_ID, ES5342_ID, ES5341_ID]. drv_get_board_name dt \<noteq> None"
    by (simp add: drv_get_board_name_def)
  moreover have "length [ES5341_ID, ES5342_ID, ES5341_ID] < 4294967296" by simp
  ultimately show ?thesis using board_instances_unique [OF init_table_ok] by blast
qed

text \<open>When the board table had to be allocated with vmalloc, unloading the module releases it
  with kfree, which is a wrong free; a table from kmalloc is released and forgotten.\<close>

lemma vmalloc_table_freed_with_kfree:
  assumes "k_kmalloc k tr = 0" "k_vmalloc k (tr @ [KAlloc 0]) \<noteq> 0"
  shows "\<exists>bt dir tr'. init_board_info k d tr = (0, Some bt, dir, tr') \<and>
    board_info_exit (Some bt) tr'' = Inl BadFree \<and>
    board_info_exit (Some (bt\<lparr>bt_origin := Kmalloc\<rparr>)) tr'' =
      Inr (None, tr'' @ [ProcRemoveSubtree ''vi53xx'', KFree (bt_addr bt)])"
  using assms by (simp add: init_board_info_def board_info_exit_def remove_board_proc_def Let_def split_def)

lemma vmalloc_table_freed_with_kfree_witness:
  "\<exists>bt dir tr'. init_board_info (ram_kapi\<lparr>k_kmalloc := \<lambda>_. 0\<rparr>) False [] = (0, Some bt, dir, tr') \<and>
    board_info_exit (Some bt) [] = Inl BadFree"
  using vmalloc_table_freed_with_kfree [of "ram_kapi\<lparr>k_kmalloc := \<lambda>_. 0\<rparr>" "[]" False "[]"]
  by (auto simp: ram_kapi_def)

end
