(* ===== verification/LibXdma.thy ===== *)
theory LibXdma
  imports DriverTypes XdmaInfo
begin

unbundle bit_operations_syntax

text \<open>
  The DMA engine operations of the kernel module (\<open>driver/libxdma.c\<close>): building the chain
  of descriptors of a channel in coherent memory, and programming, starting and stopping the
  engine through the registers of BAR 1. Descriptor memory is a map from the virtual address
  of a block to its descriptors; a fresh block holds the unknown descriptors \<open>u\<close>.
  \<open>cpu_to_le32\<close> is the identity on the little-endian machines the driver runs on.
\<close>

type_synonym desc_mem = "u64 \<rightharpoonup> xdma_desc list"

definition dma_alloc_coherent :: "kapi \<Rightarrow> nat \<Rightarrow> trace \<Rightarrow> (u64 \<times> u64) option \<times> trace" where
  "dma_alloc_coherent k n tr =
     (case k_dma_alloc k tr n of
        None \<Rightarrow> (None, tr @ [DmaAlloc 0 0 n])
      | Some (v, p) \<Rightarrow> (if v = 0 then None else Some (v, p), tr @ [DmaAlloc v p n]))"

definition bar1 :: "xdma_dev \<Rightarrow> u64 res" where
  "bar1 xdev = nthR (bar xdev) 1"

text \<open>\<open>REG + channel_index * 0x100\<close>, with the index an unsigned char.\<close>

definition ch_reg :: "u32 \<Rightarrow> u8 \<Rightarrow> u32" where
  "ch_reg reg ch_index = reg + ucast ch_index * 0x100"

section \<open>Starting and stopping\<close>

definition xdma_start :: "kapi \<Rightarrow> xdma_dev \<Rightarrow> u8 \<Rightarrow> u8 \<Rightarrow> trace \<Rightarrow> (int \<times> trace) res" where
  "xdma_start k xdev ch dir tr =
     (let channel_index = ch - 1; tmp_value = push_bit 26 1 OR push_bit 2 1 OR 0x01 in
      bindR (bar1 xdev) (\<lambda>reg_base.
      if dir = 0 then
        bindR (xdma_write_reg reg_base (ch_reg H2C_CONTROL_REG channel_index) tmp_value tr) (\<lambda>tr1.
        bindR (xdma_read_reg k reg_base (ch_reg H2C_CONTROL_REG channel_index) tr1) (\<lambda>(_, tr2).
        Inr (0, tr2)))
      else
        bindR (xdma_write_reg reg_base (ch_reg C2H_CONTROL_REG channel_index) tmp_value tr) (\<lambda>tr1.
        bindR (xdma_read_reg k reg_base (ch_reg C2H_CONTROL_REG channel_index) tr1) (\<lambda>(_, tr2).
        Inr (0, tr2)))))"

definition xdma_start_desc :: "xdma_dev \<Rightarrow> u8 \<Rightarrow> xdma_cfg_info \<Rightarrow> trace \<Rightarrow> (int \<times> trace) res" where
  "xdma_start_desc xdev ch cfg tr =
     (let ch_index = ch - 1; SG_num = SG_desc_num cfg; dir = direction cfg in
      bindR (bar1 xdev) (\<lambda>reg_base.
      bindR (if SG_num > 1 then
               (if dir = 0
                then xdma_write_reg reg_base (ch_reg H2C_SGDMA_DESC_ADD_REG ch_index) (ucast SG_num) tr
                else xdma_write_reg reg_base (ch_reg C2H_SGDMA_DESC_ADD_REG ch_index) (ucast SG_num) tr)
             else Inr tr) (\<lambda>tr1.
      Inr (0, tr1))))"

definition xdma_stop :: "xdma_dev \<Rightarrow> u8 \<Rightarrow> u8 \<Rightarrow> trace \<Rightarrow> (int \<times> trace) res" where
  "xdma_stop xdev ch dir tr =
     (let channel_index = ch - 1 in
      bindR (bar1 xdev) (\<lambda>reg_base.
      bindR (if dir = 0 then xdma_write_reg reg_base (ch_reg H2C_CONTROL_REG channel_index) DMA_STOP tr
             else xdma_write_reg reg_base (ch_reg C2H_CONTROL_REG channel_index) DMA_STOP tr) (\<lambda>tr1.
      Inr (0, tr1))))"

text \<open>\<open>xdma_poll_init\<close>: here the channel and its index are ints.\<close>

definition xdma_poll_init :: "kapi \<Rightarrow> xdma_dev \<Rightarrow> int \<Rightarrow> u8 \<Rightarrow> trace \<Rightarrow> (int \<times> trace) res" where
  "xdma_poll_init k xdev ch dir tr =
     (let channel_index = ch - 1; poll_enable = push_bit 26 1 OR push_bit 2 1;
          off = word_of_int (channel_index * 0x100) in
      bindR (bar1 xdev) (\<lambda>reg_base.
      if dir = 0 then
        bindR (xdma_read_reg k reg_base (H2C_CONTROL_REG + off) tr) (\<lambda>(tmp_value, tr1).
        bindR (xdma_write_reg reg_base (H2C_CONTROL_REG + off) (tmp_value OR poll_enable) tr1) (\<lambda>tr2.
        Inr (0, tr2)))
      else
        bindR (xdma_read_reg k reg_base (C2H_CONTROL_REG + off) tr) (\<lambda>(tmp_value, tr1).
        bindR (xdma_write_reg reg_base (C2H_CONTROL_REG + off) (tmp_value OR poll_enable) tr1) (\<lambda>tr2.
        Inr (0, tr2)))))"

section \<open>Descriptors\<close>

text \<open>\<open>0x01 << n\<close> is undefined from 32 on.\<close>

definition shl1 :: "nat \<Rightarrow> u32 res" where
  "shl1 n = bindR (guardR (n < 32) BadShift) (\<lambda>_. Inr (push_bit n 1))"

definition xdma_cofg_desc :: "kapi \<Rightarrow> xdma_dev \<Rightarrow> u8 \<Rightarrow> xdma_cfg_info \<Rightarrow> trace \<Rightarrow> (int \<times> trace) res" where
  "xdma_cofg_desc k xdev ch cfg tr =
     (let ch_index = ch - 1; first_desc_phy = first_desc_phy_addr cfg;
          low_addr = PCI_DMA_L first_desc_phy; high_addr = PCI_DMA_H first_desc_phy;
          SG_num = SG_desc_num cfg; dir = direction cfg in
      bindR (bar1 xdev) (\<lambda>reg_base.
      if dir = 0 then
        bindR (if SG_num > 1 then
                 bindR (xdma_read_reg k reg_base SGDMA_DESC_MODE_EN_REG tr) (\<lambda>(tmp_desc, tr1).
                 bindR (shl1 (unat ch_index)) (\<lambda>b.
                 xdma_write_reg reg_base SGDMA_DESC_MODE_EN_REG (tmp_desc OR b) tr1))
               else Inr tr) (\<lambda>tr2.
        bindR (xdma_write_reg reg_base (ch_reg H2C_SGDMA_DESC_LOW32_REG ch_index) low_addr tr2) (\<lambda>tr3.
        bindR (xdma_write_reg reg_base (ch_reg H2C_SGDMA_DESC_HIGH32_REG ch_index) high_addr tr3) (\<lambda>tr4.
        bindR (xdma_write_reg reg_base (ch_reg H2C_SGDMA_DESC_ADJA_REG ch_index) (ucast SG_num - 1) tr4) (\<lambda>tr5.
        bindR (if SG_num > 1
               then xdma_write_reg reg_base (ch_reg H2C_SGDMA_DESC_ADD_REG ch_index) (ucast SG_num) tr5
               else Inr tr5) (\<lambda>tr6.
        Inr (0, tr6))))))
      else
        bindR (if SG_num > 1 then
                 bindR (xdma_read_reg k reg_base SGDMA_DESC_MODE_EN_REG tr) (\<lambda>(tmp_desc, tr1).
                 bindR (shl1 (unat ch_index + 16)) (\<lambda>b.
                 xdma_write_reg reg_base SGDMA_DESC_MODE_EN_REG (tmp_desc OR b) tr1))
               else Inr tr) (\<lambda>tr2.
        bindR (xdma_write_reg reg_base (ch_reg C2H_SGDMA_DESC_LOW32_REG ch_index) low_addr tr2) (\<lambda>tr3.
        bindR (xdma_write_reg reg_base (ch_reg C2H_SGDMA_DESC_HIGH32_REG ch_index) high_addr tr3) (\<lambda>tr4.
        bindR (xdma_write_reg reg_base (ch_reg C2H_SGDMA_DESC_ADJA_REG ch_index) (ucast SG_num - 1) tr4) (\<lambda>tr5.
        bindR (if SG_num > 1
               then xdma_write_reg reg_base (ch_reg C2H_SGDMA_DESC_ADD_REG ch_index) (ucast SG_num) tr5
               else Inr tr5) (\<lambda>tr6.
        Inr (0, tr6))))))))"

definition xdma_desc_set_ep_addr :: "xdma_desc \<Rightarrow> u32 \<Rightarrow> u8 \<Rightarrow> xdma_desc" where
  "xdma_desc_set_ep_addr d ep dir =
     (if dir = 0
      then d\<lparr>d_dst_addr_lo := PCI_DMA_L (ucast ep), d_dst_addr_hi := PCI_DMA_H (ucast ep)\<rparr>
      else d\<lparr>d_src_addr_lo := PCI_DMA_L (ucast ep), d_src_addr_hi := PCI_DMA_H (ucast ep)\<rparr>)"

definition xdma_desc_set_addr :: "xdma_desc \<Rightarrow> u64 \<Rightarrow> u8 \<Rightarrow> u32 \<Rightarrow> xdma_desc" where
  "xdma_desc_set_addr d buff_phy_addr dir ep =
     (let d1 = (if dir = 0
                then d\<lparr>d_src_addr_lo := PCI_DMA_L buff_phy_addr, d_src_addr_hi := PCI_DMA_H buff_phy_addr\<rparr>
                else d\<lparr>d_dst_addr_lo := PCI_DMA_L buff_phy_addr, d_dst_addr_hi := PCI_DMA_H buff_phy_addr\<rparr>)
      in xdma_desc_set_ep_addr d1 ep dir)"

text \<open>
  The fields every descriptor gets: control word, length, the buffer and the card address.
\<close>

definition fill_desc :: "xdma_cfg_info \<Rightarrow> nat \<Rightarrow> u32 \<Rightarrow> u32 \<Rightarrow> xdma_desc list \<Rightarrow> xdma_desc list res" where
  "fill_desc cfg i ctl ep ds =
     bindR (nthR ds i) (\<lambda>d.
     bindR (nthR (data_len cfg) i) (\<lambda>len.
     bindR (nthR (data_phy_addr cfg) i) (\<lambda>phy.
     updR ds i (xdma_desc_set_addr (d\<lparr>d_control := ctl, d_bytes := len\<rparr>) phy (direction cfg) ep))))"

text \<open>The number of further adjacent descriptors, and the counter left for the next one.\<close>

definition next_adj :: "u8 \<Rightarrow> u32 \<times> u8" where
  "next_adj adj =
     (if adj > 0 then
        (let extra_adj = ucast adj - 1
         in (if extra_adj > MAX_EXTRA_ADJ then MAX_EXTRA_ADJ else extra_adj, adj - 1))
      else (0, adj))"

text \<open>
  The loop of \<open>xdma_desc_alloc\<close> over all descriptors but the last:
  \<open>i < SG_num-1\<close> as ints is \<open>i + 1 < SG_num\<close>.
\<close>

function desc_loop :: "xdma_cfg_info \<Rightarrow> u64 \<Rightarrow> nat \<Rightarrow> u8 \<Rightarrow> u32 \<Rightarrow> xdma_desc list \<Rightarrow> (nat \<times> u32 \<times> xdma_desc list) res" where
  "desc_loop cfg first_desc_phy i adj extra_adj ds =
     (if Suc i < unat (SG_desc_num cfg) then
        (let (extra1, adj1) = next_adj adj
         in bindR (fill_desc cfg i (DESC_MAGIC OR push_bit 8 extra1) (ep_addr cfg + of_nat i * 0x2000) ds) (\<lambda>ds1.
            let next_desc_phy_addr = first_desc_phy + of_nat ((i + 1) * 32) in
            bindR (nthR ds1 i) (\<lambda>d.
            bindR (updR ds1 i (d\<lparr>d_next_lo := PCI_DMA_L next_desc_phy_addr,
                                  d_next_hi := PCI_DMA_H next_desc_phy_addr\<rparr>)) (\<lambda>ds2.
            desc_loop cfg first_desc_phy (Suc i) adj1 extra1 ds2))))
      else Inr (i, extra_adj, ds))"
  by pat_completeness auto
termination
  by (relation "measure (\<lambda>(cfg, f, i, a, e, ds). unat (SG_desc_num cfg) - i)") auto

declare desc_loop.simps [simp del]

definition xdma_desc_alloc :: "kapi \<Rightarrow> (nat \<Rightarrow> xdma_desc) \<Rightarrow> xdma_cfg_info \<Rightarrow> desc_mem \<Rightarrow> trace \<Rightarrow> (u64 \<times> xdma_cfg_info \<times> desc_mem \<times> trace) res" where
  "xdma_desc_alloc k u cfg mem tr =
     (let SG_num = unat (SG_desc_num cfg); adj = SG_desc_num cfg - 1 in
      case dma_alloc_coherent k (SG_num * 32) tr of
        (None, tr1) \<Rightarrow> Inr (0, cfg, mem, tr1)
      | (Some (desc_virt, first_desc_phy), tr1) \<Rightarrow>
          bindR (desc_loop cfg first_desc_phy 0 adj 0 (map u [0..<SG_num])) (\<lambda>(i, extra_adj, ds).
          bindR (fill_desc cfg i (DESC_MAGIC OR push_bit 8 extra_adj OR 0x13)
                   (ep_addr cfg + (ucast (SG_desc_num cfg) - 1) * 0x2000) ds) (\<lambda>ds1.
          Inr (desc_virt, cfg\<lparr>pFirst_desc := desc_virt, first_desc_phy_addr := first_desc_phy\<rparr>,
               mem(desc_virt \<mapsto> ds1), tr1))))"

text \<open>\<open>xdma_create_transfer\<close> does not look at the result of the allocation.\<close>

definition xdma_create_transfer :: "kapi \<Rightarrow> (nat \<Rightarrow> xdma_desc) \<Rightarrow> xdma_dev \<Rightarrow> u8 \<Rightarrow> xdma_cfg_info \<Rightarrow> desc_mem \<Rightarrow> trace \<Rightarrow> (xdma_cfg_info \<times> desc_mem \<times> trace) res" where
  "xdma_create_transfer k u xdev ch cfg mem tr =
     bindR (xdma_desc_alloc k u cfg mem tr) (\<lambda>(_, cfg1, mem1, tr1).
     bindR (xdma_cofg_desc k xdev ch cfg1 tr1) (\<lambda>(_, tr2).
     Inr (cfg1, mem1, tr2)))"

section \<open>Mapping a buffer into user space\<close>

text \<open>
  \<open>xdma_mmap\<close>: \<open>xpdev\<close> is what \<open>dev_get_drvdata\<close> returns. The table \<open>fmap\<close> of buffers made
  uncached is indexed by the channel number, which starts at 1.
\<close>

definition xdma_mmap :: "kapi \<Rightarrow> xdma_pci_dev option \<Rightarrow> u64 \<Rightarrow> xdma_cfg_info \<Rightarrow> trace \<Rightarrow> (int \<times> xdma_pci_dev \<times> trace) res" where
  "xdma_mmap k drvdata vm_size cfg tr =
     bindR (derefR drvdata) (\<lambda>xpdev.
     bindR (nthR (fmap xpdev) (unat (direction cfg))) (\<lambda>row.
     bindR (nthI row (channel cfg)) (\<lambda>mapped.
     bindR (nthR (pData cfg) 0) (\<lambda>p0.
     bindR (nthR (data_phy_addr cfg) 0) (\<lambda>phy0.
     let (xpdev1, tr1) =
           (if mapped = 0 then
              (xpdev\<lparr>fmap := (fmap xpdev)[unat (direction cfg) := row[nat (channel cfg) := 1]]\<rparr>,
               tr @ [MemUncached p0 (unat (drop_bit 12 (cfg_size cfg)))])
            else (xpdev, tr))
     in Inr (k_dma_common_mmap k tr1 p0 phy0 vm_size, xpdev1, tr1))))))"

section \<open>The chain of descriptors\<close>

definition desc_body :: "xdma_cfg_info \<Rightarrow> nat \<Rightarrow> u32 \<Rightarrow> u32 \<Rightarrow> xdma_desc \<Rightarrow> xdma_desc" where
  "desc_body cfg i ctl ep d =
     xdma_desc_set_addr (d\<lparr>d_control := ctl, d_bytes := data_len cfg ! i\<rparr>) (data_phy_addr cfg ! i) (direction cfg) ep"

lemma fill_desc_in:
  assumes "cfg_wf cfg" "i < length ds" "i < 64"
  shows "fill_desc cfg i ctl ep ds = Inr (ds[i := desc_body cfg i ctl ep (ds ! i)])"
  using assms by (simp add: fill_desc_def desc_body_def cfg_wf_def)

text \<open>How many descriptors follow the next one, at most 15.\<close>

definition extra_adj :: "nat \<Rightarrow> nat \<Rightarrow> nat" where
  "extra_adj n i = min 15 (n - 2 - i)"

definition chain_desc :: "xdma_cfg_info \<Rightarrow> u64 \<Rightarrow> nat \<Rightarrow> xdma_desc \<Rightarrow> xdma_desc" where
  "chain_desc cfg first i d =
     (let nxt = first + of_nat ((i + 1) * 32)
      in (desc_body cfg i (DESC_MAGIC OR push_bit 8 (of_nat (extra_adj (unat (SG_desc_num cfg)) i)))
            (ep_addr cfg + of_nat i * 0x2000) d)
         \<lparr>d_next_lo := PCI_DMA_L nxt, d_next_hi := PCI_DMA_H nxt\<rparr>)"

lemma extra_adj_step:
  assumes "Suc i < n" "n < 256" "adj = (of_nat (n - 1 - i) :: u8)"
  shows "next_adj adj = (of_nat (extra_adj n i) :: u32, of_nat (n - 1 - Suc i) :: u8)"
proof -
  define q where "q = n - 2 - i"
  have q: "n - 1 - i = Suc q" "n - 1 - Suc i = q" "q < 255" using assms(1,2) by (simp_all add: q_def)
  have ad: "adj = of_nat (Suc q)" using assms(3) q(1) by (simp only:)
  have a: "unat adj = Suc q"
    using q(3) by (simp add: ad unat_of_nat take_bit_nat_eq_self del: of_nat_Suc)
  then have pos: "adj > 0" by (metis Zero_not_Suc unat_0 word_gt_0)
  have "(ucast adj :: u32) = of_nat (unat adj)"
    by simp
  then have e: "(ucast adj :: u32) - 1 = of_nat q" using a by simp
  have "unat (of_nat q :: u32) = q"
    using q(3) by (simp add: unat_of_nat take_bit_nat_eq_self)
  then have gt: "(of_nat q :: u32) > 15 \<longleftrightarrow> q > 15"
    by (simp add: word_less_nat_alt)
  have "adj - 1 = of_nat q" by (simp add: ad)
  then show ?thesis using pos gt
    by (simp only: next_adj_def q(2) e Let_def extra_adj_def q_def [symmetric]) (simp add: min_def)
qed

text \<open>What the loop leaves behind: the chained descriptors from \<open>i\<close> on, and the rest as it was.\<close>

lemma desc_loop_chain:
  assumes "cfg_wf cfg" "n = unat (SG_desc_num cfg)" "n \<le> 64" "i < n" "length ds = n"
    "adj = of_nat (n - 1 - i)" "i = n - 1 \<longrightarrow> e = 0"
  shows "\<exists>ds'. desc_loop cfg first i adj e ds = Inr (n - 1, 0, ds') \<and> length ds' = n \<and>
    (\<forall>j < n. ds' ! j = (if i \<le> j \<and> Suc j < n then chain_desc cfg first j (ds ! j) else ds ! j))"
  using assms
proof (induction "n - i" arbitrary: i adj e ds)
  case 0
  then show ?case by simp
next
  case (Suc m)
  show ?case
  proof (cases "Suc i < n")
    case False
    then have i: "i = n - 1" "e = 0" using Suc.prems by auto
    then have "desc_loop cfg first i adj e ds = Inr (n - 1, 0, ds)"
      using False Suc.prems(2) by (subst desc_loop.simps) simp
    then show ?thesis using Suc.prems i by auto
  next
    case True
    let ?d = "chain_desc cfg first i (ds ! i)"
    let ?a = "of_nat (n - 1 - Suc i) :: u8" and ?e = "of_nat (extra_adj n i) :: u32"
    have step: "next_adj adj = (?e, ?a)" by (rule extra_adj_step [OF True _ Suc.prems(6)]) (use Suc.prems in simp)
    have nx: "(desc_body cfg i (DESC_MAGIC OR push_bit 8 ?e) (ep_addr cfg + of_nat i * 0x2000) (ds ! i))
         \<lparr>d_next_lo := PCI_DMA_L (first + of_nat ((i + 1) * 32)),
          d_next_hi := PCI_DMA_H (first + of_nat ((i + 1) * 32))\<rparr> = ?d"
      using Suc.prems(2) by (simp add: chain_desc_def Let_def)
    have "desc_loop cfg first i adj e ds = desc_loop cfg first (Suc i) ?a ?e (ds[i := ?d])"
      using True Suc.prems(2-5)
      by (subst desc_loop.simps)
        (simp only: step if_True Let_def prod.case fill_desc_in [OF Suc.prems(1)] bindR.simps nthR_in
          updR_in length_list_update nth_list_update_eq list_update_overwrite nx [unfolded Suc.prems(2)] less_le_trans [of i n 64])
    moreover have "\<exists>ds'. desc_loop cfg first (Suc i) ?a ?e (ds[i := ?d]) = Inr (n - 1, 0, ds') \<and>
        length ds' = n \<and> (\<forall>j < n. ds' ! j = (if Suc i \<le> j \<and> Suc j < n
          then chain_desc cfg first j (ds[i := ?d] ! j) else ds[i := ?d] ! j))"
    proof (rule Suc.hyps(1))
      show "m = n - Suc i" using Suc.hyps(2) by simp
      show "Suc i = n - 1 \<longrightarrow> ?e = 0" by (auto simp: extra_adj_def)
    qed (use Suc.prems True in simp_all)
    ultimately show ?thesis
      using True Suc.prems(5) by (auto simp: nth_list_update le_eq_less_or_eq)
  qed
qed

text \<open>The finished block: chained descriptors and a last one that stops the engine.\<close>

lemma desc_alloc_chain:
  assumes "cfg_wf cfg" "n = unat (SG_desc_num cfg)" "1 \<le> n" "n \<le> 64"
    and "dma_alloc_coherent k (n * 32) tr = (Some (virt, phys), tr1)"
  obtains ds where
    "xdma_desc_alloc k u cfg mem tr =
       Inr (virt, cfg\<lparr>pFirst_desc := virt, first_desc_phy_addr := phys\<rparr>, mem(virt \<mapsto> ds), tr1)"
    "length ds = n"
    "\<And>j. Suc j < n \<Longrightarrow> ds ! j = chain_desc cfg phys j (u j)"
    "ds ! (n - 1) = desc_body cfg (n - 1) (DESC_MAGIC OR 0x13) (ep_addr cfg + of_nat (n - 1) * 0x2000) (u (n - 1))"
proof -
  have adj: "SG_desc_num cfg - 1 = of_nat (n - 1 - 0)"
    using assms(2,3) by (simp add: of_nat_diff)
  have ep: "(ucast (SG_desc_num cfg) :: u32) - 1 = of_nat (n - 1)"
    using assms(2,3) by (simp add: of_nat_diff)
  have "\<exists>ds'. desc_loop cfg phys 0 (SG_desc_num cfg - 1) 0 (map u [0..<n]) = Inr (n - 1, 0, ds') \<and>
      length ds' = n \<and> (\<forall>j < n. ds' ! j = (if 0 \<le> j \<and> Suc j < n
        then chain_desc cfg phys j (map u [0..<n] ! j) else map u [0..<n] ! j))"
    by (rule desc_loop_chain [OF assms(1,2,4) _ _ adj]) (use assms(3) in simp_all)
  then obtain ds' where ds': "desc_loop cfg phys 0 (SG_desc_num cfg - 1) 0 (map u [0..<n]) = Inr (n - 1, 0, ds')"
    "length ds' = n" "\<And>j. Suc j < n \<Longrightarrow> ds' ! j = chain_desc cfg phys j (u j)" "ds' ! (n - 1) = u (n - 1)"
    using assms(3) by fastforce
  let ?l = "desc_body cfg (n - 1) (DESC_MAGIC OR 0x13) (ep_addr cfg + of_nat (n - 1) * 0x2000) (u (n - 1))"
  have f: "fill_desc cfg (n - 1) (DESC_MAGIC OR push_bit 8 0 OR 0x13) (ep_addr cfg + of_nat (n - 1) * 0x2000) ds' =
      Inr (ds'[n - 1 := ?l])"
    using assms(3,4) ds'(2) by (subst fill_desc_in [OF assms(1)]) (simp_all only: ds'(4) push_bit_of_0 or.right_neutral, simp_all)
  show thesis
  proof (rule that [of "ds'[n - 1 := ?l]"])
    show "xdma_desc_alloc k u cfg mem tr =
       Inr (virt, cfg\<lparr>pFirst_desc := virt, first_desc_phy_addr := phys\<rparr>, mem(virt \<mapsto> ds'[n - 1 := ?l]), tr1)"
      unfolding xdma_desc_alloc_def Let_def assms(2) [symmetric] assms(5) prod.case option.case ds'(1)
        bindR.simps ep f ..
  qed (use assms(3) ds' in \<open>auto simp: nth_list_update\<close>)
qed

text \<open>What the fields of a chained descriptor say.\<close>

lemma desc_body_fields:
  "d_control (desc_body cfg i ctl ep d) = ctl" "d_bytes (desc_body cfg i ctl ep d) = data_len cfg ! i"
  "d_next_lo (desc_body cfg i ctl ep d) = d_next_lo d" "d_next_hi (desc_body cfg i ctl ep d) = d_next_hi d"
  by (simp_all add: desc_body_def xdma_desc_set_addr_def xdma_desc_set_ep_addr_def Let_def)

text \<open>The bus addresses in a descriptor, put together from their halves.\<close>

definition addr64 :: "u32 \<Rightarrow> u32 \<Rightarrow> u64" where
  "addr64 hi lo = push_bit 32 (ucast hi) OR ucast lo"

definition desc_src :: "xdma_desc \<Rightarrow> u64" where
  "desc_src d = addr64 (d_src_addr_hi d) (d_src_addr_lo d)"

definition desc_dst :: "xdma_desc \<Rightarrow> u64" where
  "desc_dst d = addr64 (d_dst_addr_hi d) (d_dst_addr_lo d)"

definition desc_next :: "xdma_desc \<Rightarrow> u64" where
  "desc_next d = addr64 (d_next_hi d) (d_next_lo d)"

interpretation dma_addr: codec "\<lambda>a. (PCI_DMA_H a, PCI_DMA_L a)" "\<lambda>(h, l). addr64 h l" "\<lambda>_. True"
  by unfold_locales (simp add: addr64_def PCI_DMA_parts)

lemma addr64_parts [simp]: "addr64 (PCI_DMA_H a) (PCI_DMA_L a) = a"
  by (simp add: addr64_def PCI_DMA_parts)

lemma desc_body_addrs:
  "direction cfg = 0 \<Longrightarrow> desc_src (desc_body cfg i ctl ep d) = data_phy_addr cfg ! i"
  "direction cfg = 0 \<Longrightarrow> desc_dst (desc_body cfg i ctl ep d) = ucast ep"
  "direction cfg \<noteq> 0 \<Longrightarrow> desc_dst (desc_body cfg i ctl ep d) = data_phy_addr cfg ! i"
  "direction cfg \<noteq> 0 \<Longrightarrow> desc_src (desc_body cfg i ctl ep d) = ucast ep"
  by (simp_all add: desc_src_def desc_dst_def desc_body_def xdma_desc_set_addr_def
      xdma_desc_set_ep_addr_def Let_def)

lemma chain_desc_fields:
  "d_control (chain_desc cfg first i d) =
     DESC_MAGIC OR push_bit 8 (of_nat (extra_adj (unat (SG_desc_num cfg)) i))"
  "d_bytes (chain_desc cfg first i d) = data_len cfg ! i"
  "desc_next (chain_desc cfg first i d) = first + of_nat (Suc i * 32)"
  by (simp_all add: chain_desc_def Let_def desc_body_fields desc_next_def add.commute)

lemma chain_desc_addrs:
  "direction cfg = 0 \<Longrightarrow> desc_src (chain_desc cfg first i d) = data_phy_addr cfg ! i"
  "direction cfg = 0 \<Longrightarrow> desc_dst (chain_desc cfg first i d) = ucast (ep_addr cfg + of_nat i * 0x2000)"
  "direction cfg \<noteq> 0 \<Longrightarrow> desc_dst (chain_desc cfg first i d) = data_phy_addr cfg ! i"
  "direction cfg \<noteq> 0 \<Longrightarrow> desc_src (chain_desc cfg first i d) = ucast (ep_addr cfg + of_nat i * 0x2000)"
  by (simp_all add: chain_desc_def Let_def desc_src_def desc_dst_def desc_body_def xdma_desc_set_addr_def
      xdma_desc_set_ep_addr_def)

section \<open>Properties\<close>

text \<open>C9: For 1 to 64 descriptors the driver builds a chain in the memory it got: each descriptor
  but the last holds its buffer's length and addresses in the right direction, points to the
  bus address of its successor and announces at most 15 further adjacent ones; the last one
  carries the stop, completed and end-of-packet bits.\<close>

theorem descriptor_chain:
  assumes "cfg_wf cfg" "n = unat (SG_desc_num cfg)" "1 \<le> n" "n \<le> 64"
    "dma_alloc_coherent k (n * 32) tr = (Some (virt, phys), tr1)"
  shows "\<exists>ds cfg'. xdma_desc_alloc k u cfg mem tr = Inr (virt, cfg', mem(virt \<mapsto> ds), tr1) \<and>
    length ds = n \<and> first_desc_phy_addr cfg' = phys \<and> pFirst_desc cfg' = virt \<and>
    (\<forall>j < n. d_bytes (ds ! j) = data_len cfg ! j \<and>
       d_control (ds ! j) = (if Suc j < n then DESC_MAGIC OR push_bit 8 (of_nat (min 15 (n - 2 - j)))
                             else DESC_MAGIC OR 0x13) \<and>
       (Suc j < n \<longrightarrow> desc_next (ds ! j) = phys + of_nat (Suc j * 32)) \<and>
       (if direction cfg = 0 then desc_src (ds ! j) = data_phy_addr cfg ! j \<and>
            desc_dst (ds ! j) = ucast (ep_addr cfg + of_nat j * 0x2000)
        else desc_dst (ds ! j) = data_phy_addr cfg ! j \<and>
            desc_src (ds ! j) = ucast (ep_addr cfg + of_nat j * 0x2000)))"
proof -
  obtain ds where ds: "xdma_desc_alloc k u cfg mem tr =
       Inr (virt, cfg\<lparr>pFirst_desc := virt, first_desc_phy_addr := phys\<rparr>, mem(virt \<mapsto> ds), tr1)"
    "length ds = n" "\<And>j. Suc j < n \<Longrightarrow> ds ! j = chain_desc cfg phys j (u j)"
    "ds ! (n - 1) = desc_body cfg (n - 1) (DESC_MAGIC OR 0x13) (ep_addr cfg + of_nat (n - 1) * 0x2000) (u (n - 1))"
    by (rule desc_alloc_chain [OF assms, where u = u and mem = mem]) (rule that, assumption+)
  have last: "j = n - 1" if "j < n" "\<not> Suc j < n" for j using that by simp
  have "d_bytes (ds ! j) = data_len cfg ! j \<and>
       d_control (ds ! j) = (if Suc j < n then DESC_MAGIC OR push_bit 8 (of_nat (min 15 (n - 2 - j)))
                             else DESC_MAGIC OR 0x13) \<and>
       (Suc j < n \<longrightarrow> desc_next (ds ! j) = phys + of_nat (Suc j * 32)) \<and>
       (if direction cfg = 0 then desc_src (ds ! j) = data_phy_addr cfg ! j \<and>
            desc_dst (ds ! j) = ucast (ep_addr cfg + of_nat j * 0x2000)
        else desc_dst (ds ! j) = data_phy_addr cfg ! j \<and>
            desc_src (ds ! j) = ucast (ep_addr cfg + of_nat j * 0x2000))" if j: "j < n" for j
  proof (cases "Suc j < n")
    case True
    then show ?thesis
      by (simp only: ds(3) [OF True] chain_desc_fields extra_adj_def assms(2) [symmetric])
        (simp add: chain_desc_addrs)
  next
    case False
    show ?thesis using False
      by (simp only: last [OF j False] ds(4) desc_body_fields) (use False j in \<open>simp add: desc_body_addrs\<close>)
  qed
  then show ?thesis using ds(1,2) by auto
qed

lemma descriptor_chain_witness:
  "\<exists>ds cfg' tr1. xdma_desc_alloc ram_kapi (\<lambda>_. \<lparr>d_control = 0, d_bytes = 0, d_src_addr_lo = 0, d_src_addr_hi = 0,
      d_dst_addr_lo = 0, d_dst_addr_hi = 0, d_next_lo = 0, d_next_hi = 0\<rparr>)
      (zero_cfg\<lparr>SG_desc_num := 20\<rparr>) Map.empty [] = Inr (0x1000, cfg', Map.empty(0x1000 \<mapsto> ds), tr1) \<and>
    desc_next (ds ! 0) = 0x80000020"
proof -
  have wf: "cfg_wf (zero_cfg\<lparr>SG_desc_num := 20\<rparr>)" by (simp add: cfg_wf_def zero_cfg_def)
  have al: "dma_alloc_coherent ram_kapi (20 * 32) [] =
      (Some (0x1000, 0x80000000), [DmaAlloc 0x1000 0x80000000 640])"
    by (simp add: dma_alloc_coherent_def ram_kapi_def)
  have n: "20 = unat (SG_desc_num (zero_cfg\<lparr>SG_desc_num := 20\<rparr>))" by simp
  from descriptor_chain [OF wf n _ _ al, of "\<lambda>_. \<lparr>d_control = 0, d_bytes = 0, d_src_addr_lo = 0, d_src_addr_hi = 0,
      d_dst_addr_lo = 0, d_dst_addr_hi = 0, d_next_lo = 0, d_next_hi = 0\<rparr>" Map.empty]
  show ?thesis by fastforce
qed

text \<open>C29: The engine of a channel is programmed with the bus address of the first descriptor and
  the number of adjacent descriptors: after setting up a single-descriptor channel the three
  registers of its direction hold the two halves of the address, which give the address back,
  and 0.\<close>

theorem engine_registers:
  assumes "bar xdev ! 1 = base" "1 < length (bar xdev)" "base \<noteq> 0" "SG_desc_num cfg = 1"
  shows "\<exists>tr'. xdma_cofg_desc k xdev ch cfg tr = Inr (0, tr') \<and>
    (let r = (\<lambda>h c. reg_addr base (ch_reg (if direction cfg = 0 then h else c) (ch - 1)));
         lo = ram_io tr' (r H2C_SGDMA_DESC_LOW32_REG C2H_SGDMA_DESC_LOW32_REG);
         hi = ram_io tr' (r H2C_SGDMA_DESC_HIGH32_REG C2H_SGDMA_DESC_HIGH32_REG)
     in addr64 hi lo = first_desc_phy_addr cfg \<and>
        ram_io tr' (r H2C_SGDMA_DESC_ADJA_REG C2H_SGDMA_DESC_ADJA_REG) = 0)"
proof -
  have b: "bar1 xdev = Inr base" using assms(1,2) by (simp add: bar1_def)
  have w: "ram_io (tr @ [IoWrite a v, IoWrite a' v', IoWrite a'' v'']) x =
      (if x = a'' then v'' else if x = a' then v' else if x = a then v else ram_io tr x)" for a v a' v' a'' v'' x
    by (simp add: ram_io_def last_write_append)
  show ?thesis using assms(3,4)
    by (simp add: xdma_cofg_desc_def b reg_simps Let_def w ch_reg_def)
qed

lemma engine_registers_witness:
  "\<exists>tr'. xdma_cofg_desc ram_kapi (zero_xdev\<lparr>bar := [0x1000, 0x2000, 0, 0, 0, 0]\<rparr>) 1
      (zero_cfg\<lparr>SG_desc_num := 1, first_desc_phy_addr := 0x123456789\<rparr>) [] = Inr (0, tr') \<and>
    ram_io tr' (reg_addr 0x2000 (ch_reg H2C_SGDMA_DESC_ADJA_REG 0)) = 0"
proof -
  let ?x = "zero_xdev\<lparr>bar := [0x1000, 0x2000, 0, 0, 0, 0]\<rparr>"
  let ?c = "zero_cfg\<lparr>SG_desc_num := 1, first_desc_phy_addr := 0x123456789\<rparr>"
  have h: "bar ?x ! 1 = 0x2000" "1 < length (bar ?x)" "(0x2000 :: u64) \<noteq> 0" "SG_desc_num ?c = 1"
    by simp_all
  have d: "direction ?c = 0" by (simp add: zero_cfg_def)
  have c: "(1 :: u8) - 1 = 0" by simp
  from engine_registers [OF h, where k = ram_kapi and ch = 1 and tr = "[]"] show ?thesis
    unfolding Let_def d c by (simp only: simp_thms if_True) blast
qed

end
