(* ===== verification/DriverState.thy ===== *)
theory DriverState
  imports BoardRegistry LibXdma
begin

unbundle bit_operations_syntax

text \<open>
  The state of the kernel module: its globals (\<open>pcie_device_list\<close>, the board table,
  \<open>parent_dir\<close>, \<open>es_cdev\<close>, \<open>xdma_setting\<close>), the board structures it allocated, the DMA
  memory it holds and the trace of what it did to the kernel and the devices. A
  \<open>struct xdma_pci_dev\<close> is found in the map \<open>ks_xpdevs\<close> at its address as long as it is
  allocated, so a use after \<open>kfree\<close> is a failed lookup.

  Also the copies between kernel and user memory: \<open>k_left\<close> says how many bytes stay
  uncopied. A kernel buffer is a block of bytes; an access outside it is a fault.
\<close>

datatype class_ptr = ClassNull | ClassErr | ClassOk

record es_cdev =
  ec_addr :: u64 \<comment> \<open>not a field of the source: where the structure is allocated\<close>
  ec_major :: "u32 list"
  ec_class :: class_ptr
  ec_dev :: u32
  ec_device_name :: string
  ec_board_inst :: u32

type_synonym buf_mem = "u64 \<rightharpoonup> u8 list"

record kstate =
  ks_trace :: trace
  ks_descs :: desc_mem
  ks_bufs :: buf_mem
  ks_setting :: xdma_info
  ks_xpdevs :: "u64 \<rightharpoonup> xdma_pci_dev"
  ks_devices :: "u64 list"
  ks_drvdata :: "pci_dev \<rightharpoonup> u64"
  ks_boards :: "board_table option"
  ks_parent_dir :: bool
  ks_es_cdev :: "es_cdev option"

abbreviation (input) EINVAL :: int where "EINVAL \<equiv> 22"

definition zero_xdma_info :: xdma_info where
  "zero_xdma_info = \<lparr>x_bar = 0, x_offset = 0, x_wr = 0, x_w_val = 0, x_r_val = 0, x_dir = 0,
     x_channel = 0, x_buf = 0, x_pos = 0, x_len = 0\<rparr>"

definition kstart :: kstate where
  "kstart = \<lparr>ks_trace = [], ks_descs = Map.empty, ks_bufs = Map.empty, ks_setting = zero_xdma_info,
     ks_xpdevs = Map.empty, ks_devices = [], ks_drvdata = Map.empty, ks_boards = None,
     ks_parent_dir = False, ks_es_cdev = None\<rparr>"

text \<open>A structure through its address: NULL, freed, or found.\<close>

definition deref_xpdev :: "u64 \<Rightarrow> kstate \<Rightarrow> xdma_pci_dev res" where
  "deref_xpdev p s =
     (if p = 0 then Inl NullDeref
      else case ks_xpdevs s p of None \<Rightarrow> Inl UseAfterFree | Some x \<Rightarrow> Inr x)"

section \<open>User copies\<close>

definition left_of :: "kapi \<Rightarrow> trace \<Rightarrow> nat \<Rightarrow> nat" where
  "left_of k tr n = min n (k_left k tr n)"

text \<open>The block a pointer \<open>p + pos\<close> falls in: \<open>n\<close> bytes from there must be inside.\<close>

definition block_range :: "buf_mem \<Rightarrow> u64 \<Rightarrow> int \<Rightarrow> nat \<Rightarrow> u8 list res" where
  "block_range bufs p pos n =
     (if p = 0 then Inl NullDeref
      else case bufs p of
        None \<Rightarrow> Inl UseAfterFree
      | Some bs \<Rightarrow> bindR (guardR (0 \<le> pos \<and> pos + int n \<le> int (length bs)) OutOfBounds) (\<lambda>_. Inr bs))"

definition user_read :: "'a umem_scheme \<Rightarrow> u64 \<Rightarrow> nat \<Rightarrow> u8 list" where
  "user_read w a n = map (\<lambda>i. u_bytes w (a + of_nat i)) [0..<n]"

definition user_write :: "u64 \<Rightarrow> u8 list \<Rightarrow> 'a umem_scheme \<Rightarrow> 'a umem_scheme" where
  "user_write a bs w = w\<lparr>u_bytes := (\<lambda>x. let i = unat (x - a) in if i < length bs then bs ! i else u_bytes w x)\<rparr>"

text \<open>
  \<open>copy_from_user\<close> pads what it could not copy with zero bytes; \<open>copy_to_user\<close> leaves the
  rest of the user buffer alone. Both return the number of bytes left, converted to int.
\<close>

definition copy_from_user__buffer :: "kapi \<Rightarrow> u64 \<Rightarrow> int \<Rightarrow> u64 \<Rightarrow> nat \<Rightarrow> 'a umem_scheme \<Rightarrow> kstate \<Rightarrow> (int \<times> kstate) res" where
  "copy_from_user__buffer k p pos buf n w s =
     (if n = 0 then Inr (0, s)
      else
        bindR (block_range (ks_bufs s) p pos n) (\<lambda>bs.
        let left = left_of k (ks_trace s) n;
            new = user_read w buf (n - left) @ replicate left 0
        in Inr (s32 (int left),
             s\<lparr>ks_bufs := (ks_bufs s)(p \<mapsto> take (nat pos) bs @ new @ drop (nat pos + n) bs),
               ks_trace := ks_trace s @ [CopyFromUser n left]\<rparr>)))"

definition copy_to_user__buffer :: "kapi \<Rightarrow> u64 \<Rightarrow> int \<Rightarrow> u64 \<Rightarrow> nat \<Rightarrow> 'a umem_scheme \<Rightarrow> kstate \<Rightarrow> (int \<times> 'a umem_scheme \<times> kstate) res" where
  "copy_to_user__buffer k p pos buf n w s =
     (if n = 0 then Inr (0, w, s)
      else
        bindR (block_range (ks_bufs s) p pos n) (\<lambda>bs.
        let left = left_of k (ks_trace s) n
        in Inr (s32 (int left), user_write buf (take (n - left) (drop (nat pos) bs)) w,
             s\<lparr>ks_trace := ks_trace s @ [CopyToUser n left]\<rparr>)))"

text \<open>The same for a register value: the first \<open>4 - left\<close> bytes of the word arrive.\<close>

definition copy_to_user_word :: "kapi \<Rightarrow> u32 \<Rightarrow> u64 \<Rightarrow> 'a umem_scheme \<Rightarrow> kstate \<Rightarrow> int \<times> 'a umem_scheme \<times> kstate" where
  "copy_to_user_word k v a w s =
     (let left = left_of k (ks_trace s) 4; n = 8 * (4 - left)
      in (int left,
          w\<lparr>u_words := (u_words w)(a := (u_words w a AND NOT (mask n)) OR (v AND mask n))\<rparr>,
          s\<lparr>ks_trace := ks_trace s @ [CopyToUser 4 left]\<rparr>))"

text \<open>The ioctl structure: \<open>xi\<close> is what user memory holds at the argument.\<close>

definition copy_from_user_info :: "kapi \<Rightarrow> kstate \<Rightarrow> int \<times> kstate" where
  "copy_from_user_info k s =
     (let left = left_of k (ks_trace s) 56
      in (int left, s\<lparr>ks_trace := ks_trace s @ [CopyFromUser 56 left]\<rparr>))"

section \<open>Lemmas on the copies\<close>

lemma length_user_read [simp]: "length (user_read w a n) = n"
  by (simp add: user_read_def)

lemma user_read_write:
  assumes "length bs < 2 ^ 64"
  shows "user_read (user_write a bs w) a (length bs) = bs"
proof (rule nth_equalityI)
  fix i assume "i < length (user_read (user_write a bs w) a (length bs))"
  then have i: "i < length bs" by simp
  then have "unat (of_nat i :: u64) = i" using assms by (simp add: unat_of_nat take_bit_nat_eq_self)
  then show "user_read (user_write a bs w) a (length bs) ! i = bs ! i"
    using i by (simp add: user_read_def user_write_def Let_def)
qed simp

lemma block_range_in:
  "p \<noteq> 0 \<Longrightarrow> bufs p = Some bs \<Longrightarrow> 0 \<le> pos \<Longrightarrow> pos + int n \<le> int (length bs) \<Longrightarrow>
   block_range bufs p pos n = Inr bs"
  by (simp add: block_range_def)

lemma block_range_out:
  "p \<noteq> 0 \<Longrightarrow> bufs p = Some bs \<Longrightarrow> pos < 0 \<or> int (length bs) < pos + int n \<Longrightarrow>
   block_range bufs p pos n = Inl OutOfBounds"
  by (auto simp: block_range_def guardR_def)

lemma block_range_NULL [simp]: "block_range bufs 0 pos n = Inl NullDeref"
  by (simp add: block_range_def)

lemma copy_from_user_full:
  assumes "k_left k (ks_trace s) n = 0" "0 < n" "block_range (ks_bufs s) p pos n = Inr bs"
  shows "copy_from_user__buffer k p pos buf n w s = Inr (0,
     s\<lparr>ks_bufs := (ks_bufs s)(p \<mapsto> take (nat pos) bs @ user_read w buf n @ drop (nat pos + n) bs),
       ks_trace := ks_trace s @ [CopyFromUser n 0]\<rparr>)"
  using assms by (simp add: copy_from_user__buffer_def left_of_def Let_def s32_id)

lemma copy_to_user_full:
  assumes "k_left k (ks_trace s) n = 0" "0 < n" "block_range (ks_bufs s) p pos n = Inr bs"
  shows "copy_to_user__buffer k p pos buf n w s = Inr (0, user_write buf (take n (drop (nat pos) bs)) w,
     s\<lparr>ks_trace := ks_trace s @ [CopyToUser n 0]\<rparr>)"
  using assms by (simp add: copy_to_user__buffer_def left_of_def Let_def s32_id)

lemma copy_to_user_word_full:
  assumes "k_left k (ks_trace s) 4 = 0"
  shows "copy_to_user_word k v a w s = (0, w\<lparr>u_words := (u_words w)(a := v)\<rparr>,
     s\<lparr>ks_trace := ks_trace s @ [CopyToUser 4 0]\<rparr>)"
proof -
  have "(mask 32 :: u32) = -1" by (simp add: mask_eq_exp_minus_1)
  then show ?thesis using assms by (simp add: copy_to_user_word_def left_of_def Let_def)
qed

end
