(* ===== verification/XdmaCtrl.thy ===== *)
theory XdmaCtrl
  imports DriverState
begin

unbundle bit_operations_syntax

text \<open>
  The ioctl and mmap handlers of the kernel module (\<open>driver/vi53xx_xdma_ctrl.c\<close>). The
  configurations of the channels are copied out of \<open>xdev\<close>, which stays as it is; what
  changes is the global \<open>xdma_setting\<close>, the DMA buffers, user memory and the trace.
  A structure on the stack that no branch fills is the argument \<open>u\<close>.
\<close>

definition get_xdma_setting :: "kstate \<Rightarrow> xdma_info" where
  "get_xdma_setting s = ks_setting s"

definition with_trace :: "(int \<times> trace) res \<Rightarrow> kstate \<Rightarrow> (int \<times> kstate) res" where
  "with_trace r s = bindR r (\<lambda>(ret, tr). Inr (ret, s\<lparr>ks_trace := tr\<rparr>))"

definition drv_xdma_stop :: "xdma_dev \<Rightarrow> int \<Rightarrow> int \<Rightarrow> kstate \<Rightarrow> (int \<times> kstate) res" where
  "drv_xdma_stop xdev ch dir s =
     bindR (with_trace (xdma_stop xdev (word_of_int ch) (word_of_int dir) (ks_trace s)) s)
       (\<lambda>(_, s1). Inr (0, s1))"

definition drv_xdma_reg :: "kapi \<Rightarrow> xdma_dev \<Rightarrow> xdma_info \<Rightarrow> 'a umem_scheme \<Rightarrow> kstate \<Rightarrow> (int \<times> 'a umem_scheme \<times> kstate) res" where
  "drv_xdma_reg k xdev info w s =
     bindR (nthI (bar xdev) (x_bar info)) (\<lambda>reg_base.
     if x_wr info = 0 then
       bindR (read_reg k reg_base (x_offset info) (ks_trace s)) (\<lambda>(val, tr1).
       Inr (copy_to_user_word k val (x_r_val info) w (s\<lparr>ks_trace := tr1\<rparr>)))
     else if x_wr info = 1 then
       bindR (write_reg reg_base (x_offset info) (x_w_val info) (ks_trace s)) (\<lambda>(_, tr1).
       Inr (0, w, s\<lparr>ks_trace := tr1\<rparr>))
     else Inr (0, w, s))"

text \<open>\<open>vi53xx_xdma_start\<close> of the driver takes the configuration at the channel number itself.\<close>

definition drv_xdma_start :: "kapi \<Rightarrow> xdma_cfg_info \<Rightarrow> xdma_dev \<Rightarrow> int \<Rightarrow> int \<Rightarrow> kstate \<Rightarrow> (int \<times> kstate) res" where
  "drv_xdma_start k u xdev ch dir s =
     bindR (if dir = H2C_DIR then nthI (H2C_dma_cfg xdev) ch
            else if dir = C2H_DIR then nthI (C2H_dma_cfg xdev) ch
            else Inr u) (\<lambda>cfg.
     bindR (with_trace (xdma_start_desc xdev (word_of_int ch) cfg (ks_trace s)) s) (\<lambda>(_, s1).
     bindR (with_trace (xdma_start k xdev (word_of_int ch) (word_of_int dir) (ks_trace s1)) s1) (\<lambda>(_, s2).
     Inr (0, s2))))"

definition get_pdata :: "xdma_cfg_info \<Rightarrow> u64 res" where
  "get_pdata cfg = nthR (pData cfg) 0"

definition get_xdma_cfg :: "xdma_dev \<Rightarrow> xdma_info \<Rightarrow> xdma_cfg_info res" where
  "get_xdma_cfg xdev info =
     (let dir = uint (x_dir info); ch = x_channel info
      in if dir = H2C_DIR then nthI (H2C_dma_cfg xdev) (ch - 1)
         else nthI (C2H_dma_cfg xdev) (ch - 1))"

definition drv_xdma_exit :: "xdma_cfg_info \<Rightarrow> int" where
  "drv_xdma_exit cfg = 0"

text \<open>The size \<open>pos\<close> is stored in an int.\<close>

definition pos_int :: "xdma_info \<Rightarrow> int" where
  "pos_int xi = s32 (uint (x_pos xi))"

section \<open>The commands\<close>

definition cmd_init :: "kapi \<Rightarrow> xdma_dev \<Rightarrow> xdma_info \<Rightarrow> 'a umem_scheme \<Rightarrow> kstate \<Rightarrow> (int \<times> 'a umem_scheme \<times> kstate) res" where
  "cmd_init k xdev xi w s =
     bindR (nthI (H2C_dma_cfg xdev) (x_channel xi - 1)) (\<lambda>cfg.
     bindR (get_pdata cfg) (\<lambda>p.
     bindR (copy_from_user__buffer k p (pos_int xi) (x_buf xi) (unat (x_len xi)) w s) (\<lambda>(ret, s1).
     Inr (ret, w, s1))))"

definition cmd_print :: "kapi \<Rightarrow> xdma_dev \<Rightarrow> xdma_info \<Rightarrow> 'a umem_scheme \<Rightarrow> kstate \<Rightarrow> (int \<times> 'a umem_scheme \<times> kstate) res" where
  "cmd_print k xdev xi w s =
     bindR (nthI (C2H_dma_cfg xdev) (x_channel xi - 1)) (\<lambda>cfg.
     bindR (get_pdata cfg) (\<lambda>p.
     copy_to_user__buffer k p (pos_int xi) (x_buf xi) (unat (x_len xi)) w s))"

definition cmd_dump :: "kapi \<Rightarrow> xdma_dev \<Rightarrow> xdma_info \<Rightarrow> 'a umem_scheme \<Rightarrow> kstate \<Rightarrow> (int \<times> 'a umem_scheme \<times> kstate) res" where
  "cmd_dump k xdev xi w s =
     bindR (nthI (H2C_dma_cfg xdev) (x_channel xi - 1)) (\<lambda>cfg.
     bindR (get_pdata cfg) (\<lambda>p.
     copy_to_user__buffer k p (pos_int xi) (x_buf xi) (unat (x_len xi)) w s))"

text \<open>
  The dispatcher. Every known command first copies the structure; if that fails the number
  of bytes left is the result.
\<close>

definition vi53xx_ioctl_xdma :: "kapi \<Rightarrow> xdma_cfg_info \<Rightarrow> u32 \<Rightarrow> xdma_info \<Rightarrow> xdma_dev \<Rightarrow> 'a umem_scheme \<Rightarrow> kstate \<Rightarrow> (int \<times> 'a umem_scheme \<times> kstate) res" where
  "vi53xx_ioctl_xdma k u cmd xi xdev w s =
     (if cmd \<notin> {CMD_XDMA_INIT, CMD_XDMA_START, CMD_XDMA_STOP, CMD_XDMA_REG, CMD_XDMA_PRINT,
                CMD_XDMA_SETTING, CMD_XDMA_EXIT, CMD_XDMA_DUMP}
      then Inr (- EINVAL, w, s)
      else
        (let (ret, s1) = copy_from_user_info k s
         in if ret \<noteq> 0 then Inr (ret, w, s1)
            else if cmd = CMD_XDMA_INIT then cmd_init k xdev xi w s1
            else if cmd = CMD_XDMA_START then
              bindR (drv_xdma_start k u xdev (x_channel xi) (uint (x_dir xi)) s1) (\<lambda>(ret, s2). Inr (ret, w, s2))
            else if cmd = CMD_XDMA_STOP then
              bindR (drv_xdma_stop xdev (x_channel xi) (uint (x_dir xi)) s1) (\<lambda>(ret, s2). Inr (ret, w, s2))
            else if cmd = CMD_XDMA_REG then drv_xdma_reg k xdev xi w s1
            else if cmd = CMD_XDMA_PRINT then cmd_print k xdev xi w s1
            else if cmd = CMD_XDMA_SETTING then Inr (0, w, s1\<lparr>ks_setting := xi\<rparr>)
            else if cmd = CMD_XDMA_EXIT then
              bindR (get_xdma_cfg xdev xi) (\<lambda>cfg. let r = drv_xdma_exit cfg in Inr (0, w, s1))
            else cmd_dump k xdev xi w s1))"

definition i_xdma_mmap :: "kapi \<Rightarrow> xdma_dev \<Rightarrow> pci_dev \<Rightarrow> xdma_info \<Rightarrow> u64 \<Rightarrow> kstate \<Rightarrow> (int \<times> kstate) res" where
  "i_xdma_mmap k xdev pdev info vm_size s =
     bindR (get_xdma_cfg xdev info) (\<lambda>cfg.
     let p = (case ks_drvdata s pdev of None \<Rightarrow> 0 | Some p \<Rightarrow> p) in
     bindR (deref_xpdev p s) (\<lambda>xp.
     bindR (xdma_mmap k (Some xp) vm_size cfg (ks_trace s)) (\<lambda>(ret, xp1, tr1).
     Inr (ret, s\<lparr>ks_trace := tr1, ks_xpdevs := (ks_xpdevs s)(p \<mapsto> xp1)\<rparr>))))"

definition drv_xdma_mmap :: "kapi \<Rightarrow> xdma_dev \<Rightarrow> pci_dev \<Rightarrow> u64 \<Rightarrow> kstate \<Rightarrow> (int \<times> kstate) res" where
  "drv_xdma_mmap k xdev pdev vm_size s = i_xdma_mmap k xdev pdev (get_xdma_setting s) vm_size s"

section \<open>Properties\<close>

definition known_cmds :: "u32 set" where
  "known_cmds = {CMD_XDMA_INIT, CMD_XDMA_START, CMD_XDMA_STOP, CMD_XDMA_REG, CMD_XDMA_PRINT,
     CMD_XDMA_SETTING, CMD_XDMA_EXIT, CMD_XDMA_DUMP}"

text \<open>When the ioctl structure cannot be copied completely, no command is carried out, and
  the number of bytes left is returned: a positive result, which callers that test for negative
  ones take for success.\<close>

lemma ioctl_partial_copy_returns_positive:
  assumes "0 < k_left k (ks_trace s) 56" "cmd \<in> known_cmds"
  shows "\<exists>n. vi53xx_ioctl_xdma k u cmd xi xdev w s =
      Inr (int n, w, s\<lparr>ks_trace := ks_trace s @ [CopyFromUser 56 n]\<rparr>) \<and> 0 < n \<and> n \<le> 56"
  using assms
  by (intro exI [of _ "min 56 (k_left k (ks_trace s) 56)"])
    (simp add: vi53xx_ioctl_xdma_def copy_from_user_info_def left_of_def known_cmds_def Let_def)

lemma ioctl_partial_copy_returns_positive_witness:
  "\<exists>n. vi53xx_ioctl_xdma (ram_kapi\<lparr>k_left := \<lambda>_ _. 8\<rparr>) zero_cfg CMD_XDMA_REG zero_xdma_info zero_xdev
      \<lparr>u_words = \<lambda>_. 0, u_bytes = \<lambda>_. 0\<rparr> kstart =
      Inr (int n, \<lparr>u_words = \<lambda>_. 0, u_bytes = \<lambda>_. 0\<rparr>, kstart\<lparr>ks_trace := ks_trace kstart @ [CopyFromUser 56 n]\<rparr>) \<and> 0 < n"
  using ioctl_partial_copy_returns_positive [of "ram_kapi\<lparr>k_left := \<lambda>_ _. 8\<rparr>" kstart CMD_XDMA_REG zero_cfg
      zero_xdma_info zero_xdev "\<lparr>u_words = \<lambda>_. 0, u_bytes = \<lambda>_. 0\<rparr>"] by (auto simp: known_cmds_def)

text \<open>C30: The write-buffer command checks neither position nor length: it goes outside the DMA
  buffer exactly when the position (as an int) is negative or position plus length exceed the
  buffer, and otherwise it writes the user's bytes at the position and nothing else.\<close>

theorem ioctl_write_bounds:
  assumes "\<forall>tr n. k_left k tr n = 0" "1 \<le> x_channel xi" "x_channel xi \<le> 2" "xdev_wf xdev"
    "p = pData (H2C_dma_cfg xdev ! nat (x_channel xi - 1)) ! 0" "p \<noteq> 0" "ks_bufs s p = Some bs" "x_len xi \<noteq> 0"
  shows "(vi53xx_ioctl_xdma k u CMD_XDMA_INIT xi xdev w s = Inl OutOfBounds \<longleftrightarrow>
       pos_int xi < 0 \<or> int (length bs) < pos_int xi + int (unat (x_len xi))) \<and>
    (0 \<le> pos_int xi \<and> pos_int xi + int (unat (x_len xi)) \<le> int (length bs) \<longrightarrow>
       vi53xx_ioctl_xdma k u CMD_XDMA_INIT xi xdev w s = Inr (0, w,
         s\<lparr>ks_bufs := (ks_bufs s)(p \<mapsto> take (nat (pos_int xi)) bs @
             user_read w (x_buf xi) (unat (x_len xi)) @ drop (nat (pos_int xi) + unat (x_len xi)) bs),
           ks_trace := ks_trace s @ [CopyFromUser 56 0, CopyFromUser (unat (x_len xi)) 0]\<rparr>))"
proof -
  let ?s = "s\<lparr>ks_trace := ks_trace s @ [CopyFromUser 56 0]\<rparr>" and ?n = "unat (x_len xi)"
  let ?cfg = "H2C_dma_cfg xdev ! nat (x_channel xi - 1)"
  have n: "0 < ?n" using assms(8) by (simp add: unat_gt_0)
  have cfg: "nthI (H2C_dma_cfg xdev) (x_channel xi - 1) = Inr ?cfg" and len: "length (H2C_dma_cfg xdev) = 2"
    using assms(2-4) by (simp_all add: xdev_wf_def)
  have "?cfg \<in> set (H2C_dma_cfg xdev)" using assms(2,3) len by (intro nth_mem) simp
  then have wf: "cfg_wf ?cfg" using assms(4) by (auto simp: xdev_wf_def)
  have pd: "get_pdata ?cfg = Inr p" using wf assms(5) by (simp add: get_pdata_def cfg_wf_def)
  have io: "vi53xx_ioctl_xdma k u CMD_XDMA_INIT xi xdev w s =
      bindR (copy_from_user__buffer k p (pos_int xi) (x_buf xi) ?n w ?s) (\<lambda>(ret, s1). Inr (ret, w, s1))"
    using assms(1) by (simp add: vi53xx_ioctl_xdma_def copy_from_user_info_def left_of_def Let_def cmd_init_def cfg pd)
  show ?thesis
  proof (cases "0 \<le> pos_int xi \<and> pos_int xi + int ?n \<le> int (length bs)")
    case True
    then have b: "block_range (ks_bufs ?s) p (pos_int xi) ?n = Inr bs"
      using assms(6,7) by (intro block_range_in) simp_all
    show ?thesis using True by (simp add: io copy_from_user_full [OF _ n b] assms(1))
  next
    case False
    then have "block_range (ks_bufs ?s) p (pos_int xi) ?n = Inl OutOfBounds"
      using assms(6,7) by (intro block_range_out) auto
    then show ?thesis using False n by (auto simp: io copy_from_user__buffer_def)
  qed
qed

lemma ioctl_write_bounds_witness:
  "vi53xx_ioctl_xdma ram_kapi zero_cfg CMD_XDMA_INIT
     (zero_xdma_info\<lparr>x_channel := 1, x_pos := 0x1FFF, x_len := 2\<rparr>)
     (zero_xdev\<lparr>H2C_dma_cfg := replicate 2 (zero_cfg\<lparr>pData := replicate 64 0x1000\<rparr>)\<rparr>)
     \<lparr>u_words = \<lambda>_. 0, u_bytes = \<lambda>_. 0\<rparr>
     (kstart\<lparr>ks_bufs := [0x1000 \<mapsto> replicate 0x2000 0]\<rparr>) = Inl OutOfBounds"
proof -
  let ?xi = "zero_xdma_info\<lparr>x_channel := 1, x_pos := 0x1FFF, x_len := 2\<rparr>"
  let ?x = "zero_xdev\<lparr>H2C_dma_cfg := replicate 2 (zero_cfg\<lparr>pData := replicate 64 0x1000\<rparr>)\<rparr>"
  have wf: "xdev_wf ?x" by (simp add: xdev_wf_def zero_xdev_def cfg_wf_def zero_cfg_def)
  have pos: "pos_int ?xi = 0x1FFF" by (simp add: pos_int_def s32_id)
  have left: "\<forall>tr n. k_left ram_kapi tr n = 0" by (simp add: ram_kapi_def)
  have h: "1 \<le> x_channel ?xi" "x_channel ?xi \<le> 2" "0x1000 = pData (H2C_dma_cfg ?x ! nat (x_channel ?xi - 1)) ! 0"
    "(0x1000 :: u64) \<noteq> 0" "ks_bufs (kstart\<lparr>ks_bufs := [0x1000 \<mapsto> replicate 0x2000 0]\<rparr>) 0x1000 = Some (replicate 0x2000 0)"
    "x_len ?xi \<noteq> 0" by simp_all
  from ioctl_write_bounds [OF left h(1,2) wf h(3-6)] show ?thesis by (simp add: pos)
qed

text \<open>C31: Starting a transfer on channel 2 always reads past the array of two configurations, in
  either direction: the handler uses the channel number, which starts at 1, as the index. On
  channel 1 it therefore takes the configuration of channel 2.\<close>

theorem start_takes_wrong_config:
  assumes "\<forall>tr n. k_left k tr n = 0" "xdev_wf xdev" "x_dir xi = 0 \<or> x_dir xi = 1"
  shows "(x_channel xi = 2 \<longrightarrow> vi53xx_ioctl_xdma k u CMD_XDMA_START xi xdev w s = Inl OutOfBounds) \<and>
    (x_channel xi = 1 \<longrightarrow> drv_xdma_start k u xdev 1 (uint (x_dir xi)) s =
       bindR (with_trace (xdma_start_desc xdev 1
           (if x_dir xi = 0 then H2C_dma_cfg xdev ! 1 else C2H_dma_cfg xdev ! 1) (ks_trace s)) s) (\<lambda>(_, s1).
       bindR (with_trace (xdma_start k xdev 1 (x_dir xi) (ks_trace s1)) s1) (\<lambda>(_, s2). Inr (0, s2))))"
proof -
  have len: "length (H2C_dma_cfg xdev) = 2" "length (C2H_dma_cfg xdev) = 2"
    using assms(2) by (simp_all add: xdev_wf_def)
  have c: "copy_from_user_info k s = (0, s\<lparr>ks_trace := ks_trace s @ [CopyFromUser 56 0]\<rparr>)"
    using assms(1) by (simp add: copy_from_user_info_def left_of_def)
  have "drv_xdma_start k u xdev 2 (uint (x_dir xi)) t = Inl OutOfBounds" for t
    using assms(3) by (auto simp: drv_xdma_start_def nthI_out len)
  then show ?thesis using assms(3) len
    by (auto simp: vi53xx_ioctl_xdma_def c drv_xdma_start_def)
qed

lemma start_takes_wrong_config_witness:
  "vi53xx_ioctl_xdma ram_kapi zero_cfg CMD_XDMA_START (zero_xdma_info\<lparr>x_channel := 2, x_dir := 1\<rparr>) zero_xdev
     \<lparr>u_words = \<lambda>_. 0, u_bytes = \<lambda>_. 0\<rparr> kstart = Inl OutOfBounds"
proof -
  have left: "\<forall>tr n. k_left ram_kapi tr n = 0" by (simp add: ram_kapi_def)
  show ?thesis
    using start_takes_wrong_config [OF left zero_xdev_wf, of "zero_xdma_info\<lparr>x_channel := 2, x_dir := 1\<rparr>"] by simp
qed

text \<open>The record of a channel and direction that a setting names.\<close>

definition named_cfg :: "xdma_dev \<Rightarrow> xdma_info \<Rightarrow> xdma_cfg_info" where
  "named_cfg xdev xi = (if x_dir xi = 0 then H2C_dma_cfg xdev else C2H_dma_cfg xdev) ! nat (x_channel xi - 1)"

text \<open>A board whose records and mapped flags have their sizes, and a channel of it.\<close>

definition mmap_ready :: "xdma_dev \<Rightarrow> xdma_pci_dev \<Rightarrow> xdma_info \<Rightarrow> bool" where
  "mmap_ready xdev xp xi \<longleftrightarrow> xdev_wf xdev \<and> 1 \<le> x_channel xi \<and> x_channel xi \<le> 2 \<and>
     length (fmap xp) = 2 \<and> (\<forall>row \<in> set (fmap xp). length row = 4) \<and>
     unat (direction (named_cfg xdev xi)) < 2 \<and> 0 \<le> channel (named_cfg xdev xi) \<and> channel (named_cfg xdev xi) < 4"

lemma setting_result:
  "\<forall>tr n. k_left k tr n = 0 \<Longrightarrow> vi53xx_ioctl_xdma k u CMD_XDMA_SETTING xi xdev w s =
     Inr (0, w, s\<lparr>ks_trace := ks_trace s @ [CopyFromUser 56 0], ks_setting := xi\<rparr>)"
  by (simp add: vi53xx_ioctl_xdma_def copy_from_user_info_def left_of_def Let_def)

lemma mmap_maps_setting:
  assumes "mmap_ready xdev xp (ks_setting s)" "ks_drvdata s pdev = Some p" "p \<noteq> 0" "ks_xpdevs s p = Some xp"
    "cfg = named_cfg xdev (ks_setting s)"
  shows "\<exists>xp'. drv_xdma_mmap k xdev pdev sz s =
    (let tr = ks_trace s @ (if fmap xp ! unat (direction cfg) ! nat (channel cfg) = 0
                            then [MemUncached (pData cfg ! 0) (unat (drop_bit 12 (cfg_size cfg)))] else [])
     in Inr (k_dma_common_mmap k tr (pData cfg ! 0) (data_phy_addr cfg ! 0) sz,
             s\<lparr>ks_trace := tr, ks_xpdevs := (ks_xpdevs s)(p \<mapsto> xp')\<rparr>))"
proof -
  let ?xi = "ks_setting s"
  have len: "length (H2C_dma_cfg xdev) = 2" "length (C2H_dma_cfg xdev) = 2" and ch: "1 \<le> x_channel ?xi" "x_channel ?xi \<le> 2"
    using assms(1) by (simp_all add: mmap_ready_def xdev_wf_def)
  then have "cfg \<in> set (H2C_dma_cfg xdev) \<union> set (C2H_dma_cfg xdev)"
    by (auto simp: assms(5) named_cfg_def intro!: nth_mem)
  then have wf: "cfg_wf cfg" using assms(1) by (auto simp: mmap_ready_def xdev_wf_def)
  have g: "get_xdma_cfg xdev ?xi = Inr cfg"
    using len ch by (auto simp: get_xdma_cfg_def assms(5) named_cfg_def unsigned_eq_0_iff Let_def)
  let ?row = "fmap xp ! unat (direction cfg)"
  have d: "unat (direction cfg) < length (fmap xp)" "0 \<le> channel cfg" "channel cfg < int (length ?row)"
    using assms(1,5) by (auto simp: mmap_ready_def)
  show ?thesis
    using assms(2-4) wf d
    by (cases "?row ! nat (channel cfg) = 0")
      (auto simp: drv_xdma_mmap_def i_xdma_mmap_def get_xdma_setting_def g deref_xpdev_def xdma_mmap_def cfg_wf_def Let_def)
qed

text \<open>C32: The buffer that an mmap maps is chosen by the last setting command of any process on any
  board, since the setting is one global of the module: after a process made the setting for its
  own mmap, the mmap maps the first buffer and bus address of the channel and direction it named;
  when a setting of another process comes in between, the same mmap maps the buffer that the
  other one named. The pages are made uncached first, unless the flag of that channel is set. The
  boards have their records and a channel is 1 or 2.\<close>

theorem mmap_uses_last_setting:
  assumes "\<forall>tr n. k_left k tr n = 0"
    "vi53xx_ioctl_xdma k u CMD_XDMA_SETTING mine xdev w s = Inr (r1, w1, s1)"
    "vi53xx_ioctl_xdma k u2 CMD_XDMA_SETTING other xdev2 w' s1 = Inr (r2, w2, s2)"
    "ks_drvdata s pdev = Some p" "p \<noteq> 0" "ks_xpdevs s p = Some xp" "mmap_ready xdev xp mine" "mmap_ready xdev xp other"
    "(t, xi) \<in> {(s1, mine), (s2, other)}" "cfg = (if x_dir xi = 0 then H2C_dma_cfg xdev else C2H_dma_cfg xdev) ! nat (x_channel xi - 1)"
  shows "r1 = 0 \<and> r2 = 0 \<and> (\<exists>xp'. drv_xdma_mmap k xdev pdev sz t =
    (let tr = ks_trace t @ (if fmap xp ! unat (direction cfg) ! nat (channel cfg) = 0
                            then [MemUncached (pData cfg ! 0) (unat (drop_bit 12 (cfg_size cfg)))] else [])
     in Inr (k_dma_common_mmap k tr (pData cfg ! 0) (data_phy_addr cfg ! 0) sz,
             t\<lparr>ks_trace := tr, ks_xpdevs := (ks_xpdevs t)(p \<mapsto> xp')\<rparr>)))"
proof -
  have r: "r1 = 0" "r2 = 0" "s1 = s\<lparr>ks_trace := ks_trace s @ [CopyFromUser 56 0], ks_setting := mine\<rparr>"
    "s2 = s1\<lparr>ks_trace := ks_trace s1 @ [CopyFromUser 56 0], ks_setting := other\<rparr>"
    using assms(2,3) by (simp_all add: setting_result [OF assms(1)])
  have t: "ks_setting t = xi" "ks_drvdata t pdev = Some p" "ks_xpdevs t p = Some xp" "mmap_ready xdev xp (ks_setting t)"
    using assms(4,6-9) by (auto simp: r(3,4))
  have cfg: "cfg = named_cfg xdev (ks_setting t)" using assms(10) by (simp add: t(1) named_cfg_def)
  show ?thesis using r(1,2) mmap_maps_setting [OF t(4,2) assms(5) t(3) cfg] by blast
qed

text \<open>The first buffers of the two channels of the example are at 0x1000 and 0x2000.\<close>

lemma mmap_uses_last_setting_witness:
  "\<exists>s1 s2 xp'. vi53xx_ioctl_xdma ram_kapi zero_cfg CMD_XDMA_SETTING (zero_xdma_info\<lparr>x_channel := 1\<rparr>) zero_xdev
       \<lparr>u_words = \<lambda>_. 0, u_bytes = \<lambda>_. 0\<rparr> (kstart\<lparr>ks_drvdata := [example_pci \<mapsto> 7],
          ks_xpdevs := [7 \<mapsto> \<lparr>xp_pdev = example_pci, xp_xdev = None, ctrl_cdev = zero_cdev, xp_flags = 0, xp_bus = 0,
            fmap = replicate 2 (replicate 4 0)\<rparr>]\<rparr>) = Inr (0, \<lparr>u_words = \<lambda>_. 0, u_bytes = \<lambda>_. 0\<rparr>, s1) \<and>
     vi53xx_ioctl_xdma ram_kapi zero_cfg CMD_XDMA_SETTING (zero_xdma_info\<lparr>x_channel := 2\<rparr>) zero_xdev
       \<lparr>u_words = \<lambda>_. 0, u_bytes = \<lambda>_. 0\<rparr> s1 = Inr (0, \<lparr>u_words = \<lambda>_. 0, u_bytes = \<lambda>_. 0\<rparr>, s2) \<and>
     drv_xdma_mmap ram_kapi (zero_xdev\<lparr>H2C_dma_cfg := [zero_cfg\<lparr>pData := replicate 64 0x1000\<rparr>, zero_cfg\<lparr>pData := replicate 64 0x2000\<rparr>]\<rparr>)
       example_pci 4096 s2 = Inr (0, s2\<lparr>ks_trace := ks_trace s2 @ [MemUncached 0x2000 0], ks_xpdevs := (ks_xpdevs s2)(7 \<mapsto> xp')\<rparr>)"
proof -
  let ?w = "\<lparr>u_words = \<lambda>_. 0 :: u32, u_bytes = \<lambda>_. 0 :: u8\<rparr>"
  let ?xp = "\<lparr>xp_pdev = example_pci, xp_xdev = None, ctrl_cdev = zero_cdev, xp_flags = 0, xp_bus = 0,
    fmap = replicate 2 (replicate 4 (0 :: int))\<rparr>"
  let ?s = "kstart\<lparr>ks_drvdata := [example_pci \<mapsto> 7], ks_xpdevs := [7 \<mapsto> ?xp]\<rparr>"
  let ?x = "zero_xdev\<lparr>H2C_dma_cfg := [zero_cfg\<lparr>pData := replicate 64 0x1000\<rparr>, zero_cfg\<lparr>pData := replicate 64 0x2000\<rparr>]\<rparr>"
  let ?m = "zero_xdma_info\<lparr>x_channel := 1\<rparr>" and ?o = "zero_xdma_info\<lparr>x_channel := 2\<rparr>"
  have left: "\<forall>tr n. k_left ram_kapi tr n = 0" by (simp add: ram_kapi_def)
  obtain s1 where s1: "vi53xx_ioctl_xdma ram_kapi zero_cfg CMD_XDMA_SETTING ?m zero_xdev ?w ?s = Inr (0, ?w, s1)"
    using setting_result [OF left] by metis
  obtain s2 where s2: "vi53xx_ioctl_xdma ram_kapi zero_cfg CMD_XDMA_SETTING ?o zero_xdev ?w s1 = Inr (0, ?w, s2)"
    using setting_result [OF left] by metis
  have x0: "x_dir zero_xdma_info = 0" by (simp add: zero_xdma_info_def)
  have s1': "vi53xx_ioctl_xdma ram_kapi zero_cfg CMD_XDMA_SETTING ?m ?x ?w ?s = Inr (0, ?w, s1)"
    using s1 by (simp add: setting_result [OF left])
  have rd: "mmap_ready ?x ?xp ?m" "mmap_ready ?x ?xp ?o"
    by (simp_all add: mmap_ready_def named_cfg_def xdev_wf_def zero_xdev_def cfg_wf_def zero_cfg_def x0)
  have d: "ks_drvdata ?s example_pci = Some 7" "(7 :: u64) \<noteq> 0" "ks_xpdevs ?s 7 = Some ?xp"
    "(s2, ?o) \<in> {(s1, ?m), (s2, ?o)}" by simp_all
  from mmap_uses_last_setting [OF left s1' s2 d(1-3) rd d(4) refl, of 4096] s1 s2
  show ?thesis by (auto simp: x0 zero_cfg_def ram_kapi_def [THEN arg_cong, of k_dma_common_mmap] Let_def)
qed

end
