(* ===== verification/XdmaDrv.thy ===== *)
theory XdmaDrv
  imports XdmaCtrl
begin

unbundle bit_operations_syntax

text \<open>
  The resources of one board in the kernel module (first half of
  \<open>driver/vi53xx_xdma_drv.c\<close>): mapping and unmapping the BARs, the DMA mask, the memory
  regions, the DMA buffers of the channels, and giving them back. Loops over an array of the
  structure stay inside it: the arrays have the sizes \<open>xdev_wf\<close> states.
\<close>

section \<open>Channel memory\<close>

record channel_addr =
  ca_addr :: u32
  ca_size :: u32

definition ch_addr :: "channel_addr list list" where
  "ch_addr = [[\<lparr>ca_addr = 0, ca_size = 0\<rparr>, \<lparr>ca_addr = 0x80100000, ca_size = 0x2000\<rparr>, \<lparr>ca_addr = 0, ca_size = 0\<rparr>],
              [\<lparr>ca_addr = 0, ca_size = 0\<rparr>, \<lparr>ca_addr = 0x80100000, ca_size = 0x2000\<rparr>,
               \<lparr>ca_addr = 0, ca_size = 0x400000\<rparr>]]"

definition get_ep_addr :: "int \<Rightarrow> int \<Rightarrow> u32 res" where
  "get_ep_addr ch dir = bindR (nthI ch_addr dir) (\<lambda>row. bindR (nthI row ch) (\<lambda>c. Inr (ca_addr c)))"

definition get_chanel_size :: "int \<Rightarrow> int \<Rightarrow> u32 res" where
  "get_chanel_size ch dir = bindR (nthI ch_addr dir) (\<lambda>row. bindR (nthI row ch) (\<lambda>c. Inr (ca_size c)))"

text \<open>The loop of \<open>xdma_physical_address_init\<close>.\<close>

function phys_init_from :: "kapi \<Rightarrow> nat \<Rightarrow> xdma_cfg_info \<Rightarrow> kstate \<Rightarrow> (int \<times> xdma_cfg_info \<times> kstate) res" where
  "phys_init_from k i cfg s =
     (if i < unat (SG_desc_num cfg) then
        (case dma_alloc_coherent k (unat (cfg_size cfg)) (ks_trace s) of
           (None, tr1) \<Rightarrow> Inr (- 1, cfg, s\<lparr>ks_trace := tr1\<rparr>)
         | (Some (p, phy), tr1) \<Rightarrow>
             bindR (updR (data_phy_addr cfg) i phy) (\<lambda>phys.
             bindR (updR (pData cfg) i p) (\<lambda>ptrs.
             phys_init_from k (Suc i) (cfg\<lparr>data_phy_addr := phys, pData := ptrs\<rparr>)
               (s\<lparr>ks_trace := tr1, ks_bufs := (ks_bufs s)(p \<mapsto> replicate (unat (cfg_size cfg)) 0)\<rparr>))))
      else Inr (0, cfg, s))"
  by pat_completeness auto
termination
  by (relation "measure (\<lambda>(k, i, cfg, s). unat (SG_desc_num cfg) - i)") auto

declare phys_init_from.simps [simp del]

definition xdma_physical_address_init :: "kapi \<Rightarrow> xdma_cfg_info \<Rightarrow> kstate \<Rightarrow> (int \<times> xdma_cfg_info \<times> kstate) res" where
  "xdma_physical_address_init k cfg s = phys_init_from k 0 cfg s"

text \<open>\<open>vi53xx_info_init\<close> ignores whether the memory was allocated.\<close>

definition vi53xx_info_init :: "kapi \<Rightarrow> xdma_cfg_info \<Rightarrow> kstate \<Rightarrow> (int \<times> xdma_cfg_info \<times> kstate) res" where
  "vi53xx_info_init k cfg s =
     (let ch = channel cfg; dir = uint (direction cfg) in
      bindR (get_ep_addr ch dir) (\<lambda>ep.
      bindR (get_chanel_size ch dir) (\<lambda>sz.
      bindR (updR (data_len cfg) 0 sz) (\<lambda>lens.
      bindR (xdma_physical_address_init k
               (cfg\<lparr>SG_desc_num := 1, ep_addr := ep, data_len := lens, cfg_size := ucast sz\<rparr>) s)
        (\<lambda>(_, cfg1, s1). Inr (0, cfg1, s1))))))"

section \<open>BARs, DMA mask and regions\<close>

definition map_single_bar :: "kapi \<Rightarrow> xdma_dev \<Rightarrow> nat \<Rightarrow> trace \<Rightarrow> int \<times> xdma_dev \<times> trace" where
  "map_single_bar k xdev idx tr =
     (let bar_len = k_pci_resource_len k idx; xdev1 = xdev\<lparr>bar := (bar xdev)[idx := 0]\<rparr>
      in if bar_len = 0 then (0, xdev1, tr)
         else (let a = k_pci_iomap k tr idx; xdev2 = xdev1\<lparr>bar := (bar xdev1)[idx := a]\<rparr>;
                   tr1 = tr @ [Iomap idx a]
               in if a = 0 then (- 1, xdev2, tr1) else (s32 (uint bar_len), xdev2, tr1)))"

definition set_dma_mask :: "kapi \<Rightarrow> pci_dev option \<Rightarrow> trace \<Rightarrow> int \<times> trace" where
  "set_dma_mask k pdev tr =
     (if pdev = None then (- EINVAL, tr)
      else if k_pci_set_dma_mask k (mask 64) = 0 then (0, tr @ [ConsistentMask (mask 64)])
      else if k_pci_set_dma_mask k (mask 32) = 0 then (0, tr @ [ConsistentMask (mask 32)])
      else (- EINVAL, tr))"

definition unmap_bar :: "nat \<Rightarrow> xdma_dev \<times> trace \<Rightarrow> xdma_dev \<times> trace" where
  "unmap_bar i = (\<lambda>(xdev, tr).
     if bar xdev ! i \<noteq> 0 then (xdev\<lparr>bar := (bar xdev)[i := 0]\<rparr>, tr @ [Iounmap (bar xdev ! i)])
     else (xdev, tr))"

definition unmap_bars :: "xdma_dev \<Rightarrow> trace \<Rightarrow> xdma_dev \<times> trace" where
  "unmap_bars xdev tr = fold unmap_bar [0..<XDMA_BAR_NUM] (xdev, tr)"

text \<open>The loop of \<open>map_bars\<close>; the list of mapped indices it fills is never read.\<close>

function map_from :: "kapi \<Rightarrow> nat \<Rightarrow> xdma_dev \<Rightarrow> trace \<Rightarrow> int \<times> xdma_dev \<times> trace" where
  "map_from k i xdev tr =
     (if i < XDMA_BAR_NUM then
        (let (bar_len, xdev1, tr1) = map_single_bar k xdev i tr
         in if bar_len = 0 then map_from k (Suc i) xdev1 tr1
            else if bar_len < 0 then
              (let (xdev2, tr2) = unmap_bars xdev1 tr1 in (- EINVAL, xdev2, tr2))
            else map_from k (Suc i) xdev1 tr1)
      else (0, xdev, tr))"
  by pat_completeness auto
termination
  by (relation "measure (\<lambda>(k, i, xdev, tr). XDMA_BAR_NUM - i)") auto

declare map_from.simps [simp del]

definition map_bars :: "kapi \<Rightarrow> xdma_dev \<Rightarrow> trace \<Rightarrow> int \<times> xdma_dev \<times> trace" where
  "map_bars k xdev tr = map_from k 0 xdev tr"

definition alloc_dev_instance :: "kapi \<Rightarrow> pci_dev option \<Rightarrow> trace \<Rightarrow> xdma_dev option \<times> trace" where
  "alloc_dev_instance k pdev tr =
     (if pdev = None then (None, tr)
      else (let p = k_kmalloc k tr; tr1 = tr @ [KAlloc p]
            in if p = 0 then (None, tr1) else (Some (zero_xdev\<lparr>xd_addr := p\<rparr>), tr1)))"

definition request_regions :: "kapi \<Rightarrow> xdma_dev option \<Rightarrow> pci_dev option \<Rightarrow> trace \<Rightarrow> int \<times> xdma_dev option \<times> trace" where
  "request_regions k xdev pdev tr =
     (case xdev of
        None \<Rightarrow> (- EINVAL, xdev, tr)
      | Some x \<Rightarrow>
          if pdev = None then (- EINVAL, xdev, tr)
          else (let rv = k_pci_request_regions k tr
                in if rv \<noteq> 0 then (rv, Some (x\<lparr>regions_in_use := 1\<rparr>), tr)
                   else (rv, Some (x\<lparr>got_regions := 1\<rparr>), tr @ [RegionsGot])))"

text \<open>
  \<open>xdma_device_map\<close> with its error labels: each one undoes its own step and falls into the
  next.
\<close>

definition free_xdev :: "xdma_dev \<Rightarrow> trace \<Rightarrow> trace" where
  "free_xdev xdev tr = tr @ [KFree (xd_addr xdev)]"

definition err_regions :: "xdma_dev \<Rightarrow> trace \<Rightarrow> trace" where
  "err_regions xdev tr = free_xdev xdev (if regions_in_use xdev = 0 then tr @ [PciDisable] else tr)"

definition err_map :: "xdma_dev \<Rightarrow> trace \<Rightarrow> trace" where
  "err_map xdev tr = err_regions xdev (if got_regions xdev \<noteq> 0 then tr @ [RegionsReleased] else tr)"

definition err_mask :: "xdma_dev \<Rightarrow> trace \<Rightarrow> trace" where
  "err_mask xdev tr = (let (xdev1, tr1) = unmap_bars xdev tr in err_map xdev1 tr1)"

definition xdma_device_map :: "kapi \<Rightarrow> pci_dev option \<Rightarrow> trace \<Rightarrow> xdma_dev option \<times> trace" where
  "xdma_device_map k pdev tr =
     (case alloc_dev_instance k pdev tr of
        (None, tr1) \<Rightarrow> (None, tr1)
      | (Some xdev, tr1) \<Rightarrow>
          if k_pci_enable_device k tr1 \<noteq> 0 then (None, free_xdev xdev tr1)
          else
            (case request_regions k (Some xdev) pdev (tr1 @ [PciEnable, PciSetMaster]) of
               (rv, xr, tr2) \<Rightarrow>
                 (let xdev1 = the xr
                  in if rv \<noteq> 0 then (None, err_regions xdev1 tr2)
                     else
                       (case map_bars k xdev1 tr2 of
                          (rv, xdev2, tr3) \<Rightarrow>
                            if rv \<noteq> 0 then (None, err_map xdev2 tr3)
                            else
                              (case set_dma_mask k pdev tr3 of
                                 (rv, tr4) \<Rightarrow>
                                   if rv \<noteq> 0 then (None, err_mask xdev2 tr4)
                                   else (Some xdev2, tr4))))))"

definition xdma_device_umap :: "xdma_dev option \<Rightarrow> trace \<Rightarrow> trace" where
  "xdma_device_umap dev_xdev tr =
     (case dev_xdev of
        None \<Rightarrow> tr
      | Some xdev \<Rightarrow>
          (let (xdev1, tr1) = unmap_bars xdev tr;
               tr2 = (if got_regions xdev1 \<noteq> 0 then tr1 @ [RegionsReleased] else tr1);
               tr3 = (if regions_in_use xdev1 = 0 then tr2 @ [PciDisable] else tr2)
           in tr3 @ [KFree (xd_addr xdev1)]))"

section \<open>Giving the DMA memory back\<close>

text \<open>
  The loop of \<open>xdma_free_c2h_pdata\<close> and \<open>xdma_free_h2c_pdata\<close> over the buffers of one
  channel: \<open>mapped\<close> is the \<open>fmap\<close> entry, an option because it is only read when there is a
  buffer to free.
\<close>

function free_pdata_from :: "int res \<Rightarrow> nat \<Rightarrow> nat \<Rightarrow> xdma_cfg_info \<Rightarrow> kstate \<Rightarrow> (xdma_cfg_info \<times> kstate) res" where
  "free_pdata_from mapped i desc_num cfg s =
     (if i < desc_num then
        bindR (nthR (pData cfg) i) (\<lambda>p.
        if p \<noteq> 0 then
          bindR mapped (\<lambda>m.
          bindR (nthR (data_phy_addr cfg) i) (\<lambda>phy.
          let tr1 = (if m \<noteq> 0 then ks_trace s @ [MemWriteback p (unat (drop_bit 12 (cfg_size cfg)))]
                     else ks_trace s);
              s1 = s\<lparr>ks_trace := tr1 @ [DmaFree p phy (unat (cfg_size cfg))],
                     ks_bufs := (ks_bufs s)(p := None)\<rparr>
          in free_pdata_from mapped (Suc i) desc_num (cfg\<lparr>pData := (pData cfg)[i := 0]\<rparr>) s1))
        else free_pdata_from mapped (Suc i) desc_num cfg s)
      else Inr (cfg, s))"
  by pat_completeness auto
termination
  by (relation "measure (\<lambda>(mapped, i, n, cfg, s). n - i)") auto

declare free_pdata_from.simps [simp del]

definition fmap_entry :: "pci_dev \<Rightarrow> int \<Rightarrow> nat \<Rightarrow> kstate \<Rightarrow> int res" where
  "fmap_entry pdev dir ch s =
     bindR (deref_xpdev (case ks_drvdata s pdev of None \<Rightarrow> 0 | Some p \<Rightarrow> p) s) (\<lambda>xp.
     bindR (nthI (fmap xp) dir) (\<lambda>row. nthR row ch))"

definition xdma_free_c2h_pdata :: "xdma_dev \<Rightarrow> nat \<Rightarrow> nat \<Rightarrow> pci_dev \<Rightarrow> kstate \<Rightarrow> (xdma_dev \<times> kstate) res" where
  "xdma_free_c2h_pdata xdev ch desc_num pdev s =
     bindR (nthR (C2H_dma_cfg xdev) ch) (\<lambda>cfg.
     bindR (free_pdata_from (fmap_entry pdev C2H_DIR ch s) 0 desc_num cfg s) (\<lambda>(cfg1, s1).
     Inr (xdev\<lparr>C2H_dma_cfg := (C2H_dma_cfg xdev)[ch := cfg1]\<rparr>, s1)))"

definition xdma_free_h2c_pdata :: "xdma_dev \<Rightarrow> nat \<Rightarrow> nat \<Rightarrow> pci_dev \<Rightarrow> kstate \<Rightarrow> (xdma_dev \<times> kstate) res" where
  "xdma_free_h2c_pdata xdev ch desc_num pdev s =
     bindR (nthR (H2C_dma_cfg xdev) ch) (\<lambda>cfg.
     bindR (free_pdata_from (fmap_entry pdev H2C_DIR ch s) 0 desc_num cfg s) (\<lambda>(cfg1, s1).
     Inr (xdev\<lparr>H2C_dma_cfg := (H2C_dma_cfg xdev)[ch := cfg1]\<rparr>, s1)))"

text \<open>One round of the loop over the channels.\<close>

definition free_channel_bufs :: "pci_dev \<Rightarrow> nat \<Rightarrow> xdma_dev \<Rightarrow> kstate \<Rightarrow> (xdma_dev \<times> kstate) res" where
  "free_channel_bufs pdev ch xdev s =
     bindR (nthR (C2H_dma_cfg xdev) ch) (\<lambda>c.
     bindR (xdma_free_c2h_pdata xdev ch (unat (SG_desc_num c)) pdev s) (\<lambda>(xdev1, s1).
     bindR (nthR (H2C_dma_cfg xdev1) ch) (\<lambda>h.
     xdma_free_h2c_pdata xdev1 ch (unat (SG_desc_num h)) pdev s1)))"

definition xdma_free_pci_bus_addr :: "xdma_dev \<Rightarrow> pci_dev \<Rightarrow> kstate \<Rightarrow> (xdma_dev \<times> kstate) res" where
  "xdma_free_pci_bus_addr xdev pdev s =
     bindR (free_channel_bufs pdev 0 xdev s) (\<lambda>(xdev1, s1). free_channel_bufs pdev 1 xdev1 s1)"

definition free_desc_of :: "xdma_cfg_info \<Rightarrow> kstate \<Rightarrow> xdma_cfg_info \<times> kstate" where
  "free_desc_of cfg s =
     (if pFirst_desc cfg \<noteq> 0 then
        (cfg\<lparr>pFirst_desc := 0\<rparr>,
         s\<lparr>ks_trace := ks_trace s @ [DmaFree (pFirst_desc cfg) (first_desc_phy_addr cfg) (unat (SG_desc_num cfg) * 32)],
           ks_descs := (ks_descs s)(pFirst_desc cfg := None)\<rparr>)
      else (cfg, s))"

definition xdma_free_h2c_desc :: "nat \<Rightarrow> xdma_dev \<Rightarrow> kstate \<Rightarrow> (xdma_dev \<times> kstate) res" where
  "xdma_free_h2c_desc ch xdev s =
     bindR (nthR (H2C_dma_cfg xdev) ch) (\<lambda>cfg.
     let (cfg1, s1) = free_desc_of cfg s
     in Inr (xdev\<lparr>H2C_dma_cfg := (H2C_dma_cfg xdev)[ch := cfg1]\<rparr>, s1))"

definition xdma_free_c2h_desc :: "nat \<Rightarrow> xdma_dev \<Rightarrow> kstate \<Rightarrow> (xdma_dev \<times> kstate) res" where
  "xdma_free_c2h_desc ch xdev s =
     bindR (nthR (C2H_dma_cfg xdev) ch) (\<lambda>cfg.
     let (cfg1, s1) = free_desc_of cfg s
     in Inr (xdev\<lparr>C2H_dma_cfg := (C2H_dma_cfg xdev)[ch := cfg1]\<rparr>, s1))"

definition xdma_free_desc :: "xdma_dev \<Rightarrow> kstate \<Rightarrow> (xdma_dev \<times> kstate) res" where
  "xdma_free_desc xdev s =
     bindR (xdma_free_h2c_desc 0 xdev s) (\<lambda>(x1, s1).
     bindR (xdma_free_c2h_desc 0 x1 s1) (\<lambda>(x2, s2).
     bindR (xdma_free_h2c_desc 1 x2 s2) (\<lambda>(x3, s3).
     xdma_free_c2h_desc 1 x3 s3)))"

definition xdma_free_resource :: "pci_dev \<Rightarrow> xdma_dev option \<Rightarrow> kstate \<Rightarrow> (xdma_dev option \<times> kstate) res" where
  "xdma_free_resource pdev dev_xdev s =
     (case dev_xdev of
        None \<Rightarrow> Inr (None, s)
      | Some xdev \<Rightarrow>
          bindR (xdma_free_pci_bus_addr xdev pdev s) (\<lambda>(x1, s1).
          bindR (xdma_free_desc x1 s1) (\<lambda>(x2, s2). Inr (Some x2, s2))))"

section \<open>Channels\<close>

definition init_dma_cfg :: "xdma_cfg_info \<Rightarrow> int \<Rightarrow> nat \<Rightarrow> xdma_cfg_info" where
  "init_dma_cfg cfg dir ch = cfg\<lparr>direction := word_of_int dir, channel := int ch + 1\<rparr>"

text \<open>\<open>_xdma_channel_init\<close>: memory, then the engine registers, then the descriptors.\<close>

definition i_xdma_channel_init :: "kapi \<Rightarrow> (nat \<Rightarrow> xdma_desc) \<Rightarrow> xdma_dev \<Rightarrow> xdma_cfg_info \<Rightarrow> kstate \<Rightarrow> (xdma_cfg_info \<times> kstate) res" where
  "i_xdma_channel_init k u xdev cfg s =
     bindR (vi53xx_info_init k cfg s) (\<lambda>(_, cfg1, s1).
     bindR (with_trace (xdma_poll_init k xdev (channel cfg1) (direction cfg1) (ks_trace s1)) s1) (\<lambda>(_, s2).
     bindR (with_trace (xdma_stop xdev (word_of_int (channel cfg1)) (direction cfg1) (ks_trace s2)) s2) (\<lambda>(_, s3).
     bindR (xdma_create_transfer k u xdev (word_of_int (channel cfg1)) cfg1 (ks_descs s3) (ks_trace s3))
       (\<lambda>(cfg2, mem, tr). Inr (cfg2, s3\<lparr>ks_descs := mem, ks_trace := tr\<rparr>)))))"

text \<open>One round of the loop of \<open>xdma_channel_init\<close>: both directions of a channel.\<close>

definition channel_round :: "kapi \<Rightarrow> (nat \<Rightarrow> xdma_desc) \<Rightarrow> nat \<Rightarrow> xdma_dev \<Rightarrow> kstate \<Rightarrow> (xdma_dev \<times> kstate) res" where
  "channel_round k u ch xdev s =
     bindR (nthR (C2H_dma_cfg xdev) ch) (\<lambda>c.
     bindR (i_xdma_channel_init k u xdev (init_dma_cfg c C2H_DIR ch) s) (\<lambda>(c1, s1).
     let xdev1 = xdev\<lparr>C2H_dma_cfg := (C2H_dma_cfg xdev)[ch := c1]\<rparr> in
     bindR (nthR (H2C_dma_cfg xdev1) ch) (\<lambda>h.
     let h0 = init_dma_cfg h H2C_DIR ch in
     bindR (if channel h0 = CH1 then i_xdma_channel_init k u xdev1 h0 s1 else Inr (h0, s1)) (\<lambda>(h1, s2).
     Inr (xdev1\<lparr>H2C_dma_cfg := (H2C_dma_cfg xdev1)[ch := h1]\<rparr>, s2)))))"

definition xdma_channel_init :: "kapi \<Rightarrow> (nat \<Rightarrow> xdma_desc) \<Rightarrow> bool \<Rightarrow> xdma_dev \<Rightarrow> kstate \<Rightarrow> (int \<times> xdma_dev \<times> kstate) res" where
  "xdma_channel_init k u info xdev s =
     (if \<not> info then Inr (- 1, xdev, s)
      else bindR (channel_round k u 0 xdev s) (\<lambda>(x1, s1).
           bindR (channel_round k u 1 x1 s1) (\<lambda>(x2, s2). Inr (0, x2, s2))))"

end
