(* ===== verification/Cndev.thy ===== *)
theory Cndev
  imports XdmaDrv
begin

unbundle bit_operations_syntax

text \<open>
  The character devices of the kernel module (\<open>driver/vi53xx_cndev_core.c\<close>): the device
  number, name and proc file a board gets, the file operations, and the set-up and removal
  of the class and the number ranges. An open file is the address of the board structure its
  \<open>private_data\<close> points into.
\<close>

abbreviation (input) MAGIC_CHAR :: u64 where "MAGIC_CHAR \<equiv> 0xCCCCCC"
abbreviation (input) CDEV_CTRL :: nat where "CDEV_CTRL \<equiv> 0"
abbreviation (input) CHAR_CTRL :: int where "CHAR_CTRL \<equiv> 0"

definition xpdev_flag_set :: "nat \<Rightarrow> xdma_pci_dev \<Rightarrow> xdma_pci_dev" where
  "xpdev_flag_set fbit xp = xp\<lparr>xp_flags := xp_flags xp OR push_bit fbit 1\<rparr>"

definition xcdev_flag_clear :: "nat \<Rightarrow> xdma_pci_dev \<Rightarrow> xdma_pci_dev" where
  "xcdev_flag_clear fbit xp = xp\<lparr>xp_flags := xp_flags xp AND NOT (push_bit fbit 1)\<rparr>"

definition xpdev_flag_test :: "nat \<Rightarrow> xdma_pci_dev \<Rightarrow> u32" where
  "xpdev_flag_test fbit xp = xp_flags xp AND push_bit fbit 1"

section \<open>File operations\<close>

definition vi53xx_ioctl :: "kapi \<Rightarrow> xdma_cfg_info \<Rightarrow> u64 \<Rightarrow> u32 \<Rightarrow> xdma_info \<Rightarrow> 'a umem_scheme \<Rightarrow> kstate \<Rightarrow> (int \<times> 'a umem_scheme \<times> kstate) res" where
  "vi53xx_ioctl k u private_data cmd xi w s =
     bindR (deref_xpdev private_data s) (\<lambda>xp.
     if IOC_TYPE cmd = RTPC_IOCTL_TYPE_XDMA then
       bindR (derefR (xp_xdev xp)) (\<lambda>xdev. vi53xx_ioctl_xdma k u (IOC_NR cmd) xi xdev w s)
     else Inr (- EINVAL, w, s))"

text \<open>\<open>vi53xx_open\<close>: \<open>p\<close> is the structure around the character device of the inode.\<close>

definition vi53xx_open :: "u64 \<Rightarrow> kstate \<Rightarrow> (int \<times> u64) res" where
  "vi53xx_open p s =
     bindR (deref_xpdev p s) (\<lambda>xp.
     if magic (ctrl_cdev xp) \<noteq> MAGIC_CHAR then Inr (- EINVAL, 0) else Inr (0, p))"

definition vi53xx_file_mmap :: "kapi \<Rightarrow> u64 \<Rightarrow> u64 \<Rightarrow> kstate \<Rightarrow> (int \<times> kstate) res" where
  "vi53xx_file_mmap k private_data vm_size s =
     bindR (deref_xpdev private_data s) (\<lambda>xp.
     bindR (derefR (xp_xdev xp)) (\<lambda>xdev. drv_xdma_mmap k xdev (xp_pdev xp) vm_size s))"

section \<open>Creating and destroying the device of a board\<close>

text \<open>A class that is an error pointer is dereferenced by \<open>device_create\<close>.\<close>

definition create_sys_device :: "kapi \<Rightarrow> es_cdev \<Rightarrow> xdma_cdev \<Rightarrow> trace \<Rightarrow> (int \<times> xdma_cdev \<times> trace) res" where
  "create_sys_device k es xcdev tr =
     bindR (guardR (ec_class es \<noteq> ClassErr) NullDeref) (\<lambda>_.
     let d = k_device_create k tr; xcdev1 = xcdev\<lparr>sys_device := d\<rparr>;
         tr1 = tr @ [DeviceCreate (ec_device_name es) (cdevno xcdev) d]
     in if d = 0 then Inr (- 1, xcdev1, tr1) else Inr (0, xcdev1, tr1))"

text \<open>
  The first half of \<open>create_cdev\<close>, up to the name: the board's type is read, an instance is
  taken, the device number and the description are filled in. \<open>Inl\<close> in the result is an
  early return.
\<close>

definition identify_board :: "kapi \<Rightarrow> xdma_pci_dev \<Rightarrow> kstate \<Rightarrow> ((int + unit) \<times> xdma_pci_dev \<times> kstate) res" where
  "identify_board k xpdev s =
     bindR (derefR (xp_xdev xpdev)) (\<lambda>xdev.
     bindR (nthR (bar xdev) 0) (\<lambda>reg_base.
     let xcdev = (ctrl_cdev xpdev)\<lparr>magic := MAGIC_CHAR\<rparr>; xp1 = xpdev\<lparr>ctrl_cdev := xcdev\<rparr> in
     bindR (read_reg k reg_base DEVICE_BOARD_TYPE (ks_trace s)) (\<lambda>(inca_dt, tr1).
     bindR (drv_get_board_instance inca_dt (ks_boards s)) (\<lambda>(inst, boards1).
     let s1 = s\<lparr>ks_trace := tr1, ks_boards := boards1\<rparr> in
     if inst < 0 then Inr (Inl (- EINVAL), xp1, s1)
     else case drv_get_board_name inca_dt of
       None \<Rightarrow> Inr (Inl (- EINVAL), xp1, s1)
     | Some nm \<Rightarrow>
         bindR (get_major_idx inca_dt boards1) (\<lambda>n.
         bindR (derefR (ks_es_cdev s1)) (\<lambda>es.
         bindR (nthI (ec_major es) (sint n)) (\<lambda>ma.
         let devno = MKDEV ma inst; es1 = es\<lparr>ec_board_inst := MINOR devno\<rparr>;
             info = (cdev_info xcdev)\<lparr>di_board_inst := inst\<rparr> in
         bindR (init_device_info k info reg_base tr1) (\<lambda>(info1, tr2).
         bindR (fitsR 32 (nm @ ''_'' @ show_u (ec_board_inst es1))) (\<lambda>dev_name.
         let es2 = es1\<lparr>ec_device_name := dev_name\<rparr>;
             xcdev1 = xcdev\<lparr>cdevno := devno, cdev_info := info1\<rparr>
         in Inr (Inr (), xpdev\<lparr>ctrl_cdev := xcdev1\<rparr>,
              s1\<lparr>ks_trace := tr2, ks_es_cdev := Some es2\<rparr>))))))))))"

text \<open>The second half: the device goes live.\<close>

definition publish_board :: "kapi \<Rightarrow> int \<Rightarrow> xdma_pci_dev \<Rightarrow> kstate \<Rightarrow> (int \<times> xdma_pci_dev \<times> kstate) res" where
  "publish_board k typ xpdev s =
     bindR (derefR (ks_es_cdev s)) (\<lambda>es.
     let tr0 = ks_trace s @ [KobjectName (ec_device_name es)];
         rv = k_kobject_set_name k (ks_trace s); devno = cdevno (ctrl_cdev xpdev) in
     if rv < 0 then Inr (rv, xpdev, s\<lparr>ks_trace := tr0\<rparr>)
     else if typ \<noteq> CHAR_CTRL then Inr (- EINVAL, xpdev, s\<lparr>ks_trace := tr0\<rparr>)
     else if k_cdev_add k tr0 < 0 then Inr (- EINVAL, xpdev, s\<lparr>ks_trace := tr0\<rparr>)
     else
       (let tr1 = tr0 @ [CdevAdd devno] in
        bindR (if ec_class es \<noteq> ClassNull then create_sys_device k es (ctrl_cdev xpdev) tr1
               else Inr (0, ctrl_cdev xpdev, tr1)) (\<lambda>(rv, xcdev, tr2).
        let xp1 = xpdev\<lparr>ctrl_cdev := xcdev\<rparr> in
        if rv < 0 then Inr (rv, xp1, s\<lparr>ks_trace := tr2 @ [CdevDel devno]\<rparr>)
        else (let (_, tr3) = create_proc_device k (ks_parent_dir s) (ec_device_name es) tr2
              in Inr (0, xp1, s\<lparr>ks_trace := tr3\<rparr>)))))"

definition create_cdev :: "kapi \<Rightarrow> int \<Rightarrow> xdma_pci_dev \<Rightarrow> kstate \<Rightarrow> (int \<times> xdma_pci_dev \<times> kstate) res" where
  "create_cdev k typ xpdev s =
     bindR (identify_board k xpdev s) (\<lambda>(r, xp1, s1).
       case r of Inl rv \<Rightarrow> Inr (rv, xp1, s1) | Inr _ \<Rightarrow> publish_board k typ xp1 s1)"

text \<open>\<open>destroy_xcdev\<close>: \<open>xdev\<close> is the pointer of the device to its engine structure.\<close>

definition destroy_xcdev :: "xdma_cdev option \<Rightarrow> xdma_dev option \<Rightarrow> kstate \<Rightarrow> (int \<times> kstate) res" where
  "destroy_xcdev cdev xdev s =
     (case cdev of
        None \<Rightarrow> Inr (- EINVAL, s)
      | Some c \<Rightarrow>
          if magic c \<noteq> MAGIC_CHAR then Inr (- EINVAL, s)
          else if xdev = None then Inr (- EINVAL, s)
          else if sys_device c = 0 then Inr (- EINVAL, s)
          else bindR (derefR (ks_es_cdev s)) (\<lambda>_.
            Inr (0, s\<lparr>ks_trace := ks_trace s @ [DeviceDestroy (cdevno c), CdevDel (cdevno c)]\<rparr>)))"

definition destroy_cdev :: "xdma_pci_dev \<Rightarrow> kstate \<Rightarrow> kstate res" where
  "destroy_cdev xpdev s =
     (if xpdev_flag_test CDEV_CTRL xpdev \<noteq> 0
      then bindR (destroy_xcdev (Some (ctrl_cdev xpdev)) (xp_xdev xpdev) s) (\<lambda>(_, s1). Inr s1)
      else Inr s)"

definition vi53xx_dev_init :: "kapi \<Rightarrow> xdma_pci_dev \<Rightarrow> kstate \<Rightarrow> (int \<times> xdma_pci_dev \<times> kstate) res" where
  "vi53xx_dev_init k xpdev s =
     bindR (create_cdev k CHAR_CTRL xpdev s) (\<lambda>(ret, xp1, s1).
     if ret < 0 then bindR (destroy_cdev xp1 s1) (\<lambda>s2. Inr (- 1, xp1, s2))
     else Inr (0, xpdev_flag_set CDEV_CTRL xp1, s1))"

definition vi53xx_dev_clean :: "xdma_pci_dev \<Rightarrow> kstate \<Rightarrow> kstate res" where
  "vi53xx_dev_clean xpdev s = destroy_cdev xpdev s"

section \<open>The class and the number ranges\<close>

text \<open>The loop of \<open>vi53xx_cdev_init\<close> over the board types.\<close>

function alloc_regions :: "kapi \<Rightarrow> nat \<Rightarrow> es_cdev \<Rightarrow> trace \<Rightarrow> int \<times> es_cdev \<times> trace" where
  "alloc_regions k i es tr =
     (if i < BOARD_TEPE_NUM then
        (let (rv, dev) = k_alloc_chrdev_region k tr
         in if rv \<noteq> 0 then (rv, es, tr)
            else alloc_regions k (Suc i)
                   (es\<lparr>ec_dev := dev, ec_major := (ec_major es)[i := MAJOR dev]\<rparr>)
                   (tr @ [ChrdevAlloc dev 128]))
      else (0, es, tr))"
  by pat_completeness auto
termination
  by (relation "measure (\<lambda>(k, i, es, tr). BOARD_TEPE_NUM - i)") auto

declare alloc_regions.simps [simp del]

text \<open>The structure \<open>u\<close> is what the fresh memory holds.\<close>

definition vi53xx_cdev_init :: "kapi \<Rightarrow> es_cdev \<Rightarrow> kstate \<Rightarrow> int \<times> kstate" where
  "vi53xx_cdev_init k u s =
     (let p = k_kmalloc k (ks_trace s); tr1 = ks_trace s @ [KAlloc p]
      in if p = 0 then (- 1, s\<lparr>ks_es_cdev := None, ks_trace := tr1\<rparr>)
         else (let ok = k_class_create k tr1; tr2 = tr1 @ [ClassCreate ok];
                   es1 = u\<lparr>ec_addr := p, ec_class := (if ok then ClassOk else ClassErr)\<rparr>
               in if \<not> ok then (- 1, s\<lparr>ks_es_cdev := Some es1, ks_trace := tr2\<rparr>)
                  else (let (rv, es2, tr3) = alloc_regions k 0 es1 tr2
                        in (rv, s\<lparr>ks_es_cdev := Some es2, ks_trace := tr3\<rparr>))))"

text \<open>\<open>vi53xx_cdev_exit\<close> tests \<open>es_cdev\<close> for NULL after it used it.\<close>

definition vi53xx_cdev_exit :: "kstate \<Rightarrow> kstate res" where
  "vi53xx_cdev_exit s =
     bindR (derefR (ks_es_cdev s)) (\<lambda>es.
     let tr1 = (if ec_class es \<noteq> ClassNull then ks_trace s @ [ClassDestroy] else ks_trace s);
         tr2 = tr1 @ map (\<lambda>i. ChrdevUnregister (MKDEV (ec_major es ! i) 0) 255) [0..<BOARD_TEPE_NUM]
     in Inr (s\<lparr>ks_es_cdev := None, ks_trace := tr2 @ [KFree (ec_addr es)]\<rparr>))"

end
