(* ===== verification/Probe.thy ===== *)
theory Probe
  imports Cndev
begin

text \<open>
  The life of a board in the kernel module (second half of \<open>driver/vi53xx_xdma_drv.c\<close>):
  probing and removing it, and loading and unloading the module.
\<close>

definition xpdev_alloc :: "kapi \<Rightarrow> pci_dev \<Rightarrow> kstate \<Rightarrow> u64 \<times> kstate" where
  "xpdev_alloc k pdev s =
     (let p = k_kmalloc k (ks_trace s); tr1 = ks_trace s @ [KAlloc p]
      in if p = 0 then (0, s\<lparr>ks_trace := tr1\<rparr>)
         else (p, s\<lparr>ks_trace := tr1, ks_xpdevs := (ks_xpdevs s)
                (p \<mapsto> \<lparr>xp_pdev = pdev, xp_xdev = None, ctrl_cdev = zero_cdev, xp_flags = 0,
                      xp_bus = uint (p_bus_number pdev), fmap = replicate 2 (replicate 4 0)\<rparr>)\<rparr>))"

definition xpdev_free :: "u64 \<Rightarrow> kstate \<Rightarrow> kstate res" where
  "xpdev_free p s =
     bindR (deref_xpdev p s) (\<lambda>xp.
     let tr1 = xdma_device_umap (xp_xdev xp) (ks_trace s)
     in Inr (s\<lparr>ks_trace := tr1 @ [KFree p], ks_xpdevs := (ks_xpdevs s)(p := None)\<rparr>))"

definition store_xpdev :: "u64 \<Rightarrow> xdma_pci_dev \<Rightarrow> kstate \<Rightarrow> kstate" where
  "store_xpdev p xp s = s\<lparr>ks_xpdevs := (ks_xpdevs s)(p \<mapsto> xp)\<rparr>"

text \<open>The label \<open>err_out\<close>: every failure after the first allocation.\<close>

definition probe_err_out :: "u64 \<Rightarrow> int \<Rightarrow> kstate \<Rightarrow> (int \<times> kstate) res" where
  "probe_err_out p rv s = bindR (xpdev_free p s) (\<lambda>s1. Inr (rv, s1))"

definition xdma_probe :: "kapi \<Rightarrow> (nat \<Rightarrow> xdma_desc) \<Rightarrow> pci_dev \<Rightarrow> bool \<Rightarrow> kstate \<Rightarrow> (int \<times> kstate) res" where
  "xdma_probe k u pdev info s =
     (let (p, s1) = xpdev_alloc k pdev s
      in if p = 0 then Inr (- ENOMEM, s1)
         else
           (let (xd, tr2) = xdma_device_map k (Some pdev) (ks_trace s1); s2 = s1\<lparr>ks_trace := tr2\<rparr>
            in case xd of
                 None \<Rightarrow> probe_err_out p (- EINVAL) s2
               | Some xdev \<Rightarrow>
                   bindR (deref_xpdev p s2) (\<lambda>xp.
                   bindR (vi53xx_dev_init k (xp\<lparr>xp_xdev := Some xdev\<rparr>) s2) (\<lambda>(ret, xp1, s3).
                   let s4 = store_xpdev p xp1 s3 in
                   if ret < 0 then probe_err_out p (- EINVAL) s4
                   else
                     bindR (xdma_channel_init k u info xdev s4) (\<lambda>(ret, xdev1, s5).
                     let s6 = store_xpdev p (xp1\<lparr>xp_xdev := Some xdev1\<rparr>) s5 in
                     if ret \<noteq> 0 then probe_err_out p (- EINVAL) s6
                     else Inr (0, s6\<lparr>ks_devices := p # ks_devices s6,
                                    ks_drvdata := (ks_drvdata s6)(pdev \<mapsto> p),
                                    ks_trace := ks_trace s6 @ [ListAdd p, SetDrvdata p]\<rparr>))))))"

text \<open>\<open>xdma_remove\<close> up to and including the \<open>kfree\<close> of the board structure.\<close>

definition release_board :: "u64 \<Rightarrow> kstate \<Rightarrow> kstate res" where
  "release_board p s =
     bindR (deref_xpdev p s) (\<lambda>xp.
     bindR (vi53xx_dev_clean xp s) (\<lambda>s1.
     bindR (xdma_free_resource (xp_pdev xp) (xp_xdev xp) s1) (\<lambda>(xd, s2).
     xpdev_free p (store_xpdev p (xp\<lparr>xp_xdev := xd\<rparr>) s2))))"

text \<open>
  The whole handler: \<open>list_del\<close> writes through the \<open>list\<close> field of the structure that was
  just freed.
\<close>

definition xdma_remove :: "pci_dev option \<Rightarrow> kstate \<Rightarrow> kstate res" where
  "xdma_remove pdev s =
     (case pdev of
        None \<Rightarrow> Inr s
      | Some pd \<Rightarrow>
          (case ks_drvdata s pd of
             None \<Rightarrow> Inr s
           | Some p \<Rightarrow>
               if p = 0 then Inr s
               else
                 bindR (release_board p s) (\<lambda>s1.
                 bindR (deref_xpdev p s1) (\<lambda>_.
                 Inr (s1\<lparr>ks_devices := remove1 p (ks_devices s1), ks_drvdata := (ks_drvdata s1)(pd := None),
                        ks_trace := ks_trace s1 @ [ListDel p, SetDrvdata 0]\<rparr>)))))"

text \<open>
  \<open>pci_register_driver\<close> probes the devices that are there already: \<open>devs\<close> lists those of the
  driver's table, each with what fresh descriptor memory holds and whether the table gave the
  settings of the driver. What a probe returns is between the kernel and the device.
  \<open>pci_unregister_driver\<close> removes the devices that are bound, in the order of the list \<open>pds\<close>.
\<close>

type_synonym pci_found = "pci_dev \<times> (nat \<Rightarrow> xdma_desc) \<times> bool"

fun probe_found :: "kapi \<Rightarrow> pci_found list \<Rightarrow> kstate \<Rightarrow> kstate res" where
  "probe_found k [] s = Inr s"
| "probe_found k ((pd, u, info) # devs) s = bindR (xdma_probe k u pd info s) (\<lambda>(_, s1). probe_found k devs s1)"

definition pci_register_driver :: "kapi \<Rightarrow> pci_found list \<Rightarrow> kstate \<Rightarrow> (int \<times> kstate) res" where
  "pci_register_driver k devs s =
     (let rv = k_pci_register_driver k (ks_trace s); s1 = s\<lparr>ks_trace := ks_trace s @ [PciRegisterDriver rv]\<rparr>
      in if rv = 0 then bindR (probe_found k devs s1) (\<lambda>s2. Inr (0, s2)) else Inr (rv, s1))"

fun pci_unregister_driver :: "pci_dev list \<Rightarrow> kstate \<Rightarrow> kstate res" where
  "pci_unregister_driver [] s = Inr (s\<lparr>ks_trace := ks_trace s @ [PciUnregisterDriver]\<rparr>)"
| "pci_unregister_driver (pd # pds) s = bindR (xdma_remove (Some pd) s) (pci_unregister_driver pds)"

text \<open>Loading: a failure to set up the board table still counts as success.\<close>

definition xdma_mod_init :: "kapi \<Rightarrow> es_cdev \<Rightarrow> pci_found list \<Rightarrow> kstate \<Rightarrow> (int \<times> kstate) res" where
  "xdma_mod_init k u devs s =
     (let (rv, bt, dir, tr1) = init_board_info k (ks_parent_dir s) (ks_trace s);
          s1 = s\<lparr>ks_boards := bt, ks_parent_dir := dir, ks_trace := tr1\<rparr>
      in if rv < 0 then Inr (0, s1)
         else (let (_, s2) = vi53xx_cdev_init k u s1 in pci_register_driver k devs s2))"

definition xdma_mod_exit :: "pci_dev list \<Rightarrow> kstate \<Rightarrow> kstate res" where
  "xdma_mod_exit pds s =
     bindR (pci_unregister_driver pds s) (\<lambda>s0.
     bindR (vi53xx_cdev_exit s0) (\<lambda>s1.
     bindR (board_info_exit (ks_boards s1) (ks_trace s1)) (\<lambda>(bt, tr).
     Inr (s1\<lparr>ks_boards := bt, ks_trace := tr\<rparr>))))"

end
