(* ===== verification/Stack.thy ===== *)
theory Stack
  imports DiCfg DoCfg Scope Probe
begin

unbundle bit_operations_syntax

text \<open>
  The user library on top of the kernel module: the system calls that the library models
  take as arguments are here the handlers of the driver. The world of a process is its
  memory, the files it has open (each the \<open>private_data\<close> of the board it was opened for),
  the state of the kernel module and, once a handler went wrong, the fault; after a fault no
  call does anything.
\<close>

record world = umem +
  w_kernel :: kstate
  w_files :: "int \<Rightarrow> u64"
  w_oops :: "fault option"

text \<open>The C library turns a negative result of a system call into \<open>-1\<close>.\<close>

definition sys_ioctl :: "kapi \<Rightarrow> xdma_cfg_info \<Rightarrow> int \<Rightarrow> u32 \<Rightarrow> xdma_info \<Rightarrow> world \<Rightarrow> int \<times> world" where
  "sys_ioctl k u fd req xi w =
     (if w_oops w \<noteq> None then (- 1, w)
      else if w_files w fd = 0 then (- 1, w)
      else case vi53xx_ioctl k u (w_files w fd) req xi w (w_kernel w) of
        Inl e \<Rightarrow> (- 1, w\<lparr>w_oops := Some e\<rparr>)
      | Inr (ret, w1, s1) \<Rightarrow> (if ret < 0 then - 1 else ret, w1\<lparr>w_kernel := s1\<rparr>))"

text \<open>\<open>mmap\<close> returns the address \<open>a\<close>, or \<open>MAP_FAILED\<close>, which is \<open>-1\<close>.\<close>

definition sys_mmap :: "kapi \<Rightarrow> u64 \<Rightarrow> int \<Rightarrow> u64 \<Rightarrow> world \<Rightarrow> u64 \<times> world" where
  "sys_mmap k a fd sz w =
     (if w_oops w \<noteq> None then (- 1, w)
      else if w_files w fd = 0 then (- 1, w)
      else case vi53xx_file_mmap k (w_files w fd) sz (w_kernel w) of
        Inl e \<Rightarrow> (- 1, w\<lparr>w_oops := Some e\<rparr>)
      | Inr (ret, s1) \<Rightarrow> (if ret < 0 then - 1 else a, w\<lparr>w_kernel := s1\<rparr>))"

text \<open>A device whose registers keep what is written, and a user whose memory is all there.\<close>

definition ram_like :: "kapi \<Rightarrow> bool" where
  "ram_like k \<longleftrightarrow> k_io k = ram_io \<and> (\<forall>tr n. k_left k tr n = 0)"

lemma ram_kapi_like [simp]: "ram_like ram_kapi"
  by (simp add: ram_like_def ram_kapi_def)

text \<open>The board \<open>b\<close> is open in the library, its file leads to a board of the driver.\<close>

definition board_open :: "lib \<Rightarrow> int \<Rightarrow> xdma_dev \<Rightarrow> world \<Rightarrow> bool" where
  "board_open s b xdev w \<longleftrightarrow> w_oops w = None \<and>
     (\<exists>dh p xp. dev_handle_of b s = Some dh \<and> w_files w (dh_dev_handle dh) = p \<and> p \<noteq> 0 \<and>
        ks_xpdevs (w_kernel w) p = Some xp \<and> xp_xdev xp = Some xdev)"

definition bar_ok :: "nat \<Rightarrow> xdma_dev \<Rightarrow> bool" where
  "bar_ok i xdev \<longleftrightarrow> i < length (bar xdev) \<and> bar xdev ! i \<noteq> 0"

definition dev_reg :: "u64 \<Rightarrow> u32 \<Rightarrow> world \<Rightarrow> u32" where
  "dev_reg base a w = ram_io (ks_trace (w_kernel w)) (reg_addr base a)"

definition stack_ok :: "kapi \<Rightarrow> lib \<Rightarrow> int \<Rightarrow> u64 \<Rightarrow> world \<Rightarrow> bool" where
  "stack_ok k s b base w \<longleftrightarrow> ram_like k \<and>
     (\<exists>xdev. board_open s b xdev w \<and> bar_ok 0 xdev \<and> bar xdev ! 0 = base)"

section \<open>An ioctl of an open board\<close>

text \<open>An ioctl request reaches the handler of its number with the structure copied.\<close>

definition info_copied :: "kstate \<Rightarrow> kstate" where
  "info_copied s = s\<lparr>ks_trace := ks_trace s @ [CopyFromUser 56 0]\<rparr>"

lemma copy_from_user_info_full:
  "\<forall>tr n. k_left k tr n = 0 \<Longrightarrow> copy_from_user_info k s = (0, info_copied s)"
  by (simp add: copy_from_user_info_def left_of_def info_copied_def Let_def)

lemma RTPC_IOCTL_decode:
  "unat c < 256 \<Longrightarrow> IOC_TYPE (RTPC_IOCTL c) = 1" "unat c < 256 \<Longrightarrow> IOC_NR (RTPC_IOCTL c) = c"
  by (simp_all add: RTPC_IOCTL_def IOWR_decode)

lemma sys_ioctl_open:
  assumes "board_open s b xdev w" "dev_handle_of b s = Some dh" "unat c < 256"
  shows "sys_ioctl k u (dh_dev_handle dh) (RTPC_IOCTL c) xi w =
    (case vi53xx_ioctl_xdma k u c xi xdev w (w_kernel w) of
       Inl e \<Rightarrow> (- 1, w\<lparr>w_oops := Some e\<rparr>)
     | Inr (ret, w1, s1) \<Rightarrow> (if ret < 0 then - 1 else ret, w1\<lparr>w_kernel := s1\<rparr>))"
proof -
  obtain p xp where p: "w_oops w = None" "w_files w (dh_dev_handle dh) = p" "p \<noteq> 0"
    "ks_xpdevs (w_kernel w) p = Some xp" "xp_xdev xp = Some xdev"
    using assms(1,2) by (auto simp: board_open_def)
  then have "vi53xx_ioctl k u p (RTPC_IOCTL c) xi w (w_kernel w) =
      vi53xx_ioctl_xdma k u c xi xdev w (w_kernel w)"
    using assms(3) by (simp add: vi53xx_ioctl_def deref_xpdev_def RTPC_IOCTL_decode)
  then show ?thesis using p by (simp add: sys_ioctl_def)
qed

text \<open>Writing a register of BAR 0.\<close>

definition after_write :: "u64 \<Rightarrow> u32 \<Rightarrow> u32 \<Rightarrow> world \<Rightarrow> world" where
  "after_write base off v w = w\<lparr>w_kernel := (w_kernel w)\<lparr>ks_trace :=
     ks_trace (w_kernel w) @ [CopyFromUser 56 0, IoWrite (reg_addr base off) v]\<rparr>\<rparr>"

lemma write_register_stack:
  assumes "ram_like k" "board_open s b xdev w" "bar_ok i xdev" "i < 2"
  shows "vi53xx_write_register (sys_ioctl k u) ui s b (int i) off v w =
    (0, after_write (bar xdev ! i) off v w)"
proof -
  obtain dh where dh: "dev_handle_of b s = Some dh" using assms(2) by (auto simp: board_open_def)
  have c: "copy_from_user_info k (w_kernel w) = (0, info_copied (w_kernel w))"
    using assms(1) by (intro copy_from_user_info_full) (simp add: ram_like_def)
  have i: "int i = 0 \<or> int i = 1" using assms(4) by auto
  have b: "nthI (bar xdev) (int i) = Inr (bar xdev ! i)" "bar xdev ! i \<noteq> 0"
    using assms(3) by (simp_all add: bar_ok_def)
  show ?thesis
    unfolding write_register_open [OF dh i]
    by (subst sys_ioctl_open [OF assms(2) dh])
      (simp_all add: vi53xx_ioctl_xdma_def c drv_xdma_reg_def b reg_simps Let_def after_write_def info_copied_def)
qed

lemma read_register_stack:
  assumes "ram_like k" "board_open s b xdev w" "bar_ok i xdev" "i < 2"
  shows "vi53xx_read_register (sys_ioctl k u) ui s b (int i) off a w =
    (0, w\<lparr>u_words := (u_words w)(a := dev_reg (bar xdev ! i) off w),
          w_kernel := (w_kernel w)\<lparr>ks_trace := ks_trace (w_kernel w) @ [CopyFromUser 56 0,
            IoRead (reg_addr (bar xdev ! i) off) (dev_reg (bar xdev ! i) off w), CopyToUser 4 0]\<rparr>\<rparr>)"
proof -
  obtain dh where dh: "dev_handle_of b s = Some dh" using assms(2) by (auto simp: board_open_def)
  have c: "copy_from_user_info k (w_kernel w) = (0, info_copied (w_kernel w))"
    using assms(1) by (intro copy_from_user_info_full) (simp add: ram_like_def)
  have cw: "copy_to_user_word k v a w s = (0, w\<lparr>u_words := (u_words w)(a := v)\<rparr>,
     s\<lparr>ks_trace := ks_trace s @ [CopyToUser 4 0]\<rparr>)" for v and w :: world and s
    using assms(1) by (intro copy_to_user_word_full) (simp add: ram_like_def)
  have i: "int i = 0 \<or> int i = 1" using assms(4) by auto
  have b: "nthI (bar xdev) (int i) = Inr (bar xdev ! i)" "bar xdev ! i \<noteq> 0"
    using assms(3) by (simp_all add: bar_ok_def)
  have io: "k_io k = ram_io" using assms(1) by (simp add: ram_like_def)
  have skip: "ram_io (tr @ [CopyFromUser n m]) x = ram_io tr x" for tr n m x
    by (simp add: ram_io_def last_write_append split: option.splits)
  show ?thesis
    unfolding read_register_open [OF dh i]
    by (subst sys_ioctl_open [OF assms(2) dh])
      (simp_all add: vi53xx_ioctl_xdma_def c drv_xdma_reg_def b reg_simps Let_def cw info_copied_def
        io skip dev_reg_def)
qed

lemma board_open_frame [simp]:
  "board_open s b xdev (w\<lparr>w_kernel := (w_kernel w)\<lparr>ks_trace := tr\<rparr>\<rparr>) = board_open s b xdev w"
  "board_open s b xdev (w\<lparr>u_words := f\<rparr>) = board_open s b xdev w"
  "board_open s b xdev (w\<lparr>u_bytes := g\<rparr>) = board_open s b xdev w"
  by (simp_all add: board_open_def)

lemma board_open_after_write [simp]: "board_open s b xdev (after_write base off v w) = board_open s b xdev w"
  by (simp add: after_write_def)

lemma dev_reg_after_write:
  "dev_reg base a (after_write base off v w) = (if a = off then v else dev_reg base a w)"
proof -
  have "ram_io (tr @ [CopyFromUser n m, IoWrite x v]) y = (if x = y then v else ram_io tr y)" for tr n m x y
    by (simp add: ram_io_def last_write_append split: option.splits)
  then show ?thesis by (simp add: dev_reg_def after_write_def eq_commute)
qed

lemma bar0_write_stack:
  assumes "stack_ok k s b base w"
  shows "bar0_write (sys_ioctl k u) ui s b off v w = after_write base off v w"
  using assms write_register_stack [of k s b _ w 0 u ui off v]
  by (auto simp: stack_ok_def bar0_write_def)

interpretation stack_regs: bar0_regs "sys_ioctl k u" ui s b "dev_reg base" "stack_ok k s b base"
  for k u ui s b base
proof unfold_locales
  fix w :: world and a r v
  assume ok: "stack_ok k s b base w"
  show "dev_reg base a (bar0_write (sys_ioctl k u) ui s b r v w) = (if a = r then v else dev_reg base a w)"
    by (simp add: bar0_write_stack [OF ok] dev_reg_after_write)
  show "stack_ok k s b base (bar0_write (sys_ioctl k u) ui s b r v w)"
    using ok by (simp add: bar0_write_stack [OF ok] stack_ok_def)
qed

end
