(* ===== verification/Ledger.thy ===== *)
theory Ledger
  imports Kernel
begin

text \<open>
  The resources a trace of kernel calls holds: every call that takes something counts one,
  every call that gives it back takes one away. An operation that cleans up after itself
  leaves every count as it was. Failed requests (a NULL result) hold nothing. A range of device
  numbers is counted with its size: the kernel takes back the range it handed out, not a larger
  one with the same first number. The entries of \<open>/proc\<close> are not counted but listed
  (\<open>proc_tree\<close>), since one call removes a directory with all it contains.
\<close>

datatype resource = RBar u64 | REnabled | RRegions | RMem u64 | RDma u64 | RCdev u32 | RDevice u32
  | RVmem u64 | RClass | RRange u32 nat | RDriver

definition delta :: "kevent \<Rightarrow> resource \<Rightarrow> int" where
  "delta e r = (case r of
     RBar a \<Rightarrow> (case e of Iomap i b \<Rightarrow> if a = b \<and> b \<noteq> 0 then 1 else 0
               | Iounmap b \<Rightarrow> if a = b then - 1 else 0 | _ \<Rightarrow> 0)
   | REnabled \<Rightarrow> (case e of PciEnable \<Rightarrow> 1 | PciDisable \<Rightarrow> - 1 | _ \<Rightarrow> 0)
   | RRegions \<Rightarrow> (case e of RegionsGot \<Rightarrow> 1 | RegionsReleased \<Rightarrow> - 1 | _ \<Rightarrow> 0)
   | RMem a \<Rightarrow> (case e of KAlloc b \<Rightarrow> if a = b \<and> b \<noteq> 0 then 1 else 0
               | KFree b \<Rightarrow> if a = b then - 1 else 0 | _ \<Rightarrow> 0)
   | RDma a \<Rightarrow> (case e of DmaAlloc b p n \<Rightarrow> if a = b \<and> b \<noteq> 0 then 1 else 0
               | DmaFree b p n \<Rightarrow> if a = b then - 1 else 0 | _ \<Rightarrow> 0)
   | RCdev d \<Rightarrow> (case e of CdevAdd d' \<Rightarrow> if d = d' then 1 else 0
               | CdevDel d' \<Rightarrow> if d = d' then - 1 else 0 | _ \<Rightarrow> 0)
   | RDevice d \<Rightarrow> (case e of DeviceCreate n d' p \<Rightarrow> if d = d' \<and> p \<noteq> 0 then 1 else 0
               | DeviceDestroy d' \<Rightarrow> if d = d' then - 1 else 0 | _ \<Rightarrow> 0)
   | RVmem a \<Rightarrow> (case e of VAlloc b \<Rightarrow> if a = b \<and> b \<noteq> 0 then 1 else 0 | _ \<Rightarrow> 0)
   | RClass \<Rightarrow> (case e of ClassCreate ok \<Rightarrow> if ok then 1 else 0 | ClassDestroy \<Rightarrow> - 1 | _ \<Rightarrow> 0)
   | RRange d n \<Rightarrow> (case e of ChrdevAlloc d' m \<Rightarrow> if d = d' \<and> n = m then 1 else 0
               | ChrdevUnregister d' m \<Rightarrow> if d = d' \<and> n = m then - 1 else 0 | _ \<Rightarrow> 0)
   | RDriver \<Rightarrow> (case e of PciRegisterDriver rv \<Rightarrow> if rv = 0 then 1 else 0 | PciUnregisterDriver \<Rightarrow> - 1 | _ \<Rightarrow> 0))"

definition held :: "trace \<Rightarrow> resource \<Rightarrow> int" where
  "held tr r = (\<Sum>e\<leftarrow>tr. delta e r)"

lemma held_Nil [simp]: "held [] r = 0"
  by (simp add: held_def)

lemma held_append [simp]: "held (tr @ tr') r = held tr r + held tr' r"
  by (simp add: held_def)

lemma held_Cons [simp]: "held (e # tr) r = delta e r + held tr r"
  by (simp add: held_def)

lemma delta_simps [simp]:
  "delta (Iomap i b) r = (case r of RBar a \<Rightarrow> if a = b \<and> b \<noteq> 0 then 1 else 0 | _ \<Rightarrow> 0)"
  "delta (Iounmap b) r = (case r of RBar a \<Rightarrow> if a = b then - 1 else 0 | _ \<Rightarrow> 0)"
  "delta PciEnable r = (if r = REnabled then 1 else 0)"
  "delta PciDisable r = (if r = REnabled then - 1 else 0)"
  "delta PciSetMaster r = 0"
  "delta RegionsGot r = (if r = RRegions then 1 else 0)"
  "delta RegionsReleased r = (if r = RRegions then - 1 else 0)"
  "delta (KAlloc b) r = (if r = RMem b \<and> b \<noteq> 0 then 1 else 0)"
  "delta (KFree b) r = (if r = RMem b then - 1 else 0)"
  "delta (DmaAlloc b p n) r = (if r = RDma b \<and> b \<noteq> 0 then 1 else 0)"
  "delta (DmaFree b p n) r = (if r = RDma b then - 1 else 0)"
  "delta (CdevAdd d) r = (if r = RCdev d then 1 else 0)"
  "delta (CdevDel d) r = (if r = RCdev d then - 1 else 0)"
  "delta (DeviceCreate s d p) r = (if r = RDevice d \<and> p \<noteq> 0 then 1 else 0)"
  "delta (DeviceDestroy d) r = (if r = RDevice d then - 1 else 0)"
  "delta (ConsistentMask m) r = 0" "delta (IoRead a v) r = 0" "delta (IoWrite a v) r = 0"
  "delta (KobjectName s) r = 0" "delta (ProcCreate s ok) r = 0"
  "delta (MemUncached a n) r = 0" "delta (MemWriteback a n) r = 0"
  "delta (ListAdd p) r = 0" "delta (ListDel p) r = 0" "delta (SetDrvdata p) r = 0" "delta (CopyFromUser n n2) r = 0"
  "delta (VAlloc b) r = (if r = RVmem b \<and> b \<noteq> 0 then 1 else 0)"
  "delta (ClassCreate ok) r = (if r = RClass \<and> ok then 1 else 0)"
  "delta ClassDestroy r = (if r = RClass then - 1 else 0)"
  "delta (ChrdevAlloc d n) r = (if r = RRange d n then 1 else 0)"
  "delta (ChrdevUnregister d n) r = (if r = RRange d n then - 1 else 0)"
  "delta (PciRegisterDriver rv) r = (if r = RDriver \<and> rv = 0 then 1 else 0)"
  "delta PciUnregisterDriver r = (if r = RDriver then - 1 else 0)"
  "delta (ProcMkdir s ok) r = 0" "delta (ProcRemoveSubtree s) r = 0"
  by (auto simp: delta_def split: resource.splits)

text \<open>The ranges of a list of device numbers.\<close>

lemma held_ranges:
  "held (map (\<lambda>d. ChrdevAlloc d m) ds) r = (case r of RRange d n \<Rightarrow> if n = m then int (count_list ds d) else 0 | _ \<Rightarrow> 0)"
  "held (map (\<lambda>d. ChrdevUnregister d m) ds) r =
     (case r of RRange d n \<Rightarrow> if n = m then - int (count_list ds d) else 0 | _ \<Rightarrow> 0)"
  by (induction ds) (auto split: resource.splits)

section \<open>The entries of \<open>/proc\<close>\<close>

text \<open>
  The paths the driver makes, as its calls name them: directories at the top, files in the
  directory \<open>vi53xx\<close>. Removing a directory removes what is below it.
\<close>

definition below :: "string \<Rightarrow> string \<Rightarrow> bool" where
  "below d path \<longleftrightarrow> path = d \<or> take (length d + 1) path = d @ ''/''"

definition outside :: "string \<Rightarrow> string list \<Rightarrow> string list" where
  "outside d ps = filter (\<lambda>path. \<not> below d path) ps"

definition proc_step :: "kevent \<Rightarrow> string list \<Rightarrow> string list" where
  "proc_step e ps = (case e of
     ProcMkdir n ok \<Rightarrow> if ok then ps @ [n] else ps
   | ProcCreate n ok \<Rightarrow> if ok then ps @ [''vi53xx/'' @ n] else ps
   | ProcRemoveSubtree n \<Rightarrow> outside n ps
   | _ \<Rightarrow> ps)"

definition proc_tree :: "trace \<Rightarrow> string list" where
  "proc_tree tr = fold proc_step tr []"

lemma proc_tree_append [simp]: "proc_tree (tr @ es) = fold proc_step es (proc_tree tr)"
  by (simp add: proc_tree_def)

lemma proc_step_simps [simp]:
  "proc_step (ProcMkdir n ok) ps = (if ok then ps @ [n] else ps)"
  "proc_step (ProcCreate n ok) ps = (if ok then ps @ [''vi53xx/'' @ n] else ps)"
  "proc_step (ProcRemoveSubtree n) ps = outside n ps"
  "proc_step (KAlloc p) ps = ps" "proc_step (KFree p) ps = ps" "proc_step (ClassCreate ok) ps = ps"
  "proc_step ClassDestroy ps = ps" "proc_step (ChrdevAlloc d m) ps = ps" "proc_step (ChrdevUnregister d m) ps = ps"
  "proc_step (PciRegisterDriver rv) ps = ps" "proc_step PciUnregisterDriver ps = ps"
  "proc_step (DeviceDestroy d) ps = ps" "proc_step (CdevDel d) ps = ps" "proc_step (DmaFree a p m) ps = ps"
  "proc_step (Iounmap b) ps = ps" "proc_step PciDisable ps = ps" "proc_step RegionsReleased ps = ps"
  by (simp_all add: proc_step_def)

lemma proc_ranges [simp]:
  "fold proc_step (map (\<lambda>d. ChrdevAlloc d m) ds) ps = ps" "fold proc_step (map (\<lambda>d. ChrdevUnregister d m) ds) ps = ps"
  by (induction ds) simp_all

lemma below_simps [simp]: "below ''vi53xx'' ''vi53xx''" "below ''vi53xx'' (''vi53xx/'' @ n)"
  by (simp_all add: below_def)

lemma outside_simps [simp]:
  "outside d (ps @ qs) = outside d ps @ outside d qs" "outside d (outside d ps) = outside d ps" "outside d [] = []"
  "outside d (path # ps) = (if below d path then outside d ps else path # outside d ps)"
  by (simp_all add: outside_def)

lemma count_list_update:
  "i < length xs \<Longrightarrow> int (count_list (xs[i := y]) a) =
     int (count_list xs a) - (if xs ! i = a then 1 else 0) + (if y = a then 1 else 0)"
proof (induction xs arbitrary: i)
  case Nil
  then show ?case by simp
next
  case (Cons x xs)
  show ?case
  proof (cases i)
    case 0
    then show ?thesis by simp
  next
    case (Suc n)
    then have "int (count_list (xs[n := y]) a) =
        int (count_list xs a) - (if xs ! n = a then 1 else 0) + (if y = a then 1 else 0)"
      using Cons.prems by (intro Cons.IH) simp
    then show ?thesis unfolding Suc by (simp only: list_update.simps nat.case count_list.simps nth_Cons_Suc of_nat_add split: if_split) simp
  qed
qed

lemma count_list_replicate_zero [simp]: "a \<noteq> 0 \<Longrightarrow> count_list (replicate n 0) a = 0"
  by (induction n) auto

end
