(* ===== verification/BoardResources.thy ===== *)
theory BoardResources
  imports XdmaDrv Ledger
begin

text \<open>
  What mapping a board takes and unmapping it gives back (\<open>map_bars\<close>, \<open>unmap_bars\<close>,
  \<open>xdma_device_map\<close> and \<open>xdma_device_umap\<close> of \<open>driver/vi53xx_xdma_drv.c\<close>), in terms of the
  resources held.
\<close>

text \<open>The mappings an engine structure records.\<close>

definition maps :: "xdma_dev \<Rightarrow> resource \<Rightarrow> int" where
  "maps x r = (case r of RBar a \<Rightarrow> if a = 0 then 0 else int (count_list (bar x) a) | _ \<Rightarrow> 0)"

lemma maps_unmapped [simp]: "maps (x\<lparr>bar := replicate n 0\<rparr>) r = 0"
  by (simp add: maps_def split: resource.splits)

lemma maps_update:
  "i < length (bar x) \<Longrightarrow> maps (x\<lparr>bar := (bar x)[i := y]\<rparr>) r = maps x r
     - (case r of RBar a \<Rightarrow> if a \<noteq> 0 \<and> bar x ! i = a then 1 else 0 | _ \<Rightarrow> 0)
     + (case r of RBar a \<Rightarrow> if a \<noteq> 0 \<and> y = a then 1 else 0 | _ \<Rightarrow> 0)"
  by (simp add: maps_def count_list_update split: resource.splits)

lemma unmap_bar_eq:
  assumes "i < length (bar x)"
  shows "\<exists>tr'. unmap_bar i (x, tr) = (x\<lparr>bar := (bar x)[i := 0]\<rparr>, tr') \<and>
    held tr' r - maps (x\<lparr>bar := (bar x)[i := 0]\<rparr>) r = held tr r - maps x r"
proof (cases "bar x ! i = 0")
  case True
  then have "(bar x)[i := 0] = bar x" using assms by (metis list_update_id)
  then show ?thesis using True by (simp add: unmap_bar_def)
next
  case False
  then show ?thesis using assms
    by (simp add: unmap_bar_def maps_update split: resource.splits)
qed

lemma unmap_upto:
  assumes "n \<le> length (bar x)"
  shows "\<exists>tr'. fold unmap_bar [0..<n] (x, tr) = (x\<lparr>bar := replicate n 0 @ drop n (bar x)\<rparr>, tr') \<and>
    held tr' r - maps (x\<lparr>bar := replicate n 0 @ drop n (bar x)\<rparr>) r = held tr r - maps x r"
  using assms
proof (induction n)
  case 0
  then show ?case by simp
next
  case (Suc n)
  let ?x = "x\<lparr>bar := replicate n 0 @ drop n (bar x)\<rparr>"
  obtain tr1 where tr1: "fold unmap_bar [0..<n] (x, tr) = (?x, tr1)"
    "held tr1 r - maps ?x r = held tr r - maps x r" using Suc by auto
  have n: "n < length (bar ?x)" using Suc.prems by simp
  obtain tr2 where tr2: "unmap_bar n (?x, tr1) = (?x\<lparr>bar := (bar ?x)[n := 0]\<rparr>, tr2)"
    "held tr2 r - maps (?x\<lparr>bar := (bar ?x)[n := 0]\<rparr>) r = held tr1 r - maps ?x r"
    using unmap_bar_eq [OF n] by blast
  have "drop n (bar x) = bar x ! n # drop (Suc n) (bar x)"
    using Suc.prems by (simp add: Cons_nth_drop_Suc)
  then have "(replicate n 0 @ drop n (bar x))[n := 0] = replicate (Suc n) 0 @ drop (Suc n) (bar x)"
    by (simp add: list_update_append replicate_append_same)
  then show ?case using tr1 tr2 by simp
qed

lemma unmap_bars_eq:
  assumes "length (bar x) = XDMA_BAR_NUM"
  obtains tr' where "unmap_bars x tr = (x\<lparr>bar := replicate XDMA_BAR_NUM 0\<rparr>, tr')"
    "held tr' r = held tr r - maps x r"
  using unmap_upto [of XDMA_BAR_NUM x tr r] assms by (auto simp: unmap_bars_def)

lemma unmap_bars_fst:
  "length (bar x) = XDMA_BAR_NUM \<Longrightarrow> fst (unmap_bars x tr) = x\<lparr>bar := replicate XDMA_BAR_NUM 0\<rparr>"
  by (rule unmap_bars_eq [of x tr]) simp_all

lemma held_unmap_bars:
  "length (bar x) = XDMA_BAR_NUM \<Longrightarrow> held (snd (unmap_bars x tr)) r = held tr r - maps x r"
  by (rule unmap_bars_eq [of x tr r]) simp_all

text \<open>
  Mapping: what is held grows by exactly the mappings recorded, and a failure leaves nothing
  mapped.
\<close>

lemma map_single_bar_held:
  assumes "i < length (bar x)" "bar x ! i = 0" "map_single_bar k x i tr = (l, x', tr')"
  shows "held tr' r - maps x' r = held tr r - maps x r \<and> (\<exists>a. x' = x\<lparr>bar := (bar x)[i := a]\<rparr>)"
proof -
  have z: "(bar x)[i := 0] = bar x" using assms(1,2) by (metis list_update_id)
  consider "x' = x" "tr' = tr" | "x' = x" "tr' = tr @ [Iomap i 0]"
    | a where "a \<noteq> 0" "x' = x\<lparr>bar := (bar x)[i := a]\<rparr>" "tr' = tr @ [Iomap i a]"
    using assms(3) by (auto simp: map_single_bar_def Let_def z split: if_splits)
  then show ?thesis
  proof cases
    case 1
    then show ?thesis by (simp add: exI [of _ 0] z)
  next
    case 2
    then show ?thesis by (simp add: exI [of _ 0] z split: resource.splits)
  next
    case 3
    then show ?thesis using assms(1,2) by (auto simp: maps_update split: resource.splits)
  qed
qed

lemma map_from_held:
  assumes "length (bar x) = XDMA_BAR_NUM" "\<forall>j. i \<le> j \<and> j < XDMA_BAR_NUM \<longrightarrow> bar x ! j = 0"
    "map_from k i x tr = (rv, x', tr')"
  shows "held tr' r - maps x' r = held tr r - maps x r \<and> (\<exists>b. x' = x\<lparr>bar := b\<rparr>) \<and>
    length (bar x') = XDMA_BAR_NUM \<and> (rv = 0 \<or> rv = - EINVAL \<and> bar x' = replicate XDMA_BAR_NUM 0)"
  using assms
proof (induction k i x tr rule: map_from.induct)
  case (1 k i x tr)
  show ?case
  proof (cases "i < XDMA_BAR_NUM")
    case False
    have "rv = 0 \<and> x' = x \<and> tr' = tr"
      using "1.prems"(3) False by (subst (asm) map_from.simps) simp
    then show ?thesis using "1.prems"(1) by (auto intro: exI [of _ "bar x"])
  next
    case True
    obtain l x1 tr1 where m: "map_single_bar k x i tr = (l, x1, tr1)" by (metis prod_cases3)
    have i: "i < length (bar x)" "bar x ! i = 0" using True 1 by auto
    obtain a where h1: "held tr1 r - maps x1 r = held tr r - maps x r" and x1: "x1 = x\<lparr>bar := (bar x)[i := a]\<rparr>"
      using map_single_bar_held [OF i m] by blast
    have len: "length (bar x1) = XDMA_BAR_NUM" using 1 x1 by simp
    show ?thesis
    proof (cases "l < 0")
      case neg: True
      obtain tr2 where u: "unmap_bars x1 tr1 = (x1\<lparr>bar := replicate XDMA_BAR_NUM 0\<rparr>, tr2)"
        "held tr2 r = held tr1 r - maps x1 r" by (rule unmap_bars_eq [OF len])
      have "rv = - EINVAL \<and> x' = x1\<lparr>bar := replicate XDMA_BAR_NUM 0\<rparr> \<and> tr' = tr2"
        using "1.prems"(3) True neg m u by (subst (asm) map_from.simps) (simp add: Let_def)
      then show ?thesis using h1 u x1 by (auto intro: exI [of _ "replicate XDMA_BAR_NUM 0"])
    next
      case False
      have zeros: "\<forall>j. Suc i \<le> j \<and> j < XDMA_BAR_NUM \<longrightarrow> bar x1 ! j = 0" using 1 x1 by simp
      have rec: "map_from k (Suc i) x1 tr1 = (rv, x', tr')"
        using "1.prems"(3) True False m by (subst (asm) map_from.simps) (simp add: Let_def split: if_splits)
      have "held tr' r - maps x' r = held tr1 r - maps x1 r \<and> (\<exists>b. x' = x1\<lparr>bar := b\<rparr>) \<and>
          length (bar x') = XDMA_BAR_NUM \<and> (rv = 0 \<or> rv = - EINVAL \<and> bar x' = replicate XDMA_BAR_NUM 0)"
      proof (cases "l = 0")
        case z: True
        show ?thesis by (rule "1.IH"(1) [OF True m [symmetric] refl refl _ len zeros rec]) (use z in simp)
      next
        case nz: False
        show ?thesis by (rule "1.IH"(2) [OF True m [symmetric] refl refl _ _ len zeros rec]) (use nz False in simp_all)
      qed
      then show ?thesis using h1 x1 by auto
    qed
  qed
qed

section \<open>Properties\<close>

lemma zero_xdev_fields [simp]:
  "length (bar (zero_xdev\<lparr>xd_addr := p\<rparr>)) = XDMA_BAR_NUM" "regions_in_use (zero_xdev\<lparr>xd_addr := p\<rparr>) = 0"
  "got_regions (zero_xdev\<lparr>xd_addr := p\<rparr>) = 0" "bar zero_xdev = replicate XDMA_BAR_NUM 0"
  by (simp_all add: zero_xdev_def)

lemma held_device_umap:
  assumes "length (bar x) = XDMA_BAR_NUM"
  shows "held (xdma_device_umap (Some x) tr) r = held tr r - maps x r
    - (if r = RRegions \<and> got_regions x \<noteq> 0 then 1 else 0)
    - (if r = REnabled \<and> regions_in_use x = 0 then 1 else 0)
    - (if r = RMem (xd_addr x) then 1 else 0)"
proof -
  obtain tr1 where u: "unmap_bars x tr = (x\<lparr>bar := replicate XDMA_BAR_NUM 0\<rparr>, tr1)"
    "held tr1 r = held tr r - maps x r" by (rule unmap_bars_eq [OF assms])
  then show ?thesis by (auto simp: xdma_device_umap_def Let_def)
qed

text \<open>The three error exits after the regions are requested.\<close>

lemma held_err_regions:
  "held (err_regions x tr) r = held tr r - (if r = REnabled \<and> regions_in_use x = 0 then 1 else 0)
    - (if r = RMem (xd_addr x) then 1 else 0)"
  by (auto simp: err_regions_def free_xdev_def)

lemma held_err_map:
  "held (err_map x tr) r = held tr r - (if r = RRegions \<and> got_regions x \<noteq> 0 then 1 else 0)
    - (if r = REnabled \<and> regions_in_use x = 0 then 1 else 0) - (if r = RMem (xd_addr x) then 1 else 0)"
  by (auto simp: err_map_def held_err_regions)

lemma held_err_mask:
  assumes "length (bar x) = XDMA_BAR_NUM"
  shows "held (err_mask x tr) r = held tr r - maps x r
    - (if r = RRegions \<and> got_regions x \<noteq> 0 then 1 else 0)
    - (if r = REnabled \<and> regions_in_use x = 0 then 1 else 0) - (if r = RMem (xd_addr x) then 1 else 0)"
proof -
  obtain tr1 where "unmap_bars x tr = (x\<lparr>bar := replicate XDMA_BAR_NUM 0\<rparr>, tr1)"
    "held tr1 r = held tr r - maps x r" by (rule unmap_bars_eq [OF assms])
  then show ?thesis by (simp add: err_mask_def held_err_map)
qed

lemma held_set_dma_mask: "set_dma_mask k d tr = (rv, tr') \<Longrightarrow> held tr' r = held tr r"
  by (auto simp: set_dma_mask_def split: if_splits)

text \<open>Whether another driver holds the regions of a device that could be enabled.\<close>

definition regions_refused :: "kapi \<Rightarrow> trace \<Rightarrow> bool" where
  "regions_refused k tr = (let p = k_kmalloc k tr; tr1 = tr @ [KAlloc p] in
     p \<noteq> 0 \<and> k_pci_enable_device k tr1 = 0 \<and> k_pci_request_regions k (tr1 @ [PciEnable, PciSetMaster]) \<noteq> 0)"

text \<open>What mapping leaves held: nothing after a failure (but see above), else what the structure says.\<close>

definition map_outcome :: "kapi \<Rightarrow> trace \<Rightarrow> resource \<Rightarrow> xdma_dev option \<Rightarrow> trace \<Rightarrow> bool" where
  "map_outcome k tr r res tr' \<longleftrightarrow>
     (res = None \<longrightarrow> held tr' r = held tr r + (if r = REnabled \<and> regions_refused k tr then 1 else 0)) \<and>
     (\<forall>x. res = Some x \<longrightarrow> length (bar x) = XDMA_BAR_NUM \<and> got_regions x = 1 \<and> regions_in_use x = 0 \<and>
        xd_addr x \<noteq> 0 \<and> held tr' r = held tr r + maps x r + (if r \<in> {RRegions, REnabled, RMem (xd_addr x)} then 1 else 0))"

text \<open>The course after the regions were granted.\<close>

lemma granted_outcome:
  assumes p: "p \<noteq> 0" and nr: "\<not> regions_refused k tr"
    and m: "map_bars k (zero_xdev\<lparr>xd_addr := p, got_regions := 1\<rparr>) t = (rv, x2, t3)"
    and dm: "set_dma_mask k (Some pdev) t3 = (rv2, t4)"
    and base: "held t r = held tr r + (if r \<in> {RRegions, REnabled, RMem p} then 1 else 0)"
    and out: "(res, tr') = (if rv \<noteq> 0 then (None, err_map x2 t3) else if rv2 \<noteq> 0 then (None, err_mask x2 t4) else (Some x2, t4))"
  shows "map_outcome k tr r res tr'"
proof -
  let ?g = "zero_xdev\<lparr>xd_addr := p, got_regions := 1\<rparr>"
  have mh: "held t3 r - maps x2 r = held t r - maps ?g r \<and> (\<exists>b. x2 = ?g\<lparr>bar := b\<rparr>) \<and>
      length (bar x2) = XDMA_BAR_NUM \<and> (rv = 0 \<or> rv = - EINVAL \<and> bar x2 = replicate XDMA_BAR_NUM 0)"
    by (rule map_from_held [OF _ _ m [unfolded map_bars_def]]) simp_all
  then obtain b where x2: "x2 = ?g\<lparr>bar := b\<rparr>" by blast
  have f: "got_regions x2 = 1" "regions_in_use x2 = 0" "xd_addr x2 = p" by (simp_all add: x2 zero_xdev_def)
  have g0: "maps ?g r = 0" by (simp add: maps_def zero_xdev_def split: resource.splits)
  have h4: "held t4 r = held t3 r" by (rule held_set_dma_mask [OF dm])
  have h3: "held t3 r = held tr r + maps x2 r + (if r \<in> {RRegions, REnabled, RMem p} then 1 else 0)"
    and len: "length (bar x2) = XDMA_BAR_NUM" and rv: "rv = 0 \<or> bar x2 = replicate XDMA_BAR_NUM 0"
    using mh base g0 by (simp_all, blast)
  have z: "maps x2 r = 0" if "rv \<noteq> 0" using that rv by (auto simp: maps_def split: resource.splits)
  consider "rv \<noteq> 0" "res = None" "tr' = err_map x2 t3" | "rv = 0" "res = None" "tr' = err_mask x2 t4"
    | "res = Some x2" "tr' = t4" using out by (auto split: if_splits)
  then show ?thesis
  proof cases
    case 1
    then show ?thesis using z h3 nr by (simp add: map_outcome_def held_err_map f)
  next
    case 2
    then show ?thesis using h3 h4 nr by (simp add: map_outcome_def held_err_mask [OF len] f)
  next
    case 3
    then show ?thesis using h3 h4 len f p by (simp add: map_outcome_def)
  qed
qed

lemma device_map_outcome:
  assumes "xdma_device_map k (Some pdev) tr = (res, tr')"
  shows "map_outcome k tr r res tr'"
proof -
  define p where "p = k_kmalloc k tr"
  define t1 where "t1 = tr @ [KAlloc p]"
  define t2 where "t2 = t1 @ [PciEnable, PciSetMaster]"
  let ?x = "zero_xdev\<lparr>xd_addr := p\<rparr>"
  note start = xdma_device_map_def alloc_dev_instance_def Let_def p_def [symmetric] t1_def [symmetric]
  consider "p = 0 \<or> k_pci_enable_device k t1 \<noteq> 0" | "p \<noteq> 0" "k_pci_enable_device k t1 = 0" "k_pci_request_regions k t2 \<noteq> 0"
    | "p \<noteq> 0" "k_pci_enable_device k t1 = 0" "k_pci_request_regions k t2 = 0" by blast
  then show ?thesis
  proof cases
    case 1
    have "held t1 r = held tr r + (if r = RMem p \<and> p \<noteq> 0 then 1 else 0)" by (simp add: t1_def)
    then have "res = None \<and> held tr' r = held tr r"
      using assms 1 by (auto simp: start free_xdev_def split: if_splits)
    moreover have "\<not> regions_refused k tr" using 1 by (auto simp: regions_refused_def Let_def p_def t1_def)
    ultimately show ?thesis by (simp add: map_outcome_def)
  next
    case 2
    then have "res = None \<and> tr' = err_regions (?x\<lparr>regions_in_use := 1\<rparr>) t2"
      using assms by (auto simp: start request_regions_def t2_def [symmetric] split_def)
    moreover have "regions_refused k tr" using 2 by (simp add: regions_refused_def Let_def p_def t1_def t2_def)
    ultimately show ?thesis using 2(1) by (simp add: map_outcome_def held_err_regions t2_def t1_def)
  next
    case 3
    obtain rv x2 t3 where m: "map_bars k (?x\<lparr>got_regions := 1\<rparr>) (t2 @ [RegionsGot]) = (rv, x2, t3)" by (metis prod_cases3)
    obtain rv2 t4 where dm: "set_dma_mask k (Some pdev) t3 = (rv2, t4)" by force
    have "(res, tr') = (if rv \<noteq> 0 then (None, err_map x2 t3)
        else if rv2 \<noteq> 0 then (None, err_mask x2 t4) else (Some x2, t4))"
      using assms 3 m dm by (auto simp: start request_regions_def t2_def [symmetric])
    moreover have "\<not> regions_refused k tr" using 3(3) by (simp add: regions_refused_def Let_def p_def t1_def t2_def)
    moreover have "held (t2 @ [RegionsGot]) r = held tr r + (if r \<in> {RRegions, REnabled, RMem p} then 1 else 0)"
      using 3(1) by (auto simp: t2_def t1_def)
    ultimately show ?thesis by (intro granted_outcome [OF 3(1) _ m dm])
  qed
qed

lemmas device_map_cases = device_map_outcome [unfolded map_outcome_def]

text \<open>C8: Mapping a board and unmapping it again leaves every resource as it was. When mapping
  fails, everything taken so far has been given back, except that the device stays enabled when
  its regions are in use by someone else.\<close>

theorem device_map_balanced:
  assumes "xdma_device_map k (Some pdev) tr = (res, tr')"
  shows "\<forall>r. held (xdma_device_umap res tr') r = held tr r +
    (if res = None \<and> r = REnabled \<and> regions_refused k tr then 1 else 0)"
proof
  fix r
  show "held (xdma_device_umap res tr') r = held tr r +
      (if res = None \<and> r = REnabled \<and> regions_refused k tr then 1 else 0)"
  proof (cases res)
    case None
    then show ?thesis using device_map_cases [OF assms, of r] by (simp add: xdma_device_umap_def)
  next
    case (Some x)
    then show ?thesis using device_map_cases [OF assms, of r] by (auto simp: held_device_umap)
  qed
qed

lemma device_map_balanced_witness:
  "\<exists>res tr'. xdma_device_map (ram_kapi\<lparr>k_pci_request_regions := \<lambda>_. - 16\<rparr>) (Some example_pci) [] = (res, tr') \<and>
     held (xdma_device_umap res tr') (RMem 1) = 0"
proof -
  obtain res tr' where m: "xdma_device_map (ram_kapi\<lparr>k_pci_request_regions := \<lambda>_. - 16\<rparr>) (Some example_pci) [] = (res, tr')"
    by force
  from device_map_balanced [OF m] show ?thesis using m by auto
qed

text \<open>A board whose first BAR has a length with bit 31 set (2 GiB) cannot be used: its length
  becomes negative when it is returned as an int, and mapping reports an error although the BAR
  was mapped.\<close>

lemma large_bar_is_refused:
  assumes "length (bar x) = XDMA_BAR_NUM" "2147483648 \<le> uint (k_pci_resource_len k 0)"
    "uint (k_pci_resource_len k 0) < 4294967296" "k_pci_iomap k tr 0 \<noteq> 0"
  shows "fst (map_bars k x tr) = - EINVAL"
proof -
  let ?l = "uint (k_pci_resource_len k 0)"
  have nz: "k_pci_resource_len k 0 \<noteq> 0" using assms(2) by auto
  have s: "s32 ?l = ?l - 4294967296"
  proof -
    have z: "(word_of_int 4294967296 :: u32) = 0" by code_simp
    have "(word_of_int (?l - 4294967296) :: u32) = word_of_int ?l"
      by (simp only: wi_hom_sub [symmetric] z diff_zero)
    then have "s32 ?l = s32 (?l - 4294967296)" by (simp only: s32_def)
    also have "\<dots> = ?l - 4294967296" using assms(2,3) by (intro s32_id) simp_all
    finally show ?thesis .
  qed
  then show ?thesis using assms nz
    by (simp add: map_bars_def map_from.simps [of k 0] map_single_bar_def Let_def split_def)
qed

lemma large_bar_is_refused_witness:
  "fst (map_bars (ram_kapi\<lparr>k_pci_resource_len := \<lambda>_. 0x80000000\<rparr>) zero_xdev []) = - EINVAL"
  by (rule large_bar_is_refused) (simp_all add: zero_xdev_def ram_kapi_def)

end
