(* ===== verification/BoardLife.thy ===== *)
theory BoardLife
  imports Probe BoardResources
begin

unbundle bit_operations_syntax

text \<open>
  The life of a board in the kernel module: what creating its device does on every branch,
  and what removing it and loading and unloading the module leave behind
  (\<open>driver/vi53xx_cndev_core.c\<close> and \<open>driver/vi53xx_xdma_drv.c\<close>).
\<close>

section \<open>Identifying a board\<close>

text \<open>The registers of the board read in order, each read being an event that later ones see.\<close>

definition reads :: "kapi \<Rightarrow> u64 \<Rightarrow> u32 list \<Rightarrow> trace \<Rightarrow> trace" where
  "reads k base offs tr =
     fold (\<lambda>off tr. tr @ [IoRead (reg_addr base off) (k_io k tr (reg_addr base off))]) offs tr"

lemma reads_Cons [simp]:
  "reads k base (off # offs) tr = reads k base offs (tr @ [IoRead (reg_addr base off) (k_io k tr (reg_addr base off))])"
  by (simp add: reads_def)

lemma reads_Nil [simp]: "reads k base [] tr = tr"
  by (simp add: reads_def)

text \<open>A device whose registers do not change while only reads happen.\<close>

definition steady :: "kapi \<Rightarrow> bool" where
  "steady k \<longleftrightarrow> (\<forall>tr a b v. k_io k (tr @ [IoRead a v]) b = k_io k tr b)"

lemma ram_kapi_steady: "steady ram_kapi"
  by (simp add: steady_def ram_kapi_def ram_io_read)

definition info_regs :: "u32 list" where
  "info_regs = [DEVICE_BOARD_TYPE, DEVICE_BOARD_ID, DEVICE_MDL_VERSION, DEVICE_FPGA_VERSION,
     DEVICE_BOARD_TYPE, DEVICE_LED_BLINK]"

lemma init_device_info_steady:
  assumes "steady k" "base \<noteq> 0"
  shows "init_device_info k info base tr = Inr
    (info\<lparr>di_device_name := fmt_s (drv_get_board_name (k_io k tr (reg_addr base DEVICE_BOARD_TYPE))),
       di_board_id := k_io k tr (reg_addr base DEVICE_BOARD_ID),
       di_mdl_version := k_io k tr (reg_addr base DEVICE_MDL_VERSION),
       di_fpga_version := k_io k tr (reg_addr base DEVICE_FPGA_VERSION),
       di_board_type := k_io k tr (reg_addr base DEVICE_BOARD_TYPE), di_serial := 0x9910001,
       di_led_blink := k_io k tr (reg_addr base DEVICE_LED_BLINK), di_reg_base := base, di_create_flag := 0\<rparr>,
     reads k base info_regs tr)"
proof -
  have st: "k_io k (tr @ [IoRead a v]) b = k_io k tr b" for tr a b v
    using assms(1) by (simp add: steady_def)
  have st2: "k_io k (tr @ [IoRead a v, e]) b = k_io k ((tr @ [IoRead a v]) @ [e]) b" for tr a b v e
    by simp
  show ?thesis
    using assms(2) board_name_fits [of "k_io k tr (reg_addr base DEVICE_BOARD_TYPE)"]
    by (simp only: init_device_info_def read_reg_mapped [OF assms(2)] bindR.simps prod.case st info_regs_def
        reads_Cons reads_Nil)
qed

lemma name_cases:
  "drv_get_board_name dt = Some nm \<Longrightarrow>
   nm \<in> {''es5341'', ''es5311'', ''es5342''} \<and> dt \<in> {ES5341_ID, ES5311_ID, ES5342_ID}"
  by (auto simp: drv_get_board_name_def split: if_splits)

lemma dev_name_fits:
  assumes "drv_get_board_name dt = Some nm"
  shows "fitsR 32 (nm @ ''_'' @ show_u i) = Inr (nm @ ''_'' @ show_u i)"
  using name_cases [OF assms] length_show_u [of i] by (auto simp: fitsR_def)

lemma known_index:
  assumes "drv_get_board_name dt = Some nm"
  obtains i where "i < 3" "dt = known_types ! i"
proof -
  have "dt \<in> set known_types" using assms by (simp add: known_types_iff)
  then obtain i where "i < length known_types" "known_types ! i = dt" by (auto simp: in_set_conv_nth)
  moreover have "length known_types = 3" by (simp add: known_types_def)
  ultimately show thesis using that by metis
qed

text \<open>The device number the driver gives the \<open>n\<close>-th board of a type.\<close>

definition board_devno :: "es_cdev \<Rightarrow> nat \<Rightarrow> u32 \<Rightarrow> u32" where
  "board_devno es i inst = MKDEV (ec_major es ! i) inst"

text \<open>The description of a board: every field comes from the register of its name.\<close>

definition board_described :: "kapi \<Rightarrow> trace \<Rightarrow> u64 \<Rightarrow> string \<Rightarrow> u32 \<Rightarrow> device_info \<Rightarrow> device_info" where
  "board_described k tr base nm inst info =
     info\<lparr>di_board_inst := inst, di_device_name := nm, di_board_id := k_io k tr (reg_addr base 0x501C0),
       di_mdl_version := k_io k tr (reg_addr base 0x50200), di_fpga_version := k_io k tr (reg_addr base 0x50204),
       di_board_type := k_io k tr (reg_addr base 0x50300), di_serial := 0x9910001,
       di_led_blink := k_io k tr (reg_addr base 0x50100), di_reg_base := base, di_create_flag := 0\<rparr>"

lemma identify_board_known:
  assumes "xp_xdev xp = Some xdev" "bar_at0 = bar xdev ! 0" "0 < length (bar xdev)" "bar_at0 \<noteq> 0" "steady k"
    "table_ok (ks_boards s)" "ks_es_cdev s = Some es" "length (ec_major es) = BOARD_TEPE_NUM"
    "dt = k_io k (ks_trace s) (reg_addr bar_at0 DEVICE_BOARD_TYPE)" "drv_get_board_name dt = Some nm"
    "i < 3" "dt = known_types ! i"
  obtains xp' s' where "identify_board k xp s = Inr (Inr (), xp', s')"
    "cdevno (ctrl_cdev xp') = board_devno es i (count_of dt (ks_boards s))"
    "magic (ctrl_cdev xp') = MAGIC_CHAR" "di_board_inst (cdev_info (ctrl_cdev xp')) = count_of dt (ks_boards s)"
    "di_device_name (cdev_info (ctrl_cdev xp')) = nm" "di_board_type (cdev_info (ctrl_cdev xp')) = dt"
    "di_board_id (cdev_info (ctrl_cdev xp')) = k_io k (ks_trace s) (reg_addr bar_at0 DEVICE_BOARD_ID)"
    "xp_xdev xp' = Some xdev" "table_ok (ks_boards s')" "count_of dt (ks_boards s') = count_of dt (ks_boards s) + 1"
    "\<exists>es'. ks_es_cdev s' = Some es' \<and> ec_class es' = ec_class es \<and>
       ec_device_name es' = nm @ ''_'' @ show_u (MINOR (board_devno es i (count_of dt (ks_boards s))))"
    "ks_trace s' = reads k bar_at0 (DEVICE_BOARD_TYPE # info_regs) (ks_trace s)" "ks_parent_dir s' = ks_parent_dir s"
    "cdev_info (ctrl_cdev xp') = board_described k (ks_trace s) bar_at0 nm (count_of dt (ks_boards s)) (cdev_info (ctrl_cdev xp))"
    "\<And>t. t \<noteq> dt \<Longrightarrow> count_of t (ks_boards s') = count_of t (ks_boards s)"
    "\<exists>es'. ks_es_cdev s' = Some es' \<and> ec_major es' = ec_major es"
proof -
  let ?inst = "count_of dt (ks_boards s)" and ?a = "reg_addr bar_at0 DEVICE_BOARD_TYPE"
  let ?tr1 = "ks_trace s @ [IoRead ?a dt]"
  have st: "k_io k ?tr1 b = k_io k (ks_trace s) b" for b using assms(5) by (simp add: steady_def)
  have dt: "dt \<in> set known_types" using assms(10) by (simp add: known_types_iff)
  obtain bt' where bt: "drv_get_board_instance dt (ks_boards s) = Inr (?inst, bt')" "table_ok bt'"
    "count_of dt bt' = ?inst + 1" "\<And>t. t \<noteq> dt \<Longrightarrow> count_of t bt' = count_of t (ks_boards s)"
    by (rule get_board_instance_known [OF assms(6) dt]) (rule that, assumption+)
  have mi: "get_major_idx dt bt' = Inr (of_nat i)" using get_major_idx_known [OF bt(2) assms(11)] assms(12) by simp
  have "i = 0 \<or> i = 1 \<or> i = 2" using assms(11) by linarith
  then have ma: "nthI (ec_major es) (sint (of_nat i :: u32)) = Inr (ec_major es ! i)" using assms(8) by auto
  have nb: "nthR (bar xdev) 0 = Inr bar_at0" using assms(2,3) by simp
  note ini = init_device_info_steady [OF assms(5,4)]
  have nn: "\<not> ?inst < 0" by simp
  let ?dev = "board_devno es i ?inst"
  define info where "info = board_described k (ks_trace s) bar_at0 nm ?inst (cdev_info (ctrl_cdev xp))"
  have nm: "drv_get_board_name (k_io k (ks_trace s) ?a) = Some nm" using assms(9,10) by simp
  have inf: "init_device_info k ((cdev_info ((ctrl_cdev xp)\<lparr>magic := MAGIC_CHAR\<rparr>))\<lparr>di_board_inst := ?inst\<rparr>)
      bar_at0 ?tr1 = Inr (info, reads k bar_at0 info_regs ?tr1)"
    unfolding ini st nm info_def board_described_def by (simp add: fmt_s_def)
  have fields: "di_board_inst info = ?inst" "di_device_name info = nm" "di_board_type info = dt"
    "di_board_id info = k_io k (ks_trace s) (reg_addr bar_at0 DEVICE_BOARD_ID)"
    using assms(9) by (simp_all add: info_def board_described_def)
  have id: "identify_board k xp s = Inr (Inr (),
      xp\<lparr>ctrl_cdev := (ctrl_cdev xp)\<lparr>magic := MAGIC_CHAR, cdevno := ?dev, cdev_info := info\<rparr>\<rparr>,
      s\<lparr>ks_trace := reads k bar_at0 info_regs ?tr1, ks_boards := bt',
        ks_es_cdev := Some (es\<lparr>ec_board_inst := MINOR ?dev, ec_device_name := nm @ ''_'' @ show_u (MINOR ?dev)\<rparr>)\<rparr>)"
    unfolding identify_board_def assms(1) derefR_simps bindR.simps nb Let_def read_reg_mapped [OF assms(4)]
      prod.case assms(9) [symmetric] bt(1)
    using nn assms(7,10) dev_name_fits [OF assms(10)] inf
    by (simp add: mi ma board_devno_def Let_def)
  show thesis
    by (rule that [OF id]) (use assms(1,9) fields info_def bt in simp_all)
qed

section \<open>An example board\<close>

text \<open>A board of the type \<open>dt\<close> whose BARs are mapped, and the module that just found it.\<close>

definition example_xdev :: xdma_dev where
  "example_xdev = zero_xdev\<lparr>xd_addr := 0x77, bar := [0x1000000, 0x2000000, 0, 0, 0, 0]\<rparr>"

definition example_board :: xdma_pci_dev where
  "example_board = \<lparr>xp_pdev = example_pci, xp_xdev = Some example_xdev, ctrl_cdev = zero_cdev, xp_flags = 0,
     xp_bus = 3, fmap = replicate 2 (replicate 4 0)\<rparr>"

definition example_kernel :: "u32 \<Rightarrow> kstate" where
  "example_kernel dt = kstart\<lparr>ks_trace := [IoWrite (reg_addr 0x1000000 DEVICE_BOARD_TYPE) dt],
     ks_boards := Some \<lparr>bt_addr = 1, bt_origin = Kmalloc, bt_entries = init_entries\<rparr>,
     ks_es_cdev := Some \<lparr>ec_addr = 2, ec_major = [240, 241, 242], ec_class = ClassOk, ec_dev = 0,
       ec_device_name = [], ec_board_inst = 0\<rparr>\<rparr>"

lemma example_type_read:
  "k_io ram_kapi (ks_trace (example_kernel dt)) (reg_addr (bar example_xdev ! 0) DEVICE_BOARD_TYPE) = dt"
  by (simp add: ram_kapi_def example_kernel_def example_xdev_def ram_io_def)

lemma example_table_ok: "table_ok (ks_boards (example_kernel dt))"
  by (simp add: example_kernel_def init_table_ok)

section \<open>Properties\<close>

text \<open>C24: A board of a known type is given the device number of its type's major and the next
  instance of the type; every field of its description comes from the register of its name
  (identifier, model version, FPGA version, type, LED) with the name of its type, the
  instance, the address of the BAR and the constant serial number; the device is named after the type and the minor
  number. The counter of its type advances by one, and the counters of the other types, the
  majors and the class stay as they are. Its registers are those of a device that reading does
  not change.\<close>

theorem known_board_identified:
  assumes "xp_xdev xp = Some xdev" "0 < length (bar xdev)" "bar xdev ! 0 \<noteq> 0" "steady k"
    "table_ok (ks_boards s)" "ks_es_cdev s = Some es" "length (ec_major es) = BOARD_TEPE_NUM"
    "dt = k_io k (ks_trace s) (reg_addr (bar xdev ! 0) DEVICE_BOARD_TYPE)" "drv_get_board_name dt = Some nm"
    "unat (count_of dt (ks_boards s)) < 1048576"
  shows "\<exists>xp' s' i. identify_board k xp s = Inr (Inr (), xp', s') \<and> i < 3 \<and> known_types ! i = dt \<and>
    cdevno (ctrl_cdev xp') = MKDEV (ec_major es ! i) (count_of dt (ks_boards s)) \<and>
    MINOR (cdevno (ctrl_cdev xp')) = count_of dt (ks_boards s) \<and>
    cdev_info (ctrl_cdev xp') = (cdev_info (ctrl_cdev xp))\<lparr>di_board_inst := count_of dt (ks_boards s), di_device_name := nm,
       di_board_id := k_io k (ks_trace s) (reg_addr (bar xdev ! 0) 0x501C0),
       di_mdl_version := k_io k (ks_trace s) (reg_addr (bar xdev ! 0) 0x50200),
       di_fpga_version := k_io k (ks_trace s) (reg_addr (bar xdev ! 0) 0x50204), di_board_type := dt, di_serial := 0x9910001,
       di_led_blink := k_io k (ks_trace s) (reg_addr (bar xdev ! 0) 0x50100), di_reg_base := bar xdev ! 0, di_create_flag := 0\<rparr> \<and>
    (\<exists>es'. ks_es_cdev s' = Some es' \<and> ec_class es' = ec_class es \<and> ec_major es' = ec_major es \<and>
       ec_device_name es' = nm @ ''_'' @ show_u (count_of dt (ks_boards s))) \<and>
    table_ok (ks_boards s') \<and> count_of dt (ks_boards s') = count_of dt (ks_boards s) + 1 \<and>
    (\<forall>t. t \<noteq> dt \<longrightarrow> count_of t (ks_boards s') = count_of t (ks_boards s))"
proof -
  obtain i where i: "i < 3" "dt = known_types ! i" by (rule known_index [OF assms(9)])
  obtain xp' s' where r: "identify_board k xp s = Inr (Inr (), xp', s')"
    "cdevno (ctrl_cdev xp') = board_devno es i (count_of dt (ks_boards s))"
    "cdev_info (ctrl_cdev xp') =
       board_described k (ks_trace s) (bar xdev ! 0) nm (count_of dt (ks_boards s)) (cdev_info (ctrl_cdev xp))"
    "count_of dt (ks_boards s') = count_of dt (ks_boards s) + 1" "table_ok (ks_boards s')"
    "\<And>t. t \<noteq> dt \<Longrightarrow> count_of t (ks_boards s') = count_of t (ks_boards s)"
    "\<exists>es'. ks_es_cdev s' = Some es' \<and> ec_class es' = ec_class es \<and>
       ec_device_name es' = nm @ ''_'' @ show_u (MINOR (board_devno es i (count_of dt (ks_boards s))))"
    "\<exists>es'. ks_es_cdev s' = Some es' \<and> ec_major es' = ec_major es"
    by (rule identify_board_known [OF assms(1) refl assms(2-9) i]) (rule that, assumption+)
  then show ?thesis using i MINOR_MKDEV [OF assms(10)] assms(8)
    by (intro exI [of _ xp'] exI [of _ s'] exI [of _ i]) (auto simp: board_devno_def board_described_def)
qed

lemma known_board_identified_witness:
  "\<exists>xp' s'. identify_board ram_kapi example_board (example_kernel ES5311_ID) = Inr (Inr (), xp', s') \<and>
    MINOR (cdevno (ctrl_cdev xp')) = 0 \<and> di_device_name (cdev_info (ctrl_cdev xp')) = ''es5311'' \<and>
    count_of ES5341_ID (ks_boards s') = 0"
proof -
  let ?s = "example_kernel ES5311_ID"
  have c: "count_of ES5311_ID (ks_boards ?s) = 0" "count_of ES5341_ID (ks_boards ?s) = 0"
    by (simp_all add: example_kernel_def count_of_def init_entries_def numeral_eq_Suc)
  have xd: "xp_xdev example_board = Some example_xdev" "0 < length (bar example_xdev)" "bar example_xdev ! 0 \<noteq> 0"
    by (simp_all add: example_board_def example_xdev_def)
  have es: "ks_es_cdev ?s = Some (the (ks_es_cdev ?s))" "length (ec_major (the (ks_es_cdev ?s))) = BOARD_TEPE_NUM"
    by (simp_all add: example_kernel_def)
  have nm: "drv_get_board_name ES5311_ID = Some ''es5311''" by (simp add: drv_get_board_name_def)
  have b: "unat (count_of ES5311_ID (ks_boards ?s)) < 1048576" by (simp add: c)
  have ne: "ES5341_ID \<noteq> ES5311_ID" by simp
  from known_board_identified [OF xd ram_kapi_steady example_table_ok es example_type_read [symmetric] nm b]
  obtain xp' s' where "identify_board ram_kapi example_board ?s = Inr (Inr (), xp', s')"
    "MINOR (cdevno (ctrl_cdev xp')) = count_of ES5311_ID (ks_boards ?s)"
    "di_device_name (cdev_info (ctrl_cdev xp')) = ''es5311''"
    "\<forall>t. t \<noteq> ES5311_ID \<longrightarrow> count_of t (ks_boards s') = count_of t (ks_boards ?s)"
    by (elim exE conjE) simp
  then show ?thesis using c ne by metis
qed

text \<open>C25: A board of an unknown type is refused with -EINVAL before anything is taken: no
  instance is used, no device number, name or proc file is made. It is the missing name that is
  noticed, since the unsigned instance can never be negative.\<close>

theorem unknown_board_refused:
  assumes "xp_xdev xp = Some xdev" "0 < length (bar xdev)" "bar xdev ! 0 \<noteq> 0" "table_ok (ks_boards s)"
    "dt = k_io k (ks_trace s) (reg_addr (bar xdev ! 0) DEVICE_BOARD_TYPE)" "drv_get_board_name dt = None"
  shows "\<exists>xp'. create_cdev k typ xp s = Inr (- EINVAL, xp',
      s\<lparr>ks_trace := ks_trace s @ [IoRead (reg_addr (bar xdev ! 0) DEVICE_BOARD_TYPE) dt]\<rparr>) \<and>
    cdevno (ctrl_cdev xp') = cdevno (ctrl_cdev xp) \<and> xp_flags xp' = xp_flags xp"
proof -
  have "dt \<notin> set known_types" using assms(6) by (simp add: known_types_iff)
  note u = get_board_instance_unknown [OF assms(4) this]
  show ?thesis
    using assms(1-3,6) u
    by (simp add: create_cdev_def identify_board_def reg_simps assms(5) [symmetric] Let_def)
qed

lemma unknown_board_refused_witness:
  "\<exists>xp' s'. create_cdev ram_kapi CHAR_CTRL example_board (example_kernel 0xC000) = Inr (- EINVAL, xp', s') \<and>
    xp_flags xp' = 0"
proof -
  have xd: "xp_xdev example_board = Some example_xdev" "0 < length (bar example_xdev)" "bar example_xdev ! 0 \<noteq> 0"
    by (simp_all add: example_board_def example_xdev_def)
  have nm: "drv_get_board_name 0xC000 = None" by (simp add: drv_get_board_name_def)
  show ?thesis
    using unknown_board_refused [OF xd example_table_ok example_type_read [symmetric] nm, of CHAR_CTRL]
    by (auto simp: example_board_def)
qed

end
