(* ===== verification/StackCalls.thy ===== *)
theory StackCalls
  imports Stack BoardLife
begin

unbundle bit_operations_syntax

text \<open>
  The calls of the library on an open board, carried through the ioctl and mmap handlers of
  the driver: the write-buffer and read-back commands, the value a digital input register
  gets, and a process with one board open, on which the properties are tried.
\<close>

section \<open>DMA buffers\<close>

text \<open>The bytes \<open>bs\<close> with \<open>new\<close> in their place from position \<open>pos\<close> on.\<close>

definition overwrite :: "nat \<Rightarrow> 'a list \<Rightarrow> 'a list \<Rightarrow> 'a list" where
  "overwrite pos new bs = take pos bs @ new @ drop (pos + length new) bs"

lemma length_overwrite [simp]: "pos + length new \<le> length bs \<Longrightarrow> length (overwrite pos new bs) = length bs"
  by (simp add: overwrite_def)

lemma take_drop_overwrite: "pos + length new \<le> length bs \<Longrightarrow> take (length new) (drop pos (overwrite pos new bs)) = new"
  by (simp add: overwrite_def)

lemma nth_overwrite_other:
  assumes "pos + length new \<le> length bs" "i < length bs" "i < pos \<or> pos + length new \<le> i"
  shows "overwrite pos new bs ! i = bs ! i"
  using assms by (auto simp: overwrite_def nth_append min_def)

text \<open>The buffer that the write and dump commands of a channel use, and the part of it they use.\<close>

definition ch_buffer :: "xdma_dev \<Rightarrow> int \<Rightarrow> u64" where
  "ch_buffer xdev ch = pData (H2C_dma_cfg xdev ! nat (ch - 1)) ! 0"

definition in_buffer :: "u64 \<Rightarrow> u64 \<Rightarrow> u8 list \<Rightarrow> bool" where
  "in_buffer pos n bs \<longleftrightarrow> unat pos < 2147483648 \<and> 0 < unat n \<and> unat pos + unat n \<le> length bs"

lemma pos_int_small:
  assumes "unat (x_pos xi) < 2147483648"
  shows "pos_int xi = int (unat (x_pos xi))"
proof -
  have "int (unat (x_pos xi)) < 2147483648" using assms by linarith
  moreover have "0 \<le> int (unat (x_pos xi))" by linarith
  ultimately have "s32 (int (unat (x_pos xi))) = int (unat (x_pos xi))" by (intro s32_id) linarith+
  then show ?thesis by (simp add: pos_int_def)
qed

lemma in_buffer_range:
  assumes "in_buffer pos n bs" "p \<noteq> 0" "bufs p = Some bs"
  shows "block_range bufs p (int (unat pos)) (unat n) = Inr bs"
proof (rule block_range_in)
  show "int (unat pos) + int (unat n) \<le> int (length bs)"
    using assms(1) unfolding in_buffer_def by linarith
qed (use assms in simp_all)

lemma channel_cfg:
  assumes "xdev_wf xdev" "1 \<le> ch" "ch \<le> 2"
  shows "nthI (H2C_dma_cfg xdev) (ch - 1) = Inr (H2C_dma_cfg xdev ! nat (ch - 1))"
    "get_pdata (H2C_dma_cfg xdev ! nat (ch - 1)) = Inr (ch_buffer xdev ch)"
proof -
  have len: "length (H2C_dma_cfg xdev) = 2" using assms(1) by (simp add: xdev_wf_def)
  then show "nthI (H2C_dma_cfg xdev) (ch - 1) = Inr (H2C_dma_cfg xdev ! nat (ch - 1))"
    using assms(2,3) by simp
  have "H2C_dma_cfg xdev ! nat (ch - 1) \<in> set (H2C_dma_cfg xdev)"
    using assms(2,3) len by (intro nth_mem) simp
  then have "cfg_wf (H2C_dma_cfg xdev ! nat (ch - 1))" using assms(1) by (auto simp: xdev_wf_def)
  then show "get_pdata (H2C_dma_cfg xdev ! nat (ch - 1)) = Inr (ch_buffer xdev ch)"
    by (simp add: get_pdata_def cfg_wf_def ch_buffer_def)
qed

lemma set_ch_buff_stack:
  assumes "ram_like k" "board_open s b xdev w" "xdev_wf xdev" "1 \<le> ch" "ch \<le> 2" "buff \<noteq> 0"
    "ch_buffer xdev ch = p" "p \<noteq> 0" "ks_bufs (w_kernel w) p = Some bs" "in_buffer pos n bs"
  shows "vi53xx_xdma_set_ch_buff (sys_ioctl k u) ui s b ch buff pos n w =
    (0, w\<lparr>w_kernel := (w_kernel w)\<lparr>
       ks_bufs := (ks_bufs (w_kernel w))(p \<mapsto> overwrite (unat pos) (user_read w buff (unat n)) bs),
       ks_trace := ks_trace (w_kernel w) @ [CopyFromUser 56 0, CopyFromUser (unat n) 0]\<rparr>\<rparr>)"
proof -
  obtain dh where dh: "dev_handle_of b s = Some dh" using assms(2) by (auto simp: board_open_def)
  let ?xi = "ui\<lparr>x_channel := ch, x_buf := buff, x_pos := pos, x_len := n\<rparr>"
  have left: "\<forall>tr n. k_left k tr n = 0" using assms(1) by (simp add: ram_like_def)
  have pos: "pos_int ?xi = int (unat pos)" using assms(10) by (subst pos_int_small) (simp_all add: in_buffer_def)
  have r: "block_range (ks_bufs (info_copied (w_kernel w))) p (int (unat pos)) (unat n) = Inr bs"
    by (rule in_buffer_range [OF assms(10,8)]) (simp add: info_copied_def assms(9))
  have n: "0 < unat n" using assms(10) by (simp add: in_buffer_def)
  have cp: "copy_from_user__buffer k p (int (unat pos)) buff (unat n) w (info_copied (w_kernel w)) = Inr (0,
      (info_copied (w_kernel w))\<lparr>ks_bufs := (ks_bufs (w_kernel w))(p \<mapsto> overwrite (unat pos) (user_read w buff (unat n)) bs),
        ks_trace := ks_trace (w_kernel w) @ [CopyFromUser 56 0, CopyFromUser (unat n) 0]\<rparr>)"
    using copy_from_user_full [OF _ n r, of k buff w] left by (simp add: overwrite_def info_copied_def)
  have io: "vi53xx_ioctl_xdma k u CMD_XDMA_INIT ?xi xdev w (w_kernel w) = Inr (0, w,
      (info_copied (w_kernel w))\<lparr>ks_bufs := (ks_bufs (w_kernel w))(p \<mapsto> overwrite (unat pos) (user_read w buff (unat n)) bs),
        ks_trace := ks_trace (w_kernel w) @ [CopyFromUser 56 0, CopyFromUser (unat n) 0]\<rparr>)"
    using channel_cfg [OF assms(3-5)] pos cp
    by (simp add: vi53xx_ioctl_xdma_def copy_from_user_info_full [OF left] cmd_init_def assms(7))
  have "vi53xx_xdma_set_ch_buff (sys_ioctl k u) ui s b ch buff pos n w =
      sys_ioctl k u (dh_dev_handle dh) (RTPC_IOCTL CMD_XDMA_INIT) ?xi w"
    using dh assms(6) by (simp add: vi53xx_xdma_set_ch_buff_def vi53xx_xdma_write_def xdma_call_ioctl_def)
  then show ?thesis
    by (simp add: sys_ioctl_open [OF assms(2) dh] io info_copied_def)
qed

lemma dump_ch_data_stack:
  assumes "ram_like k" "board_open s b xdev w" "xdev_wf xdev" "1 \<le> ch" "ch \<le> 2" "buff \<noteq> 0"
    "ch_buffer xdev ch = p" "p \<noteq> 0" "ks_bufs (w_kernel w) p = Some bs" "in_buffer pos n bs"
  shows "vi53xx_xdma_dump_ch_data (sys_ioctl k u) ui s b ch buff pos n w =
    (0, (user_write buff (take (unat n) (drop (unat pos) bs)) w)\<lparr>w_kernel := (w_kernel w)\<lparr>
       ks_trace := ks_trace (w_kernel w) @ [CopyFromUser 56 0, CopyToUser (unat n) 0]\<rparr>\<rparr>)"
proof -
  obtain dh where dh: "dev_handle_of b s = Some dh" using assms(2) by (auto simp: board_open_def)
  let ?xi = "ui\<lparr>x_channel := ch, x_buf := buff, x_pos := pos, x_len := n\<rparr>"
  have left: "\<forall>tr n. k_left k tr n = 0" using assms(1) by (simp add: ram_like_def)
  have pos: "pos_int ?xi = int (unat pos)" using assms(10) by (subst pos_int_small) (simp_all add: in_buffer_def)
  have r: "block_range (ks_bufs (info_copied (w_kernel w))) p (int (unat pos)) (unat n) = Inr bs"
    by (rule in_buffer_range [OF assms(10,8)]) (simp add: info_copied_def assms(9))
  have n: "0 < unat n" using assms(10) by (simp add: in_buffer_def)
  have cp: "copy_to_user__buffer k p (int (unat pos)) buff (unat n) w (info_copied (w_kernel w)) = Inr (0,
      user_write buff (take (unat n) (drop (unat pos) bs)) w,
      (w_kernel w)\<lparr>ks_trace := ks_trace (w_kernel w) @ [CopyFromUser 56 0, CopyToUser (unat n) 0]\<rparr>)"
    using copy_to_user_full [OF _ n r, of k buff w] left by (simp add: info_copied_def)
  have io: "vi53xx_ioctl_xdma k u CMD_XDMA_DUMP ?xi xdev w (w_kernel w) = Inr (0,
      user_write buff (take (unat n) (drop (unat pos) bs)) w,
      (w_kernel w)\<lparr>ks_trace := ks_trace (w_kernel w) @ [CopyFromUser 56 0, CopyToUser (unat n) 0]\<rparr>)"
    using channel_cfg [OF assms(3-5)] pos cp
    by (simp add: vi53xx_ioctl_xdma_def copy_from_user_info_full [OF left] cmd_dump_def assms(7))
  have "vi53xx_xdma_dump_ch_data (sys_ioctl k u) ui s b ch buff pos n w =
      sys_ioctl k u (dh_dev_handle dh) (RTPC_IOCTL CMD_XDMA_DUMP) ?xi w"
    using dh assms(4-6) by (simp add: vi53xx_xdma_dump_ch_data_def vi53xx_xdma_dump_def xdma_call_ioctl_def)
  then show ?thesis
    by (simp add: sys_ioctl_open [OF assms(2) dh] io)
qed

end
