(* ===== verification/ProcShow.thy ===== *)
theory ProcShow
  imports DriverTypes
begin

unbundle bit_operations_syntax

text \<open>
  The text the kernel module shows in its proc files (\<open>boards_show\<close>, \<open>mapping_show\<close>,
  \<open>hexToVersionString\<close> and \<open>device_show\<close> of \<open>driver/vi53xx_proc.c\<close>). The list
  \<open>pcie_device_list\<close> is a list of boards, a file the concatenation of what is printed.
\<close>

definition PCI_SLOT :: "u32 \<Rightarrow> u32" where
  "PCI_SLOT devfn = drop_bit 3 devfn AND 0x1f"

definition PCI_FUNC :: "u32 \<Rightarrow> u32" where
  "PCI_FUNC devfn = devfn AND 0x07"

definition boards_line :: "xdma_pci_dev \<Rightarrow> string" where
  "boards_line x =
     (let c = ctrl_cdev x; p = xp_pdev x in
      fmt_ls 10 (di_device_name (cdev_info c)) @ '' '' @ show_u (MINOR (cdevno c)) @ '' '' @
      show_u (MAJOR (cdevno c)) @ '':'' @ show_u (MINOR (cdevno c)) @ '' '' @
      fmt_0x 4 (unat (p_vendor p)) @ '':'' @ fmt_0x 4 (unat (p_device p)) @ '' '' @
      fmt_0x 4 (nat (p_domain p)) @ '':'' @ fmt_0x 2 (unat (p_bus_number p)) @ '':'' @
      fmt_0x 2 (unat (PCI_SLOT (p_devfn p))) @ ''.'' @ fmt_0x 1 (unat (PCI_FUNC (p_devfn p))) @ '' '' @
      show_u (MINOR (cdevno c)) @ '':'' @ show_u (di_board_id (cdev_info c)) @ [newline])"

definition boards_show :: "xdma_pci_dev list \<Rightarrow> string" where
  "boards_show pcie_device_list = concat (map boards_line pcie_device_list)"

definition mapping_line :: "xdma_pci_dev \<Rightarrow> string" where
  "mapping_line x =
     (let c = ctrl_cdev x in
      fmt_ls 10 (di_device_name (cdev_info c)) @ '' '' @ show_u (MINOR (cdevno c)) @ '':'' @
      show_u (di_board_id (cdev_info c)) @ '':0x'' @ fmt_x (unat (di_board_type (cdev_info c))) @ [newline])"

definition mapping_show :: "xdma_pci_dev list \<Rightarrow> string" where
  "mapping_show pcie_device_list = concat (map mapping_line pcie_device_list)"

text \<open>Writes to the two lists take every byte and do nothing with it.\<close>

definition boards_write :: "nat \<Rightarrow> nat" where
  "boards_write count = count"

definition mapping_write :: "nat \<Rightarrow> nat" where
  "mapping_write count = count"

text \<open>\<open>hexToVersionString\<close> prints into an array of \<open>sz\<close> bytes.\<close>

definition hexToVersionString :: "nat \<Rightarrow> u32 \<Rightarrow> string res" where
  "hexToVersionString sz num =
     (let byte2 = drop_bit 16 num AND 0xFF; byte1 = drop_bit 8 num AND 0xFF; byte0 = num AND 0xFF
      in fitsR sz (show_u byte2 @ ''.'' @ show_u byte1 @ ''.'' @ show_u byte0))"

definition device_show :: "xdma_cdev \<Rightarrow> string res" where
  "device_show c =
     (let i = cdev_info c in
      bindR (hexToVersionString 10 (di_fpga_version i)) (\<lambda>fpga.
      bindR (hexToVersionString 10 (di_mdl_version i)) (\<lambda>mdl.
      Inr (''Board: '' @ [CHR 0x27] @ di_device_name i @ ''_'' @ show_u (MINOR (cdevno c)) @ [CHR 0x27] @
           '', Serial: '' @ fmt_x (unat (di_serial i)) @ [newline] @
           ''FPGA-version: '' @ [CHR 0x27] @ fpga @ [CHR 0x27, newline] @
           ''MDL-version: '' @ [CHR 0x27] @ mdl @ [CHR 0x27, newline] @
           ''LED-blink: '' @ [CHR 0x27] @ ''0x'' @ fmt_x (unat (di_led_blink i)) @ [CHR 0x27, newline] @
           ''Board_type: '' @ [CHR 0x27] @ ''0x'' @ fmt_x (unat (di_board_type i)) @ [CHR 0x27, newline] @
           ''Board_id: '' @ [CHR 0x27] @ show_u (di_board_id i) @ [CHR 0x27, newline]))))"

section \<open>The version strings\<close>

text \<open>The number of decimal digits of a byte.\<close>

definition digits3 :: "u32 \<Rightarrow> nat" where
  "digits3 b = (if b < 10 then 1 else if b < 100 then 2 else 3)"

lemma byte_bound: "unat (w AND 0xFF :: u32) < 256"
proof -
  have "unat (w AND 0xFF) \<le> unat (0xFF :: u32)"
    by (rule word_and_le1 [THEN word_le_nat_alt [THEN iffD1]])
  then show ?thesis by simp
qed

lemma sint_small: "unat (w :: u32) < 2147483648 \<Longrightarrow> sint w = int (unat w)"
proof -
  assume "unat w < 2147483648"
  then have "uint w < 2147483648" by (simp add: nat_less_iff flip: nat_uint_eq)
  then have "signed_take_bit 31 (uint w) = uint w"
    by (intro signed_take_bit_int_eq_self) (auto intro: order_trans [of _ 0])
  then show ?thesis by (simp add: sint_uint)
qed

lemma show_u_small: "unat w < 2147483648 \<Longrightarrow> show_u w = show_base 10 (unat w)"
  by (simp add: show_u_def sint_small fmt_d_def)

lemma digit_count:
  "(l \<le> 1 \<longleftrightarrow> n < 10) \<Longrightarrow> (l \<le> 2 \<longleftrightarrow> n < 100) \<Longrightarrow> (l \<le> 3 \<longleftrightarrow> n < 1000) \<Longrightarrow> 0 < l \<Longrightarrow>
   n < 256 \<Longrightarrow> l = (if n < 10 then 1 else if n < 100 then 2 else (3 :: nat))" for l n :: nat
  by (cases "n < 10"; cases "n < 100") auto

lemma length_show_byte: "length (show_u (w AND 0xFF)) = digits3 (w AND 0xFF)"
proof -
  let ?b = "w AND 0xFF" and ?l = "length (show_base 10 (unat (w AND 0xFF)))"
  have b: "unat ?b < 256" by (rule byte_bound)
  have "?l = (if unat ?b < 10 then 1 else if unat ?b < 100 then 2 else 3)"
    using b show_base_length_iff [of 10 1 "unat ?b"] show_base_length_iff [of 10 2 "unat ?b"]
      show_base_length_iff [of 10 3 "unat ?b"] by (intro digit_count) simp_all
  moreover have "show_u ?b = show_base 10 (unat ?b)" using b by (simp add: show_u_small)
  ultimately show ?thesis by (simp add: digits3_def word_less_nat_alt)
qed

text \<open>A version as three decimal numbers, the bytes 2, 1 and 0 of the register.\<close>

definition dotted_version :: "nat \<Rightarrow> string" where
  "dotted_version v = show_base 10 (v div 65536 mod 256) @ ''.'' @ show_base 10 (v div 256 mod 256) @ ''.'' @ show_base 10 (v mod 256)"

lemma show_byte:
  "show_u (drop_bit n (w :: u32) AND 0xFF) = show_base 10 (unat w div 2 ^ n mod 256)"
proof -
  have m: "drop_bit n w AND 0xFF = take_bit 8 (drop_bit n w)" by (simp add: take_bit_eq_mask mask_numeral)
  have "unat (drop_bit n w AND 0xFF) = unat w div 2 ^ n mod 256"
    unfolding m unsigned_take_bit_eq unsigned_drop_bit_eq
    using unsigned_less [where 'a = nat, of w] by (simp add: take_bit_eq_mod drop_bit_eq_div)
  moreover have "unat (drop_bit n w AND 0xFF) < 2147483648" using byte_bound [of "drop_bit n w"] by simp
  ultimately show ?thesis by (simp add: show_u_small)
qed

lemma hexToVersionString_dotted:
  "hexToVersionString sz num =
    (if length (dotted_version (unat num)) < sz then Inr (dotted_version (unat num)) else Inl BufferOverflow)"
  using show_byte [of 16 num] show_byte [of 8 num] show_byte [of 0 num]
  by (simp add: hexToVersionString_def Let_def fitsR_def dotted_version_def)

lemma length_dotted:
  "length (dotted_version (unat v)) = digits3 (drop_bit 16 v AND 0xFF) + digits3 (drop_bit 8 v AND 0xFF) + digits3 (v AND 0xFF) + 2"
  using length_show_byte [of "drop_bit 16 v"] length_show_byte [of "drop_bit 8 v"] length_show_byte [of v]
    show_byte [of 16 v] show_byte [of 8 v] show_byte [of 0 v]
  by (simp add: dotted_version_def)

section \<open>Properties\<close>

text \<open>C39: Reading the proc file of a board overflows the 10-byte version buffer exactly when the
  three decimal parts of the FPGA or of the model version have more than 7 digits together;
  otherwise the file says the name and the minor number of the board, its serial number, both
  versions as the decimal values of their bytes 2, 1 and 0 with dots between them, its LED, type and
  identifier.\<close>

theorem device_show_overflow_iff:
  "device_show c =
    (let i = cdev_info c;
         d = (\<lambda>v. digits3 (drop_bit 16 v AND 0xFF) + digits3 (drop_bit 8 v AND 0xFF) + digits3 (v AND 0xFF));
         quoted = (\<lambda>s. [CHR 0x27] @ s @ [CHR 0x27])
     in if 7 < d (di_fpga_version i) \<or> 7 < d (di_mdl_version i) then Inl BufferOverflow
        else Inr (''Board: '' @ quoted (di_device_name i @ ''_'' @ show_base 10 (unat (MINOR (cdevno c)))) @
          '', Serial: '' @ fmt_x (unat (di_serial i)) @ [newline] @
          ''FPGA-version: '' @ quoted (dotted_version (unat (di_fpga_version i))) @ [newline] @
          ''MDL-version: '' @ quoted (dotted_version (unat (di_mdl_version i))) @ [newline] @
          ''LED-blink: '' @ quoted (''0x'' @ fmt_x (unat (di_led_blink i))) @ [newline] @
          ''Board_type: '' @ quoted (''0x'' @ fmt_x (unat (di_board_type i))) @ [newline] @
          ''Board_id: '' @ quoted (show_u (di_board_id i)) @ [newline]))"
proof -
  have "show_u (MINOR (cdevno c)) = show_base 10 (unat (MINOR (cdevno c)))"
    using MINOR_bound [of "cdevno c"] by (simp add: show_u_small)
  then show ?thesis by (simp add: device_show_def hexToVersionString_dotted length_dotted Let_def)
qed

end
