(* ===== verification/BoardList.thy ===== *)
theory BoardList
  imports ProcShow LibBoards
begin

text \<open>
  The board list crosses from the kernel module to the user library as text: the module
  prints one line per board (\<open>mapping_show\<close>), the library parses the lines
  (\<open>extractValue\<close>). The instance number is printed in decimal and read in hexadecimal.
  These lemmas follow one line through the line buffer, \<open>strtok\<close> and \<open>sscanf\<close>, and then
  the whole list.
\<close>

definition name_ok :: "string \<Rightarrow> bool" where
  "name_ok nm \<longleftrightarrow> nm \<noteq> [] \<and> length nm \<le> 10 \<and> (\<forall>c \<in> set nm. c \<notin> set separators \<and> c \<noteq> NUL)"

text \<open>The record the library stores for a board of the module's list.\<close>

definition parsed_board :: "xdma_pci_dev \<Rightarrow> board_rec" where
  "parsed_board x = (let c = ctrl_cdev x; i = cdev_info c in
     \<lparr>bi_board_inst = of_nat (reread 10 16 (unat (MINOR (cdevno c)))),
      bi_board_id = di_board_id i, bi_board_type = di_board_type i, bi_board_name = di_device_name i\<rparr>)"

definition entry_text :: "xdma_pci_dev \<Rightarrow> string" where
  "entry_text x = (let c = ctrl_cdev x in
     show_u (MINOR (cdevno c)) @ '':'' @ show_u (di_board_id (cdev_info c)) @ '':0x'' @
     fmt_x (unat (di_board_type (cdev_info c))) @ [newline])"

lemma mapping_line_split:
  "mapping_line x = fmt_ls 10 (di_device_name (cdev_info (ctrl_cdev x))) @ '' '' @ entry_text x"
  by (simp add: mapping_line_def entry_text_def Let_def)

lemma show_minor: "show_u (MINOR d) = show_base 10 (unat (MINOR d))"
  using MINOR_bound [of d] by (simp add: show_u_small)

lemma scan_entry_text:
  "scan_entry (entry_text x) = Some (bi_board_inst (parsed_board x), bi_board_id (parsed_board x),
     bi_board_type (parsed_board x))"
proof -
  let ?m = "unat (MINOR (cdevno (ctrl_cdev x)))" and ?id = "di_board_id (cdev_info (ctrl_cdev x))"
  let ?t = "unat (di_board_type (cdev_info (ctrl_cdev x)))"
  have 1: "scan_x (show_base 10 ?m @ '':'' @ r) = Some (int (reread 10 16 ?m), '':'' @ r)" for r
    by (rule scan_x_show_base) (simp_all add: is_digit_special)
  have 2: "scan_d (fmt_d (sint ?id) @ '':'' @ r) = Some (sint ?id, '':'' @ r)" for r
    by (rule scan_d_fmt_d) (simp add: is_digit_special)
  have 3: "scan_x (''0x'' @ fmt_x ?t @ [newline]) = Some (int ?t, [newline])"
    using scan_x_fmt_x [of "[newline]" ?t] by (simp add: is_digit_special)
  have etext: "entry_text x = show_base 10 ?m @ '':'' @ (fmt_d (sint ?id) @ '':'' @ (''0x'' @ fmt_x ?t @ [newline]))"
    by (simp add: entry_text_def Let_def show_u_def show_minor [unfolded show_u_def])
  have lit: "scan_lit (CHR '':'') ('':'' @ r) = Some r" for r by (simp add: scan_lit_def)
  show ?thesis unfolding etext scan_entry_def 1 option.case prod.case lit 2 3
    by (simp add: parsed_board_def Let_def)
qed

text \<open>The characters and the length of a line.\<close>

lemma set_show_u: "c \<in> set (show_u w) \<Longrightarrow> is_digit 16 c \<or> c = CHR ''-''"
  by (auto simp: show_u_def dest: set_fmt_d)

lemma entry_text_chars:
  "c \<in> set (butlast (entry_text x)) \<Longrightarrow> c \<noteq> newline \<and> c \<noteq> NUL"
  by (auto simp: entry_text_def Let_def butlast_append dest!: set_show_u set_fmt_x is_digit_neq)

lemma length_entry_text: "length (entry_text x) \<le> 40"
proof -
  let ?t = "di_board_type (cdev_info (ctrl_cdev x))"
  have "length (show_base 16 (unat ?t)) \<le> 8"
    using unsigned_less [where 'a = nat, of ?t] by (intro length_show_base) simp_all
  then show ?thesis
    using length_show_u [of "MINOR (cdevno (ctrl_cdev x))"] length_show_u [of "di_board_id (cdev_info (ctrl_cdev x))"]
    by (simp add: entry_text_def Let_def fmt_x_def)
qed

lemma entry_text_last: "\<exists>body. entry_text x = body @ [newline]"
  by (simp add: entry_text_def Let_def)

section \<open>One line\<close>

lemma fmt_ls_10: "length nm \<le> 10 \<Longrightarrow> fmt_ls 10 nm @ '' '' = nm @ replicate (11 - length nm) (CHR '' '')"
  by (simp add: fmt_ls_def Suc_diff_le replicate_append_same flip: replicate_Suc)

lemma strtok_line:
  assumes nm: "name_ok nm" and t: "NUL \<notin> set t"
    and b1: "b1 = nm @ replicate (11 - length nm) (CHR '' '') @ t @ NUL # tail"
  shows "strtok b1 separators = Inr (Some nm, b1[length nm := NUL])"
proof -
  obtain k where k: "11 - length nm = Suc k" using nm by (cases "11 - length nm") (auto simp: name_ok_def)
  let ?s = "nm @ CHR '' '' # replicate k (CHR '' '') @ t"
  have s: "takeWhile (\<lambda>c. c \<noteq> NUL) b1 = ?s"
    using nm t by (simp add: b1 k name_ok_def takeWhile_append)
  have sep: "CHR '' '' \<in> set separators" by (simp add: separators_def)
  obtain c cs where c: "nm = c # cs" "c \<notin> set separators"
    using nm by (cases nm) (auto simp: name_ok_def)
  have tok: "takeWhile (\<lambda>c. c \<notin> set separators) ?s = nm"
    using nm sep by (subst takeWhile_append2) (auto simp: name_ok_def)
  have "NUL \<in> set b1" by (simp add: b1)
  then show ?thesis using tok c by (simp add: strtok_def s Let_def)
qed

lemma cstr_at_11:
  assumes nm: "name_ok nm" and t: "NUL \<notin> set t"
    and b1: "b1 = nm @ replicate (11 - length nm) (CHR '' '') @ t @ NUL # tail"
  shows "cstr_at (b1[length nm := NUL]) 11 = Inr t"
proof -
  have le: "length nm \<le> 10" using nm by (simp add: name_ok_def)
  have "drop 11 (b1[length nm := NUL]) = drop 11 b1" using le by simp
  also have "\<dots> = t @ NUL # tail" using le by (simp add: b1)
  finally have d: "drop 11 (b1[length nm := NUL]) = t @ NUL # tail" .
  have "takeWhile (\<lambda>c. c \<noteq> NUL) (t @ NUL # tail) = t"
    using t by (subst takeWhile_append2) auto
  then show ?thesis by (simp add: cstr_at_def d)
qed

lemma extract_loop_line:
  assumes nm: "name_ok (di_device_name (cdev_info (ctrl_cdev x)))"
    and buf: "length buf = 256" and n: "n < length info"
  obtains buf' where "length buf' = 256" "cstr_at buf' 11 = Inr (entry_text x)"
    "extract_loop (mapping_line x @ rest) buf info n =
     extract_loop rest buf' (info[n := parsed_board x]) (Suc n)"
proof -
  let ?nm = "di_device_name (cdev_info (ctrl_cdev x))"
  have le: "length ?nm \<le> 10" using nm by (simp add: name_ok_def)
  obtain body where body: "entry_text x = body @ [newline]" using entry_text_last by blast
  have bch: "newline \<notin> set body" "NUL \<notin> set body" using entry_text_chars [of _ x] body by auto
  have ns: "newline \<in> set separators" by (simp add: separators_def)
  let ?l = "?nm @ replicate (11 - length ?nm) (CHR '' '') @ body"
  have line: "mapping_line x = ?l @ [newline]"
    using fmt_ls_10 [OF le] by (simp add: mapping_line_split body flip: append_assoc)
  have nl: "newline \<notin> set ?l" using bch nm ns by (auto simp: name_ok_def)
  have len: "length ?l + 2 \<le> 256" using length_entry_text [of x] le by (simp add: body)
  have fg: "fgets 256 (mapping_line x @ rest) = Some (?l @ [newline], rest)"
    using fgets_line [OF nl len, of rest] by (simp add: line)
  define b1 where "b1 = (?l @ [newline]) @ NUL # drop (Suc (length (?l @ [newline]))) buf"
  have cp: "strcpyR buf (?l @ [newline]) = Inr b1" using len buf by (simp add: strcpyR_def b1_def)
  have b1: "b1 = ?nm @ replicate (11 - length ?nm) (CHR '' '') @ (body @ [newline]) @
      NUL # drop (Suc (length (?l @ [newline]))) buf" by (simp add: b1_def)
  have t: "NUL \<notin> set (body @ [newline])" using bch by simp
  have st: "strtok b1 separators = Inr (Some ?nm, b1[length ?nm := NUL])"
    by (rule strtok_line [OF nm t b1])
  have cs: "cstr_at (b1[length ?nm := NUL]) 11 = Inr (entry_text x)"
    unfolding body by (rule cstr_at_11 [OF nm t b1])
  have fit: "fitsR 32 ?nm = Inr ?nm" using le by (simp add: fitsR_def)
  have pb: "parsed_board x = \<lparr>bi_board_inst = bi_board_inst (parsed_board x),
      bi_board_id = bi_board_id (parsed_board x), bi_board_type = bi_board_type (parsed_board x),
      bi_board_name = ?nm\<rparr>" by (simp add: parsed_board_def Let_def)
  have "extract_loop (mapping_line x @ rest) buf info n =
     extract_loop rest (b1[length ?nm := NUL]) (info[n := parsed_board x]) (Suc n)"
    unfolding extract_loop.simps [of "mapping_line x @ rest"] fg option.case prod.case cp
      bindR.simps st cs scan_entry_text nthR_in [OF n] derefR_simps fit
    by (simp only: pb [symmetric])
  moreover have "length (b1[length ?nm := NUL]) = 256" using len buf by (simp add: b1_def)
  ultimately show thesis using that cs by blast
qed

text \<open>
  A blank line after the line of a board: there is no token, but the fields of the board are
  still in the buffer and are scanned again, and NULL is printed as the name.
\<close>

lemma blank_line_prints_null:
  assumes "name_ok (di_device_name (cdev_info (ctrl_cdev x)))" "length (os_line env) = 256" "2 \<le> length info"
    "os_fopen env f = Some (mapping_line x @ [newline])"
  shows "extractValue env f info = Inl NullDeref"
proof -
  obtain buf' where b: "length buf' = 256" "cstr_at buf' 11 = Inr (entry_text x)"
    "extract_loop (mapping_line x @ [newline]) (os_line env) info 0 =
     extract_loop [newline] buf' (info[0 := parsed_board x]) (Suc 0)"
    by (rule extract_loop_line [OF assms(1,2), of 0 info "[newline]"]) (use assms(3) in auto)
  let ?b = "newline # NUL # drop 2 buf'"
  have g: "fgets 256 [newline] = Some ([newline], [])" using fgets_line [of "[]" 256 "[]"] by simp
  have c: "strcpyR buf' [newline] = Inr ?b" using b(1) by (simp add: strcpyR_def numeral_2_eq_2)
  have t: "strtok ?b separators = Inr (None, ?b)" by (simp add: strtok_def separators_def Let_def)
  have "drop 11 ?b = drop 11 buf'" by (simp add: numeral_eq_Suc)
  then have a: "cstr_at ?b 11 = Inr (entry_text x)" using b(2) unfolding cstr_at_def by (simp only:)
  have n: "nthR (info[0 := parsed_board x]) (Suc 0) = Inr (info[0 := parsed_board x] ! Suc 0)" using assms(3) by simp
  have "extract_loop [newline] buf' (info[0 := parsed_board x]) (Suc 0) = Inl NullDeref"
    unfolding extract_loop.simps [of "[newline]"] g option.case prod.case c bindR.simps t a scan_entry_text n derefR_simps
    by (rule refl)
  then show ?thesis using b(3) assms(4) by (simp add: extractValue_def)
qed

section \<open>The whole list\<close>

lemma extract_loop_mapping:
  assumes "\<forall>x \<in> set bs. name_ok (di_device_name (cdev_info (ctrl_cdev x)))"
    "length buf = 256" "n + length bs \<le> length info"
  shows "extract_loop (mapping_show bs) buf info n =
    Inr (n + length bs, fill info n (map parsed_board bs))"
  using assms
proof (induction bs arbitrary: buf info n)
  case Nil
  then show ?case by (subst extract_loop.simps) (simp add: mapping_show_def fgets_def)
next
  case (Cons x bs)
  then have n: "n < length info" and nm: "name_ok (di_device_name (cdev_info (ctrl_cdev x)))" by auto
  obtain buf' where b: "length buf' = 256" "extract_loop (mapping_line x @ mapping_show bs) buf info n =
     extract_loop (mapping_show bs) buf' (info[n := parsed_board x]) (Suc n)"
    by (rule extract_loop_line [OF nm Cons.prems(2) n])
  have "extract_loop (mapping_show bs) buf' (info[n := parsed_board x]) (Suc n) =
      Inr (Suc n + length bs, fill (info[n := parsed_board x]) (Suc n) (map parsed_board bs))"
    using Cons.prems b(1) by (intro Cons.IH) auto
  moreover have "fill (info[n := parsed_board x]) (Suc n) (map parsed_board bs) =
      fill info n (map parsed_board (x # bs))"
    using n by (simp add: fill_def take_Suc_conv_app_nth)
  ultimately show ?case using b(2) by (simp add: mapping_show_def)
qed

lemma extractValue_mapping:
  assumes "os_fopen env f = Some (mapping_show bs)" "length (os_line env) = 256"
    "\<forall>x \<in> set bs. name_ok (di_device_name (cdev_info (ctrl_cdev x)))" "length bs \<le> length info"
  shows "extractValue env f info =
    Inr (int (length bs), map parsed_board bs @ drop (length bs) info)"
  using assms extract_loop_mapping [of bs "os_line env" 0 info]
  by (simp add: extractValue_def fill_def)

text \<open>What the check leaves behind when the file holds the list.\<close>

lemma discovery_result:
  assumes "init_check_ok s = 0" "os_malloc env 0" "os_malloc env 1" "length (os_line env) = 256"
    "os_fopen env boards_file = Some (mapping_show bs)" "bs \<noteq> []" "length bs \<le> 64"
    "\<forall>x \<in> set bs. name_ok (di_device_name (cdev_info (ctrl_cdev x)))"
  obtains n s' where "check_boards_info env s = Inr (n, s')"
    "board_info s' = Some (map parsed_board bs @ drop (length bs) (replicate BOARD_NUM zero_board))"
    "available_board_count s' = int (length bs)" "os_log s' = os_log s"
    "dev_handle_list s' = init_dev_handle_list (dev_handle_list s)"
proof -
  let ?l = "map parsed_board bs @ drop (length bs) (replicate BOARD_NUM zero_board)"
  have len: "length bs < length ?l" "2 * length bs \<le> length (replicate BOARD_NUM zero_board)"
    using assms(7) by simp_all
  have ex: "extractValue env boards_file (replicate BOARD_NUM zero_board) = Inr (int (length bs), ?l)"
    using assms(7) by (intro extractValue_mapping [OF assms(5,4,8)]) simp
  obtain n err where chk: "i_check_boards_info ?l (replicate BOARD_NUM zero_board) (length bs) = Inr (n, err)"
    by (rule check_boards_result [OF len])
  obtain s' where "check_boards_info env s = Inr (int n, s')" "board_info s' = Some ?l"
    "available_board_count s' = int (length bs)" "os_log s' = os_log s"
    "dev_handle_list s' = init_dev_handle_list (dev_handle_list s)"
    using assms(1-3,6) ex chk by (simp add: check_boards_info_def requst_mem_def init_config_def Let_def)
  then show thesis by (rule that)
qed

text \<open>The instance survives the trip exactly when its minor number has one digit.\<close>

lemma reread_of_nat_eq:
  assumes "m < 1048576"
  shows "(of_nat (reread 10 16 m) :: u32) = of_nat m \<longleftrightarrow> m < 10"
proof -
  have "reread 10 16 m < 2 ^ 32"
  proof -
    have "length (show_base 10 m) \<le> 7" using assms by (intro length_show_base) simp_all
    have r: "reread 10 16 n < 16 ^ k" if "n < 10 ^ k" "0 < k" for n k
      using that
    proof (induction k arbitrary: n)
      case (Suc k)
      show ?case
      proof (cases "n < 10")
        case True
        then show ?thesis by (simp add: reread.simps) (rule less_le_trans [of _ 16]; simp)
      next
        case False
        with Suc.prems have "0 < k" by (cases k) auto
        moreover have "n div 10 < 10 ^ k" using Suc.prems by (simp add: less_mult_imp_div_less mult.commute)
        ultimately have "reread 10 16 (n div 10) < 16 ^ k" by (rule Suc.IH [rotated])
        then have "reread 10 16 (n div 10) * 16 + n mod 10 < 16 ^ Suc k" by simp
        then show ?thesis using False by (subst reread.simps) simp
      qed
    qed simp
    show ?thesis using r [of m 7] assms by simp
  qed
  then have "(of_nat (reread 10 16 m) :: u32) = of_nat m \<longleftrightarrow> reread 10 16 m = m"
    using assms by (simp add: word_unat_eq_iff unat_of_nat)
  then show ?thesis using reread_eq_iff [of 10 16 m] by simp
qed

lemma parsed_inst_eq_iff:
  "bi_board_inst (parsed_board x) = MINOR (cdevno (ctrl_cdev x)) \<longleftrightarrow>
   MINOR (cdevno (ctrl_cdev x)) < 10"
proof -
  let ?m = "unat (MINOR (cdevno (ctrl_cdev x)))"
  have "bi_board_inst (parsed_board x) = MINOR (cdevno (ctrl_cdev x)) \<longleftrightarrow>
      (of_nat (reread 10 16 ?m) :: u32) = of_nat ?m"
    by (simp add: parsed_board_def Let_def)
  also have "\<dots> \<longleftrightarrow> ?m < 10" using MINOR_bound by (intro reread_of_nat_eq) blast
  finally show ?thesis by (simp add: word_less_nat_alt)
qed

end
