(* ===== verification/Runs.thy ===== *)
theory Runs
  imports Prelude
begin

text \<open>
  Runs of a step relation: sequences of events one after the other, from a state to a state.
  The LED with its timer, the kernel module and the user library are step relations of this
  kind. Two contracts say what the steps of such a system keep: an invariant that counts events
  against a limit, and a simulation of an abstract system.
\<close>

inductive run :: "('s \<Rightarrow> 'e \<Rightarrow> 's \<Rightarrow> bool) \<Rightarrow> 's \<Rightarrow> 'e list \<Rightarrow> 's \<Rightarrow> bool" for step where
  run_done: "run step s [] s"
| run_more: "step s e s1 \<Longrightarrow> run step s1 es s2 \<Longrightarrow> run step s (e # es) s2"

inductive_simps run_Nil [simp]: "run step s [] s'"
inductive_simps run_Cons: "run step s (e # es) s'"

lemma run_append: "run step s (es @ fs) s' \<longleftrightarrow> (\<exists>s1. run step s es s1 \<and> run step s1 fs s')"
  by (induction es arbitrary: s) (auto simp: run_Cons)

text \<open>A run of blocks of events is a run whose steps are runs.\<close>

lemma run_concat: "run step s (concat ess) s' \<longleftrightarrow> run (run step) s ess s'"
  by (induction ess arbitrary: s) (auto simp: run_Cons run_append)

lemma run_restrict: "run step s es s' \<Longrightarrow> \<forall>e \<in> set es. p e \<Longrightarrow> run (\<lambda>s e s'. p e \<and> step s e s') s es s'"
  by (induction rule: run.induct) (auto intro: run.intros)

section \<open>An invariant with a budget\<close>

locale budgeted =
  fixes step :: "'s \<Rightarrow> 'e \<Rightarrow> 's \<Rightarrow> bool"
    and cost :: "'e \<Rightarrow> nat"
    and inv :: "nat \<Rightarrow> 's \<Rightarrow> bool"
    and limit :: nat
  assumes step_inv: "inv n s \<Longrightarrow> step s e s' \<Longrightarrow> n + cost e \<le> limit \<Longrightarrow> inv (n + cost e) s'"
begin

lemma run_inv:
  "run step s es s' \<Longrightarrow> inv n s \<Longrightarrow> n + sum_list (map cost es) \<le> limit \<Longrightarrow> inv (n + sum_list (map cost es)) s'"
proof (induction arbitrary: n rule: run.induct)
  case (run_more s e s1 es s2)
  then have "inv (n + cost e) s1" by (intro step_inv) auto
  then show ?case using run_more.IH [of "n + cost e"] run_more.prems(2) by (simp add: add.assoc)
qed simp

end

section \<open>A simulation\<close>

locale simulation =
  fixes step :: "'s \<Rightarrow> 'e \<Rightarrow> 's \<Rightarrow> bool"
    and astep :: "'a \<Rightarrow> 'e \<Rightarrow> 'a \<Rightarrow> bool"
    and abs :: "'s \<Rightarrow> 'a"
    and ok :: "'s \<Rightarrow> bool"
  assumes step_sim: "ok s \<Longrightarrow> step s e s' \<Longrightarrow> ok s' \<and> astep (abs s) e (abs s')"

sublocale simulation \<subseteq> kept: budgeted step "\<lambda>_. 0" "\<lambda>_. ok" 0
  by unfold_locales (use step_sim in blast)

context simulation
begin

lemma run_ok: "run step s es s' \<Longrightarrow> ok s \<Longrightarrow> ok s'"
  using kept.run_inv [of s es s' 0] by simp

lemma run_sim: "run step s es s' \<Longrightarrow> ok s \<Longrightarrow> run astep (abs s) es (abs s')"
proof (induction rule: run.induct)
  case (run_more s e s1 es s2)
  then show ?case using step_sim [of s e s1] by (auto intro: run.run_more)
qed (rule run_done)

end

end
