(* ===== verification/LibRuns.thy ===== *)
theory LibRuns
  imports LibHandles Runs
begin

text \<open>
  The user library as a state machine: discovery, opening and closing boards, asking for indexes
  and giving the board list back, in any order and in any environment. Every state keeps the
  sizes and the well-formedness of its tables, and what a caller sees of the open boards is a
  map from board ids to descriptors on which the calls act as on an abstract table.
\<close>

section \<open>The steps\<close>

datatype lib_event = LCheck | LOpen u32 int | LClose u32 | LIdx u32 int | LFree u32

text \<open>An event of \<open>open\<close> or \<open>get_idx\<close> carries the returned value. \<open>errno\<close> is not negative.\<close>

inductive lib_step :: "lib \<Rightarrow> lib_event \<Rightarrow> lib \<Rightarrow> bool" where
  l_check: "check_boards_info env s = Inr (rv, s') \<Longrightarrow> lib_step s LCheck s'"
| l_open: "vi53xx_device_open env b s = Inr (rv, s') \<Longrightarrow> 0 \<le> os_errno env \<Longrightarrow> lib_step s (LOpen b rv) s'"
| l_close: "lib_step s (LClose b) (vi53xx_device_close b s)"
| l_idx: "get_idx ok en b (bitmap s, boardid_to_idx_list s) = (rv, bm, t) \<Longrightarrow>
    lib_step s (LIdx b rv) (s\<lparr>bitmap := bm, boardid_to_idx_list := t\<rparr>)"
| l_free: "lib_step s (LFree b) (free_board_info b s)"

abbreviation lib_run :: "lib \<Rightarrow> lib_event list \<Rightarrow> lib \<Rightarrow> bool" where
  "lib_run \<equiv> run lib_step"

section \<open>The abstract table of open boards\<close>

definition opens :: "lib \<Rightarrow> u32 \<rightharpoonup> int" where
  "opens s = (\<lambda>b. map_option dh_dev_handle (get_dev_handle b s))"

text \<open>
  The table with the count of open boards the library keeps, the number of boards it found and
  whether it has looked for them. The first check empties the table and may find boards; a later
  one does nothing. Opening refuses with -19, or returns the descriptor of a board that is open,
  or adds the board with its descriptor; when the library has no memory or no room it adds
  nothing. But whenever it gets so far, the count becomes one more than the number of boards
  found. Closing takes out the board and counts down, except when the count reaches zero, or is
  zero, or there are no boards: then everything is forgotten.
\<close>

record open_table =
  ot_open :: "u32 \<rightharpoonup> int"
  ot_online :: int
  ot_boards :: int
  ot_checked :: bool

fun abs_step :: "open_table \<Rightarrow> lib_event \<Rightarrow> open_table \<Rightarrow> bool" where
  "abs_step t LCheck t' \<longleftrightarrow>
     (if ot_checked t then t' = t
      else \<exists>n. (n = ot_boards t \<or> 1 \<le> n \<and> n \<le> 128) \<and> t' = t\<lparr>ot_open := Map.empty, ot_boards := n, ot_checked := True\<rparr>)"
| "abs_step t (LOpen b rv) t' \<longleftrightarrow>
     rv = - 19 \<and> t' = t \<or>
     ot_boards t \<noteq> 0 \<and>
     (case ot_open t b of
        Some h \<Rightarrow> rv = h \<and> t' = t
      | None \<Rightarrow> 0 \<le> rv \<and> t' = t\<lparr>ot_open := (ot_open t)(b \<mapsto> rv), ot_online := ot_boards t + 1\<rparr> \<or>
          rv \<le> 0 \<and> t' = t\<lparr>ot_online := ot_boards t + 1\<rparr>)"
| "abs_step t (LClose b) t' \<longleftrightarrow>
     t' = (if ot_boards t = 0 \<or> ot_online t \<le> 1
           then t\<lparr>ot_open := Map.empty, ot_online := 0, ot_boards := 0, ot_checked := False\<rparr>
           else t\<lparr>ot_open := (ot_open t)(b := None), ot_online := ot_online t - 1\<rparr>)"
| "abs_step t (LIdx b rv) t' \<longleftrightarrow> t' = t"
| "abs_step t (LFree b) t' \<longleftrightarrow> t' = t\<lparr>ot_open := Map.empty, ot_checked := False\<rparr>"

text \<open>What the globals of the library say of it.\<close>

definition table_of :: "lib \<Rightarrow> open_table" where
  "table_of s = \<lparr>ot_open = opens s, ot_online = get_online_board_count s, ot_boards = available_board_count s,
     ot_checked = (init_check_ok s \<noteq> 0)\<rparr>"

abbreviation abs_run :: "open_table \<Rightarrow> lib_event list \<Rightarrow> open_table \<Rightarrow> bool" where
  "abs_run \<equiv> run abs_step"

section \<open>The invariant of the globals\<close>

definition lib_ok :: "lib \<Rightarrow> bool" where
  "lib_ok s \<longleftrightarrow> 0 \<le> available_board_count s \<and> available_board_count s \<le> 128 \<and>
     (\<forall>l. board_info s = Some l \<longrightarrow> length l = BOARD_NUM) \<and>
     (\<forall>l. board_error_info s = Some l \<longrightarrow> length l = BOARD_NUM) \<and>
     bm_ok (bitmap s) \<and>
     length (boardid_to_idx_list s) = MAX_DEV_HANDLE \<and> slots_ok db_board_id (boardid_to_idx_list s) \<and>
     length (dev_handle_list s) = MAX_DEV_HANDLE \<and> slots_ok dh_board_id (dev_handle_list s) \<and>
     (available_board_count s \<noteq> 0 \<longrightarrow> slots (drop (nat (available_board_count s)) (dev_handle_list s)) = [])"

lemma lib_start_ok: "lib_ok lib_start"
  by (simp add: lib_ok_def lib_start_def bm_ok_def)

lemma lib_ok_count: "lib_ok s \<Longrightarrow> get_available_board_count s = available_board_count s"
  by (simp add: lib_ok_def get_available_board_count_def)

lemma lib_ok_handles: "lib_ok s \<Longrightarrow> available_board_count s \<noteq> 0 \<Longrightarrow> handles_ok (available_board_count s) (dev_handle_list s)"
  by (simp add: lib_ok_def handles_ok_def)

text \<open>The counters, the flag, the parameter file and the log do not matter to either.\<close>

lemma lib_ok_frame [simp]:
  "lib_ok (s\<lparr>os_log := l\<rparr>) = lib_ok s" "lib_ok (set_online_board_count n s) = lib_ok s"
  "lib_ok (s\<lparr>pmt := p\<rparr>) = lib_ok s" "lib_ok (s\<lparr>init_check_ok := i\<rparr>) = lib_ok s"
  by (simp_all add: lib_ok_def set_online_board_count_def)

lemma opens_eq:
  "available_board_count s' = available_board_count s \<Longrightarrow> dev_handle_list s' = dev_handle_list s \<Longrightarrow> opens s' = opens s"
  by (simp add: opens_def get_dev_handle_def get_available_board_count_def)

lemma opens_none: "available_board_count s = 0 \<Longrightarrow> opens s = Map.empty"
  by (simp add: opens_def get_dev_handle_def get_available_board_count_def handle_find_def)

lemma opens_cleared: "slots (dev_handle_list s) = [] \<Longrightarrow> opens s = Map.empty"
  using slots_append [of "take (nat (get_available_board_count s)) (dev_handle_list s)" "drop (nat (get_available_board_count s)) (dev_handle_list s)"]
  by (simp add: opens_def get_dev_handle_def handle_find_def slot_find_None_iff fun_eq_iff)

lemma table_of_log [simp]: "table_of (s\<lparr>os_log := l\<rparr>) = table_of s"
  using opens_eq [of "s\<lparr>os_log := l\<rparr>" s] by (simp add: table_of_def get_online_board_count_def)

lemma table_of_online:
  "0 \<le> n \<Longrightarrow> table_of (set_online_board_count n s) = (table_of s)\<lparr>ot_online := n\<rparr>"
  using opens_eq [of "set_online_board_count n s" s]
  by (simp add: table_of_def get_online_board_count_def set_online_board_count_def)

section \<open>Every operation keeps the invariant and refines the table\<close>

lemma init_dev_handle_list_eq:
  "length t = MAX_DEV_HANDLE \<Longrightarrow> init_dev_handle_list t = replicate MAX_DEV_HANDLE None"
  using clear_all [of t] by (simp add: init_dev_handle_list_def)

lemma extract_loop_length:
  "extract_loop f buf info n = Inr (m, info') \<Longrightarrow> length info' = length info \<and> (n \<le> length info \<longrightarrow> m \<le> length info)"
proof (induction f buf info n rule: extract_loop.induct)
  case (1 f buf info n)
  note step = "1.prems" [unfolded extract_loop.simps [of f buf info n]]
  show ?case
  proof (cases "fgets 256 f")
    case None
    then show ?thesis using step by simp
  next
    case (Some cr)
    obtain chunk rest where cr: "(chunk, rest) = cr" by (metis surj_pair)
    obtain b1 name b2 s where b: "strcpyR buf chunk = Inr b1" "strtok b1 separators = Inr (name, b2)" "cstr_at b2 11 = Inr s"
      using step Some cr by (auto split: prod.splits)
    show ?thesis
    proof (cases "scan_entry s")
      case None
      then have "extract_loop rest b2 info n = Inr (m, info')" using step Some b by (simp add: cr [symmetric])
      then show ?thesis using "1.IH"(1) [OF Some cr b(1,2) refl b(3) None] by simp
    next
      case e: (Some e)
      obtain inst bid ty where t: "e = (inst, bid, ty)" by (metis prod_cases3)
      have n: "nthR info n = Inr (info ! n)" "n < length info"
        using step Some b e t by (auto simp: nthR_def cr [symmetric] split: if_splits)
      obtain tok nm where nm: "derefR name = Inr tok" "fitsR 32 tok = Inr nm"
        using step Some b e t n by (auto simp: cr [symmetric])
      let ?r = "\<lparr>bi_board_inst = inst, bi_board_id = bid, bi_board_type = ty, bi_board_name = nm\<rparr>"
      have "extract_loop rest b2 (info[n := ?r]) (Suc n) = Inr (m, info')"
        using step Some b e t n nm by (simp add: cr [symmetric])
      then show ?thesis
        using "1.IH"(2) [OF Some cr b(1,2) refl b(3) e t [symmetric] refl n(1) nm] n by simp
    qed
  qed
qed

lemma check_from_length:
  "check_from info count i index err = Inr (n, err') \<Longrightarrow> length err' = length err"
proof (induction info count i index err rule: check_from.induct)
  case (1 info count i index err)
  show ?case
  proof (cases "i < count")
    case False
    then show ?thesis using "1.prems" by (subst (asm) check_from.simps) simp
  next
    case True
    note step = "1.prems" [unfolded check_from.simps [of info count i index err]]
    obtain d where d: "dup_from info count i (i + 1) = Inr d" using step True by auto
    show ?thesis
    proof (cases d)
      case None
      then show ?thesis using step True d "1.IH"(1) [OF True d None] by simp
    next
      case (Some j)
      then obtain e1 e2 where e: "updR err index (info ! i) = Inr e1" "updR e1 (index + 1) (info ! j) = Inr e2"
        "check_from info count (Suc i) (index + 2) e2 = Inr (n, err')" using step True d by auto
      have "length e1 = length err" "length e2 = length e1" using e(1,2) by (auto simp: updR_def split: if_splits)
      then show ?thesis using "1.IH"(2) [OF True d Some e(1,2,3)] by simp
    qed
  qed
qed

text \<open>Discovery starts from empty tables; its arrays have 128 entries.\<close>

lemma init_config_ok:
  assumes "lib_ok s"
  shows "lib_ok (init_config s)" "slots (dev_handle_list (init_config s)) = []"
  using assms init_dev_boaid_to_idx_list_eq [of "boardid_to_idx_list s"] init_dev_handle_list_eq [of "dev_handle_list s"]
    init_id_bitmap_ok [of "bitmap s"]
  by (simp_all add: lib_ok_def init_config_def)

lemma requst_mem_ok:
  assumes "lib_ok s" "requst_mem env s = (ret, s')"
  shows "lib_ok s'" "dev_handle_list s' = dev_handle_list s" "available_board_count s' = available_board_count s"
    "online_board_count s' = online_board_count s" "init_check_ok s' = init_check_ok s"
  using assms by (auto simp: requst_mem_def lib_ok_def Let_def split: if_splits)

lemma lib_ok_found:
  assumes "lib_ok s" "slots (dev_handle_list s) = []" "length info = BOARD_NUM" "length err = BOARD_NUM" "0 \<le> n" "n \<le> 128"
  shows "lib_ok (s\<lparr>board_info := Some info\<rparr>)"
    "lib_ok (s\<lparr>board_info := Some info, available_board_count := n, board_error_info := Some err\<rparr>)"
  using assms slots_append [of "take (nat n) (dev_handle_list s)" "drop (nat n) (dev_handle_list s)"]
  by (simp_all add: lib_ok_def)

lemma check_ok:
  assumes "lib_ok s" "check_boards_info env s = Inr (rv, s')"
  shows "lib_ok s' \<and> abs_step (table_of s) LCheck (table_of s')"
proof (cases "init_check_ok s = 0")
  case False
  then show ?thesis using assms by (simp add: check_boards_info_def table_of_def)
next
  case True
  let ?s1 = "init_config (s\<lparr>init_check_ok := 1\<rparr>)"
  obtain ret s2 where r: "requst_mem env ?s1 = (ret, s2)" by force
  have s1: "lib_ok ?s1" "slots (dev_handle_list ?s1) = []" using init_config_ok [of "s\<lparr>init_check_ok := 1\<rparr>"] assms(1) by simp_all
  have s2: "lib_ok s2" "slots (dev_handle_list s2) = []" using requst_mem_ok [OF s1(1) r] s1(2) by simp_all
  have f: "available_board_count s2 = available_board_count s" "online_board_count s2 = online_board_count s"
    "init_check_ok s2 = 1" using requst_mem_ok(3-5) [OF s1(1) r] by (simp_all add: init_config_def)
  have found: "abs_step (table_of s) LCheck (table_of s')"
    if "opens s' = Map.empty" "online_board_count s' = online_board_count s" "init_check_ok s' = 1"
      "available_board_count s' = available_board_count s \<or> 1 \<le> available_board_count s' \<and> available_board_count s' \<le> 128"
    using that \<open>init_check_ok s = 0\<close> by (auto simp: table_of_def get_online_board_count_def)
  show ?thesis
  proof (cases "ret < 0")
    case True
    then have "s' = s2" using assms(2) r \<open>init_check_ok s = 0\<close> by (simp add: check_boards_info_def Let_def)
    then show ?thesis using s2 opens_cleared f found by simp
  next
    case False
    then obtain info err n info' where i: "board_info s2 = Some info" "board_error_info s2 = Some err"
      "extractValue env boards_file info = Inr (n, info')"
      using assms(2) r \<open>init_check_ok s = 0\<close> by (auto simp: check_boards_info_def Let_def derefR_def split: option.splits)
    have len: "length info = BOARD_NUM" "length err = BOARD_NUM" using s2(1) i(1,2) by (simp_all add: lib_ok_def)
    then have x: "length info' = BOARD_NUM" "n \<le> 128"
      using i(3) by (auto simp: extractValue_def split: option.splits dest!: extract_loop_length)
    show ?thesis
    proof (cases "n \<le> 0")
      case True
      then have "s' = s2\<lparr>board_info := Some info'\<rparr>"
        using assms(2) r i False \<open>init_check_ok s = 0\<close> by (simp add: check_boards_info_def Let_def)
      then show ?thesis using lib_ok_found(1) [OF s2 x(1) len(2), of 0] s2(2) f found by (simp add: opens_cleared)
    next
      case pos: False
      then obtain d err' where d: "i_check_boards_info info' err (nat n) = Inr (d, err')"
        "s' = s2\<lparr>board_info := Some info', available_board_count := n, board_error_info := Some err'\<rparr>"
        using assms(2) r i False \<open>init_check_ok s = 0\<close> by (auto simp: check_boards_info_def Let_def)
      have "length err' = BOARD_NUM"
        using d(1) len(2) by (auto simp: i_check_boards_info_def split: if_splits dest!: check_from_length)
      then have "lib_ok s'" using lib_ok_found(2) [OF s2 x(1), of err' n] pos x(2) by (simp add: d(2))
      moreover have "opens s' = Map.empty" by (rule opens_cleared) (simp add: d(2) s2(2))
      ultimately show ?thesis using pos x(2) f by (intro conjI found) (simp_all add: d(2))
    qed
  qed
qed

text \<open>A board that is put in the table is in the map.\<close>

lemma open_put_ok:
  assumes ok: "lib_ok s" and cnt: "get_available_board_count s \<noteq> 0" and new: "get_dev_handle b s = None"
    and put: "handle_put (get_available_board_count s) \<lparr>dh_dev_handle = h, dh_board_id = b, dh_dev_name = nm\<rparr> (dev_handle_list s) = Some t'"
    and s': "s' = (set_online_board_count n (s\<lparr>os_log := l\<rparr>))\<lparr>dev_handle_list := t'\<rparr>"
  shows "lib_ok s'" "opens s' = (opens s)(b \<mapsto> h)"
proof -
  let ?cnt = "get_available_board_count s" and ?dh = "\<lparr>dh_dev_handle = h, dh_board_id = b, dh_dev_name = nm\<rparr>"
  have c: "?cnt = available_board_count s" by (rule lib_ok_count [OF ok])
  have hs: "handles_ok ?cnt (dev_handle_list s)" using lib_ok_handles [OF ok] cnt by (simp add: c)
  have free: "handle_find ?cnt (dh_board_id ?dh) (dev_handle_list s) = None" using new by (simp add: get_dev_handle_def)
  have t: "handles_ok ?cnt t'" "length t' = MAX_DEV_HANDLE"
    using handle_put_slots [OF hs free put] ok by (simp_all add: lib_ok_def)
  show "lib_ok s'" using ok t c by (simp add: lib_ok_def s' set_online_board_count_def handles_ok_def)
  have "get_available_board_count s' = ?cnt" by (simp add: s' get_available_board_count_def set_online_board_count_def)
  then show "opens s' = (opens s)(b \<mapsto> h)"
    using handle_table.find_put [OF hs free put] by (auto simp: opens_def get_dev_handle_def s')
qed

text \<open>A board that is not open, in a library with boards, with a descriptor for it.\<close>

lemma open_new_ok:
  assumes ok: "lib_ok s" and run: "vi53xx_device_open env b s = Inr (rv, s')" and en: "0 \<le> os_errno env"
    and g: "get_board_handle env b s = Inr (h, s1)" "0 \<le> h" and cnt: "get_available_board_count s \<noteq> 0"
    and new: "get_dev_handle b s = None"
  shows "lib_ok s' \<and> abs_step (table_of s) (LOpen b rv) (table_of s')"
proof -
  let ?cnt = "get_available_board_count s"
  obtain path where s1: "s1 = s\<lparr>os_log := os_log s @ [OsOpen path h]\<rparr>" by (rule get_board_handle_cases [OF g(1)]) blast
  have c: "?cnt = available_board_count s" and pos: "0 \<le> ?cnt + 1"
    using lib_ok_count [OF ok] ok by (simp_all add: lib_ok_def)
  have on: "table_of (set_online_board_count (?cnt + 1) (s\<lparr>os_log := l\<rparr>)) = (table_of s)\<lparr>ot_online := ot_boards (table_of s) + 1\<rparr>" for l
    using table_of_online [OF pos, of "s\<lparr>os_log := l\<rparr>"] by (simp add: c table_of_def [of s])
  have t: "ot_boards (table_of s) \<noteq> 0" "ot_open (table_of s) b = None"
    using cnt new by (simp_all add: c table_of_def opens_def)
  show ?thesis
  proof (cases "os_malloc env 0")
    case False
    then have "rv = - os_errno env \<and> s' = set_online_board_count (?cnt + 1) (s\<lparr>os_log := os_log s1 @ [OsClose h]\<rparr>)"
      using run g cnt new by (auto simp: vi53xx_device_open_def Let_def get_dev_handle_def s1 set_online_board_count_def)
    then show ?thesis using ok en on t by simp
  next
    case True
    obtain nm where o: "vi53xx_device_open env b s =
        (let dh = \<lparr>dh_dev_handle = h, dh_board_id = b, dh_dev_name = nm\<rparr>;
             s2 = set_online_board_count (?cnt + 1) s1
         in case handle_put ?cnt dh (dev_handle_list s) of
              Some t' \<Rightarrow> Inr (h, s2\<lparr>dev_handle_list := t'\<rparr>) | None \<Rightarrow> Inr (0, s2))"
      by (rule device_open_new [OF g cnt new True])
    show ?thesis
    proof (cases "handle_put ?cnt \<lparr>dh_dev_handle = h, dh_board_id = b, dh_dev_name = nm\<rparr> (dev_handle_list s)")
      case None
      then have "rv = 0" "s' = set_online_board_count (?cnt + 1) s1" using run o by (simp_all add: Let_def)
      then show ?thesis using ok on t by (simp add: s1)
    next
      case (Some t')
      then have r: "rv = h" "s' = (set_online_board_count (?cnt + 1) s1)\<lparr>dev_handle_list := t'\<rparr>"
        using run o by (auto simp: Let_def)
      note P = open_put_ok [OF ok cnt new Some r(2) [unfolded s1]]
      have "table_of s' = (table_of s)\<lparr>ot_open := (opens s)(b \<mapsto> h), ot_online := ot_boards (table_of s) + 1\<rparr>"
        using P(2) pos by (simp add: table_of_def r(2) s1 c get_online_board_count_def set_online_board_count_def)
      then show ?thesis using P(1) g(2) r(1) t by (simp add: table_of_def [of s])
    qed
  qed
qed

lemma open_ok:
  assumes ok: "lib_ok s" and run: "vi53xx_device_open env b s = Inr (rv, s')" and en: "0 \<le> os_errno env"
  shows "lib_ok s' \<and> abs_step (table_of s) (LOpen b rv) (table_of s')"
proof -
  let ?cnt = "get_available_board_count s"
  obtain h s1 where g: "get_board_handle env b s = Inr (h, s1)" using run by (auto simp: vi53xx_device_open_def Let_def)
  obtain path where s1: "s1 = s\<lparr>os_log := os_log s @ [OsOpen path h]\<rparr>" by (rule get_board_handle_cases [OF g]) blast
  have same: "table_of s1 = table_of s" by (simp add: s1)
  show ?thesis
  proof (cases "?cnt = 0 \<or> h < 0")
    case True
    then have "rv = - 19 \<and> s' = s1" using run g by (auto simp: vi53xx_device_open_def Let_def split: if_splits)
    then show ?thesis using ok same by (simp add: s1)
  next
    case False
    then have c: "?cnt \<noteq> 0" "0 \<le> h" by simp_all
    show ?thesis
    proof (cases "get_dev_handle b s")
      case (Some dh)
      then have "rv = dh_dev_handle dh" "s' = s1" using device_open_again [OF g c(2,1) Some] run by auto
      then show ?thesis using ok same Some c(1) lib_ok_count [OF ok] by (simp add: s1 table_of_def opens_def)
    next
      case None
      then show ?thesis by (rule open_new_ok [OF ok run en g c(2,1)])
    qed
  qed
qed

lemma release_idx_ok: "lib_ok s \<Longrightarrow> lib_ok (lib_release_idx b s)"
  by (simp add: lib_ok_def lib_release_idx_def release_idx_def Let_def destroy_id_ok slot_clear_ok)

lemma release_board_info_ok: "lib_ok s \<Longrightarrow> lib_ok (release_board_info s)"
  by (simp add: lib_ok_def release_board_info_def free_mem_def set_online_board_count_def)

lemma release_dev_handle_ok: "lib_ok s \<Longrightarrow> lib_ok (release_dev_handle b s)"
  by (simp add: lib_ok_def release_dev_handle_def slot_clear_ok drop_slot_clear slots_clear)

lemma release_dev_handle_opens:
  assumes "lib_ok s"
  shows "opens (release_dev_handle b s) = (opens s)(b := None)"
proof (cases "available_board_count s = 0")
  case True
  then show ?thesis using opens_none [of s] opens_none [of "release_dev_handle b s"] by (simp add: release_dev_handle_def)
next
  case False
  have c: "get_available_board_count (release_dev_handle b s) = get_available_board_count s"
    by (simp add: release_dev_handle_def get_available_board_count_def)
  have "handles_ok (get_available_board_count s) (dev_handle_list s)"
    using lib_ok_handles [OF assms False] lib_ok_count [OF assms] by simp
  then show ?thesis
    unfolding opens_def get_dev_handle_def c
    by (auto simp: release_dev_handle_def handle_table.find_del)
qed

text \<open>What remains when the library forgets its boards.\<close>

lemma table_of_idx [simp]: "table_of (lib_release_idx b s) = table_of s"
proof -
  have "opens (lib_release_idx b s) = opens s" by (rule opens_eq) simp_all
  then show ?thesis
    by (simp add: table_of_def get_online_board_count_def)
qed

lemma table_of_forgotten:
  "available_board_count s = 0 \<Longrightarrow> online_board_count s = 0 \<Longrightarrow> init_check_ok s = 0 \<Longrightarrow>
   table_of s = \<lparr>ot_open = Map.empty, ot_online = 0, ot_boards = 0, ot_checked = False\<rparr>"
  by (simp add: table_of_def opens_none get_online_board_count_def)

lemma close_ok:
  assumes "lib_ok s"
  shows "lib_ok (vi53xx_device_close b s) \<and> abs_step (table_of s) (LClose b) (table_of (vi53xx_device_close b s))"
proof -
  let ?s1 = "s\<lparr>pmt := release_parvar_mat (pmt s)\<rparr>" and ?n = "get_online_board_count s - 1"
  let ?none = "\<lparr>ot_open = Map.empty, ot_online = 0, ot_boards = 0, ot_checked = False\<rparr>"
  have s1: "lib_ok ?s1" using assms by simp
  have cnt: "get_available_board_count s = ot_boards (table_of s)" "get_online_board_count s = ot_online (table_of s)"
    using lib_ok_count [OF assms] by (simp_all add: table_of_def)
  have nn: "0 \<le> ot_online (table_of s)" by (simp add: table_of_def get_online_board_count_def)
  consider (none) "ot_boards (table_of s) = 0 \<or> ot_online (table_of s) = 0"
      "vi53xx_device_close b s = lib_release_idx b (release_board_info ?s1)"
    | (last) "ot_boards (table_of s) \<noteq> 0" "ot_online (table_of s) = 1"
      "vi53xx_device_close b s = lib_release_idx b (release_dev_handle b (set_online_board_count 0 (release_board_info ?s1)))"
    | (more) "ot_boards (table_of s) \<noteq> 0" "1 < ot_online (table_of s)"
      "vi53xx_device_close b s = lib_release_idx b (release_dev_handle b (set_online_board_count ?n ?s1))"
    using nn by (cases "ot_boards (table_of s) = 0 \<or> ot_online (table_of s) = 0"; cases "ot_online (table_of s) = 1")
      (auto simp: vi53xx_device_close_def cnt Let_def)
  then show ?thesis
  proof cases
    case none
    have "table_of (vi53xx_device_close b s) = ?none"
      unfolding none(2) table_of_idx
      by (rule table_of_forgotten) (simp_all add: release_board_info_def free_mem_def set_online_board_count_def)
    then show ?thesis using none release_idx_ok [OF release_board_info_ok [OF s1], of b] by auto
  next
    case last
    have "lib_ok (set_online_board_count 0 (release_board_info ?s1))" using release_board_info_ok [OF s1] by simp
    then have "lib_ok (vi53xx_device_close b s)" unfolding last(3) by (intro release_idx_ok release_dev_handle_ok)
    moreover have "table_of (vi53xx_device_close b s) = ?none"
      unfolding last(3) table_of_idx
      by (rule table_of_forgotten) (simp_all add: release_dev_handle_def release_board_info_def free_mem_def set_online_board_count_def)
    ultimately show ?thesis using last(1,2) by simp
  next
    case more
    let ?s2 = "set_online_board_count ?n ?s1"
    have s2: "lib_ok ?s2" using s1 by simp
    then have "lib_ok (vi53xx_device_close b s)" unfolding more(3) by (intro release_idx_ok release_dev_handle_ok)
    moreover have "opens ?s2 = opens s" by (rule opens_eq) (simp_all add: set_online_board_count_def)
    then have "opens (release_dev_handle b ?s2) = (opens s)(b := None)" by (simp only: release_dev_handle_opens [OF s2])
    then have "table_of (vi53xx_device_close b s) =
        (table_of s)\<lparr>ot_open := (ot_open (table_of s))(b := None), ot_online := ot_online (table_of s) - 1\<rparr>"
      using more(2) unfolding more(3) table_of_idx
      by (simp add: table_of_def release_dev_handle_def get_online_board_count_def set_online_board_count_def)
    ultimately show ?thesis using more(1,2) by simp
  qed
qed

lemma idx_ok:
  assumes "lib_ok s" "get_idx m en b (bitmap s, boardid_to_idx_list s) = (rv, bm, t)"
  shows "lib_ok (s\<lparr>bitmap := bm, boardid_to_idx_list := t\<rparr>)"
proof -
  obtain i bm' where u: "get_unique_id (bitmap s) = (i, bm')" by force
  have bm': "bm_ok bm'" using get_unique_id_ok [of "bitmap s"] assms(1) by (simp add: lib_ok_def u)
  have old: "bm_ok (bitmap s)" "length (boardid_to_idx_list s) = MAX_DEV_HANDLE" "slots_ok db_board_id (boardid_to_idx_list s)"
    using assms(1) by (simp_all add: lib_ok_def)
  let ?db = "\<lparr>db_idx = int i, db_board_id = b\<rparr>"
  have "bm_ok bm \<and> length t = MAX_DEV_HANDLE \<and> slots_ok db_board_id t"
  proof (cases "slot_find db_board_id b (boardid_to_idx_list s) = None \<and> m")
    case False
    then show ?thesis using assms(2) old by (auto simp: get_idx_def split: option.splits if_splits)
  next
    case True
    then have "db_board_id ?db \<notin> db_board_id ` set (slots (boardid_to_idx_list s))" by (simp add: slot_find_None_iff)
    note put = slot_cas_ok [OF old(3) this] slot_cas_length [of ?db]
    show ?thesis using True assms(2) old bm' put
      by (cases "slot_cas ?db (boardid_to_idx_list s)") (auto simp: get_idx_def u Let_def)
  qed
  then show ?thesis using assms(1) by (simp add: lib_ok_def)
qed

lemma free_ok:
  assumes "lib_ok s"
  shows "lib_ok (free_board_info b s) \<and> abs_step (table_of s) (LFree b) (table_of (free_board_info b s))"
proof -
  let ?s = "free_board_info b s"
  have f: "dev_handle_list ?s = replicate MAX_DEV_HANDLE None" "boardid_to_idx_list ?s = replicate MAX_DEV_HANDLE None"
    "available_board_count ?s = available_board_count s" "board_info ?s = None" "board_error_info ?s = None"
    "bitmap ?s = destroy_id (i_get_idx b (boardid_to_idx_list s)) (bitmap s)"
    "online_board_count ?s = online_board_count s" "init_check_ok ?s = 0"
    using assms init_dev_boaid_to_idx_list_eq [of "boardid_to_idx_list s"] init_dev_handle_list_eq [of "dev_handle_list s"]
    by (simp_all add: lib_ok_def free_board_info_def free_mem_def Let_def)
  have "lib_ok ?s" using assms unfolding lib_ok_def f by (simp add: destroy_id_ok)
  moreover have "opens ?s = Map.empty" by (rule opens_cleared) (simp add: f)
  ultimately show ?thesis by (simp add: table_of_def f get_online_board_count_def)
qed

section \<open>Runs\<close>

lemma lib_step_ok:
  assumes "lib_ok s" "lib_step s e s'"
  shows "lib_ok s' \<and> abs_step (table_of s) e (table_of s')"
  using assms(2)
proof cases
  case (l_check env rv)
  then show ?thesis using check_ok [OF assms(1) l_check(2)] by (simp only:)
next
  case (l_open env b rv)
  then show ?thesis using open_ok [OF assms(1)] by blast
next
  case (l_close b)
  then show ?thesis using close_ok [OF assms(1)] by blast
next
  case (l_idx m en b rv bm t)
  moreover have "opens (s\<lparr>bitmap := bm, boardid_to_idx_list := t\<rparr>) = opens s" by (rule opens_eq) simp_all
  ultimately show ?thesis using idx_ok [OF assms(1) l_idx(3)] by (simp add: table_of_def get_online_board_count_def)
next
  case (l_free b)
  then show ?thesis using free_ok [OF assms(1)] by simp
qed

interpretation lib_table: simulation lib_step abs_step table_of lib_ok
  by unfold_locales (rule lib_step_ok)

section \<open>Properties\<close>

text \<open>C22: In every state the library reaches from its start the tables have their sizes, no board is
  in a table twice, and the open boards lie in the part of the table that is searched. So looking
  up a board, while there is a board list, never reads outside the list.\<close>

theorem lib_states_ok:
  assumes "lib_run lib_start es s"
  shows "lib_ok s \<and> (board_info s \<noteq> None \<longrightarrow>
    (\<forall>b. \<exists>ty inst name. vi53xx_get_board_type b s = Inr ty \<and> lib_get_board_instance b s = Inr inst \<and>
       lib_get_board_name b s = Inr name))"
proof -
  have ok: "lib_ok s" by (rule lib_table.run_ok [OF assms lib_start_ok])
  have "scan_boards p 0 (available_board_count s) (board_info s) =
      Inr (List.find p (take (nat (available_board_count s)) l))" if "board_info s = Some l" for p l
    using ok that scan_boards_all [of "available_board_count s" l p] by (simp add: lib_ok_def)
  then show ?thesis using ok
    by (auto simp: vi53xx_get_board_type_def lib_get_board_instance_def i_lib_get_board_instance_def
        lib_get_board_name_def i_lib_get_board_name_def)
qed

lemma lib_states_ok_witness:
  "lib_ok (free_board_info 5 (vi53xx_device_close 5 lib_start))"
proof -
  have "lib_run lib_start [LClose 5, LFree 5] (free_board_info 5 (vi53xx_device_close 5 lib_start))"
    by (intro run_more [where step = lib_step, OF l_close] run_more [where step = lib_step, OF l_free] run_done)
  then show ?thesis using lib_states_ok by blast
qed

text \<open>C21: In every sequence of calls of the library that all return (none uses memory wrongly), and for
  every behaviour of the system, its open boards and its counts change exactly as in an abstract
  table: the first check empties the table, later ones do nothing; opening a closed board adds it
  with the descriptor that is returned, opening an open board returns its descriptor, and a
  failed call adds nothing; an open that gets past the device file sets the count to one more than the
  number of boards found; closing takes out that board and counts down, except that it forgets
  all boards when the count is 1 or 0 or no board was found; giving the list back empties the
  table and keeps the counts.\<close>

theorem lib_refines_open_table:
  assumes "lib_ok s" "lib_run s es s'"
  shows "abs_run (table_of s) es (table_of s')"
  by (rule lib_table.run_sim [OF assms(2,1)])

lemma example_lib_ok: "lib_ok example_lib"
  by (simp add: lib_ok_def example_lib_def lib_start_def bm_ok_def drop_replicate)

lemma lib_refines_open_table_witness:
  "\<exists>rv s'. lib_run example_lib [LOpen 5 rv, LClose 5] s' \<and>
     abs_run \<lparr>ot_open = Map.empty, ot_online = 0, ot_boards = 1, ot_checked = True\<rparr> [LOpen 5 rv, LClose 5] (table_of s')"
proof -
  obtain nm where o: "vi53xx_device_open example_os 5 example_lib =
      (let dh = \<lparr>dh_dev_handle = 3, dh_board_id = 5, dh_dev_name = nm\<rparr>;
           s2 = set_online_board_count (1 + 1) (example_lib\<lparr>os_log := [OsOpen ''/dev/es5341_0'' 3]\<rparr>)
       in case handle_put 1 dh (dev_handle_list example_lib) of
            Some t' \<Rightarrow> Inr (3, s2\<lparr>dev_handle_list := t'\<rparr>) | None \<Rightarrow> Inr (0, s2))"
    by (rule device_open_new [OF example_open]) (simp_all add: example_handles example_handles(4) [unfolded One_nat_def])
  then obtain rv s1 where "vi53xx_device_open example_os 5 example_lib = Inr (rv, s1)"
    by (auto simp: Let_def split: option.splits)
  then have "lib_step example_lib (LOpen 5 rv) s1" by (rule l_open) (simp add: example_os_def)
  then have run: "lib_run example_lib [LOpen 5 rv, LClose 5] (vi53xx_device_close 5 s1)"
    by (intro run_more [of lib_step _ _ s1] run_more [where step = lib_step, OF l_close] run_done)
  have "opens example_lib = Map.empty" by (rule opens_cleared) (simp add: example_lib_def lib_start_def)
  then have "table_of example_lib = \<lparr>ot_open = Map.empty, ot_online = 0, ot_boards = 1, ot_checked = True\<rparr>"
    by (simp add: table_of_def example_lib_def lib_start_def get_online_board_count_def)
  then show ?thesis using lib_refines_open_table [OF example_lib_ok run] run by metis
qed

end
