(* ===== verification/LibLog.thy ===== *)
theory LibLog
  imports LibHandles
begin

text \<open>
  What the user library prints (\<open>vi53xx_logva\<close>, \<open>vi53xx_log\<close>, \<open>vi53xx_write_log\<close>,
  \<open>dump_board_info\<close>, \<open>dump_available_boards_info\<close> and \<open>vi53xx_dump_info\<close> of
  \<open>lib/vi53xx_xdma.c\<close>): the level name a log message starts with, the log file, and the
  lists of open devices and known boards. An operation returns the text it prints. The text
  that the caller's format and arguments produce is the argument \<open>msg\<close>.
\<close>

section \<open>Log messages\<close>

definition logStrings :: "string list" where
  "logStrings = [''emerg'', ''alert'', ''crit'', ''error'', ''warning'', ''notice'', ''info'', ''debug'', ''unknown'']"

text \<open>
  \<open>MIN(priority, sizeof(logStrings)/sizeof(char*))\<close>: the number of entries is a \<open>size_t\<close>, so
  the signed priority is converted to 64 bits without sign before it is compared, and the result
  is the number of entries, not the last index, when the priority is too large.
\<close>

definition log_index :: "int \<Rightarrow> nat" where
  "log_index priority =
     (let p = unat (word_of_int priority :: u64); n = length logStrings
      in unat (word_of_int (int (if p > n then n else p)) :: u32))"

definition vi53xx_logva :: "int \<Rightarrow> string \<Rightarrow> (int \<times> string) res" where
  "vi53xx_logva priority msg =
     bindR (nthR logStrings (log_index priority)) (\<lambda>name.
       Inr (int (length msg), ''[vi53xx '' @ name @ ''] '' @ msg))"

definition vi53xx_log :: "int \<Rightarrow> string \<Rightarrow> (int \<times> string) res" where
  "vi53xx_log priority msg = vi53xx_logva priority msg"

text \<open>\<open>rfile\<close>: the contents of the log file, if it is open. No function of the library opens it.\<close>

definition rfile_start :: "string option" where
  "rfile_start = None"

definition vi53xx_write_log :: "string \<Rightarrow> string option \<Rightarrow> (int \<times> string option) res" where
  "vi53xx_write_log buf rfile = bindR (derefR rfile) (\<lambda>f. Inr (0, Some (f @ buf)))"

section \<open>Lists of boards\<close>

definition board_fields :: "board_rec \<Rightarrow> string" where
  "board_fields b = ''board_name = '' @ bi_board_name b @ '', board_type = 0x'' @ fmt_x (unat (bi_board_type b)) @
     '', board_inst = '' @ show_u (bi_board_inst b) @ '', board_id = '' @ show_u (bi_board_id b) @ [newline]"

text \<open>\<open>debug\<close> says whether the library was built with \<open>vi53xx_debug\<close>; without it nothing is printed.\<close>

definition dump_board_info :: "bool \<Rightarrow> board_rec \<Rightarrow> string" where
  "dump_board_info debug b = (if debug then board_fields b else [])"

function dump_boards_from :: "string \<Rightarrow> int \<Rightarrow> int \<Rightarrow> board_rec list option \<Rightarrow> string res" where
  "dump_boards_from pre i cnt bi =
     (if i < cnt then
        bindR (derefR bi) (\<lambda>l.
        bindR (nthI l i) (\<lambda>b.
        bindR (dump_boards_from pre (i + 1) cnt bi) (\<lambda>rest. Inr (pre @ board_fields b @ rest))))
      else Inr [])"
  by pat_completeness auto
termination
  by (relation "measure (\<lambda>(pre, i, cnt, bi). nat (cnt - i))") auto

declare dump_boards_from.simps [simp del]

definition dump_available_boards_info :: "bool \<Rightarrow> int \<Rightarrow> lib \<Rightarrow> string res" where
  "dump_available_boards_info debug cnt s =
     (if debug then dump_boards_from [] 0 cnt (board_info s) else Inr [])"

definition handle_line :: "dev_handle \<Rightarrow> string" where
  "handle_line dh = ''dev_handle :board_name = '' @ dh_dev_name dh @ '', board_handle = 0x'' @
     fmt_x (unat (word_of_int (dh_dev_handle dh) :: u32)) @ '',  board_id = '' @ show_u (dh_board_id dh) @ [newline]"

function dump_handles_from :: "int \<Rightarrow> int \<Rightarrow> dev_handle option list \<Rightarrow> string res" where
  "dump_handles_from i cnt t =
     (if i < cnt then
        bindR (nthI t i) (\<lambda>h.
        bindR (dump_handles_from (i + 1) cnt t) (\<lambda>rest.
          Inr ((case h of None \<Rightarrow> [] | Some dh \<Rightarrow> handle_line dh) @ rest)))
      else Inr [])"
  by pat_completeness auto
termination
  by (relation "measure (\<lambda>(i, cnt, t). nat (cnt - i))") auto

declare dump_handles_from.simps [simp del]

definition vi53xx_dump_info :: "lib \<Rightarrow> string res" where
  "vi53xx_dump_info s =
     (let cnt = get_available_board_count s in
      bindR (dump_handles_from 0 cnt (dev_handle_list s)) (\<lambda>hs.
      bindR (if board_info s = None then Inr [] else dump_boards_from ''board_info :'' 0 cnt (board_info s)) (\<lambda>bs.
      Inr (hs @ bs))))"

section \<open>What is printed\<close>

lemma dump_handles_slots:
  assumes "0 \<le> i" "cnt \<le> int (length t)"
  shows "dump_handles_from i cnt t = Inr (concat (map handle_line (slots (drop (nat i) (take (nat cnt) t)))))"
  using assms
proof (induction i cnt t rule: dump_handles_from.induct)
  case (1 i cnt t)
  show ?case
  proof (cases "i < cnt")
    case False
    then show ?thesis using 1 by (subst dump_handles_from.simps) simp
  next
    case True
    then have lt: "nat i < length (take (nat cnt) t)" using 1 by simp
    have d: "drop (nat i) (take (nat cnt) t) = t ! nat i # drop (nat (i + 1)) (take (nat cnt) t)"
      using Cons_nth_drop_Suc [OF lt] 1 True by (simp add: nat_add_distrib)
    have "dump_handles_from (i + 1) cnt t =
        Inr (concat (map handle_line (slots (drop (nat (i + 1)) (take (nat cnt) t)))))"
      using True 1 by (intro "1.IH" [of "t ! nat i"]) auto
    then show ?thesis using True 1 unfolding d
      by (subst dump_handles_from.simps) (cases "t ! nat i"; simp)
  qed
qed

lemma dump_boards_all:
  assumes "0 \<le> i" "cnt \<le> int (length l)"
  shows "dump_boards_from pre i cnt (Some l) =
    Inr (concat (map (\<lambda>b. pre @ board_fields b) (drop (nat i) (take (nat cnt) l))))"
  using assms
proof (induction pre i cnt "Some l" rule: dump_boards_from.induct)
  case (1 pre i cnt)
  show ?case
  proof (cases "i < cnt")
    case False
    then show ?thesis using 1 by (subst dump_boards_from.simps) simp
  next
    case True
    then have lt: "nat i < length (take (nat cnt) l)" using 1 by simp
    have d: "drop (nat i) (take (nat cnt) l) = l ! nat i # drop (nat (i + 1)) (take (nat cnt) l)"
      using Cons_nth_drop_Suc [OF lt] 1 True by (simp add: nat_add_distrib)
    have "dump_boards_from pre (i + 1) cnt (Some l) =
        Inr (concat (map (\<lambda>b. pre @ board_fields b) (drop (nat (i + 1)) (take (nat cnt) l))))"
      using True 1 by (intro "1.hyps" [of l "l ! nat i"]) auto
    then show ?thesis using True 1 unfolding d by (subst dump_boards_from.simps) simp
  qed
qed

lemma log_index_eq:
  assumes "- 2147483648 \<le> priority" "priority < 2147483648"
  shows "log_index priority = (if 0 \<le> priority \<and> priority < 9 then nat priority else 9)"
proof -
  let ?p = "unat (word_of_int priority :: u64)"
  have p: "?p = (if 0 \<le> priority then nat priority else nat (priority + 18446744073709551616))"
  proof (cases "0 \<le> priority")
    case True
    then show ?thesis using assms by (simp add: unat_eq_nat_uint uint_word_of_int)
  next
    case False
    then have "priority mod 18446744073709551616 = priority + 18446744073709551616"
      using assms by (subst mod_add_self2 [symmetric]) (rule mod_pos_pos_trivial; simp)
    then show ?thesis using False by (simp add: unat_eq_nat_uint uint_word_of_int)
  qed
  have small: "unat (word_of_int (int n) :: u32) = n" if "n \<le> 9" for n
    using that by (simp add: unat_of_nat take_bit_nat_eq_self)
  have "log_index priority = unat (word_of_int (int (if ?p > 9 then 9 else ?p)) :: u32)"
    unfolding log_index_def Let_def logStrings_def by (simp only: list.size) (simp add: numeral_eq_Suc)
  also have "\<dots> = (if ?p > 9 then 9 else ?p)" by (rule small) simp
  also have "\<dots> = (if 0 \<le> priority \<and> priority < 9 then nat priority else 9)"
    unfolding p using assms by auto
  finally show ?thesis .
qed

section \<open>Properties\<close>

text \<open>C34: Logging with a priority from 0 to 8 prints the name of the level and the message and returns
  the length of the message; any other priority, negative ones included, reads past the end of
  the table of names instead of printing "unknown".\<close>

theorem log_priority_bounds:
  assumes "- 2147483648 \<le> priority" "priority < 2147483648"
  shows "vi53xx_log priority msg =
    (if 0 \<le> priority \<and> priority \<le> 8
     then Inr (int (length msg), ''[vi53xx '' @ logStrings ! nat priority @ ''] '' @ msg)
     else Inl OutOfBounds)"
  using log_index_eq [OF assms]
  by (auto simp: vi53xx_log_def vi53xx_logva_def nthR_def logStrings_def)

lemma log_priority_bounds_witness:
  "vi53xx_log 3 ''oom'' = Inr (3, ''[vi53xx error] oom'') \<and> vi53xx_log 9 ''oom'' = Inl OutOfBounds \<and>
   vi53xx_log (- 1) ''oom'' = Inl OutOfBounds"
  using log_priority_bounds [of 3 "''oom''"] log_priority_bounds [of 9 "''oom''"] log_priority_bounds [of "- 1" "''oom''"]
  by (simp add: logStrings_def)

text \<open>Writing to the log file dereferences NULL in a library whose log file was never opened.\<close>

lemma write_log_start: "vi53xx_write_log buf rfile_start = Inl NullDeref"
  by (simp add: vi53xx_write_log_def rfile_start_def)

lemma write_log_open: "vi53xx_write_log buf (Some f) = Inr (0, Some (f @ buf))"
  by (simp add: vi53xx_write_log_def)

text \<open>Dumping the state of the library prints one line for each open board, in the order of the
  table, and then one for each known board, and never goes wrong while the tables have their size.\<close>

lemma dump_info_lists_boards:
  assumes "handles_ok (get_available_board_count s) (dev_handle_list s)"
    "length (dev_handle_list s) = MAX_DEV_HANDLE" "board_info s = Some l" "length l = BOARD_NUM"
  shows "vi53xx_dump_info s = Inr (concat (map handle_line (slots (dev_handle_list s))) @
    concat (map (\<lambda>b. ''board_info :'' @ board_fields b) (take (nat (get_available_board_count s)) l)))"
proof -
  let ?c = "get_available_board_count s"
  have c: "?c \<le> 128" by (rule get_available_board_count_le)
  have h: "dump_handles_from 0 ?c (dev_handle_list s) = Inr (concat (map handle_line (slots (dev_handle_list s))))"
    using dump_handles_slots [of 0 ?c "dev_handle_list s"] c assms(2) slots_take [OF assms(1)] by simp
  have b: "dump_boards_from ''board_info :'' 0 ?c (board_info s) =
      Inr (concat (map (\<lambda>b. ''board_info :'' @ board_fields b) (take (nat ?c) l)))"
    using dump_boards_all [of 0 ?c l "''board_info :''"] c assms(3,4) by simp
  show ?thesis unfolding vi53xx_dump_info_def Let_def h b using assms(3) by simp
qed

lemma dump_info_lists_boards_witness:
  "\<exists>l. board_info example_lib = Some l \<and> vi53xx_dump_info example_lib = Inr (''board_info :'' @ board_fields (l ! 0))"
proof -
  obtain l where l: "board_info example_lib = Some l" by (simp add: example_lib_def)
  have h: "handles_ok (get_available_board_count example_lib) (dev_handle_list example_lib)"
    using example_handles(1,3) by simp
  have len: "length (dev_handle_list example_lib) = MAX_DEV_HANDLE" "length l = BOARD_NUM"
    using l by (simp_all add: example_lib_def lib_start_def) auto
  have s: "slots (dev_handle_list example_lib) = []" by (simp add: example_lib_def lib_start_def)
  have "take 1 l = [l ! 0]" using len(2) by (cases l) auto
  then show ?thesis
    using dump_info_lists_boards [OF h len(1) l len(2)] l by (simp add: s example_handles(1))
qed

end
