(* ===== verification/Led.thy ===== *)
theory Led
  imports DriverState Runs
begin

unbundle bit_operations_syntax

text \<open>
  The LED of a board and the command file of the kernel module (\<open>timer_isr\<close>,
  \<open>BlinkLED\<close>, \<open>device_control\<close> of \<open>driver/board_info.c\<close> and \<open>device_write\<close> of
  \<open>driver/vi53xx_proc.c\<close>). The kernel's timer services are modelled by two
  flags of the timer, \<open>timer_set\<close> (it was set up) and \<open>timer_pending\<close> (it is on the kernel's
  list): adding or deleting a timer that was never set up, adding a timer that is pending and
  setting up one that is are uses against the rules of the kernel. \<open>jiffies\<close> and \<open>msecs_to_jiffies\<close> are the
  arguments \<open>now\<close> and \<open>m2j\<close>.
\<close>

abbreviation (input) LED_BLINK_ON :: int where "LED_BLINK_ON \<equiv> 1"
abbreviation (input) LED_BLINK_OFF :: int where "LED_BLINK_OFF \<equiv> 0"
abbreviation (input) PERIOD :: nat where "PERIOD \<equiv> 500"
abbreviation (input) BLINK :: u32 where "BLINK \<equiv> 1"
abbreviation (input) DUMP :: u32 where "DUMP \<equiv> 2"
abbreviation (input) EFAULT :: int where "EFAULT \<equiv> 14"

definition add_timer :: "timer_list \<Rightarrow> timer_list res" where
  "add_timer t = bindR (guardR (timer_set t \<and> \<not> timer_pending t) KernelBug) (\<lambda>_. Inr (t\<lparr>timer_pending := True\<rparr>))"

definition setup_timer :: "timer_list \<Rightarrow> timer_list res" where
  "setup_timer t = bindR (guardR (\<not> timer_pending t) KernelBug) (\<lambda>_. Inr (t\<lparr>timer_set := True\<rparr>))"

definition del_timer :: "timer_list \<Rightarrow> timer_list res" where
  "del_timer t = bindR (guardR (timer_set t) KernelBug) (\<lambda>_. Inr (t\<lparr>timer_pending := False\<rparr>))"

section \<open>The timer and the commands\<close>

text \<open>
  The two halves of \<open>timer_isr\<close>: the LED is toggled, then the timer armed again. The kernel
  takes the timer off its list before the call.
\<close>

definition timer_toggle :: "device_info \<Rightarrow> trace \<Rightarrow> (device_info \<times> trace) res" where
  "timer_toggle info tr =
     (let info1 = info\<lparr>di_state := (if di_state info = LED_BLINK_ON then LED_BLINK_OFF else LED_BLINK_ON)\<rparr> in
      bindR (write_reg (di_reg_base info) DEVICE_LED_BLINK (word_of_int (di_state info1)) tr) (\<lambda>(_, tr1).
      Inr (info1, tr1)))"

definition timer_rearm :: "u64 \<Rightarrow> (nat \<Rightarrow> u64) \<Rightarrow> device_info \<Rightarrow> device_info res" where
  "timer_rearm now m2j info =
     bindR (add_timer (di_timer info\<lparr>expires := now + m2j PERIOD\<rparr>)) (\<lambda>t. Inr (info\<lparr>di_timer := t\<rparr>))"

definition timer_isr :: "u64 \<Rightarrow> (nat \<Rightarrow> u64) \<Rightarrow> device_info \<Rightarrow> trace \<Rightarrow> (device_info \<times> trace) res" where
  "timer_isr now m2j info tr =
     bindR (timer_toggle info tr) (\<lambda>(info1, tr1).
     bindR (timer_rearm now m2j info1) (\<lambda>info2. Inr (info2, tr1)))"

definition BlinkLED :: "u64 \<Rightarrow> (nat \<Rightarrow> u64) \<Rightarrow> device_info \<Rightarrow> nat \<Rightarrow> device_info res" where
  "BlinkLED now m2j info time =
     (if di_create_flag info \<noteq> 0 then Inr info
      else
        bindR (setup_timer (di_timer info)) (\<lambda>t.
        bindR (add_timer (t\<lparr>expires := now + m2j time\<rparr>)) (\<lambda>t1.
        Inr (info\<lparr>di_timer := t1, di_create_flag := 1\<rparr>))))"

definition call_blink_control :: "u64 \<Rightarrow> (nat \<Rightarrow> u64) \<Rightarrow> device_info \<Rightarrow> u32 \<Rightarrow> trace \<Rightarrow> (device_info \<times> trace) res" where
  "call_blink_control now m2j info state tr =
     (if state \<noteq> 0 then bindR (BlinkLED now m2j info 10) (\<lambda>info1. Inr (info1, tr))
      else
        bindR (del_timer (di_timer info)) (\<lambda>t.
        let info1 = info\<lparr>di_timer := t, di_create_flag := 0, di_state := LED_BLINK_OFF\<rparr> in
        bindR (write_reg (di_reg_base info1) DEVICE_LED_BLINK (word_of_int (di_state info1)) tr) (\<lambda>(_, tr1).
        Inr (info1, tr1))))"

record device_control_state =
  dc_state :: u32
  dc_ch :: int
  dc_dir :: int
  dc_pData :: u64
  dc_offset :: u32

text \<open>The offset is stored in an unsigned char; the byte there is printed.\<close>

definition dump_text :: "u8 \<Rightarrow> u8 \<Rightarrow> string" where
  "dump_text offset b = ''0x'' @ fmt_x (unat offset) @ '' = 0x'' @ fmt_x (unat b) @ [newline]"

definition call_dump_control :: "buf_mem \<Rightarrow> device_control_state \<Rightarrow> trace \<Rightarrow> trace res" where
  "call_dump_control bufs dc tr =
     (let offset = ucast (dc_offset dc) :: u8 in
      bindR (block_range bufs (dc_pData dc) (int (unat offset)) 1) (\<lambda>v.
      Inr (tr @ [Printk (dump_text offset (v ! unat offset))])))"

definition device_control :: "u64 \<Rightarrow> (nat \<Rightarrow> u64) \<Rightarrow> buf_mem \<Rightarrow> device_info \<Rightarrow> u32 \<Rightarrow> device_control_state \<Rightarrow> trace \<Rightarrow> (device_info \<times> trace) res" where
  "device_control now m2j bufs info cmd dc tr =
     (if cmd = BLINK then call_blink_control now m2j info (dc_state dc) tr
      else if cmd = DUMP then bindR (call_dump_control bufs dc tr) (\<lambda>tr1. Inr (info, tr1))
      else Inr (info, tr))"

section \<open>The command file\<close>

text \<open>
  The kernel's \<open>sscanf\<close> takes no plus sign before a number, and no sign before a
  hexadecimal one.
\<close>

definition kscan_d :: "string \<Rightarrow> (int \<times> string) option" where
  "kscan_d s = (if take 1 (dropWhile isspace s) = ''+'' then None else scan_d s)"

definition kscan_x :: "string \<Rightarrow> (int \<times> string) option" where
  "kscan_x s = (if take 1 (dropWhile isspace s) \<in> {''+'', ''-''} then None else scan_x s)"

text \<open>\<open>sscanf(k_buf, "%s %d %d %x", cmd, &ch, &dir, &offset) == 4\<close>\<close>

definition scan_dump :: "string \<Rightarrow> (int \<times> int \<times> u32) option" where
  "scan_dump s =
     (case scan_s s of None \<Rightarrow> None | Some (_, r1) \<Rightarrow>
      case kscan_d r1 of None \<Rightarrow> None | Some (ch, r2) \<Rightarrow>
      case kscan_d r2 of None \<Rightarrow> None | Some (dir, r3) \<Rightarrow>
      case kscan_x r3 of None \<Rightarrow> None | Some (off, _) \<Rightarrow> Some (s32 ch, s32 dir, word_of_int off))"

text \<open>
  \<open>device_write\<close>: \<open>p\<close> is the board structure whose device the file stands for. \<open>cmd\<close> has
  255 bytes; \<open>u\<close> is what the structure on the stack holds where nothing sets it.
\<close>

definition cmd_dump_file :: "u64 \<Rightarrow> (nat \<Rightarrow> u64) \<Rightarrow> device_control_state \<Rightarrow> xdma_pci_dev \<Rightarrow> nat \<Rightarrow> nat \<Rightarrow> string \<Rightarrow> kstate \<Rightarrow> (int \<times> kstate) res" where
  "cmd_dump_file now m2j u xp len count k_buf s =
     (case scan_dump k_buf of
        None \<Rightarrow> Inr (int count, s)
      | Some (ch, dir, offset) \<Rightarrow>
          if dir \<noteq> H2C_DIR \<and> dir \<noteq> C2H_DIR then Inr (int len, s)
          else if ch \<noteq> CH1 then Inr (int len, s)
          else
            bindR (derefR (xp_xdev xp)) (\<lambda>xdev.
            bindR (nthI (if dir = H2C_DIR then H2C_dma_cfg xdev else C2H_dma_cfg xdev) (ch - 1)) (\<lambda>cfg.
            bindR (nthR (pData cfg) 0) (\<lambda>p0.
            bindR (device_control now m2j (ks_bufs s) (cdev_info (ctrl_cdev xp)) DUMP
                     (u\<lparr>dc_ch := ch, dc_dir := dir, dc_offset := offset, dc_pData := p0\<rparr>) (ks_trace s))
              (\<lambda>(_, tr1). Inr (int count, s\<lparr>ks_trace := tr1\<rparr>))))))"

definition cmd_led_file :: "u64 \<Rightarrow> (nat \<Rightarrow> u64) \<Rightarrow> device_control_state \<Rightarrow> u64 \<Rightarrow> xdma_pci_dev \<Rightarrow> u32 \<Rightarrow> nat \<Rightarrow> kstate \<Rightarrow> (int \<times> kstate) res" where
  "cmd_led_file now m2j u p xp state count s =
     bindR (device_control now m2j (ks_bufs s) (cdev_info (ctrl_cdev xp)) BLINK (u\<lparr>dc_state := state\<rparr>) (ks_trace s))
       (\<lambda>(info1, tr1).
       Inr (int count, s\<lparr>ks_trace := tr1,
         ks_xpdevs := (ks_xpdevs s)(p \<mapsto> xp\<lparr>ctrl_cdev := (ctrl_cdev xp)\<lparr>cdev_info := info1\<rparr>\<rparr>)\<rparr>))"

definition device_write :: "kapi \<Rightarrow> u64 \<Rightarrow> (nat \<Rightarrow> u64) \<Rightarrow> device_control_state \<Rightarrow> u64 \<Rightarrow> u64 \<Rightarrow> nat \<Rightarrow> 'a umem_scheme \<Rightarrow> kstate \<Rightarrow> (int \<times> kstate) res" where
  "device_write k now m2j u p buf count w s =
     (let len = (if 255 > count then count else 255); left = left_of k (ks_trace s) len;
          s1 = s\<lparr>ks_trace := ks_trace s @ [CopyFromUser len left]\<rparr>
      in if left \<noteq> 0 then Inr (- EFAULT, s1)
         else
           (let k_buf = takeWhile (\<lambda>c. c \<noteq> NUL) (map (\<lambda>b. char_of (unat b)) (user_read w buf len))
            in case scan_s k_buf of
                 None \<Rightarrow> Inr (- EINVAL, s1)
               | Some (tok, _) \<Rightarrow>
                   bindR (fitsR 255 tok) (\<lambda>cmd.
                   if cmd = ''on'' then
                     bindR (deref_xpdev p s1) (\<lambda>xp. cmd_led_file now m2j u p xp 1 count s1)
                   else if cmd = ''off'' then
                     bindR (deref_xpdev p s1) (\<lambda>xp. cmd_led_file now m2j u p xp 0 count s1)
                   else if cmd = ''dump'' then
                     bindR (deref_xpdev p s1) (\<lambda>xp. cmd_dump_file now m2j u xp len count k_buf s1)
                   else Inr (int count, s1))))"

section \<open>The LED as a state machine\<close>

text \<open>
  The commands and the timer act on the same structure. The timer's handler runs in
  interrupt context, so a command on another processor can come between its steps: the
  timer is taken off the list, the LED toggled, the timer armed again. \<open>led_bug\<close> records
  that a step broke a rule of the kernel.
\<close>

datatype isr_pc = IsrIdle | IsrFired | IsrToggled

record led_sys =
  led_info :: device_info
  led_pc :: isr_pc
  led_trace :: trace
  led_bug :: bool

datatype led_event = LedOn | LedOff | LedFire | LedToggle | LedRearm

definition apply_led :: "(device_info \<times> trace) res \<Rightarrow> isr_pc \<Rightarrow> led_sys \<Rightarrow> led_sys" where
  "apply_led r pc s = (case r of
     Inl _ \<Rightarrow> s\<lparr>led_bug := True\<rparr>
   | Inr (info, tr) \<Rightarrow> s\<lparr>led_info := info, led_trace := tr, led_pc := pc\<rparr>)"

inductive led_step :: "u64 \<Rightarrow> (nat \<Rightarrow> u64) \<Rightarrow> led_sys \<Rightarrow> led_event \<Rightarrow> led_sys \<Rightarrow> bool" for now m2j where
  on: "\<not> led_bug s \<Longrightarrow>
     led_step now m2j s LedOn
       (apply_led (call_blink_control now m2j (led_info s) 1 (led_trace s)) (led_pc s) s)"
| off: "\<not> led_bug s \<Longrightarrow>
     led_step now m2j s LedOff
       (apply_led (call_blink_control now m2j (led_info s) 0 (led_trace s)) (led_pc s) s)"
| fire: "\<not> led_bug s \<Longrightarrow> led_pc s = IsrIdle \<Longrightarrow> timer_pending (di_timer (led_info s)) \<Longrightarrow>
     led_step now m2j s LedFire
       (s\<lparr>led_info := (led_info s)\<lparr>di_timer := (di_timer (led_info s))\<lparr>timer_pending := False\<rparr>\<rparr>, led_pc := IsrFired\<rparr>)"
| toggle: "\<not> led_bug s \<Longrightarrow> led_pc s = IsrFired \<Longrightarrow>
     led_step now m2j s LedToggle (apply_led (timer_toggle (led_info s) (led_trace s)) IsrToggled s)"
| rearm: "\<not> led_bug s \<Longrightarrow> led_pc s = IsrToggled \<Longrightarrow>
     led_step now m2j s LedRearm
       (apply_led (map_sum id (\<lambda>i. (i, led_trace s)) (timer_rearm now m2j (led_info s))) IsrIdle s)"

abbreviation led_run :: "u64 \<Rightarrow> (nat \<Rightarrow> u64) \<Rightarrow> led_sys \<Rightarrow> led_event list \<Rightarrow> led_sys \<Rightarrow> bool" where
  "led_run now m2j \<equiv> run (led_step now m2j)"

inductive_cases led_stepE: "led_step now m2j s e s'"
inductive_simps led_step_on [simp]: "led_step now m2j s LedOn s'"
inductive_simps led_step_off [simp]: "led_step now m2j s LedOff s'"
inductive_simps led_step_fire [simp]: "led_step now m2j s LedFire s'"
inductive_simps led_step_toggle [simp]: "led_step now m2j s LedToggle s'"
inductive_simps led_step_rearm [simp]: "led_step now m2j s LedRearm s'"

text \<open>The state after \<open>init_device_info\<close> on a zeroed structure.\<close>

definition led_init :: "u64 \<Rightarrow> led_sys" where
  "led_init b = \<lparr>led_info = zero_info\<lparr>di_reg_base := b\<rparr>, led_pc = IsrIdle, led_trace = [], led_bug = False\<rparr>"

lemma led_run_Cons [simp]:
  "led_run now m2j s (e # es) s' \<longleftrightarrow> (\<exists>s1. led_step now m2j s e s1 \<and> led_run now m2j s1 es s')"
  by (rule run_Cons)

text \<open>
  When the handler is never interrupted: a timer is pending exactly while blinking is on, it was
  set up by the first command "on", and the register of the LED holds the state of the LED.
\<close>

definition led_reg :: "device_info \<Rightarrow> u64" where
  "led_reg info = reg_addr (di_reg_base info) DEVICE_LED_BLINK"

definition led_shown :: "led_sys \<Rightarrow> u32" where
  "led_shown s = ram_io (led_trace s) (led_reg (led_info s))"

definition led_ok :: "led_sys \<Rightarrow> bool" where
  "led_ok s \<longleftrightarrow> \<not> led_bug s \<and> led_pc s = IsrIdle \<and> di_reg_base (led_info s) \<noteq> 0 \<and> timer_set (di_timer (led_info s)) \<and>
     (timer_pending (di_timer (led_info s)) \<longleftrightarrow> di_create_flag (led_info s) = 1) \<and>
     di_create_flag (led_info s) \<in> {0, 1} \<and> di_state (led_info s) \<in> {0, 1} \<and>
     led_shown s = word_of_int (di_state (led_info s))"

definition led_atomic :: "led_event list \<Rightarrow> bool" where
  "led_atomic es \<longleftrightarrow> es \<in> {[LedOn], [LedOff], [LedFire, LedToggle, LedRearm]}"

lemmas led_ops = call_blink_control_def BlinkLED_def setup_timer_def add_timer_def del_timer_def
  timer_toggle_def timer_rearm_def timer_isr_def apply_led_def Let_def led_reg_def led_shown_def ram_io_write

lemma led_off_ok [inv_intros]:
  "led_ok s \<Longrightarrow> led_step now m2j s LedOff s' \<Longrightarrow> led_ok s'"
  by (auto simp: led_ok_def led_ops reg_simps)

lemma led_on_ok [inv_intros]:
  "led_ok s \<Longrightarrow> led_step now m2j s LedOn s' \<Longrightarrow> led_ok s'"
  by (auto simp: led_ok_def led_ops split: if_splits)

lemma led_isr_ok [inv_intros]:
  "led_ok s \<Longrightarrow> led_run now m2j s [LedFire, LedToggle, LedRearm] s' \<Longrightarrow> led_ok s'"
  by (auto simp: led_ok_def led_ops reg_simps)

lemma led_run_one: "led_run now m2j s [e] s' \<longleftrightarrow> led_step now m2j s e s'"
  by (simp del: led_step_on led_step_off led_step_fire led_step_toggle led_step_rearm)

lemma led_atomic_ok:
  assumes "led_ok s" "led_atomic es" "led_run now m2j s es s'"
  shows "led_ok s'"
proof -
  consider "es = [LedOn]" | "es = [LedOff]" | "es = [LedFire, LedToggle, LedRearm]"
    using assms(2) by (auto simp: led_atomic_def)
  then show ?thesis
    by cases (use assms led_run_one in \<open>blast intro: led_on_ok led_off_ok led_isr_ok\<close>)+
qed

text \<open>A step that is a whole block of events keeps the invariant.\<close>

interpretation led_blocks: budgeted "\<lambda>s es s'. led_atomic es \<and> led_run now m2j s es s'" "\<lambda>_. 0" "\<lambda>_. led_ok" 0
  for now m2j
  by unfold_locales (blast intro: led_atomic_ok)

lemma led_runs_ok:
  "led_ok s \<Longrightarrow> \<forall>es \<in> set ess. led_atomic es \<Longrightarrow> led_run now m2j s (concat ess) s' \<Longrightarrow> led_ok s'"
  unfolding run_concat by (drule (1) run_restrict, drule led_blocks.run_inv [of _ _ _ _ _ 0]) simp_all

text \<open>
  The first block of a run: the timer cannot expire, "on" sets it up, and "off" deletes a timer
  that was never set up, where the run ends.
\<close>

lemma led_first_on: "b \<noteq> 0 \<Longrightarrow> led_step now m2j (led_init b) LedOn s' \<Longrightarrow> led_ok s'"
  by (auto simp: led_ok_def led_init_def zero_info_def led_ops ram_io_def)

lemma led_first_off: "led_step now m2j (led_init b) LedOff s' \<Longrightarrow> led_bug s'"
  by (auto simp: led_init_def zero_info_def led_ops)

lemma led_first_fire: "\<not> led_step now m2j (led_init b) LedFire s'"
  by (simp add: led_init_def zero_info_def)

lemma led_bug_stops: "led_run now m2j s es s' \<Longrightarrow> led_bug s \<Longrightarrow> es = [] \<and> s' = s"
  by (cases es) (auto elim: led_stepE)

lemma led_runs_from_init:
  assumes "b \<noteq> 0" "\<forall>es \<in> set ess. led_atomic es" "led_run now m2j (led_init b) (concat ess) s"
  obtains (untouched) "ess = []" "s = led_init b" | (unset) "ess = [[LedOff]]" "led_bug s"
    | (on) ess' where "ess = [LedOn] # ess'" "led_ok s"
proof (cases ess)
  case Nil
  then show ?thesis using untouched assms(3) by simp
next
  case (Cons es ess')
  have rest: "\<forall>es \<in> set ess'. led_atomic es" using assms(2) Cons by simp
  obtain s1 where s1: "led_run now m2j (led_init b) es s1" "led_run now m2j s1 (concat ess') s"
    using assms(3) Cons by (auto simp: run_append)
  consider "es = [LedOn]" | "es = [LedOff]" | "es = [LedFire, LedToggle, LedRearm]"
    using assms(2) Cons by (auto simp: led_atomic_def)
  then show ?thesis
  proof cases
    case 1
    then have "led_step now m2j (led_init b) LedOn s1" using s1(1) led_run_one by metis
    then have "led_ok s1" by (rule led_first_on [OF assms(1)])
    then show ?thesis using on [of ess'] led_runs_ok [OF _ rest s1(2)] Cons 1 by blast
  next
    case 2
    then have "led_step now m2j (led_init b) LedOff s1" using s1(1) led_run_one by metis
    then have b: "led_bug s1" by (rule led_first_off)
    then have "concat ess' = []" "s = s1" using led_bug_stops [OF s1(2)] by auto
    moreover have "ess' = []" using \<open>concat ess' = []\<close> rest by (cases ess') (auto simp: led_atomic_def)
    ultimately show ?thesis using unset b Cons 2 by blast
  next
    case 3
    then show ?thesis using s1(1) led_first_fire by (auto simp del: led_step_fire)
  qed
qed

section \<open>Properties\<close>

text \<open>C27: As long as the timer handler is never interrupted by a command, a sequence of commands
  "on" and "off" and of timer events from a board that was just set up breaks a rule of the
  kernel's timers in one case only: its first command is "off", which deletes a timer that was
  never set up, and there the run ends. In every other run the timer is armed exactly while
  blinking is on, the LED state is 0 or 1 and the LED register shows it.\<close>

theorem led_safe_without_interleaving:
  assumes "b \<noteq> 0" "\<forall>es \<in> set ess. led_atomic es" "led_run now m2j (led_init b) (concat ess) s"
  shows "(led_bug s \<longleftrightarrow> ess = [[LedOff]]) \<and>
    (\<not> led_bug s \<longrightarrow> (timer_pending (di_timer (led_info s)) \<longleftrightarrow> di_create_flag (led_info s) = 1) \<and>
       di_state (led_info s) \<in> {0, 1} \<and> led_shown s = word_of_int (di_state (led_info s)))"
  using assms
proof (cases rule: led_runs_from_init)
  case untouched
  then show ?thesis by (simp add: led_init_def zero_info_def led_shown_def ram_io_def)
next
  case unset
  then show ?thesis by simp
next
  case (on ess')
  then show ?thesis by (simp add: led_ok_def)
qed

lemma led_safe_without_interleaving_witness:
  "\<exists>s. led_run 0 (\<lambda>_. 1) (led_init 4096) [LedOn, LedFire, LedToggle, LedRearm] s \<and> \<not> led_bug s \<and>
     timer_pending (di_timer (led_info s)) \<and> di_create_flag (led_info s) = 1 \<and> led_shown s = 1"
proof -
  let ?ess = "[[LedOn], [LedFire, LedToggle, LedRearm]]"
  have "\<exists>s. led_run 0 (\<lambda>_. 1) (led_init 4096) (concat ?ess) s \<and> di_create_flag (led_info s) = 1 \<and> di_state (led_info s) = 1"
    by (simp add: led_init_def zero_info_def led_ops reg_simps)
  then obtain s where s: "led_run 0 (\<lambda>_. 1) (led_init 4096) (concat ?ess) s"
    "di_create_flag (led_info s) = 1" "di_state (led_info s) = 1" by blast
  have "(led_bug s \<longleftrightarrow> ?ess = [[LedOff]]) \<and>
    (\<not> led_bug s \<longrightarrow> (timer_pending (di_timer (led_info s)) \<longleftrightarrow> di_create_flag (led_info s) = 1) \<and>
       di_state (led_info s) \<in> {0, 1} \<and> led_shown s = word_of_int (di_state (led_info s)))"
    by (rule led_safe_without_interleaving [OF _ _ s(1)]) (simp_all add: led_atomic_def)
  with s show ?thesis by auto
qed

text \<open>
  A command "off" inside the handler: after the timer was taken off its list and before the LED
  is toggled, or between the toggle and the arming of the timer.
\<close>

definition off_inside :: "led_event list \<Rightarrow> u32 \<Rightarrow> bool" where
  "off_inside es v \<longleftrightarrow> es = [LedFire, LedOff, LedToggle, LedRearm] \<and> v = 1 \<or>
     es = [LedFire, LedToggle, LedOff, LedRearm] \<and> v = 0"

lemma led_off_inside:
  assumes "led_ok s" "timer_pending (di_timer (led_info s))" "off_inside es v"
  shows "\<exists>s1. led_run now m2j s es s1 \<and> (\<forall>s'. led_run now m2j s es s' \<longrightarrow> s' = s1) \<and>
    \<not> led_bug s1 \<and> led_pc s1 = IsrIdle \<and> di_create_flag (led_info s1) = 0 \<and> timer_set (di_timer (led_info s1)) \<and>
    timer_pending (di_timer (led_info s1)) \<and> led_shown s1 = v \<and> di_reg_base (led_info s1) \<noteq> 0 \<and>
    di_state (led_info s1) = uint v"
proof -
  have b: "\<not> led_bug s" "led_pc s = IsrIdle" "di_reg_base (led_info s) \<noteq> 0" "timer_set (di_timer (led_info s))"
    "di_state (led_info s) = 0 \<or> di_state (led_info s) = 1"
    using assms(1) by (simp_all add: led_ok_def)
  consider "es = [LedFire, LedOff, LedToggle, LedRearm]" "v = 1" | "es = [LedFire, LedToggle, LedOff, LedRearm]" "v = 0"
    using assms(3) by (auto simp: off_inside_def)
  then show ?thesis
  proof cases
    case 1
    show ?thesis using b(1-4) assms(2) unfolding 1 by (simp add: led_ops reg_simps ram_io_def last_write_append)
  next
    case 2
    from b(5) show ?thesis using b(1-4) assms(2) unfolding 2 by (elim disjE) (simp_all add: led_ops reg_simps ram_io_def last_write_append)
  qed
qed

lemma led_isr_again:
  assumes "\<not> led_bug s" "led_pc s = IsrIdle" "timer_set (di_timer (led_info s))" "timer_pending (di_timer (led_info s))"
    "di_reg_base (led_info s) \<noteq> 0" "di_state (led_info s) = uint v" "v = 0 \<or> v = 1"
  shows "\<exists>s2. led_run now m2j s [LedFire, LedToggle, LedRearm] s2 \<and> led_shown s2 = 1 - v \<and>
    timer_pending (di_timer (led_info s2)) \<and> di_create_flag (led_info s2) = di_create_flag (led_info s)"
  using assms(7) by (elim disjE) (use assms(1-6) in \<open>simp_all add: led_ops reg_simps\<close>)

text \<open>C28: From every state with the timer armed that whole commands and handlers reach, a command
  "off" inside the timer handler (after the timer left its list and before the LED is toggled,
  or between the toggle and the arming of the timer) is undone by the handler: blinking counts as
  off, but the timer is armed and the LED register is on (off before the toggle) or off (off after
  it); the next run of the handler toggles the LED register again and arms the timer again, and
  a command "on" sets up the timer while it is pending, which breaks a rule of the kernel.\<close>

theorem led_off_race:
  assumes "b \<noteq> 0" "\<forall>es \<in> set ess. led_atomic es" "led_run now m2j (led_init b) (concat ess) s"
    "timer_pending (di_timer (led_info s))" "off_inside es v"
  shows "(\<exists>s1. led_run now m2j s es s1) \<and>
    (\<forall>s1. led_run now m2j s es s1 \<longrightarrow>
       \<not> led_bug s1 \<and> di_create_flag (led_info s1) = 0 \<and> timer_pending (di_timer (led_info s1)) \<and> led_shown s1 = v \<and>
       (\<exists>s2. led_run now m2j s1 [LedFire, LedToggle, LedRearm] s2 \<and> led_shown s2 = 1 - v \<and>
          timer_pending (di_timer (led_info s2)) \<and> di_create_flag (led_info s2) = 0) \<and>
       (\<exists>s2. led_step now m2j s1 LedOn s2 \<and> led_bug s2))"
proof -
  have np: "\<not> timer_pending (di_timer (led_info (led_init b)))" by (simp add: led_init_def zero_info_def)
  have bug: "\<not> timer_pending (di_timer (led_info s))" if "ess = [[LedOff]]"
    using assms(3) that np by (auto simp: led_init_def zero_info_def led_ops)
  from assms(1-3) have ok: "led_ok s"
    by (cases rule: led_runs_from_init) (use assms(4) np bug in auto)
  have v: "v = 0 \<or> v = 1" using assms(5) by (auto simp: off_inside_def)
  show ?thesis
  proof (intro conjI allI impI)
    show "\<exists>s1. led_run now m2j s es s1" using led_off_inside [OF ok assms(4,5)] by blast
    fix s1
    assume "led_run now m2j s es s1"
    then have f: "\<not> led_bug s1 \<and> led_pc s1 = IsrIdle \<and> di_create_flag (led_info s1) = 0 \<and> timer_set (di_timer (led_info s1)) \<and>
        timer_pending (di_timer (led_info s1)) \<and> led_shown s1 = v \<and> di_reg_base (led_info s1) \<noteq> 0 \<and> di_state (led_info s1) = uint v"
      using led_off_inside [OF ok assms(4,5), where now = now and m2j = m2j] by blast
    show "\<not> led_bug s1" "di_create_flag (led_info s1) = 0" "timer_pending (di_timer (led_info s1))" "led_shown s1 = v"
      using f by simp_all
    show "\<exists>s2. led_run now m2j s1 [LedFire, LedToggle, LedRearm] s2 \<and> led_shown s2 = 1 - v \<and>
        timer_pending (di_timer (led_info s2)) \<and> di_create_flag (led_info s2) = 0"
      using led_isr_again [of s1 v now m2j] f v by simp
    show "\<exists>s2. led_step now m2j s1 LedOn s2 \<and> led_bug s2" using f by (simp add: led_ops)
  qed
qed

lemma led_off_race_witness:
  "\<exists>s s1. led_run 0 (\<lambda>_. 1) (led_init 4096) [LedOn] s \<and> led_run 0 (\<lambda>_. 1) s [LedFire, LedOff, LedToggle, LedRearm] s1 \<and>
    di_create_flag (led_info s1) = 0 \<and> led_shown s1 = 1 \<and> (\<exists>s2. led_step 0 (\<lambda>_. 1) s1 LedOn s2 \<and> led_bug s2)"
proof -
  have "\<exists>s. led_run 0 (\<lambda>_. 1) (led_init 4096) (concat [[LedOn]]) s \<and> timer_pending (di_timer (led_info s))"
    by (simp add: led_init_def zero_info_def led_ops)
  then obtain s where s: "led_run 0 (\<lambda>_. 1) (led_init 4096) (concat [[LedOn]]) s" "timer_pending (di_timer (led_info s))"
    by blast
  have o: "off_inside [LedFire, LedOff, LedToggle, LedRearm] 1" by (simp add: off_inside_def)
  have a: "\<forall>es \<in> set [[LedOn]]. led_atomic es" by (simp add: led_atomic_def)
  have b: "(4096 :: u64) \<noteq> 0" by simp
  note r = led_off_race [OF b a s o]
  from r obtain s1 where s1: "led_run 0 (\<lambda>_. 1) s [LedFire, LedOff, LedToggle, LedRearm] s1" by blast
  from r s1 have "di_create_flag (led_info s1) = 0" "led_shown s1 = 1" "\<exists>s2. led_step 0 (\<lambda>_. 1) s1 LedOn s2 \<and> led_bug s2"
    by blast+
  with s(1) s1 show ?thesis by auto
qed

text \<open>A command of exactly 255 characters without white space written to the file of a board
  overflows the 255-byte command buffer of the kernel by one byte; a shorter first word never
  does.\<close>

lemma device_write_overflow_iff:
  assumes "k_left k (ks_trace s) 255 = 0" "255 \<le> count"
    "k_buf = takeWhile (\<lambda>c. c \<noteq> NUL) (map (\<lambda>b. char_of (unat b)) (user_read w buf 255))"
    "scan_s k_buf = Some (tok, rest)" "tok \<notin> {''on'', ''off'', ''dump''}"
  shows "(device_write k now m2j u p buf count w s = Inl BufferOverflow \<longleftrightarrow> 255 \<le> length tok) \<and>
    (length tok < 255 \<longrightarrow> device_write k now m2j u p buf count w s =
       Inr (int count, s\<lparr>ks_trace := ks_trace s @ [CopyFromUser 255 0]\<rparr>))"
proof -
  have l: "(if 255 > count then count else 255) = 255" using assms(2) by simp
  show ?thesis
    using assms(1,4,5)
    by (simp add: device_write_def l Let_def left_of_def assms(3) [symmetric] fitsR_def)
qed

lemma device_write_overflow_iff_witness:
  "device_write ram_kapi 0 (\<lambda>_. 1) \<lparr>dc_state = 0, dc_ch = 0, dc_dir = 0, dc_pData = 0, dc_offset = 0\<rparr> 0x1000 0 255 \<lparr>u_words = \<lambda>_. 0, u_bytes = \<lambda>_. 97\<rparr> kstart = Inl BufferOverflow"
proof -
  let ?w = "\<lparr>u_words = \<lambda>_. 0, u_bytes = \<lambda>_. 97\<rparr>" and ?k = "replicate 255 (char_of (97 :: nat))"
  have c: "(char_of (97 :: nat) :: char) = CHR ''a''" by code_simp
  have r: "map (\<lambda>b. char_of (unat b)) (user_read ?w 0 255) = ?k"
    by (simp add: user_read_def map_replicate_const comp_def)
  have k: "?k = takeWhile (\<lambda>c. c \<noteq> NUL) (map (\<lambda>b. char_of (unat b)) (user_read ?w 0 255))"
    unfolding r by (subst takeWhile_eq_all_conv [THEN iffD2]) (simp_all add: c)
  have sp: "\<not> isspace (char_of (97 :: nat))" by (simp add: isspace_def)
  have d: "dropWhile isspace (replicate n (char_of (97 :: nat))) = replicate n (char_of (97 :: nat))"
    "takeWhile (Not \<circ> isspace) (replicate n (char_of (97 :: nat))) = replicate n (char_of (97 :: nat))"
    "dropWhile (Not \<circ> isspace) (replicate n (char_of (97 :: nat))) = []" for n
    by (induction n) (simp_all add: sp del: replicate_Suc add: replicate_Suc)
  have t: "scan_s ?k = Some (?k, [])"
    unfolding scan_s_def Let_def d by simp
  have len: "length ?k = 255" by (rule length_replicate)
  have ne: "?k \<noteq> l" if "length l < 255" for l using that len by (metis less_irrefl)
  have n: "?k \<notin> {''on'', ''off'', ''dump''}"
    using ne [of "''on''"] ne [of "''off''"] ne [of "''dump''"] by simp
  have left: "k_left ram_kapi (ks_trace kstart) 255 = 0" by (simp add: ram_kapi_def)
  from device_write_overflow_iff [OF left order_refl k t n] len show ?thesis by simp
qed

end
