(* ===== verification/DmaRelease.thy ===== *)
theory DmaRelease
  imports XdmaDrv Ledger
begin

text \<open>
  Giving the DMA memory of a board back (\<open>xdma_free_resource\<close> of
  \<open>driver/vi53xx_xdma_drv.c\<close>): the buffers and descriptor blocks that the configurations of
  the channels record, and that releasing them frees each exactly once.
\<close>

definition cfg_bufs :: "xdma_cfg_info \<Rightarrow> resource \<Rightarrow> int" where
  "cfg_bufs c r = (case r of RDma a \<Rightarrow>
     if a = 0 then 0 else int (count_list (take (unat (SG_desc_num c)) (pData c)) a) | _ \<Rightarrow> 0)"

definition cfg_desc :: "xdma_cfg_info \<Rightarrow> resource \<Rightarrow> int" where
  "cfg_desc c r = (case r of RDma a \<Rightarrow> if a \<noteq> 0 \<and> pFirst_desc c = a then 1 else 0 | _ \<Rightarrow> 0)"

definition xdev_dma :: "xdma_dev \<Rightarrow> resource \<Rightarrow> int" where
  "xdev_dma x r = (\<Sum>c\<leftarrow>C2H_dma_cfg x @ H2C_dma_cfg x. cfg_bufs c r + cfg_desc c r)"

text \<open>What a release step may change: the trace and the memory maps.\<close>

definition dma_frame :: "kstate \<Rightarrow> kstate \<Rightarrow> bool" where
  "dma_frame s s' \<longleftrightarrow> (\<exists>tr b d. s' = s\<lparr>ks_trace := tr, ks_bufs := b, ks_descs := d\<rparr>)"

lemma dma_frame_refl [simp]: "dma_frame s s"
  unfolding dma_frame_def by (intro exI [of _ "ks_trace s"] exI [of _ "ks_bufs s"] exI [of _ "ks_descs s"]) simp

lemma dma_frame_trans: "dma_frame s s1 \<Longrightarrow> dma_frame s1 s2 \<Longrightarrow> dma_frame s s2"
  by (force simp: dma_frame_def)

lemma dma_frame_fields:
  "dma_frame s s' \<Longrightarrow> ks_devices s' = ks_devices s \<and> ks_xpdevs s' = ks_xpdevs s \<and> ks_drvdata s' = ks_drvdata s \<and>
     ks_boards s' = ks_boards s \<and> ks_es_cdev s' = ks_es_cdev s \<and> ks_setting s' = ks_setting s"
  by (auto simp: dma_frame_def)

text \<open>
  What releasing the buffers from index \<open>i\<close> up to \<open>n\<close> does: each address among them leaves the
  count as often as it occurs, and its entries become NULL.
\<close>

definition bufs_between :: "nat \<Rightarrow> nat \<Rightarrow> xdma_cfg_info \<Rightarrow> resource \<Rightarrow> int" where
  "bufs_between i n cfg r = (case r of RDma a \<Rightarrow>
     if a = 0 then 0 else int (count_list (drop i (take n (pData cfg))) a) | _ \<Rightarrow> 0)"

definition freed :: "nat \<Rightarrow> nat \<Rightarrow> resource \<Rightarrow> xdma_cfg_info \<Rightarrow> kstate \<Rightarrow> xdma_cfg_info \<Rightarrow> kstate \<Rightarrow> bool" where
  "freed i n r cfg s cfg' s' \<longleftrightarrow> dma_frame s s' \<and>
     held (ks_trace s') r = held (ks_trace s) r - bufs_between i n cfg r \<and>
     (\<exists>p. cfg' = cfg\<lparr>pData := p\<rparr> \<and> length p = length (pData cfg) \<and>
        (\<forall>j < length p. p ! j = (if i \<le> j \<and> j < n then 0 else pData cfg ! j)))"

lemma bufs_between_next:
  assumes "i < n" "n \<le> length (pData cfg)"
  shows "bufs_between i n cfg r = (if r = RDma (pData cfg ! i) \<and> pData cfg ! i \<noteq> 0 then 1 else 0) + bufs_between (Suc i) n cfg r"
proof -
  have "drop i (take n (pData cfg)) = pData cfg ! i # drop (Suc i) (take n (pData cfg))"
    using assms Cons_nth_drop_Suc [of i "take n (pData cfg)"] by simp
  then show ?thesis by (auto simp: bufs_between_def split: resource.splits)
qed

lemma freed_done: "n \<le> i \<Longrightarrow> freed i n r cfg s cfg s"
  by (auto simp: freed_def bufs_between_def intro!: exI [of _ "pData cfg"] split: resource.splits)

text \<open>An entry that is NULL is passed over, any other is freed and set to NULL first.\<close>

lemma freedD:
  assumes "freed i n r cfg s cfg' s'"
  obtains p where "dma_frame s s'" "held (ks_trace s') r = held (ks_trace s) r - bufs_between i n cfg r"
    "cfg' = cfg\<lparr>pData := p\<rparr>" "length p = length (pData cfg)"
    "\<And>j. j < length (pData cfg) \<Longrightarrow> p ! j = (if i \<le> j \<and> j < n then 0 else pData cfg ! j)"
  using assms unfolding freed_def by auto

lemma freedI:
  "dma_frame s s' \<Longrightarrow> held (ks_trace s') r = held (ks_trace s) r - bufs_between i n cfg r \<Longrightarrow>
   length p = length (pData cfg) \<Longrightarrow>
   (\<And>j. j < length (pData cfg) \<Longrightarrow> p ! j = (if i \<le> j \<and> j < n then 0 else pData cfg ! j)) \<Longrightarrow>
   freed i n r cfg s (cfg\<lparr>pData := p\<rparr>) s'"
  unfolding freed_def by auto

lemma freed_skip:
  assumes "freed (Suc i) n r cfg s cfg' s'" "i < n" "n \<le> length (pData cfg)" "pData cfg ! i = 0"
  shows "freed i n r cfg s cfg' s'"
proof -
  obtain p where p: "dma_frame s s'" "held (ks_trace s') r = held (ks_trace s) r - bufs_between (Suc i) n cfg r"
    "cfg' = cfg\<lparr>pData := p\<rparr>" "length p = length (pData cfg)"
    "\<And>j. j < length (pData cfg) \<Longrightarrow> p ! j = (if Suc i \<le> j \<and> j < n then 0 else pData cfg ! j)"
    by (rule freedD [OF assms(1)]) blast
  have "p ! j = (if i \<le> j \<and> j < n then 0 else pData cfg ! j)" if "j < length (pData cfg)" for j
    using p(5) [OF that] assms(4) by (cases "j = i") auto
  then show ?thesis unfolding p(3)
    by (intro freedI [OF p(1) _ p(4)]) (use p(2) assms in \<open>simp_all add: bufs_between_next\<close>)
qed

lemma freed_next:
  assumes "freed (Suc i) n r (cfg\<lparr>pData := (pData cfg)[i := 0]\<rparr>) s1 cfg' s'" "i < n" "n \<le> length (pData cfg)"
    "pData cfg ! i \<noteq> 0" "dma_frame s s1"
    "held (ks_trace s1) r = held (ks_trace s) r - (if r = RDma (pData cfg ! i) then 1 else 0)"
  shows "freed i n r cfg s cfg' s'"
proof -
  let ?c = "cfg\<lparr>pData := (pData cfg)[i := 0]\<rparr>"
  have "drop (Suc i) (take n ((pData cfg)[i := 0])) = drop (Suc i) (take n (pData cfg))"
    by (simp add: take_update_swap drop_update_cancel)
  then have b: "bufs_between (Suc i) n ?c r = bufs_between (Suc i) n cfg r"
    by (simp add: bufs_between_def split: resource.splits)
  obtain p where p: "dma_frame s1 s'" "held (ks_trace s') r = held (ks_trace s1) r - bufs_between (Suc i) n ?c r"
    "cfg' = ?c\<lparr>pData := p\<rparr>" "length p = length (pData ?c)"
    "\<And>j. j < length (pData ?c) \<Longrightarrow> p ! j = (if Suc i \<le> j \<and> j < n then 0 else pData ?c ! j)"
    by (rule freedD [OF assms(1)]) blast
  have c: "cfg' = cfg\<lparr>pData := p\<rparr>" using p(3) by simp
  have "p ! j = (if i \<le> j \<and> j < n then 0 else pData cfg ! j)" if "j < length (pData cfg)" for j
    using p(5) [of j] that assms(2) by (cases "j = i") auto
  then show ?thesis unfolding c
    by (intro freedI [OF dma_frame_trans [OF assms(5) p(1)]]) (use p(2,4) assms b in \<open>simp_all add: bufs_between_next\<close>)
qed

lemma free_pdata_from_held:
  assumes "mapped = Inr m" "n \<le> length (pData cfg)" "n \<le> length (data_phy_addr cfg)"
  shows "\<exists>cfg' s'. free_pdata_from mapped i n cfg s = Inr (cfg', s') \<and> freed i n r cfg s cfg' s'"
  using assms
proof (induction mapped i n cfg s rule: free_pdata_from.induct)
  case (1 mapped i n cfg s)
  show ?case
  proof (cases "i < n")
    case False
    then have "free_pdata_from mapped i n cfg s = Inr (cfg, s)" by (subst free_pdata_from.simps) simp
    then show ?thesis using False freed_done [of n i] by simp
  next
    case True
    let ?p = "pData cfg ! i"
    have i: "i < length (pData cfg)" "i < length (data_phy_addr cfg)" using True 1 by auto
    show ?thesis
    proof (cases "?p = 0")
      case z: True
      then have "free_pdata_from mapped i n cfg s = free_pdata_from mapped (Suc i) n cfg s"
        using True i by (subst free_pdata_from.simps) simp
      moreover have "\<exists>cfg' s'. free_pdata_from mapped (Suc i) n cfg s = Inr (cfg', s') \<and> freed (Suc i) n r cfg s cfg' s'"
        by (rule "1.IH"(2) [OF True]) (use i z 1 in auto)
      ultimately show ?thesis using freed_skip [OF _ True "1.prems"(2) z] by auto
    next
      case nz: False
      let ?tr = "if m \<noteq> 0 then ks_trace s @ [MemWriteback ?p (unat (drop_bit 12 (cfg_size cfg)))] else ks_trace s"
      let ?s1 = "s\<lparr>ks_trace := ?tr @ [DmaFree ?p (data_phy_addr cfg ! i) (unat (cfg_size cfg))],
         ks_bufs := (ks_bufs s)(?p := None)\<rparr>"
      let ?c = "cfg\<lparr>pData := (pData cfg)[i := 0]\<rparr>"
      have eq: "free_pdata_from mapped i n cfg s = free_pdata_from mapped (Suc i) n ?c ?s1"
        using True i nz 1 by (subst free_pdata_from.simps) (simp add: Let_def)
      have h1: "held (ks_trace ?s1) r = held (ks_trace s) r - (if r = RDma ?p then 1 else 0)" by simp
      have fr: "dma_frame s ?s1"
        unfolding dma_frame_def by (intro exI [of _ "ks_trace ?s1"] exI [of _ "ks_bufs ?s1"] exI [of _ "ks_descs s"]) simp
      have "\<exists>cfg' s'. free_pdata_from mapped (Suc i) n ?c ?s1 = Inr (cfg', s') \<and> freed (Suc i) n r ?c ?s1 cfg' s'"
        by (rule "1.IH"(1) [OF True, of ?p m "data_phy_addr cfg ! i" ?tr ?s1]) (use i nz 1 in auto)
      then show ?thesis unfolding eq using freed_next [OF _ True "1.prems"(2) nz fr h1] by blast
    qed
  qed
qed

text \<open>Releasing the buffers of one configuration.\<close>

lemma count_list_zeros: "\<forall>x \<in> set xs. x = 0 \<Longrightarrow> a \<noteq> 0 \<Longrightarrow> count_list xs a = 0"
  by (auto simp: count_list_0_iff)

lemma free_cfg_bufs:
  assumes "mapped = Inr m" "cfg_wf cfg" "unat (SG_desc_num cfg) \<le> 64"
  obtains cfg' s' where "free_pdata_from mapped 0 (unat (SG_desc_num cfg)) cfg s = Inr (cfg', s')"
    "dma_frame s s'" "held (ks_trace s') r = held (ks_trace s) r - cfg_bufs cfg r" "cfg_bufs cfg' r = 0"
    "cfg_desc cfg' r = cfg_desc cfg r" "cfg_wf cfg'" "SG_desc_num cfg' = SG_desc_num cfg"
proof -
  let ?n = "unat (SG_desc_num cfg)"
  obtain cfg' s' where f: "free_pdata_from mapped 0 ?n cfg s = Inr (cfg', s')" "freed 0 ?n r cfg s cfg' s'"
    using free_pdata_from_held [OF assms(1), of ?n cfg 0 s r] assms(2,3) by (auto simp: cfg_wf_def)
  then obtain p where r: "free_pdata_from mapped 0 ?n cfg s = Inr (cfg', s')" "dma_frame s s'"
    "held (ks_trace s') r = held (ks_trace s) r - bufs_between 0 ?n cfg r"
    "cfg' = cfg\<lparr>pData := p\<rparr>" "length p = length (pData cfg)"
    "\<forall>j < length p. p ! j = (if 0 \<le> j \<and> j < ?n then 0 else pData cfg ! j)"
    unfolding freed_def by blast
  have "\<forall>x \<in> set (take ?n p). x = 0" using r(6) by (auto simp: in_set_conv_nth)
  then have z: "cfg_bufs cfg' r = 0" by (simp add: cfg_bufs_def r(4) count_list_zeros split: resource.splits)
  have h: "held (ks_trace s') r = held (ks_trace s) r - cfg_bufs cfg r"
    using r(3) by (simp add: cfg_bufs_def bufs_between_def split: resource.splits)
  show thesis
    by (rule that [OF r(1,2) h z]) (use assms(2) r(5) in \<open>simp_all add: r(4) cfg_desc_def cfg_wf_def split: resource.splits\<close>)
qed

lemma free_desc_of_held:
  obtains cfg' s' where "free_desc_of cfg s = (cfg', s')" "dma_frame s s'"
    "held (ks_trace s') r = held (ks_trace s) r - cfg_desc cfg r" "cfg_desc cfg' r = 0"
    "cfg_bufs cfg' r = cfg_bufs cfg r" "cfg_wf cfg \<Longrightarrow> cfg_wf cfg'" "SG_desc_num cfg' = SG_desc_num cfg"
proof (cases "pFirst_desc cfg = 0")
  case True
  then show thesis by (intro that [of cfg s]) (simp_all add: free_desc_of_def cfg_desc_def split: resource.splits)
next
  case False
  let ?s = "s\<lparr>ks_trace := ks_trace s @ [DmaFree (pFirst_desc cfg) (first_desc_phy_addr cfg) (unat (SG_desc_num cfg) * 32)],
           ks_descs := (ks_descs s)(pFirst_desc cfg := None)\<rparr>"
  have f: "dma_frame s ?s"
    unfolding dma_frame_def by (intro exI [of _ "ks_trace ?s"] exI [of _ "ks_bufs s"] exI [of _ "ks_descs ?s"]) simp
  show thesis
    by (rule that [of "cfg\<lparr>pFirst_desc := 0\<rparr>" ?s, OF _ f])
      (use False in \<open>simp_all add: free_desc_of_def cfg_desc_def cfg_bufs_def cfg_wf_def split: resource.splits\<close>)
qed

text \<open>The board's table of uncached buffers can be read throughout.\<close>

definition fmap_readable :: "pci_dev \<Rightarrow> kstate \<Rightarrow> bool" where
  "fmap_readable pdev s \<longleftrightarrow> (\<forall>dir \<in> {0, 1}. \<forall>ch < 2. \<exists>m. fmap_entry pdev dir ch s = Inr m)"

lemma fmap_readable_frame: "dma_frame s s' \<Longrightarrow> fmap_readable pdev s \<Longrightarrow> fmap_readable pdev s'"
  by (auto simp: fmap_readable_def fmap_entry_def deref_xpdev_def dma_frame_def)

definition releasable :: "xdma_dev \<Rightarrow> bool" where
  "releasable x \<longleftrightarrow> xdev_wf x \<and> (\<forall>c \<in> set (C2H_dma_cfg x @ H2C_dma_cfg x). unat (SG_desc_num c) \<le> 64)"

text \<open>
  One step of the release: resources leave the structure and the trace together. The
  directions differ only in the array they work on.
\<close>

definition release_step :: "resource \<Rightarrow> xdma_dev \<Rightarrow> kstate \<Rightarrow> xdma_dev \<Rightarrow> kstate \<Rightarrow> bool" where
  "release_step r x s x' s' \<longleftrightarrow> dma_frame s s' \<and> releasable x' \<and>
     (\<exists>c h. x' = x\<lparr>C2H_dma_cfg := c, H2C_dma_cfg := h\<rparr>) \<and>
     held (ks_trace s') r - xdev_dma x' r = held (ks_trace s) r - xdev_dma x r"

lemma release_step_trans:
  "release_step r x s x1 s1 \<Longrightarrow> release_step r x1 s1 x2 s2 \<Longrightarrow> release_step r x s x2 s2"
  unfolding release_step_def by (force intro: dma_frame_trans)

lemma two_elems: "length xs = 2 \<Longrightarrow> \<exists>a b. xs = [a, b]"
  by (cases xs; cases "tl xs") auto

lemma free_channel_bufs_step:
  assumes "releasable x" "fmap_readable pdev s" "ch < 2"
  obtains x' s' c h where "free_channel_bufs pdev ch x s = Inr (x', s')" "release_step r x s x' s'"
    "C2H_dma_cfg x' = (C2H_dma_cfg x)[ch := c]" "H2C_dma_cfg x' = (H2C_dma_cfg x)[ch := h]"
    "cfg_bufs c r = 0" "cfg_bufs h r = 0" "cfg_desc c r = cfg_desc (C2H_dma_cfg x ! ch) r"
    "cfg_desc h r = cfg_desc (H2C_dma_cfg x ! ch) r"
proof -
  obtain c0 c1 h0 h1 where l: "C2H_dma_cfg x = [c0, c1]" "H2C_dma_cfg x = [h0, h1]"
    using assms(1) two_elems by (metis releasable_def xdev_wf_def)
  let ?c = "[c0, c1] ! ch" and ?h = "[h0, h1] ! ch"
  have ch: "ch = 0 \<or> ch = 1" using assms(3) by linarith
  have wf: "cfg_wf ?c" "cfg_wf ?h" "unat (SG_desc_num ?c) \<le> 64" "unat (SG_desc_num ?h) \<le> 64"
    using assms(1) ch by (auto simp: releasable_def xdev_wf_def l)
  obtain m where m: "fmap_entry pdev C2H_DIR ch s = Inr m" using assms(2,3) by (auto simp: fmap_readable_def)
  obtain c s1 where c: "free_pdata_from (fmap_entry pdev C2H_DIR ch s) 0 (unat (SG_desc_num ?c)) ?c s = Inr (c, s1)"
    "dma_frame s s1" "held (ks_trace s1) r = held (ks_trace s) r - cfg_bufs ?c r" "cfg_bufs c r = 0"
    "cfg_desc c r = cfg_desc ?c r" "cfg_wf c" "SG_desc_num c = SG_desc_num ?c"
    by (rule free_cfg_bufs [OF m wf(1,3)])
  obtain m' where m': "fmap_entry pdev H2C_DIR ch s1 = Inr m'"
    using fmap_readable_frame [OF c(2) assms(2)] assms(3) by (auto simp: fmap_readable_def)
  obtain h s2 where h: "free_pdata_from (fmap_entry pdev H2C_DIR ch s1) 0 (unat (SG_desc_num ?h)) ?h s1 = Inr (h, s2)"
    "dma_frame s1 s2" "held (ks_trace s2) r = held (ks_trace s1) r - cfg_bufs ?h r" "cfg_bufs h r = 0"
    "cfg_desc h r = cfg_desc ?h r" "cfg_wf h" "SG_desc_num h = SG_desc_num ?h"
    by (rule free_cfg_bufs [OF m' wf(2,4)])
  let ?x = "x\<lparr>C2H_dma_cfg := [c0, c1][ch := c], H2C_dma_cfg := [h0, h1][ch := h]\<rparr>"
  have run: "free_channel_bufs pdev ch x s = Inr (?x, s2)"
    using assms(3) c(1) h(1) by (simp add: free_channel_bufs_def xdma_free_c2h_pdata_def xdma_free_h2c_pdata_def l)
  have rel: "releasable ?x"
    using assms(1) ch c(6,7) h(6,7) by (auto simp: releasable_def xdev_wf_def l)
  have dma: "xdev_dma x r - xdev_dma ?x r = cfg_bufs ?c r + cfg_bufs ?h r"
    using ch c(4,5) h(4,5) by (auto simp: xdev_dma_def l)
  have st: "release_step r x s ?x s2"
    unfolding release_step_def using rel dma c(3) h(3) dma_frame_trans [OF c(2) h(2)] by auto
  show thesis
    by (rule that [OF run st, of c h]) (use c h in \<open>simp_all add: l\<close>)
qed

text \<open>The descriptor memory of the four channels, once their buffers are gone.\<close>

lemma free_desc_released:
  assumes "releasable x" "C2H_dma_cfg x = [c0, c1]" "H2C_dma_cfg x = [h0, h1]"
    "cfg_bufs c0 r = 0" "cfg_bufs c1 r = 0" "cfg_bufs h0 r = 0" "cfg_bufs h1 r = 0"
  shows "\<exists>x' s'. xdma_free_desc x s = Inr (x', s') \<and> release_step r x s x' s' \<and> xdev_dma x' r = 0"
proof -
  have one: "\<exists>c' t'. free_desc_of c t = (c', t') \<and> dma_frame t t' \<and> held (ks_trace t') r = held (ks_trace t) r - cfg_desc c r \<and>
      cfg_desc c' r = 0 \<and> cfg_bufs c' r = cfg_bufs c r \<and> (cfg_wf c \<longrightarrow> cfg_wf c') \<and> SG_desc_num c' = SG_desc_num c" for c t
    by (rule free_desc_of_held [where cfg = c and s = t and r = r]) blast
  obtain h0' t1 where d1: "free_desc_of h0 s = (h0', t1)" "dma_frame s t1"
    "held (ks_trace t1) r = held (ks_trace s) r - cfg_desc h0 r" "cfg_desc h0' r = 0" "cfg_bufs h0' r = cfg_bufs h0 r"
    "cfg_wf h0 \<longrightarrow> cfg_wf h0'" "SG_desc_num h0' = SG_desc_num h0" using one [of h0 s] by auto
  obtain c0' t2 where d2: "free_desc_of c0 t1 = (c0', t2)" "dma_frame t1 t2"
    "held (ks_trace t2) r = held (ks_trace t1) r - cfg_desc c0 r" "cfg_desc c0' r = 0" "cfg_bufs c0' r = cfg_bufs c0 r"
    "cfg_wf c0 \<longrightarrow> cfg_wf c0'" "SG_desc_num c0' = SG_desc_num c0" using one [of c0 t1] by auto
  obtain h1' t3 where d3: "free_desc_of h1 t2 = (h1', t3)" "dma_frame t2 t3"
    "held (ks_trace t3) r = held (ks_trace t2) r - cfg_desc h1 r" "cfg_desc h1' r = 0" "cfg_bufs h1' r = cfg_bufs h1 r"
    "cfg_wf h1 \<longrightarrow> cfg_wf h1'" "SG_desc_num h1' = SG_desc_num h1" using one [of h1 t2] by auto
  obtain c1' t4 where d4: "free_desc_of c1 t3 = (c1', t4)" "dma_frame t3 t4"
    "held (ks_trace t4) r = held (ks_trace t3) r - cfg_desc c1 r" "cfg_desc c1' r = 0" "cfg_bufs c1' r = cfg_bufs c1 r"
    "cfg_wf c1 \<longrightarrow> cfg_wf c1'" "SG_desc_num c1' = SG_desc_num c1" using one [of c1 t3] by auto
  let ?x = "x\<lparr>C2H_dma_cfg := [c0', c1'], H2C_dma_cfg := [h0', h1']\<rparr>"
  have run: "xdma_free_desc x s = Inr (?x, t4)"
    by (simp add: xdma_free_desc_def xdma_free_h2c_desc_def xdma_free_c2h_desc_def assms(2,3) d1(1) d2(1) d3(1) d4(1) Let_def)
  have fr: "dma_frame s t4"
    by (rule dma_frame_trans [OF d1(2) dma_frame_trans [OF d2(2) dma_frame_trans [OF d3(2) d4(2)]]])
  have rel: "releasable ?x"
    using assms(1) d1(6,7) d2(6,7) d3(6,7) d4(6,7) by (auto simp: releasable_def xdev_wf_def assms(2,3))
  have z: "xdev_dma ?x r = 0" using d1 d2 d3 d4 assms(4-7) by (simp add: xdev_dma_def)
  have "xdev_dma x r = cfg_desc h0 r + cfg_desc c0 r + cfg_desc h1 r + cfg_desc c1 r"
    using assms(4-7) by (simp add: xdev_dma_def assms(2,3))
  then have "release_step r x s ?x t4"
    unfolding release_step_def using rel fr z d1(3) d2(3) d3(3) d4(3) by auto
  then show ?thesis using run z by blast
qed

lemma free_resource_released:
  assumes "releasable x" "fmap_readable pdev s"
  shows "\<exists>x' s'. xdma_free_resource pdev (Some x) s = Inr (Some x', s') \<and> release_step r x s x' s' \<and>
    xdev_dma x' r = 0"
proof -
  obtain x1 s1 c0 h0 where a: "free_channel_bufs pdev 0 x s = Inr (x1, s1)" "release_step r x s x1 s1"
    "C2H_dma_cfg x1 = (C2H_dma_cfg x)[0 := c0]" "H2C_dma_cfg x1 = (H2C_dma_cfg x)[0 := h0]"
    "cfg_bufs c0 r = 0" "cfg_bufs h0 r = 0"
    by (rule free_channel_bufs_step [OF assms, where ch = 0 and r = r]) simp_all
  have a': "releasable x1" "fmap_readable pdev s1"
    using a(2) fmap_readable_frame assms(2) by (auto simp: release_step_def)
  obtain x2 s2 c1 h1 where b: "free_channel_bufs pdev 1 x1 s1 = Inr (x2, s2)" "release_step r x1 s1 x2 s2"
    "C2H_dma_cfg x2 = (C2H_dma_cfg x1)[1 := c1]" "H2C_dma_cfg x2 = (H2C_dma_cfg x1)[1 := h1]"
    "cfg_bufs c1 r = 0" "cfg_bufs h1 r = 0"
    by (rule free_channel_bufs_step [OF a', where ch = 1 and r = r]) simp_all
  have "length (C2H_dma_cfg x) = 2" "length (H2C_dma_cfg x) = 2"
    using assms(1) by (simp_all add: releasable_def xdev_wf_def)
  then have l: "C2H_dma_cfg x2 = [c0, c1]" "H2C_dma_cfg x2 = [h0, h1]"
    using two_elems by (auto simp: a b dest!: two_elems)
  have rel2: "releasable x2" using b(2) by (simp add: release_step_def)
  obtain x3 s3 where c: "xdma_free_desc x2 s2 = Inr (x3, s3)" "release_step r x2 s2 x3 s3" "xdev_dma x3 r = 0"
    using free_desc_released [OF rel2 l a(5) b(5) a(6) b(6), of s2] by blast
  have "release_step r x s x3 s3" by (rule release_step_trans [OF release_step_trans [OF a(2) b(2)] c(2)])
  then show ?thesis using c(1,3) a(1) b(1)
    by (simp add: xdma_free_resource_def xdma_free_pci_bus_addr_def)
qed

end
