(* ===== verification/DmaInit.thy ===== *)
theory DmaInit
  imports DmaRelease
begin

text \<open>
  Setting up the channels of a board (\<open>xdma_channel_init\<close> of \<open>driver/vi53xx_xdma_drv.c\<close>): the
  DMA memory that is taken is exactly what the configurations then record, whether or not the
  kernel has any, so that the release finds all of it.
\<close>

text \<open>A configuration that holds nothing, as the zeroed structure has it.\<close>

definition fresh_cfg :: "xdma_cfg_info \<Rightarrow> bool" where
  "fresh_cfg c \<longleftrightarrow> cfg_wf c \<and> pData c ! 0 = 0 \<and> pFirst_desc c = 0 \<and> SG_desc_num c = 0"

lemma zero_cfg_fresh: "fresh_cfg zero_cfg"
  by (simp add: fresh_cfg_def) (simp add: zero_cfg_def)

lemma fresh_cfg_holds_nothing: "fresh_cfg c \<Longrightarrow> cfg_bufs c r = 0 \<and> cfg_desc c r = 0"
  by (auto simp: fresh_cfg_def cfg_bufs_def cfg_desc_def split: resource.splits)

lemma fresh_init_dma_cfg: "fresh_cfg c \<Longrightarrow> fresh_cfg (init_dma_cfg c d ch)"
  by (simp add: fresh_cfg_def init_dma_cfg_def cfg_wf_def)

text \<open>The buffer of a channel, where \<open>p\<close> is NULL if there is no memory.\<close>

text \<open>An allocation that succeeds holds one more buffer.\<close>

lemma dma_alloc_held:
  "dma_alloc_coherent k n tr = (None, tr') \<Longrightarrow> held tr' r = held tr r"
  "dma_alloc_coherent k n tr = (Some (v, p), tr') \<Longrightarrow> held tr' r = held tr r + (if r = RDma v then 1 else 0)"
  "dma_alloc_coherent k n tr = (Some (v, p), tr') \<Longrightarrow> v \<noteq> 0"
  by (auto simp: dma_alloc_coherent_def split: option.splits if_splits resource.splits)

lemma cfg_bufs_one:
  assumes "cfg_wf c" "SG_desc_num c = 1"
  shows "cfg_bufs c r = (if pData c ! 0 \<noteq> 0 \<and> r = RDma (pData c ! 0) then 1 else 0)"
proof -
  have "take 1 (pData c) = [pData c ! 0]" using assms by (cases "pData c") (auto simp: cfg_wf_def)
  then show ?thesis by (auto simp: cfg_bufs_def assms(2) split: resource.splits)
qed

text \<open>A channel with one descriptor gets one buffer, or none.\<close>

lemma phys_init_one:
  assumes "cfg_wf c" "SG_desc_num c = 1" "pData c ! 0 = 0"
  obtains rv c' s' where "phys_init_from k 0 c s = Inr (rv, c', s')" "dma_frame s s'" "cfg_wf c'" "SG_desc_num c' = 1"
    "pFirst_desc c' = pFirst_desc c" "channel c' = channel c" "direction c' = direction c"
    "\<And>r. held (ks_trace s') r = held (ks_trace s) r + cfg_bufs c' r"
proof -
  have l: "0 < length (pData c)" "0 < length (data_phy_addr c)" using assms(1) by (simp_all add: cfg_wf_def)
  obtain o' tr where al: "dma_alloc_coherent k (unat (cfg_size c)) (ks_trace s) = (o', tr)" by force
  have fr: "dma_frame s (s\<lparr>ks_trace := tr, ks_bufs := b\<rparr>)" for b
    unfolding dma_frame_def by (intro exI [of _ tr] exI [of _ b] exI [of _ "ks_descs s"]) simp
  show thesis
  proof (cases o')
    case None
    have r: "phys_init_from k 0 c s = Inr (- 1, c, s\<lparr>ks_trace := tr, ks_bufs := ks_bufs s\<rparr>)"
      using al assms(2) by (subst phys_init_from.simps) (simp add: None)
    show thesis
      by (rule that [OF r fr assms(1,2)]) (use dma_alloc_held(1) [OF al [unfolded None]] assms in \<open>simp_all add: cfg_bufs_one\<close>)
  next
    case (Some vp)
    obtain v q where vp: "vp = (v, q)" by force
    let ?c = "c\<lparr>data_phy_addr := (data_phy_addr c)[0 := q], pData := (pData c)[0 := v]\<rparr>"
    have wf: "cfg_wf ?c" "SG_desc_num ?c = 1" using assms(1,2) by (simp_all add: cfg_wf_def)
    have r: "phys_init_from k 0 c s = Inr (0, ?c,
        s\<lparr>ks_trace := tr, ks_bufs := (ks_bufs s)(v \<mapsto> replicate (unat (cfg_size c)) 0)\<rparr>)"
      using al assms(2) l by (subst phys_init_from.simps) (simp add: Some vp phys_init_from.simps)
    note H = dma_alloc_held(2,3) [OF al [unfolded Some vp]]
    show thesis by (rule that [OF r fr wf]) (use H l cfg_bufs_one [OF wf] in simp_all)
  qed
qed

lemma info_init_result:
  assumes "fresh_cfg cfg" "uint (direction cfg) \<in> {0, 1}" "channel cfg \<in> {1, 2}"
  obtains cfg' s' where "vi53xx_info_init k cfg s = Inr (0, cfg', s')" "dma_frame s s'" "cfg_wf cfg'"
    "SG_desc_num cfg' = 1" "pFirst_desc cfg' = 0" "channel cfg' = channel cfg" "direction cfg' = direction cfg"
    "\<And>r. held (ks_trace s') r = held (ks_trace s) r + cfg_bufs cfg' r"
proof -
  obtain ep sz where e: "get_ep_addr (channel cfg) (uint (direction cfg)) = Inr ep"
    "get_chanel_size (channel cfg) (uint (direction cfg)) = Inr sz"
    using assms(2,3) by (auto simp: get_ep_addr_def get_chanel_size_def ch_addr_def)
  let ?c = "cfg\<lparr>SG_desc_num := 1, ep_addr := ep, data_len := (data_len cfg)[0 := sz], cfg_size := ucast sz\<rparr>"
  have wf: "cfg_wf ?c" "SG_desc_num ?c = 1" "pData ?c ! 0 = 0" "pFirst_desc ?c = 0" "0 < length (data_len cfg)"
    using assms(1) by (simp_all add: fresh_cfg_def cfg_wf_def)
  obtain rv c' s' where r: "phys_init_from k 0 ?c s = Inr (rv, c', s')" "dma_frame s s'" "cfg_wf c'" "SG_desc_num c' = 1"
    "pFirst_desc c' = pFirst_desc ?c" "channel c' = channel ?c" "direction c' = direction ?c"
    "\<And>r. held (ks_trace s') r = held (ks_trace s) r + cfg_bufs c' r"
    by (rule phys_init_one [OF wf(1-3)]) (rule that, assumption+)
  have "vi53xx_info_init k cfg s = Inr (0, c', s')"
    using wf(5) r(1) by (simp add: vi53xx_info_init_def Let_def e xdma_physical_address_init_def)
  then show thesis by (rule that) (use r wf(4) in simp_all)
qed

section \<open>One direction of a channel\<close>

text \<open>Register accesses on a mapped BAR 1 change what is held by nothing.\<close>

definition bar1_ok :: "xdma_dev \<Rightarrow> bool" where
  "bar1_ok xdev \<longleftrightarrow> 1 < length (bar xdev) \<and> bar xdev ! 1 \<noteq> 0"

lemma bar1_mapped: "bar1_ok xdev \<Longrightarrow> bar1 xdev = Inr (bar xdev ! 1)"
  by (simp add: bar1_ok_def bar1_def)

lemma engine_calls_quiet:
  assumes "bar1_ok xdev"
  shows "\<exists>tr'. xdma_poll_init k xdev ch dir tr = Inr (0, tr') \<and> (\<forall>r. held tr' r = held tr r)"
    "\<exists>tr'. xdma_stop xdev c dir tr = Inr (0, tr') \<and> (\<forall>r. held tr' r = held tr r)"
    "SG_desc_num cfg = 1 \<Longrightarrow> \<exists>tr'. xdma_cofg_desc k xdev c cfg tr = Inr (0, tr') \<and> (\<forall>r. held tr' r = held tr r)"
  using assms bar1_mapped [OF assms]
  by (simp_all add: bar1_ok_def xdma_poll_init_def xdma_stop_def xdma_cofg_desc_def reg_simps Let_def)

text \<open>The block of a single descriptor.\<close>

lemma desc_alloc_one:
  assumes "cfg_wf cfg" "SG_desc_num cfg = 1" "pFirst_desc cfg = 0"
  obtains v cfg' mem' tr' where "xdma_desc_alloc k u cfg mem tr = Inr (v, cfg', mem', tr')" "cfg_wf cfg'"
    "SG_desc_num cfg' = 1" "channel cfg' = channel cfg" "\<And>r. cfg_bufs cfg' r = cfg_bufs cfg r"
    "\<And>r. held tr' r = held tr r + cfg_desc cfg' r"
proof (cases "dma_alloc_coherent k (1 * 32) tr")
  case (Pair o' tr1)
  show thesis
  proof (cases o')
    case None
    then have "held tr1 r = held tr r" for r
      using Pair by (auto simp: dma_alloc_coherent_def split: option.splits if_splits)
    then show thesis using Pair None assms
      by (intro that [of 0 cfg mem tr1]) (simp_all add: xdma_desc_alloc_def Let_def cfg_desc_def split: resource.splits)
  next
    case (Some vp)
    obtain v p where vp: "vp = (v, p)" by force
    have v: "v \<noteq> 0" and tr1: "tr1 = tr @ [DmaAlloc v p 32]"
      using Pair Some vp by (auto simp: dma_alloc_coherent_def split: option.splits if_splits)
    have n: "unat (SG_desc_num cfg) = 1" using assms(2) by simp
    obtain ds where ds: "xdma_desc_alloc k u cfg mem tr =
       Inr (v, cfg\<lparr>pFirst_desc := v, first_desc_phy_addr := p\<rparr>, mem(v \<mapsto> ds), tr1)"
      using desc_alloc_chain [OF assms(1) n [symmetric], of k tr v p tr1 u mem] Pair Some vp by auto
    show thesis
      by (rule that [OF ds]) (use assms v in \<open>simp_all add: tr1 cfg_wf_def cfg_bufs_def cfg_desc_def split: resource.splits\<close>)
  qed
qed

lemma channel_init_result:
  assumes "fresh_cfg cfg" "uint (direction cfg) \<in> {0, 1}" "channel cfg \<in> {1, 2}" "bar1_ok xdev"
  obtains cfg' s' where "i_xdma_channel_init k u xdev cfg s = Inr (cfg', s')" "dma_frame s s'" "cfg_wf cfg'"
    "SG_desc_num cfg' = 1" "\<And>r. held (ks_trace s') r = held (ks_trace s) r + cfg_bufs cfg' r + cfg_desc cfg' r"
proof -
  obtain c1 s1 where a: "vi53xx_info_init k cfg s = Inr (0, c1, s1)" "dma_frame s s1" "cfg_wf c1"
    "SG_desc_num c1 = 1" "pFirst_desc c1 = 0" "channel c1 = channel cfg" "direction c1 = direction cfg"
    "\<And>r. held (ks_trace s1) r = held (ks_trace s) r + cfg_bufs c1 r" by (rule info_init_result [OF assms(1-3)]) (rule that, assumption+)
  obtain t2 where b: "xdma_poll_init k xdev (channel c1) (direction c1) (ks_trace s1) = Inr (0, t2)"
    "\<And>r. held t2 r = held (ks_trace s1) r" using engine_calls_quiet(1) [OF assms(4)] by blast
  obtain t3 where c: "xdma_stop xdev (word_of_int (channel c1)) (direction c1) t2 = Inr (0, t3)"
    "\<And>r. held t3 r = held t2 r" using engine_calls_quiet(2) [OF assms(4)] by blast
  obtain v c4 m4 t4 where d: "xdma_desc_alloc k u c1 (ks_descs s1) t3 = Inr (v, c4, m4, t4)" "cfg_wf c4"
    "SG_desc_num c4 = 1" "channel c4 = channel c1" "\<And>r. cfg_bufs c4 r = cfg_bufs c1 r"
    "\<And>r. held t4 r = held t3 r + cfg_desc c4 r" by (rule desc_alloc_one [OF a(3-5)]) (rule that, assumption+)
  obtain t5 where e: "xdma_cofg_desc k xdev (word_of_int (channel c1)) c4 t4 = Inr (0, t5)"
    "\<And>r. held t5 r = held t4 r" using engine_calls_quiet(3) [OF assms(4) d(3)] by blast
  let ?s = "s1\<lparr>ks_descs := m4, ks_trace := t5\<rparr>"
  have run: "i_xdma_channel_init k u xdev cfg s = Inr (c4, ?s)"
    by (simp add: i_xdma_channel_init_def a(1) with_trace_def b(1) c(1) xdma_create_transfer_def d(1) e(1))
  have "dma_frame s1 ?s"
    unfolding dma_frame_def by (intro exI [of _ t5] exI [of _ "ks_bufs s1"] exI [of _ m4]) simp
  then have "dma_frame s ?s" by (rule dma_frame_trans [OF a(2)])
  then show thesis
    by (rule that [OF run _ d(2,3)]) (simp add: e(2) d(5,6) c(2) b(2) a(8))
qed

section \<open>All channels\<close>

definition fresh_xdev :: "xdma_dev \<Rightarrow> bool" where
  "fresh_xdev x \<longleftrightarrow> xdev_wf x \<and> (\<forall>c \<in> set (C2H_dma_cfg x @ H2C_dma_cfg x). fresh_cfg c)"

lemma bar1_ok_update [simp]:
  "bar1_ok (x\<lparr>C2H_dma_cfg := cs\<rparr>) = bar1_ok x" "bar1_ok (x\<lparr>H2C_dma_cfg := hs\<rparr>) = bar1_ok x"
  by (simp_all add: bar1_ok_def)

lemma C2H_init_result:
  assumes "fresh_cfg c" "ch < 2" "bar1_ok x"
  obtains c' s' where "i_xdma_channel_init k u x (init_dma_cfg c C2H_DIR ch) s = Inr (c', s')" "dma_frame s s'"
    "cfg_wf c'" "SG_desc_num c' = 1" "\<And>r. held (ks_trace s') r = held (ks_trace s) r + cfg_bufs c' r + cfg_desc c' r"
proof -
  have d: "uint (direction (init_dma_cfg c C2H_DIR ch)) \<in> {0, 1}" "channel (init_dma_cfg c C2H_DIR ch) \<in> {1, 2}"
    using assms(2) by (simp_all add: init_dma_cfg_def less_2_cases_iff)
  show thesis
    by (rule channel_init_result [OF fresh_init_dma_cfg [OF assms(1)] d assms(3), where k = k and u = u and s = s])
      (rule that, assumption+)
qed

lemma H2C_init_result:
  assumes "fresh_cfg c" "bar1_ok x"
  obtains c' s' where "i_xdma_channel_init k u x (init_dma_cfg c H2C_DIR 0) s = Inr (c', s')" "dma_frame s s'"
    "cfg_wf c'" "SG_desc_num c' = 1" "\<And>r. held (ks_trace s') r = held (ks_trace s) r + cfg_bufs c' r + cfg_desc c' r"
proof -
  have d: "uint (direction (init_dma_cfg c H2C_DIR 0)) \<in> {0, 1}" "channel (init_dma_cfg c H2C_DIR 0) \<in> {1, 2}"
    by (simp_all add: init_dma_cfg_def)
  show thesis
    by (rule channel_init_result [OF fresh_init_dma_cfg [OF assms(1)] d assms(2), where k = k and u = u and s = s])
      (rule that, assumption+)
qed

lemma all_channels_result:
  assumes "fresh_xdev x" "bar1_ok x"
  obtains x' s' where "xdma_channel_init k u True x s = Inr (0, x', s')" "dma_frame s s'" "releasable x'"
    "bar x' = bar x" "\<And>r. held (ks_trace s') r = held (ks_trace s) r + xdev_dma x' r"
proof -
  obtain c0 c1 h0 h1 where l: "C2H_dma_cfg x = [c0, c1]" "H2C_dma_cfg x = [h0, h1]"
    using assms(1) two_elems by (metis fresh_xdev_def xdev_wf_def)
  have fresh: "fresh_cfg c0" "fresh_cfg c1" "fresh_cfg h0" "fresh_cfg h1"
    using assms(1) by (simp_all add: fresh_xdev_def l)
  obtain c0' s1 where a: "i_xdma_channel_init k u x (init_dma_cfg c0 C2H_DIR 0) s = Inr (c0', s1)" "dma_frame s s1"
    "cfg_wf c0'" "SG_desc_num c0' = 1" "\<And>r. held (ks_trace s1) r = held (ks_trace s) r + cfg_bufs c0' r + cfg_desc c0' r"
    by (rule C2H_init_result [OF fresh(1) _ assms(2), of 0 k u s]) (simp, rule that, assumption+)
  let ?x1 = "x\<lparr>C2H_dma_cfg := [c0', c1]\<rparr>"
  have b1: "bar1_ok ?x1" using assms(2) by simp
  obtain h0' s2 where b: "i_xdma_channel_init k u ?x1 (init_dma_cfg h0 H2C_DIR 0) s1 = Inr (h0', s2)" "dma_frame s1 s2"
    "cfg_wf h0'" "SG_desc_num h0' = 1" "\<And>r. held (ks_trace s2) r = held (ks_trace s1) r + cfg_bufs h0' r + cfg_desc h0' r"
    by (rule H2C_init_result [OF fresh(3) b1, of k u s1]) (rule that, assumption+)
  let ?x2 = "?x1\<lparr>H2C_dma_cfg := [h0', h1]\<rparr>"
  have b2: "bar1_ok ?x2" using assms(2) by simp
  have r1: "channel_round k u 0 x s = Inr (?x2, s2)"
    using a(1) b(1) by (simp add: channel_round_def l Let_def init_dma_cfg_def)
  obtain c1' s3 where c: "i_xdma_channel_init k u ?x2 (init_dma_cfg c1 C2H_DIR 1) s2 = Inr (c1', s3)" "dma_frame s2 s3"
    "cfg_wf c1'" "SG_desc_num c1' = 1" "\<And>r. held (ks_trace s3) r = held (ks_trace s2) r + cfg_bufs c1' r + cfg_desc c1' r"
    by (rule C2H_init_result [OF fresh(2) _ b2, of 1 k u s2]) (simp, rule that, assumption+)
  let ?h1 = "init_dma_cfg h1 H2C_DIR 1"
  let ?x3 = "?x2\<lparr>C2H_dma_cfg := [c0', c1'], H2C_dma_cfg := [h0', ?h1]\<rparr>"
  have r2: "channel_round k u 1 ?x2 s2 = Inr (?x3, s3)"
    using c(1) by (simp add: channel_round_def Let_def init_dma_cfg_def)
  have run: "xdma_channel_init k u True x s = Inr (0, ?x3, s3)"
    unfolding xdma_channel_init_def by (simp only: r1 r2 not_True_eq_False if_False bindR.simps prod.case)
  have fr: "dma_frame s s3" by (rule dma_frame_trans [OF a(2) dma_frame_trans [OF b(2) c(2)]])
  have f1: "fresh_cfg ?h1" by (rule fresh_init_dma_cfg [OF fresh(4)])
  have rel: "releasable ?x3"
    using assms(1) a(3,4) b(3,4) c(3,4) f1
    by (auto simp: releasable_def fresh_xdev_def xdev_wf_def fresh_cfg_def)
  have h: "held (ks_trace s3) r = held (ks_trace s) r + xdev_dma ?x3 r" for r
    using fresh_cfg_holds_nothing [OF f1, of r] by (simp add: xdev_dma_def a(5) b(5) c(5))
  show thesis by (rule that [OF run fr rel _ h]) simp
qed

section \<open>Properties\<close>

text \<open>C7: Whatever memory the kernel has, setting up the channels of a fresh board and releasing its
  resources again leaves no DMA buffer and no descriptor block behind, frees none twice, and
  leaves no pointer to freed memory in the configurations.\<close>

theorem dma_memory_balanced:
  assumes "fresh_xdev x" "bar1_ok x" "fmap_readable pdev s"
  shows "\<exists>x' s' x'' s''. xdma_channel_init k u True x s = Inr (0, x', s') \<and>
    xdma_free_resource pdev (Some x') s' = Inr (Some x'', s'') \<and>
    (\<forall>r. held (ks_trace s'') r = held (ks_trace s) r \<and> xdev_dma x'' r = 0)"
proof -
  obtain x' s' where a: "xdma_channel_init k u True x s = Inr (0, x', s')" "dma_frame s s'" "releasable x'"
    "\<And>r. held (ks_trace s') r = held (ks_trace s) r + xdev_dma x' r"
    by (rule all_channels_result [OF assms(1,2)]) (rule that, assumption+)
  note f = free_resource_released [OF a(3) fmap_readable_frame [OF a(2) assms(3)]]
  obtain x'' s'' where b: "xdma_free_resource pdev (Some x') s' = Inr (Some x'', s'')" using f by blast
  have "held (ks_trace s'') r = held (ks_trace s) r \<and> xdev_dma x'' r = 0" for r
    using f [of r] a(4) [of r] by (auto simp: b release_step_def)
  then show ?thesis using a(1) b by blast
qed

lemma dma_memory_balanced_witness:
  "\<exists>x' s' x'' s''. xdma_channel_init ram_kapi (\<lambda>_. undefined) True
      (zero_xdev\<lparr>bar := [0x1000, 0x2000, 0, 0, 0, 0]\<rparr>)
      (kstart\<lparr>ks_drvdata := [example_pci \<mapsto> 1], ks_xpdevs := [1 \<mapsto> \<lparr>xp_pdev = example_pci, xp_xdev = None,
         ctrl_cdev = zero_cdev, xp_flags = 0, xp_bus = 3, fmap = replicate 2 (replicate 4 0)\<rparr>]\<rparr>) = Inr (0, x', s') \<and>
    xdma_free_resource example_pci (Some x') s' = Inr (Some x'', s'') \<and> (\<forall>r. held (ks_trace s'') r = 0)"
proof -
  let ?x = "zero_xdev\<lparr>bar := [0x1000, 0x2000, 0, 0, 0, 0]\<rparr>"
  let ?s = "kstart\<lparr>ks_drvdata := [example_pci \<mapsto> 1], ks_xpdevs := [1 \<mapsto> \<lparr>xp_pdev = example_pci, xp_xdev = None,
         ctrl_cdev = zero_cdev, xp_flags = 0, xp_bus = 3, fmap = replicate 2 (replicate 4 0)\<rparr>]\<rparr>"
  have f: "fresh_xdev ?x" "bar1_ok ?x"
    using zero_xdev_wf zero_cfg_fresh by (simp_all add: fresh_xdev_def bar1_ok_def xdev_wf_def zero_xdev_def)
  have r: "fmap_readable example_pci ?s"
    by (auto simp: fmap_readable_def fmap_entry_def deref_xpdev_def less_2_cases_iff)
  have t: "ks_trace ?s = []" by (simp add: kstart_def)
  show ?thesis using dma_memory_balanced [OF f r, of ram_kapi "\<lambda>_. undefined"] unfolding t held_Nil by blast
qed

end
