(* ===== verification/BoardRemoval.thy ===== *)
theory BoardRemoval
  imports BoardLife DmaInit
begin

text \<open>
  From probing a board to removing it (\<open>xdma_probe\<close> and \<open>xdma_remove\<close> of
  \<open>driver/vi53xx_xdma_drv.c\<close> with \<open>create_cdev\<close> and \<open>destroy_cdev\<close> of
  \<open>driver/vi53xx_cndev_core.c\<close>): what a successful probe holds, what removing the board gives
  back, and what still refers to the board afterwards.
\<close>

section \<open>What the parts of probing hold\<close>

lemma read_reg_held:
  "read_reg k b off tr = Inr (v, tr') \<Longrightarrow> held tr' r = held tr r"
  by (cases "b = 0") (auto simp: reg_simps)

lemma init_device_info_held:
  "init_device_info k info b tr = Inr (info', tr') \<Longrightarrow> held tr' r = held tr r"
  by (auto simp: init_device_info_def read_reg_held)

text \<open>Identifying a board reads registers and changes the board table and the device name.\<close>

lemma identify_board_held:
  "identify_board k xp s = Inr (res, xp', s') \<Longrightarrow> held (ks_trace s') r = held (ks_trace s) r"
  by (auto simp: identify_board_def Let_def read_reg_held init_device_info_held split: if_splits option.splits)

lemma identify_board_dev:
  "identify_board k xp s = Inr (res, xp', s') \<Longrightarrow>
   xp_xdev xp' = xp_xdev xp \<and> xp_pdev xp' = xp_pdev xp \<and> fmap xp' = fmap xp \<and> xp_flags xp' = xp_flags xp \<and>
   magic (ctrl_cdev xp') = MAGIC_CHAR \<and> sys_device (ctrl_cdev xp') = sys_device (ctrl_cdev xp)"
  by (auto simp: identify_board_def Let_def split: if_splits option.splits)

lemma identify_board_state:
  "identify_board k xp s = Inr (res, xp', s') \<Longrightarrow>
   ks_xpdevs s' = ks_xpdevs s \<and> ks_drvdata s' = ks_drvdata s \<and> ks_devices s' = ks_devices s \<and>
   map_option ec_class (ks_es_cdev s') = map_option ec_class (ks_es_cdev s)"
  by (auto simp: identify_board_def Let_def derefR_def split: if_splits option.splits)

text \<open>The fields of a board that creating its device leaves alone, and the state's.\<close>

definition same_board :: "xdma_pci_dev \<Rightarrow> xdma_pci_dev \<Rightarrow> bool" where
  "same_board xp xp' \<longleftrightarrow> xp_xdev xp' = xp_xdev xp \<and> xp_pdev xp' = xp_pdev xp \<and> fmap xp' = fmap xp"

definition same_tables :: "kstate \<Rightarrow> kstate \<Rightarrow> bool" where
  "same_tables s s' \<longleftrightarrow> ks_xpdevs s' = ks_xpdevs s \<and> ks_drvdata s' = ks_drvdata s \<and> ks_devices s' = ks_devices s \<and>
     map_option ec_class (ks_es_cdev s') = map_option ec_class (ks_es_cdev s)"

text \<open>What a live character device holds.\<close>

definition cdev_held :: "u32 \<Rightarrow> resource \<Rightarrow> int" where
  "cdev_held d r = (if r = RCdev d \<or> r = RDevice d then 1 else 0)"

lemma create_proc_device_held: "create_proc_device k b n tr = (rv, tr') \<Longrightarrow> held tr' r = held tr r"
  by (auto simp: create_proc_device_def Let_def split: if_splits)

lemma publish_board_result:
  assumes "publish_board k CHAR_CTRL xp s = Inr (rv, xp', s')" "map_option ec_class (ks_es_cdev s) = Some ClassOk"
  shows "same_board xp xp' \<and> same_tables s s' \<and> xp_flags xp' = xp_flags xp \<and> magic (ctrl_cdev xp') = magic (ctrl_cdev xp) \<and>
    (rv < 0 \<longrightarrow> (\<forall>r. held (ks_trace s') r = held (ks_trace s) r)) \<and>
    (0 \<le> rv \<longrightarrow> rv = 0 \<and> sys_device (ctrl_cdev xp') \<noteq> 0 \<and>
       (\<forall>r. held (ks_trace s') r = held (ks_trace s) r + cdev_held (cdevno (ctrl_cdev xp')) r))"
proof -
  obtain es where es: "ks_es_cdev s = Some es" "ec_class es = ClassOk" using assms(2) by auto
  show ?thesis using assms(1)
    by (auto simp: publish_board_def es create_sys_device_def Let_def same_board_def same_tables_def cdev_held_def
        dest: create_proc_device_held split: if_splits prod.splits)
qed

lemma dev_init_result:
  assumes "vi53xx_dev_init k xp s = Inr (ret, xp', s')" "map_option ec_class (ks_es_cdev s) = Some ClassOk"
    "xp_flags xp = 0"
  shows "same_board xp xp' \<and> same_tables s s' \<and>
    (ret < 0 \<longrightarrow> (\<forall>r. held (ks_trace s') r = held (ks_trace s) r)) \<and>
    (0 \<le> ret \<longrightarrow> magic (ctrl_cdev xp') = MAGIC_CHAR \<and> sys_device (ctrl_cdev xp') \<noteq> 0 \<and>
       xpdev_flag_test CDEV_CTRL xp' \<noteq> 0 \<and>
       (\<forall>r. held (ks_trace s') r = held (ks_trace s) r + cdev_held (cdevno (ctrl_cdev xp')) r))"
proof -
  obtain res xp1 s1 where i: "identify_board k xp s = Inr (res, xp1, s1)"
    using assms(1) by (auto simp: vi53xx_dev_init_def create_cdev_def)
  note f = identify_board_dev [OF i] identify_board_state [OF i] identify_board_held [OF i]
  show ?thesis
  proof (cases res)
    case (Inl rv)
    have "rv < 0"
      using i Inl by (auto simp: identify_board_def Let_def split: if_splits option.splits)
    then show ?thesis using assms(1,3) i Inl f
      by (auto simp: vi53xx_dev_init_def create_cdev_def destroy_cdev_def xpdev_flag_test_def same_board_def same_tables_def)
  next
    case (Inr v)
    obtain rv xp2 s2 where p: "publish_board k CHAR_CTRL xp1 s1 = Inr (rv, xp2, s2)"
      using assms(1) i Inr by (auto simp: vi53xx_dev_init_def create_cdev_def)
    have c: "map_option ec_class (ks_es_cdev s1) = Some ClassOk" using f assms(2) by simp
    note g = publish_board_result [OF p c]
    have nf: "xpdev_flag_test CDEV_CTRL xp2 = 0" using g f assms(3) by (simp add: xpdev_flag_test_def)
    have fl: "(x OR push_bit 0 1) AND push_bit 0 1 \<noteq> (0 :: u32)" for x :: u32
      by (simp add: word_ao_absorbs)
    show ?thesis
    proof (cases "rv < 0")
      case True
      then have "ret = - 1 \<and> xp' = xp2 \<and> s' = s2"
        using assms(1) i Inr p nf by (auto simp: vi53xx_dev_init_def create_cdev_def destroy_cdev_def)
      then show ?thesis using f g True by (auto simp: same_board_def same_tables_def)
    next
      case False
      then have "ret = 0 \<and> xp' = xpdev_flag_set CDEV_CTRL xp2 \<and> s' = s2"
        using assms(1) i Inr p by (auto simp: vi53xx_dev_init_def create_cdev_def)
      then show ?thesis using f g False fl
        by (auto simp: same_board_def same_tables_def xpdev_flag_set_def xpdev_flag_test_def)
    qed
  qed
qed

section \<open>Mapping and channels of a probed board\<close>

text \<open>The structure of a board that was mapped is fresh but for its BARs.\<close>

lemma device_map_fresh:
  assumes "xdma_device_map k (Some pdev) tr = (Some x, tr')"
  shows "fresh_xdev x"
proof -
  define p where "p = k_kmalloc k tr"
  let ?g = "zero_xdev\<lparr>xd_addr := p, got_regions := 1\<rparr>"
  obtain t rv t' where m: "map_bars k ?g t = (rv, x, t')"
    using assms
    by (auto simp: xdma_device_map_def alloc_dev_instance_def request_regions_def Let_def p_def [symmetric]
        split: prod.splits if_splits)
  have "held t' r - maps x r = held t r - maps ?g r \<and> (\<exists>b. x = ?g\<lparr>bar := b\<rparr>) \<and>
      length (bar x) = XDMA_BAR_NUM \<and> (rv = 0 \<or> rv = - EINVAL \<and> bar x = replicate XDMA_BAR_NUM 0)" for r
    by (rule map_from_held [OF _ _ m [unfolded map_bars_def]]) (simp_all add: zero_xdev_def)
  then obtain b where "x = ?g\<lparr>bar := b\<rparr>" "length (bar x) = XDMA_BAR_NUM" by blast
  then show ?thesis using zero_cfg_fresh by (simp add: fresh_xdev_def xdev_wf_def zero_xdev_def)
qed

text \<open>Without a second BAR the set-up of the channels dereferences NULL.\<close>

lemma channel_init_needs_bar1:
  assumes "fresh_xdev x" "1 < length (bar x)" "bar x ! 1 = 0"
  shows "xdma_channel_init k u True x s = Inl NullDeref"
proof -
  obtain c0 c1 where l: "C2H_dma_cfg x = [c0, c1]"
    using assms(1) two_elems by (metis fresh_xdev_def xdev_wf_def)
  let ?c = "init_dma_cfg c0 C2H_DIR 0"
  have f: "fresh_cfg ?c" using assms(1) by (intro fresh_init_dma_cfg) (simp add: fresh_xdev_def l)
  have d: "uint (direction ?c) \<in> {0, 1}" "channel ?c \<in> {1, 2}" by (simp_all add: init_dma_cfg_def)
  obtain c' s' where "vi53xx_info_init k ?c s = Inr (0, c', s')"
    by (rule info_init_result [OF f d, of k s]) (rule that, assumption+)
  moreover have "xdma_poll_init k x ch dir tr = Inl NullDeref" for ch dir tr
    using assms(2,3) by (simp add: xdma_poll_init_def bar1_def reg_simps Let_def)
  ultimately have "i_xdma_channel_init k u x ?c s = Inl NullDeref"
    by (simp add: i_xdma_channel_init_def with_trace_def)
  then show ?thesis by (simp add: xdma_channel_init_def channel_round_def l)
qed

text \<open>What the set-up of the channels leaves alone in the structure.\<close>

lemma channel_init_keeps:
  assumes "xdma_channel_init k u True x s = Inr (0, x', s')"
  shows "maps x' r = maps x r" "got_regions x' = got_regions x" "regions_in_use x' = regions_in_use x"
    "xd_addr x' = xd_addr x" "bar x' = bar x"
proof -
  have round: "bar y' = bar y \<and> got_regions y' = got_regions y \<and> regions_in_use y' = regions_in_use y \<and> xd_addr y' = xd_addr y"
    if "channel_round k u ch y t = Inr (y', t')" for ch y t y' t'
    using that by (auto simp: channel_round_def Let_def)
  obtain x1 s1 where "channel_round k u 0 x s = Inr (x1, s1)" "channel_round k u 1 x1 s1 = Inr (x', s')"
    using assms by (auto simp: xdma_channel_init_def)
  then show "got_regions x' = got_regions x" "regions_in_use x' = regions_in_use x" "xd_addr x' = xd_addr x" "bar x' = bar x"
    using round by metis+
  then show "maps x' r = maps x r" by (simp add: maps_def split: resource.splits)
qed

section \<open>The steps of probing\<close>

definition fresh_board :: "pci_dev \<Rightarrow> xdma_pci_dev" where
  "fresh_board pdev = \<lparr>xp_pdev = pdev, xp_xdev = None, ctrl_cdev = zero_cdev, xp_flags = 0,
     xp_bus = uint (p_bus_number pdev), fmap = replicate 2 (replicate 4 0)\<rparr>"

lemma fresh_board_fields [simp]:
  "xp_xdev (fresh_board pdev) = None" "xp_flags (fresh_board pdev) = 0" "xp_pdev (fresh_board pdev) = pdev"
  "fmap (fresh_board pdev) = replicate 2 (replicate 4 0)"
  by (simp_all add: fresh_board_def)

text \<open>The error label gives back what the board structure holds.\<close>

lemma probe_err_result:
  assumes "probe_err_out p rv t = Inr (rv', t')"
  shows "rv' = rv" "ks_boards t' = ks_boards t" "ks_es_cdev t' = ks_es_cdev t"
    "\<exists>tr. t' = t\<lparr>ks_trace := tr, ks_xpdevs := (ks_xpdevs t)(p := None)\<rparr>"
  using assms by (auto simp: probe_err_out_def xpdev_free_def Let_def)

lemma dev_init_xdev: "vi53xx_dev_init k xp s = Inr (ret, xp', s') \<Longrightarrow> xp_xdev xp' = xp_xdev xp"
proof -
  assume a: "vi53xx_dev_init k xp s = Inr (ret, xp', s')"
  have pub: "xp_xdev xp2 = xp_xdev xp1" if "publish_board k CHAR_CTRL xp1 s1 = Inr (rv, xp2, s2)" for xp1 s1 rv xp2 s2
    using that by (auto simp: publish_board_def create_sys_device_def Let_def split: if_splits prod.splits)
  obtain res xp1 s1 where i: "identify_board k xp s = Inr (res, xp1, s1)"
    using a by (auto simp: vi53xx_dev_init_def create_cdev_def)
  then have x: "xp_xdev xp1 = xp_xdev xp" using identify_board_dev by blast
  show ?thesis
  proof (cases res)
    case (Inl rv)
    then show ?thesis using a i x by (auto simp: vi53xx_dev_init_def create_cdev_def xpdev_flag_set_def split: if_splits)
  next
    case (Inr v)
    obtain rv xp2 s2 where b: "publish_board k CHAR_CTRL xp1 s1 = Inr (rv, xp2, s2)"
      using a i Inr by (auto simp: vi53xx_dev_init_def create_cdev_def)
    then show ?thesis using a i Inr pub [OF b] x
      by (auto simp: vi53xx_dev_init_def create_cdev_def xpdev_flag_set_def split: if_splits)
  qed
qed

text \<open>
  The three courses of a probe that got its structure: the device cannot be mapped; its type or its
  device files are refused, or the settings for its channels are missing; or the board is bound.
\<close>

lemma probe_steps [consumes 3, case_names unmapped refused bound]:
  assumes "xdma_probe k u pdev info s = Inr (rv, s')" "p = k_kmalloc k (ks_trace s)" "p \<noteq> 0"
  obtains (unmapped) tr where "xdma_device_map k (Some pdev) (ks_trace s @ [KAlloc p]) = (None, tr)" "rv = - EINVAL"
      "s' = s\<lparr>ks_trace := tr @ [KFree p], ks_xpdevs := (ks_xpdevs s)(p := None)\<rparr>"
    | (refused) xdev tr ret xp1 s3 where "xdma_device_map k (Some pdev) (ks_trace s @ [KAlloc p]) = (Some xdev, tr)"
      "vi53xx_dev_init k (fresh_board pdev\<lparr>xp_xdev := Some xdev\<rparr>)
         (s\<lparr>ks_xpdevs := (ks_xpdevs s)(p \<mapsto> fresh_board pdev), ks_trace := tr\<rparr>) = Inr (ret, xp1, s3)"
      "ret < 0 \<or> \<not> info" "probe_err_out p (- EINVAL) (store_xpdev p xp1 s3) = Inr (rv, s')"
    | (bound) xdev tr ret xp1 s3 x s5 where "xdma_device_map k (Some pdev) (ks_trace s @ [KAlloc p]) = (Some xdev, tr)"
      "vi53xx_dev_init k (fresh_board pdev\<lparr>xp_xdev := Some xdev\<rparr>)
         (s\<lparr>ks_xpdevs := (ks_xpdevs s)(p \<mapsto> fresh_board pdev), ks_trace := tr\<rparr>) = Inr (ret, xp1, s3)"
      "\<not> ret < 0" "info" "xdma_channel_init k u True xdev (store_xpdev p xp1 s3) = Inr (0, x, s5)" "rv = 0"
      "s' = s5\<lparr>ks_xpdevs := (ks_xpdevs s5)(p \<mapsto> xp1\<lparr>xp_xdev := Some x\<rparr>), ks_devices := p # ks_devices s5,
         ks_drvdata := (ks_drvdata s5)(pdev \<mapsto> p), ks_trace := ks_trace s5 @ [ListAdd p, SetDrvdata p]\<rparr>"
proof -
  let ?s1 = "s\<lparr>ks_trace := ks_trace s @ [KAlloc p], ks_xpdevs := (ks_xpdevs s)(p \<mapsto> fresh_board pdev)\<rparr>"
  have al: "xpdev_alloc k pdev s = (p, ?s1)"
    using assms(2,3) by (simp add: xpdev_alloc_def fresh_board_def Let_def)
  obtain xd tr where dm: "xdma_device_map k (Some pdev) (ks_trace s @ [KAlloc p]) = (xd, tr)" by force
  let ?s2 = "s\<lparr>ks_xpdevs := (ks_xpdevs s)(p \<mapsto> fresh_board pdev), ks_trace := tr\<rparr>"
  have dr: "deref_xpdev p ?s2 = Inr (fresh_board pdev)" using assms(3) by (simp add: deref_xpdev_def)
  show thesis
  proof (cases xd)
    case None
    have "probe_err_out p (- EINVAL) ?s2 = Inr (rv, s')" using assms(1,3) by (simp add: xdma_probe_def al dm None)
    then show thesis
      by (intro unmapped [OF dm [unfolded None]])
        (auto simp: probe_err_out_def xpdev_free_def assms(3) dr xdma_device_umap_def)
  next
    case (Some xdev)
    obtain ret xp1 s3 where di: "vi53xx_dev_init k (fresh_board pdev\<lparr>xp_xdev := Some xdev\<rparr>) ?s2 = Inr (ret, xp1, s3)"
      using assms(1,3) by (auto simp: xdma_probe_def al dm Some dr)
    have xd: "xp1\<lparr>xp_xdev := Some xdev\<rparr> = xp1" using dev_init_xdev [OF di] by simp
    show thesis
    proof (cases "ret < 0 \<or> \<not> info")
      case True
      have "store_xpdev p xp1 (store_xpdev p xp1 s3) = store_xpdev p xp1 s3" by (simp add: store_xpdev_def)
      then have "probe_err_out p (- EINVAL) (store_xpdev p xp1 s3) = Inr (rv, s')" using assms(1,3) True xd
        by (cases "ret < 0") (simp_all add: xdma_probe_def al dm Some dr di xdma_channel_init_def Let_def)
      then show thesis using True by (intro refused [OF dm [unfolded Some] di])
    next
      case False
      then have info: info and nret: "\<not> ret < 0" by simp_all
      have "bindR (xdma_channel_init k u True xdev (store_xpdev p xp1 s3)) (\<lambda>(ret, xdev1, s5).
         let s6 = store_xpdev p (xp1\<lparr>xp_xdev := Some xdev1\<rparr>) s5 in
         if ret \<noteq> 0 then probe_err_out p (- EINVAL) s6
         else Inr (0, s6\<lparr>ks_devices := p # ks_devices s6, ks_drvdata := (ks_drvdata s6)(pdev \<mapsto> p),
                        ks_trace := ks_trace s6 @ [ListAdd p, SetDrvdata p]\<rparr>)) = Inr (rv, s')"
        using assms(1,3) nret info by (simp add: xdma_probe_def al dm Some dr di Let_def)
      then obtain x s5 where ci: "xdma_channel_init k u True xdev (store_xpdev p xp1 s3) = Inr (0, x, s5)" and "rv = 0"
        "s' = s5\<lparr>ks_xpdevs := (ks_xpdevs s5)(p \<mapsto> xp1\<lparr>xp_xdev := Some x\<rparr>), ks_devices := p # ks_devices s5,
         ks_drvdata := (ks_drvdata s5)(pdev \<mapsto> p), ks_trace := ks_trace s5 @ [ListAdd p, SetDrvdata p]\<rparr>"
        by (auto simp: store_xpdev_def Let_def xdma_channel_init_def)
      then show thesis by (intro bound [OF dm [unfolded Some] di nret info ci])
    qed
  qed
qed

text \<open>A probe without channel settings does not succeed.\<close>

lemma probe_needs_info: "xdma_probe k u pdev info s = Inr (0, s') \<Longrightarrow> info"
  by (cases info) (auto simp: xdma_probe_def xpdev_alloc_def xdma_channel_init_def Let_def
      dest!: probe_err_result(1) split: if_splits option.splits prod.splits)

section \<open>A board that was probed\<close>

text \<open>What the kernel holds for a bound board, and what its structures say.\<close>

definition board_held :: "u64 \<Rightarrow> xdma_pci_dev \<Rightarrow> xdma_dev \<Rightarrow> resource \<Rightarrow> int" where
  "board_held p xp x r = (if r = RMem p then 1 else 0) + maps x r +
     (if r \<in> {RRegions, REnabled, RMem (xd_addr x)} then 1 else 0) +
     cdev_held (cdevno (ctrl_cdev xp)) r + xdev_dma x r"

text \<open>The two BARs that the library can reach are mapped.\<close>

definition bars_mapped :: "xdma_dev \<Rightarrow> bool" where
  "bars_mapped x \<longleftrightarrow> 1 < length (bar x) \<and> bar x ! 0 \<noteq> 0 \<and> bar x ! 1 \<noteq> 0"

text \<open>Without a first BAR the type of the board cannot be read.\<close>

lemma dev_init_needs_bar0:
  assumes "vi53xx_dev_init k xp s = Inr (ret, xp', s')" "xp_xdev xp = Some xdev" "0 < length (bar xdev)"
  shows "bar xdev ! 0 \<noteq> 0"
proof
  assume "bar xdev ! 0 = 0"
  then have "identify_board k xp s = Inl NullDeref"
    using assms(2,3) by (simp add: identify_board_def reg_simps Let_def)
  then show False using assms(1) by (simp add: vi53xx_dev_init_def create_cdev_def)
qed

definition bound :: "u64 \<Rightarrow> pci_dev \<Rightarrow> xdma_pci_dev \<Rightarrow> xdma_dev \<Rightarrow> kstate \<Rightarrow> bool" where
  "bound p pdev xp x s \<longleftrightarrow> p \<noteq> 0 \<and> ks_drvdata s pdev = Some p \<and> ks_xpdevs s p = Some xp \<and> xp_pdev xp = pdev \<and>
     xp_xdev xp = Some x \<and> length (fmap xp) = 2 \<and> (\<forall>row \<in> set (fmap xp). length row = 4) \<and>
     bars_mapped x \<and> releasable x \<and> got_regions x = 1 \<and> regions_in_use x = 0 \<and>
     magic (ctrl_cdev xp) = MAGIC_CHAR \<and> sys_device (ctrl_cdev xp) \<noteq> 0 \<and> xpdev_flag_test CDEV_CTRL xp \<noteq> 0 \<and>
     ks_es_cdev s \<noteq> None"

lemma bound_fmap_readable: "bound p pdev xp x s \<Longrightarrow> fmap_readable pdev s"
proof -
  assume b: "bound p pdev xp x s"
  obtain r0 r1 where f: "fmap xp = [r0, r1]" using b two_elems by (auto simp: bound_def dest!: two_elems)
  then show ?thesis using b by (auto simp: fmap_readable_def fmap_entry_def deref_xpdev_def bound_def)
qed

lemma probe_bound:
  assumes "xdma_probe k u pdev info s = Inr (0, s')" "map_option ec_class (ks_es_cdev s) = Some ClassOk"
  obtains xp x where "bound (k_kmalloc k (ks_trace s)) pdev xp x s'"
    "\<And>r. held (ks_trace s') r = held (ks_trace s) r + board_held (k_kmalloc k (ks_trace s)) xp x r"
    "ks_devices s' = k_kmalloc k (ks_trace s) # ks_devices s"
proof -
  define p where "p = k_kmalloc k (ks_trace s)"
  have nz: "p \<noteq> 0" using assms(1) by (auto simp: xdma_probe_def xpdev_alloc_def Let_def p_def)
  from assms(1) p_def nz show thesis
  proof (cases rule: probe_steps)
    case (bound xdev tr ret xp1 s3 x s5)
    let ?s2 = "s\<lparr>ks_xpdevs := (ks_xpdevs s)(p \<mapsto> fresh_board pdev), ks_trace := tr\<rparr>"
    have c: "map_option ec_class (ks_es_cdev ?s2) = Some ClassOk" using assms(2) by simp
    note D = dev_init_result [OF bound(2) c, simplified]
    have fresh: "fresh_xdev xdev" by (rule device_map_fresh [OF bound(1)])
    have len: "length (bar xdev) = XDMA_BAR_NUM" using fresh by (simp add: fresh_xdev_def xdev_wf_def)
    have b1: "bar1_ok xdev"
      using channel_init_needs_bar1 [OF fresh, of k u "store_xpdev p xp1 s3"] bound(5) len
      by (cases "bar xdev ! 1 = 0") (auto simp: bar1_ok_def)
    have ci: "dma_frame (store_xpdev p xp1 s3) s5" "releasable x" "bar x = bar xdev"
      "held (ks_trace s5) r = held (ks_trace (store_xpdev p xp1 s3)) r + xdev_dma x r" for r
      by (rule all_channels_result [OF fresh b1, of k u "store_xpdev p xp1 s3"]; use bound(5) in simp)+
    note K = channel_init_keeps [OF bound(5)] and F = dma_frame_fields [OF ci(1)]
    let ?xp = "xp1\<lparr>xp_xdev := Some x\<rparr>"
    have M: "got_regions xdev = 1 \<and> regions_in_use xdev = 0 \<and> held tr r =
        held (ks_trace s @ [KAlloc p]) r + maps xdev r + (if r \<in> {RRegions, REnabled, RMem (xd_addr xdev)} then 1 else 0)" for r
      using device_map_cases [OF bound(1), of r] by simp
    have "0 < length (bar xdev)" using len by simp
    then have "bars_mapped x"
      using dev_init_needs_bar0 [OF bound(2)] b1 ci(3) by (simp add: bars_mapped_def bar1_ok_def)
    moreover have "ks_es_cdev s3 \<noteq> None" using D c by (auto simp: same_tables_def)
    ultimately have bd: "bound p pdev ?xp x s'"
      using nz D bound(3) ci(2,3) K M F by (simp add: bound_def bound(7) same_board_def store_xpdev_def xpdev_flag_test_def)
    have h: "held (ks_trace s') r = held (ks_trace s) r + board_held p ?xp x r" for r
      using D bound(3) ci(4) [of r] M [of r] K nz by (simp add: bound(7) board_held_def store_xpdev_def)
    show thesis
      by (rule that [of ?xp x, folded p_def, OF bd h]) (use F D in \<open>simp add: bound(7) store_xpdev_def same_tables_def\<close>)
  qed (auto dest: probe_err_result(1))
qed

section \<open>Releasing a bound board\<close>

lemma dev_clean_bound:
  assumes "bound p pdev xp x s"
  obtains tr where "vi53xx_dev_clean xp s = Inr (s\<lparr>ks_trace := tr\<rparr>)"
    "\<And>r. held tr r = held (ks_trace s) r - cdev_held (cdevno (ctrl_cdev xp)) r"
proof -
  let ?d = "cdevno (ctrl_cdev xp)"
  let ?tr = "ks_trace s @ [DeviceDestroy ?d, CdevDel ?d]"
  have e: "vi53xx_dev_clean xp s = Inr (s\<lparr>ks_trace := ?tr\<rparr>)"
    using assms by (auto simp: vi53xx_dev_clean_def destroy_cdev_def destroy_xcdev_def bound_def derefR_def)
  have h: "held ?tr r = held (ks_trace s) r - cdev_held ?d r" for r
    by (auto simp: cdev_held_def)
  show thesis by (rule that [OF e h])
qed

lemma umap_released:
  assumes "release_step r x s x' s'" "xdev_dma x' r = 0" "got_regions x = 1" "regions_in_use x = 0"
  shows "held (xdma_device_umap (Some x') (ks_trace s')) r = held (ks_trace s) r - xdev_dma x r - maps x r
    - (if r \<in> {RRegions, REnabled, RMem (xd_addr x)} then 1 else 0)"
proof -
  obtain c h where x': "x' = x\<lparr>C2H_dma_cfg := c, H2C_dma_cfg := h\<rparr>"
    using assms(1) by (auto simp: release_step_def)
  have len: "length (bar x') = XDMA_BAR_NUM" using assms(1) by (simp add: release_step_def releasable_def xdev_wf_def)
  have m: "maps x' r = maps x r" by (simp add: maps_def x' split: resource.splits)
  have "held (ks_trace s') r = held (ks_trace s) r - xdev_dma x r" using assms(1,2) by (simp add: release_step_def)
  then show ?thesis using assms(3,4) by (simp add: held_device_umap [OF len] m) (simp add: x')
qed

lemma release_bound:
  assumes b: "bound p pdev xp x s"
  obtains s' where "release_board p s = Inr s'" "ks_xpdevs s' p = None" "ks_devices s' = ks_devices s"
    "ks_drvdata s' = ks_drvdata s" "\<And>r. held (ks_trace s') r = held (ks_trace s) r - board_held p xp x r"
proof -
  obtain tr where c: "vi53xx_dev_clean xp s = Inr (s\<lparr>ks_trace := tr\<rparr>)"
    "\<And>r. held tr r = held (ks_trace s) r - cdev_held (cdevno (ctrl_cdev xp)) r" by (rule dev_clean_bound [OF b]) (rule that, assumption+)
  let ?s1 = "s\<lparr>ks_trace := tr\<rparr>"
  have "bound p pdev xp x ?s1" using b by (simp add: bound_def)
  note f = free_resource_released [OF _ bound_fmap_readable [OF this], of x]
  have rel: "releasable x" using b by (simp add: bound_def)
  obtain x' s2 where fr: "xdma_free_resource pdev (Some x) ?s1 = Inr (Some x', s2)" using f [OF rel] by blast
  have st: "release_step r x ?s1 x' s2 \<and> xdev_dma x' r = 0" for r using f [OF rel, of r] by (simp add: fr)
  then have F: "ks_devices s2 = ks_devices s" "ks_drvdata s2 = ks_drvdata s"
    using dma_frame_fields [of ?s1 s2] by (simp_all add: release_step_def)
  let ?xp = "xp\<lparr>xp_xdev := Some x'\<rparr>"
  let ?s' = "s2\<lparr>ks_trace := xdma_device_umap (Some x') (ks_trace s2) @ [KFree p], ks_xpdevs := (ks_xpdevs s2)(p := None)\<rparr>"
  have run: "release_board p s = Inr ?s'"
    using b by (simp add: release_board_def deref_xpdev_def bound_def c(1) fr xpdev_free_def store_xpdev_def Let_def)
  have h: "held (ks_trace ?s') r = held (ks_trace s) r - board_held p xp x r" for r
    using umap_released [of r x ?s1 x' s2] st [of r] b c(2) [of r] by (simp add: bound_def board_held_def)
  show thesis by (rule that [OF run _ _ _ h]) (simp_all add: F)
qed

text \<open>A board that could be mapped got its regions.\<close>

lemma device_map_regions:
  "xdma_device_map k (Some pdev) tr = (Some x, tr') \<Longrightarrow> \<not> regions_refused k tr"
  by (auto simp: xdma_device_map_def alloc_dev_instance_def request_regions_def regions_refused_def Let_def
      split: prod.splits if_splits)

section \<open>When probing succeeds\<close>

text \<open>The kernel gives what publishing a device asks for.\<close>

definition publishes :: "kapi \<Rightarrow> bool" where
  "publishes k \<longleftrightarrow> (\<forall>tr. k_kobject_set_name k tr = 0 \<and> k_cdev_add k tr = 0 \<and> k_device_create k tr \<noteq> 0)"

lemma publish_board_works:
  assumes "publishes k" "map_option ec_class (ks_es_cdev s) = Some ClassOk"
  shows "\<exists>xp' s'. publish_board k CHAR_CTRL xp s = Inr (0, xp', s')"
proof -
  obtain es where "ks_es_cdev s = Some es" "ec_class es = ClassOk" using assms(2) by auto
  then show ?thesis using assms(1) by (simp add: publish_board_def publishes_def create_sys_device_def Let_def split_def)
qed

lemma dev_init_works:
  assumes "xp_xdev xp = Some xdev" "0 < length (bar xdev)" "bar xdev ! 0 \<noteq> 0" "steady k" "publishes k"
    "table_ok (ks_boards s)" "ks_es_cdev s = Some es" "ec_class es = ClassOk" "length (ec_major es) = BOARD_TEPE_NUM"
    "drv_get_board_name (k_io k (ks_trace s) (reg_addr (bar xdev ! 0) DEVICE_BOARD_TYPE)) = Some nm"
  obtains xp' s' where "vi53xx_dev_init k xp s = Inr (0, xp', s')"
proof -
  let ?dt = "k_io k (ks_trace s) (reg_addr (bar xdev ! 0) DEVICE_BOARD_TYPE)"
  obtain i where i: "i < 3" "?dt = known_types ! i" by (rule known_index [OF assms(10)])
  obtain xp1 s1 where a: "identify_board k xp s = Inr (Inr (), xp1, s1)"
    by (rule identify_board_known [OF assms(1) refl assms(2-4,6,7,9) refl assms(10) i]) blast
  have "map_option ec_class (ks_es_cdev s1) = Some ClassOk" using identify_board_state [OF a] assms(7,8) by simp
  then obtain xp2 s2 where "publish_board k CHAR_CTRL xp1 s1 = Inr (0, xp2, s2)"
    using publish_board_works [OF assms(5)] by blast
  then show thesis using a by (intro that [of "xpdev_flag_set CDEV_CTRL xp2" s2]) (simp add: vi53xx_dev_init_def create_cdev_def)
qed

lemma probe_works:
  assumes "k_kmalloc k (ks_trace s) = p" "p \<noteq> 0" "xdma_device_map k (Some pdev) (ks_trace s @ [KAlloc p]) = (Some xdev, tr)"
    "bar xdev ! 0 \<noteq> 0" "bar xdev ! 1 \<noteq> 0" "steady k" "publishes k"
    "table_ok (ks_boards s)" "ks_es_cdev s = Some es" "ec_class es = ClassOk" "length (ec_major es) = BOARD_TEPE_NUM"
    "drv_get_board_name (k_io k tr (reg_addr (bar xdev ! 0) DEVICE_BOARD_TYPE)) = Some nm"
  shows "\<exists>s'. xdma_probe k u pdev True s = Inr (0, s') \<and> ks_drvdata s' pdev = Some p \<and> ks_devices s' = p # ks_devices s"
proof -
  let ?xp = "fresh_board pdev"
  define s1 where "s1 = s\<lparr>ks_trace := ks_trace s @ [KAlloc p], ks_xpdevs := (ks_xpdevs s)(p \<mapsto> ?xp)\<rparr>"
  have al: "xpdev_alloc k pdev s = (p, s1)"
    using assms(1,2) by (simp add: xpdev_alloc_def Let_def s1_def fresh_board_def)
  have fresh: "fresh_xdev xdev" by (rule device_map_fresh [OF assms(3)])
  have len: "length (bar xdev) = XDMA_BAR_NUM" using fresh by (simp add: fresh_xdev_def xdev_wf_def)
  obtain xp1 s3 where di: "vi53xx_dev_init k (?xp\<lparr>xp_xdev := Some xdev\<rparr>) (s1\<lparr>ks_trace := tr\<rparr>) = Inr (0, xp1, s3)"
    by (rule dev_init_works [of "?xp\<lparr>xp_xdev := Some xdev\<rparr>" xdev k "s1\<lparr>ks_trace := tr\<rparr>" es nm])
      (use assms len in \<open>simp_all add: s1_def\<close>)
  have b1: "bar1_ok xdev" using assms(5) len by (simp add: bar1_ok_def)
  obtain x s5 where ci: "xdma_channel_init k u True xdev (store_xpdev p xp1 s3) = Inr (0, x, s5)"
    by (rule all_channels_result [OF fresh b1, of k u "store_xpdev p xp1 s3"]) blast
  have m: "xdma_device_map k (Some pdev) (ks_trace s1) = (Some xdev, tr)" using assms(3) by (simp add: s1_def)
  have dr: "deref_xpdev p (s1\<lparr>ks_trace := tr\<rparr>) = Inr ?xp" using assms(2) by (simp add: deref_xpdev_def s1_def)
  have c: "map_option ec_class (ks_es_cdev s) = Some ClassOk" using assms(9,10) by simp
  obtain s' where run: "xdma_probe k u pdev True s = Inr (0, s')"
    using assms(2) by (auto simp: xdma_probe_def al m dr di ci Let_def)
  then show ?thesis
    using probe_bound [OF run c] unfolding assms(1) bound_def by metis
qed

text \<open>The kernel of the example, with allocators of the reader's choice.\<close>

abbreviation (input) ram_with :: "(trace \<Rightarrow> u64) \<Rightarrow> (trace \<Rightarrow> nat \<Rightarrow> (u64 \<times> u64) option) \<Rightarrow> kapi" where
  "ram_with f g \<equiv> ram_kapi\<lparr>k_kmalloc := f, k_dma_alloc := g\<rparr>"

lemma ram_with_own: "ram_with (k_kmalloc ram_kapi) (k_dma_alloc ram_kapi) = ram_kapi"
  by simp

lemma example_map_bars:
  "\<exists>x' tr'. map_bars (ram_with f g) (zero_xdev\<lparr>xd_addr := p, got_regions := 1\<rparr>) tr = (0, x', tr') \<and>
     bar x' = [0x1000000, 0x2000000, 0, 0, 0, 0] \<and> (\<forall>a. ram_io tr' a = ram_io tr a)"
proof -
  let ?k = "ram_with f g"
  have len: "k_pci_resource_len ram_kapi 0 = 0x100000" "k_pci_resource_len ram_kapi (Suc 0) = 0x100000"
    "\<And>i. 1 < i \<Longrightarrow> k_pci_resource_len ram_kapi i = 0" "\<And>tr i. k_pci_iomap ram_kapi tr i = of_nat (i + 1) * 0x1000000"
    by (simp_all add: ram_kapi_def)
  have r6: "replicate XDMA_BAR_NUM (0 :: u64) = [0, 0, 0, 0, 0, 0]" by (simp add: numeral_eq_Suc)
  have io: "ram_io (tr @ [Iomap i b, Iomap j c]) a = ram_io tr a" for i b j c a
    by (simp add: ram_io_def last_write_append split: option.splits)
  have skip: "map_from ?k i x t = map_from ?k (Suc i) (x\<lparr>bar := (bar x)[i := 0]\<rparr>) t" if "1 < i" "i < XDMA_BAR_NUM" for i x t
    using that len by (subst map_from.simps) (simp add: map_single_bar_def)
  have fin: "map_from ?k XDMA_BAR_NUM x t = (0, x, t)" for x t
    by (subst map_from.simps) simp
  show ?thesis
    by (simp add: map_bars_def map_from.simps [of _ 0] map_from.simps [of _ "Suc 0"] map_single_bar_def len s32_id
        skip [of 2, simplified] skip [of 3, simplified] skip [of 4, simplified] skip [of 5, simplified]
        skip [of "Suc (Suc 0)", simplified] fin zero_xdev_def r6 io Let_def numeral_2_eq_2 [symmetric])
qed

lemma example_device_map_with:
  assumes "f (ks_trace (example_kernel dt) @ [KAlloc 2]) = 3"
  shows "\<exists>tr x. xdma_device_map (ram_with f g) (Some example_pci) (ks_trace (example_kernel dt) @ [KAlloc 2]) = (Some x, tr) \<and>
     bar x ! 0 = 0x1000000 \<and> bar x ! 1 = 0x2000000 \<and> k_io (ram_with f g) tr (reg_addr (bar x ! 0) DEVICE_BOARD_TYPE) = dt"
proof -
  let ?tr = "ks_trace (example_kernel dt) @ [KAlloc 2, KAlloc 3, PciEnable, PciSetMaster, RegionsGot]"
  obtain x tr' where m: "map_bars (ram_with f g) (zero_xdev\<lparr>xd_addr := 3, got_regions := 1\<rparr>) ?tr = (0, x, tr')"
    "bar x = [0x1000000, 0x2000000, 0, 0, 0, 0]" "\<And>a. ram_io tr' a = ram_io ?tr a"
    using example_map_bars [of g f 3 ?tr] by blast
  have "xdma_device_map (ram_with f g) (Some example_pci) (ks_trace (example_kernel dt) @ [KAlloc 2]) =
      (Some x, tr' @ [ConsistentMask (mask 64)])"
    using m(1) assms by (simp add: xdma_device_map_def alloc_dev_instance_def request_regions_def set_dma_mask_def
        ram_kapi_def [THEN arg_cong, of k_pci_enable_device]
        ram_kapi_def [THEN arg_cong, of k_pci_request_regions] ram_kapi_def [THEN arg_cong, of k_pci_set_dma_mask]
        example_kernel_def Let_def)
  moreover have "ram_io (tr' @ [ConsistentMask (mask 64)]) a = ram_io tr' a" for a
    by (simp add: ram_io_def last_write_append split: option.splits)
  moreover have "ram_io ?tr (reg_addr 0x1000000 DEVICE_BOARD_TYPE) = dt"
    by (simp add: ram_io_def example_kernel_def)
  ultimately show ?thesis using m(2,3) by (simp add: ram_kapi_def [THEN arg_cong, of k_io])
qed

lemma example_device_map:
  "\<exists>tr x. xdma_device_map ram_kapi (Some example_pci) (ks_trace (example_kernel dt) @ [KAlloc 2]) = (Some x, tr) \<and>
     bar x ! 0 = 0x1000000 \<and> bar x ! 1 = 0x2000000 \<and> k_io ram_kapi tr (reg_addr (bar x ! 0) DEVICE_BOARD_TYPE) = dt"
proof -
  have "k_kmalloc ram_kapi (ks_trace (example_kernel dt) @ [KAlloc 2]) = 3" by (simp add: ram_kapi_def example_kernel_def)
  from example_device_map_with [of "k_kmalloc ram_kapi", OF this, of "k_dma_alloc ram_kapi"] show ?thesis by (simp only: ram_with_own)
qed

text \<open>The example board with the kernel that grants everything.\<close>

lemma example_publishes: "publishes ram_kapi"
  by (simp add: publishes_def ram_kapi_def)

lemma example_kernel_fields:
  "k_kmalloc ram_kapi (ks_trace (example_kernel dt)) = 2" "(2 :: u64) \<noteq> 0"
  "ks_es_cdev (example_kernel dt) = Some (the (ks_es_cdev (example_kernel dt)))"
  "ec_class (the (ks_es_cdev (example_kernel dt))) = ClassOk"
  "length (ec_major (the (ks_es_cdev (example_kernel dt)))) = BOARD_TEPE_NUM"
  by (simp_all add: ram_kapi_def example_kernel_def)


section \<open>When probing fails\<close>

text \<open>The device number that goes live in the course of a probe, if one does.\<close>

definition live_number :: "kapi \<Rightarrow> pci_dev \<Rightarrow> kstate \<Rightarrow> u32 option" where
  "live_number k pdev s =
     (let p = k_kmalloc k (ks_trace s); (xd, tr) = xdma_device_map k (Some pdev) (ks_trace s @ [KAlloc p])
      in case xd of None \<Rightarrow> None
         | Some xdev \<Rightarrow> (case vi53xx_dev_init k (fresh_board pdev\<lparr>xp_xdev := Some xdev\<rparr>)
               (s\<lparr>ks_xpdevs := (ks_xpdevs s)(p \<mapsto> fresh_board pdev), ks_trace := tr\<rparr>) of
             Inl f \<Rightarrow> None
           | Inr (ret, xp1, s3) \<Rightarrow> if ret < 0 then None else Some (cdevno (ctrl_cdev xp1))))"

definition leaked_number :: "kapi \<Rightarrow> pci_dev \<Rightarrow> bool \<Rightarrow> kstate \<Rightarrow> u32 option" where
  "leaked_number k pdev info s = (if info \<or> k_kmalloc k (ks_trace s) = 0 then None else live_number k pdev s)"

lemma leaked_with_info [simp]: "leaked_number k pdev True s = None"
  by (simp add: leaked_number_def)

lemma failed_probe_result:
  assumes "xdma_probe k u pdev info s = Inr (rv, s')" "rv \<noteq> 0" "map_option ec_class (ks_es_cdev s) = Some ClassOk"
    "p = k_kmalloc k (ks_trace s)"
  shows "rv \<in> {- ENOMEM, - EINVAL} \<and> ks_devices s' = ks_devices s \<and> ks_drvdata s' = ks_drvdata s \<and>
    (p \<noteq> 0 \<longrightarrow> ks_xpdevs s' = (ks_xpdevs s)(p := None)) \<and>
    (\<forall>r. held (ks_trace s') r = held (ks_trace s) r +
       (if r = REnabled \<and> p \<noteq> 0 \<and> regions_refused k (ks_trace s @ [KAlloc p]) then 1 else 0) +
       (case leaked_number k pdev info s of None \<Rightarrow> 0 | Some d \<Rightarrow> cdev_held d r))"
proof (cases "p = 0")
  case True
  then show ?thesis using assms(1,4) by (auto simp: xdma_probe_def xpdev_alloc_def leaked_number_def Let_def)
next
  case nz: False
  from assms(1,4) nz show ?thesis
  proof (cases rule: probe_steps)
    case (unmapped tr)
    then have "leaked_number k pdev info s = None" by (simp add: leaked_number_def live_number_def assms(4) [symmetric] Let_def)
    then show ?thesis using nz device_map_cases [OF unmapped(1)] unmapped by simp
  next
    case (refused xdev tr ret xp1 s3)
    let ?s2 = "s\<lparr>ks_xpdevs := (ks_xpdevs s)(p \<mapsto> fresh_board pdev), ks_trace := tr\<rparr>"
    let ?leak = "\<lambda>r. case leaked_number k pdev info s of None \<Rightarrow> 0 | Some d \<Rightarrow> cdev_held d r"
    have c: "map_option ec_class (ks_es_cdev ?s2) = Some ClassOk" using assms(3) by simp
    note D = dev_init_result [OF refused(2) c, simplified]
    have "xp_xdev xp1 = Some xdev" using D by (simp add: same_board_def)
    then have out: "(rv, s') = (- EINVAL, s3\<lparr>ks_trace := xdma_device_umap (Some xdev) (ks_trace s3) @ [KFree p],
        ks_xpdevs := (ks_xpdevs s3)(p := None)\<rparr>)"
      using refused(4) nz by (simp add: probe_err_out_def xpdev_free_def store_xpdev_def deref_xpdev_def)
    have X: "length (bar xdev) = XDMA_BAR_NUM \<and> got_regions xdev = 1 \<and> regions_in_use xdev = 0 \<and> held tr r =
        held (ks_trace s @ [KAlloc p]) r + maps xdev r + (if r \<in> {RRegions, REnabled, RMem (xd_addr xdev)} then 1 else 0)" for r
      using device_map_cases [OF refused(1), of r] by simp
    have nr: "\<not> regions_refused k (ks_trace s @ [KAlloc p])" by (rule device_map_regions [OF refused(1)])
    have leak: "leaked_number k pdev info s = (if info \<or> ret < 0 then None else Some (cdevno (ctrl_cdev xp1)))"
      using nz refused(1,2) by (simp add: leaked_number_def live_number_def assms(4) [symmetric] Let_def)
    have "held (ks_trace s3) r = held tr r + ?leak r" for r
      unfolding leak using D refused(3) by (cases "ret < 0") simp_all
    then have "held (xdma_device_umap (Some xdev) (ks_trace s3)) r = held (ks_trace s @ [KAlloc p]) r + ?leak r" for r
      using X [of r] by (simp add: held_device_umap)
    then show ?thesis using out nz nr D by (simp add: same_tables_def)
  qed (use assms(2) in simp)
qed

section \<open>Properties\<close>


text \<open>C5: A board of a known type is bound: when its memory can be allocated, its first two BARs are
  mapped, its class exists and the kernel publishes devices, probing returns 0 and the board is the
  driver data of its PCI device and the head of the device list. No DMA memory is needed for that.\<close>

theorem probe_succeeds:
  assumes "k_kmalloc k (ks_trace s) = p" "p \<noteq> 0" "xdma_device_map k (Some pdev) (ks_trace s @ [KAlloc p]) = (Some xdev, tr)"
    "bar xdev ! 0 \<noteq> 0" "bar xdev ! 1 \<noteq> 0" "steady k" "publishes k"
    "table_ok (ks_boards s)" "ks_es_cdev s = Some es" "ec_class es = ClassOk" "length (ec_major es) = BOARD_TEPE_NUM"
    "drv_get_board_name (k_io k tr (reg_addr (bar xdev ! 0) DEVICE_BOARD_TYPE)) = Some nm"
  shows "\<exists>s'. xdma_probe k u pdev True s = Inr (0, s') \<and> ks_drvdata s' pdev = Some p \<and> ks_devices s' = p # ks_devices s"
  by (rule probe_works [OF assms])

lemma probe_succeeds_witness:
  "\<exists>s'. xdma_probe ram_kapi (\<lambda>_. undefined) example_pci True (example_kernel ES5311_ID) = Inr (0, s') \<and>
     ks_drvdata s' example_pci = Some 2"
proof -
  let ?s = "example_kernel ES5311_ID"
  obtain tr x where m: "xdma_device_map ram_kapi (Some example_pci) (ks_trace ?s @ [KAlloc 2]) = (Some x, tr)"
    "bar x ! 0 \<noteq> 0" "bar x ! 1 \<noteq> 0" "k_io ram_kapi tr (reg_addr (bar x ! 0) DEVICE_BOARD_TYPE) = ES5311_ID"
    using example_device_map [of ES5311_ID] by auto
  have nm: "drv_get_board_name (k_io ram_kapi tr (reg_addr (bar x ! 0) DEVICE_BOARD_TYPE)) = Some ''es5311''"
    by (simp only: m(4)) (simp add: drv_get_board_name_def)
  show ?thesis
    using probe_succeeds [OF example_kernel_fields(1,2) m(1-3) ram_kapi_steady example_publishes example_table_ok
        example_kernel_fields(3-5) nm, of "\<lambda>_. undefined"] by blast
qed


text \<open>C4: Probing that fails, after any of its steps, reports -ENOMEM or -EINVAL, frees its board
  structure, never appears in the device list, and with the settings of the driver it has given
  back all it took: the structure, the mappings, the regions and the character device. Two
  exceptions leave something held: a device whose regions are in use by someone else stays
  enabled, and a probe that finds no settings for its channels leaves the character device and
  the device node that went live a moment before, although the structure around them is freed.\<close>

theorem failed_probe_balanced:
  assumes "xdma_probe k u pdev info s = Inr (rv, s')" "rv \<noteq> 0" "map_option ec_class (ks_es_cdev s) = Some ClassOk"
    "p = k_kmalloc k (ks_trace s)"
  shows "rv \<in> {- ENOMEM, - EINVAL} \<and> ks_devices s' = ks_devices s \<and> ks_drvdata s' = ks_drvdata s \<and>
    (p \<noteq> 0 \<longrightarrow> ks_xpdevs s' = (ks_xpdevs s)(p := None)) \<and>
    (\<forall>r. held (ks_trace s') r = held (ks_trace s) r +
       (if r = REnabled \<and> p \<noteq> 0 \<and> regions_refused k (ks_trace s @ [KAlloc p]) then 1 else 0) +
       (if info \<or> p = 0 then 0
        else case live_number k pdev s of None \<Rightarrow> 0 | Some d \<Rightarrow> if r = RCdev d \<or> r = RDevice d then 1 else 0))"
  using failed_probe_result [OF assms] assms(4) by (simp add: leaked_number_def cdev_held_def split: option.splits)

text \<open>The example board without settings: its device stays when its structure is gone.\<close>

lemma example_unset_probe:
  "\<exists>s'. xdma_probe ram_kapi u example_pci False (example_kernel ES5311_ID) = Inr (- EINVAL, s') \<and>
     live_number ram_kapi example_pci (example_kernel ES5311_ID) \<noteq> None"
proof -
  let ?s = "example_kernel ES5311_ID" and ?b = "fresh_board example_pci"
  note f = example_kernel_fields
  obtain tr x where m: "xdma_device_map ram_kapi (Some example_pci) (ks_trace ?s @ [KAlloc 2]) = (Some x, tr)"
    "bar x ! 0 \<noteq> 0" "k_io ram_kapi tr (reg_addr (bar x ! 0) DEVICE_BOARD_TYPE) = ES5311_ID"
    using example_device_map [of ES5311_ID] by auto
  have nm: "drv_get_board_name (k_io ram_kapi tr (reg_addr (bar x ! 0) DEVICE_BOARD_TYPE)) = Some ''es5311''"
    by (simp only: m(3)) (simp add: drv_get_board_name_def)
  have len: "length (bar x) = XDMA_BAR_NUM" using device_map_fresh [OF m(1)] by (simp add: fresh_xdev_def xdev_wf_def)
  let ?s2 = "?s\<lparr>ks_xpdevs := (ks_xpdevs ?s)(2 \<mapsto> ?b), ks_trace := tr\<rparr>"
  obtain xp1 s3 where di: "vi53xx_dev_init ram_kapi (?b\<lparr>xp_xdev := Some x\<rparr>) ?s2 = Inr (0, xp1, s3)"
    by (rule dev_init_works [of "?b\<lparr>xp_xdev := Some x\<rparr>" x ram_kapi ?s2 "the (ks_es_cdev ?s)" "''es5311''"])
      (use m(2) nm len f ram_kapi_steady example_publishes example_table_ok in simp_all)
  have al: "xpdev_alloc ram_kapi example_pci ?s =
      (2, ?s\<lparr>ks_trace := ks_trace ?s @ [KAlloc 2], ks_xpdevs := (ks_xpdevs ?s)(2 \<mapsto> ?b)\<rparr>)"
    using f(1) by (simp add: xpdev_alloc_def fresh_board_def Let_def)
  have "xdma_probe ram_kapi u example_pci False ?s = probe_err_out 2 (- EINVAL) (store_xpdev 2 (xp1\<lparr>xp_xdev := Some x\<rparr>) (store_xpdev 2 xp1 s3))"
    using m(1) di by (simp add: xdma_probe_def al deref_xpdev_def xdma_channel_init_def Let_def)
  moreover have "live_number ram_kapi example_pci ?s \<noteq> None"
    using m(1) di f(1) by (simp add: live_number_def)
  ultimately show ?thesis
    by (simp add: probe_err_out_def xpdev_free_def deref_xpdev_def store_xpdev_def Let_def)
qed

lemma failed_probe_balanced_witness:
  "\<exists>s' d. xdma_probe ram_kapi (\<lambda>_. undefined) example_pci False (example_kernel ES5311_ID) = Inr (- EINVAL, s') \<and>
     held (ks_trace s') (RMem 2) = 0 \<and> held (ks_trace s') (RCdev d) = 1"
proof -
  let ?s = "example_kernel ES5311_ID"
  obtain s' where p: "xdma_probe ram_kapi (\<lambda>_. undefined) example_pci False ?s = Inr (- EINVAL, s')"
    and l: "live_number ram_kapi example_pci ?s \<noteq> None" using example_unset_probe by blast
  obtain d where d: "live_number ram_kapi example_pci ?s = Some d" using l by blast
  have c: "map_option ec_class (ks_es_cdev ?s) = Some ClassOk" by (simp add: example_kernel_def)
  have "k_kmalloc ram_kapi (ks_trace ?s) = 2" "held (ks_trace ?s) r = 0" for r
    by (simp_all add: ram_kapi_def example_kernel_def)
  then show ?thesis using failed_probe_balanced [OF p _ c refl] p d by (intro exI [of _ s'] exI [of _ d]) simp
qed

section \<open>Unloading with a board\<close>

text \<open>
  \<open>pci_unregister_driver\<close> removes the bound boards, so unloading the module while a board is
  bound ends in the use of freed memory that every removal is.
\<close>

lemma unload_with_board_faults:
  assumes "xdma_probe k u pdev info s = Inr (0, s')" "map_option ec_class (ks_es_cdev s) = Some ClassOk"
  shows "xdma_mod_exit (pdev # pds) s' = Inl UseAfterFree"
proof -
  let ?p = "k_kmalloc k (ks_trace s)"
  obtain xp x where b: "bound ?p pdev xp x s'" by (rule probe_bound [OF assms]) blast
  obtain s'' where r: "release_board ?p s' = Inr s''" "ks_xpdevs s'' ?p = None" by (rule release_bound [OF b]) blast
  have "xdma_remove (Some pdev) s' = Inl UseAfterFree"
    using b r by (simp add: xdma_remove_def bound_def deref_xpdev_def)
  then show ?thesis by (simp add: xdma_mod_exit_def)
qed

end
