(* ===== verification/DmaEdges.thy ===== *)
theory DmaEdges
  imports DmaInit
begin

text \<open>
  What the DMA memory of a board does to the rest of the driver when there is none, and when
  it was mapped into user space (\<open>driver/libxdma.c\<close> and \<open>driver/vi53xx_xdma_drv.c\<close>).
\<close>

text \<open>Without the flag no buffer is written back.\<close>

lemma free_pdata_no_writeback:
  "free_pdata_from (Inr 0) i n cfg s = Inr (cfg', s') \<Longrightarrow>
   \<exists>es. ks_trace s' = ks_trace s @ es \<and> (\<forall>p m. MemWriteback p m \<notin> set es)"
proof (induction "Inr 0 :: int res" i n cfg s rule: free_pdata_from.induct)
  case (1 i n cfg s)
  show ?case
  proof (cases "i < n \<and> i < length (pData cfg)")
    case False
    then have "cfg' = cfg \<and> s' = s" using "1.prems"
      by (subst (asm) free_pdata_from.simps) (auto simp: nthR_def split: if_splits)
    then show ?thesis by simp
  next
    case True
    let ?p = "pData cfg ! i"
    show ?thesis
    proof (cases "?p = 0")
      case z: True
      then have "free_pdata_from (Inr 0) (Suc i) n cfg s = Inr (cfg', s')"
        using "1.prems" True by (subst (asm) free_pdata_from.simps) simp
      then show ?thesis using "1.hyps"(2) [of ?p] True z by simp
    next
      case nz: False
      then obtain phy where phy: "nthR (data_phy_addr cfg) i = Inr phy"
        and r: "free_pdata_from (Inr 0) (Suc i) n (cfg\<lparr>pData := (pData cfg)[i := 0]\<rparr>)
          (s\<lparr>ks_trace := ks_trace s @ [DmaFree ?p phy (unat (cfg_size cfg))], ks_bufs := (ks_bufs s)(?p := None)\<rparr>) = Inr (cfg', s')"
        using "1.prems" True by (subst (asm) free_pdata_from.simps) (auto simp: Let_def)
      obtain es where "ks_trace s' = (ks_trace s @ [DmaFree ?p phy (unat (cfg_size cfg))]) @ es"
        "\<forall>p m. MemWriteback p m \<notin> set es"
        using "1.hyps"(1) [OF _ _ nz refl phy refl refl] True r by auto
      then show ?thesis by (intro exI [of _ "DmaFree ?p phy (unat (cfg_size cfg)) # es"]) simp
    qed
  qed
qed

section \<open>Properties\<close>

text \<open>C33: Mapping the buffer of channel 1 into user space makes it uncached and marks that at the channel
  number 1, but releasing the channel looks at index 0: the mark is not found, the memory is given
  back without being made cacheable again. The mark is found by channel 2 instead, whose buffer was
  never touched.\<close>

theorem mmap_flag_never_read:
  assumes "ks_drvdata s pdev = Some p" "p \<noteq> 0" "ks_xpdevs s p = Some xp" "fmap xp = [row0, row1]"
    "row0 = [0, 0, 0, 0]" "row1 = [0, 0, 0, 0]" "xdev_wf xdev" "cfg = C2H_dma_cfg xdev ! 0"
    "channel cfg = 1" "direction cfg = 1" "x_dir (ks_setting s) = 1" "x_channel (ks_setting s) = 1"
  shows "\<exists>ret s'. drv_xdma_mmap k xdev pdev sz s = Inr (ret, s') \<and>
    ks_trace s' = ks_trace s @ [MemUncached (pData cfg ! 0) (unat (drop_bit 12 (cfg_size cfg)))] \<and>
    fmap_entry pdev C2H_DIR 0 s' = Inr 0 \<and> fmap_entry pdev C2H_DIR 1 s' = Inr 1 \<and>
    (\<forall>x' s''. xdma_free_c2h_pdata xdev 0 n pdev s' = Inr (x', s'') \<longrightarrow>
       (\<exists>es. ks_trace s'' = ks_trace s' @ es \<and> (\<forall>a m. MemWriteback a m \<notin> set es)))"
proof -
  have len: "length (C2H_dma_cfg xdev) = 2" using assms(7) by (simp add: xdev_wf_def)
  then have "cfg \<in> set (C2H_dma_cfg xdev)" using assms(8) by (simp add: nth_mem)
  then have wf: "length (pData cfg) = 64" "length (data_phy_addr cfg) = 64" using assms(7) by (auto simp: xdev_wf_def cfg_wf_def)
  let ?tr = "ks_trace s @ [MemUncached (pData cfg ! 0) (unat (drop_bit 12 (cfg_size cfg)))]"
  let ?xp = "xp\<lparr>fmap := [row0, [0, 1, 0, 0]]\<rparr>"
  let ?s = "s\<lparr>ks_trace := ?tr, ks_xpdevs := (ks_xpdevs s)(p \<mapsto> ?xp)\<rparr>"
  let ?ret = "k_dma_common_mmap k ?tr (pData cfg ! 0) (data_phy_addr cfg ! 0) sz"
  have run: "drv_xdma_mmap k xdev pdev sz s = Inr (?ret, ?s)"
    using assms len wf
    by (simp add: drv_xdma_mmap_def i_xdma_mmap_def get_xdma_setting_def get_xdma_cfg_def deref_xpdev_def xdma_mmap_def Let_def)
  have f: "fmap_entry pdev C2H_DIR 0 ?s = Inr 0" "fmap_entry pdev C2H_DIR 1 ?s = Inr 1"
    using assms by (simp_all add: fmap_entry_def deref_xpdev_def)
  have "\<exists>es. ks_trace s'' = ks_trace ?s @ es \<and> (\<forall>a m. MemWriteback a m \<notin> set es)"
    if "xdma_free_c2h_pdata xdev 0 n pdev ?s = Inr (x', s'')" for x' s''
    using that len free_pdata_no_writeback [of 0 n "C2H_dma_cfg xdev ! 0" ?s]
    by (auto simp: xdma_free_c2h_pdata_def f(1))
  then show ?thesis using run f by (intro exI [of _ ?ret] exI [of _ ?s]) simp
qed

lemma mmap_flag_never_read_witness:
  "\<exists>ret s'. drv_xdma_mmap ram_kapi (zero_xdev\<lparr>C2H_dma_cfg := replicate 2 (zero_cfg\<lparr>channel := 1, direction := 1\<rparr>)\<rparr>)
      example_pci 0x2000 (kstart\<lparr>ks_drvdata := [example_pci \<mapsto> 1], ks_setting := zero_xdma_info\<lparr>x_dir := 1, x_channel := 1\<rparr>,
        ks_xpdevs := [1 \<mapsto> \<lparr>xp_pdev = example_pci, xp_xdev = None,
         ctrl_cdev = zero_cdev, xp_flags = 0, xp_bus = 3, fmap = [[0, 0, 0, 0], [0, 0, 0, 0]]\<rparr>]\<rparr>) = Inr (ret, s') \<and>
    fmap_entry example_pci C2H_DIR 0 s' = Inr 0 \<and> fmap_entry example_pci C2H_DIR 1 s' = Inr 1"
proof -
  let ?c = "zero_cfg\<lparr>channel := 1, direction := 1\<rparr>"
  let ?x = "zero_xdev\<lparr>C2H_dma_cfg := replicate 2 ?c\<rparr>"
  let ?xp = "\<lparr>xp_pdev = example_pci, xp_xdev = None,
         ctrl_cdev = zero_cdev, xp_flags = 0, xp_bus = 3, fmap = [[0, 0, 0, 0], [0, 0, 0, 0]]\<rparr>"
  let ?s = "kstart\<lparr>ks_drvdata := [example_pci \<mapsto> 1], ks_setting := zero_xdma_info\<lparr>x_dir := 1, x_channel := 1\<rparr>,
        ks_xpdevs := [1 \<mapsto> ?xp]\<rparr>"
  have wf: "xdev_wf ?x" using zero_cfg_wf by (simp add: xdev_wf_def zero_xdev_def cfg_wf_def)
  have c: "?c = C2H_dma_cfg ?x ! 0" by simp
  have pr: "ks_drvdata ?s example_pci = Some 1" "(1 :: u64) \<noteq> 0" "ks_xpdevs ?s 1 = Some ?xp"
    "fmap ?xp = [[0, 0, 0, 0], [0, 0, 0, 0]]" "channel ?c = 1" "direction ?c = 1"
    "x_dir (ks_setting ?s) = 1" "x_channel (ks_setting ?s) = 1" by simp_all
  show ?thesis
    using mmap_flag_never_read [OF pr(1-4) refl refl wf c pr(5-8), of ram_kapi "0x2000"] by blast
qed

text \<open>C37: When the kernel has no DMA memory, setting up a channel still succeeds: the configuration keeps
  NULL as its buffer, and the engine is told that its descriptor is at bus address 0.\<close>

theorem dma_failure_still_programs_engine:
  assumes "\<forall>tr n. k_dma_alloc k tr n = None" "fresh_cfg cfg" "first_desc_phy_addr cfg = 0"
    "direction cfg = 0 \<or> direction cfg = 1" "channel cfg \<in> {1, 2}" "bar1_ok xdev"
    "lo = ch_reg (if direction cfg = 0 then H2C_SGDMA_DESC_LOW32_REG else C2H_SGDMA_DESC_LOW32_REG) (word_of_int (channel cfg) - 1)"
    "hi = ch_reg (if direction cfg = 0 then H2C_SGDMA_DESC_HIGH32_REG else C2H_SGDMA_DESC_HIGH32_REG) (word_of_int (channel cfg) - 1)"
  shows "\<exists>cfg' s' tr e. i_xdma_channel_init k u xdev cfg s = Inr (cfg', s') \<and> pData cfg' ! 0 = 0 \<and> pFirst_desc cfg' = 0 \<and>
    ks_trace s' = tr @ [IoWrite (reg_addr (bar xdev ! 1) lo) 0, IoWrite (reg_addr (bar xdev ! 1) hi) 0, e]"
proof -
  have b: "bar1 xdev = Inr (bar xdev ! 1)" "bar xdev ! 1 \<noteq> 0" using assms(6) bar1_mapped by (simp_all add: bar1_ok_def)
  have no: "dma_alloc_coherent k n tr = (None, tr @ [DmaAlloc 0 0 n])" for n tr
    using assms(1) by (simp add: dma_alloc_coherent_def)
  have wf: "cfg_wf cfg" "pData cfg ! 0 = 0" "pFirst_desc cfg = 0" using assms(2) by (simp_all add: fresh_cfg_def)
  then have l: "0 < length (data_len cfg)" by (simp add: cfg_wf_def)
  have dir: "uint (direction cfg) \<in> {0, 1}" using assms(4) by auto
  obtain ep sz where e: "get_ep_addr (channel cfg) (uint (direction cfg)) = Inr ep"
    "get_chanel_size (channel cfg) (uint (direction cfg)) = Inr sz"
    using dir assms(5) by (auto simp: get_ep_addr_def get_chanel_size_def ch_addr_def)
  let ?c = "cfg\<lparr>SG_desc_num := 1, ep_addr := ep, data_len := (data_len cfg)[0 := sz], cfg_size := ucast sz\<rparr>"
  let ?s = "s\<lparr>ks_trace := ks_trace s @ [DmaAlloc 0 0 (unat (cfg_size ?c))]\<rparr>"
  have i: "vi53xx_info_init k cfg s = Inr (0, ?c, ?s)"
    using l by (simp add: vi53xx_info_init_def Let_def e xdma_physical_address_init_def) (subst phys_init_from.simps, simp add: no)
  obtain t1 where p: "xdma_poll_init k xdev (channel ?c) (direction ?c) (ks_trace ?s) = Inr (0, t1)"
    using engine_calls_quiet(1) [OF assms(6)] by blast
  obtain t2 where st: "xdma_stop xdev (word_of_int (channel ?c)) (direction ?c) t1 = Inr (0, t2)"
    using engine_calls_quiet(2) [OF assms(6)] by blast
  let ?t3 = "t2 @ [DmaAlloc 0 0 32]" and ?ch = "word_of_int (channel cfg) - 1 :: u8"
  have d: "xdma_desc_alloc k u ?c (ks_descs ?s) t2 = Inr (0, ?c, ks_descs ?s, ?t3)"
    by (simp add: xdma_desc_alloc_def no Let_def)
  let ?adj = "ch_reg (if direction cfg = 0 then H2C_SGDMA_DESC_ADJA_REG else C2H_SGDMA_DESC_ADJA_REG) ?ch"
  have z: "PCI_DMA_L 0 = 0" "PCI_DMA_H 0 = 0" by (simp_all add: PCI_DMA_L_def PCI_DMA_H_def)
  have c: "xdma_cofg_desc k xdev (word_of_int (channel ?c)) ?c ?t3 = Inr (0, ?t3 @
      [IoWrite (reg_addr (bar xdev ! 1) lo) 0, IoWrite (reg_addr (bar xdev ! 1) hi) 0, IoWrite (reg_addr (bar xdev ! 1) ?adj) 0])"
    using b assms(3,7,8) by (simp add: xdma_cofg_desc_def reg_simps Let_def z)
  have "i_xdma_channel_init k u xdev cfg s = Inr (?c, ?s\<lparr>ks_trace := ?t3 @
      [IoWrite (reg_addr (bar xdev ! 1) lo) 0, IoWrite (reg_addr (bar xdev ! 1) hi) 0, IoWrite (reg_addr (bar xdev ! 1) ?adj) 0]\<rparr>)"
    using p st d c by (simp add: i_xdma_channel_init_def i with_trace_def xdma_create_transfer_def)
  then show ?thesis using wf by auto
qed

lemma dma_failure_still_programs_engine_witness:
  "\<exists>cfg' s' tr e. i_xdma_channel_init (ram_kapi\<lparr>k_dma_alloc := \<lambda>_ _. None\<rparr>) (\<lambda>_. undefined)
      (zero_xdev\<lparr>bar := [0x1000, 0x2000, 0, 0, 0, 0]\<rparr>) (zero_cfg\<lparr>channel := 1\<rparr>) kstart = Inr (cfg', s') \<and>
    ks_trace s' = tr @ [IoWrite (reg_addr 0x2000 H2C_SGDMA_DESC_LOW32_REG) 0, IoWrite (reg_addr 0x2000 H2C_SGDMA_DESC_HIGH32_REG) 0, e]"
proof -
  have f: "fresh_cfg (zero_cfg\<lparr>channel := 1\<rparr>)" using zero_cfg_fresh by (simp add: fresh_cfg_def cfg_wf_def)
  have b: "bar1_ok (zero_xdev\<lparr>bar := [0x1000, 0x2000, 0, 0, 0, 0]\<rparr>)" by (simp add: bar1_ok_def)
  have z: "first_desc_phy_addr (zero_cfg\<lparr>channel := 1\<rparr>) = 0" "direction (zero_cfg\<lparr>channel := 1\<rparr>) = 0"
    "channel (zero_cfg\<lparr>channel := 1\<rparr>) \<in> {1, 2}" by (simp_all add: zero_cfg_def)
  have n: "\<forall>tr n. k_dma_alloc (ram_kapi\<lparr>k_dma_alloc := \<lambda>_ _. None\<rparr>) tr n = None" by simp
  show ?thesis
    using dma_failure_still_programs_engine [OF n f z(1) disjI1 [OF z(2)] z(3) b refl refl, of "\<lambda>_. undefined" kstart]
    by (simp add: z(2) ch_reg_def) blast
qed

end
