(* ===== verification/ModuleLife.thy ===== *)
theory ModuleLife
  imports Probe Ledger
begin

text \<open>
  Loading and unloading the kernel module (\<open>xdma_mod_init\<close> and \<open>xdma_mod_exit\<close> of
  \<open>driver/vi53xx_xdma_drv.c\<close> with \<open>vi53xx_cdev_init\<close> and \<open>vi53xx_cdev_exit\<close>): what a load and
  an unload leave behind, and what a failed load does to the unload.
\<close>

text \<open>The entry for \<open>/proc/vi53xx\<close> and its two files, in any of the outcomes.\<close>

lemma boards_info_proc_result:
  assumes "create_boards_info_proc k tr = (rv, dir, tr')"
  shows "held tr' r = held tr r" "outside ''vi53xx'' (proc_tree tr') = outside ''vi53xx'' (proc_tree tr)"
  using assms
  by (auto simp: create_boards_info_proc_def create_board_proc_def create_instance_board_id_mmap_def below_def Let_def
      split: if_splits)

text \<open>The number ranges: the majors of the types are those of the ranges taken.\<close>

lemma alloc_regions_result:
  assumes "\<forall>tr. fst (k_alloc_chrdev_region k tr) = 0" "length (ec_major es) = BOARD_TEPE_NUM" "i \<le> BOARD_TEPE_NUM"
  shows "\<exists>es' ds. alloc_regions k i es tr = (0, es', tr @ map (\<lambda>d. ChrdevAlloc d 128) ds) \<and>
    ec_major es' = take i (ec_major es) @ map MAJOR ds \<and> length ds = BOARD_TEPE_NUM - i \<and>
    ec_class es' = ec_class es \<and> ec_addr es' = ec_addr es"
  using assms
proof (induction k i es tr rule: alloc_regions.induct)
  case (1 k i es tr)
  show ?case
  proof (cases "i < BOARD_TEPE_NUM")
    case False
    then show ?thesis using 1 by (subst alloc_regions.simps) simp
  next
    case True
    obtain d where d: "k_alloc_chrdev_region k tr = (0, d)" using "1.prems"(1) by (metis prod.collapse)
    let ?es = "es\<lparr>ec_dev := d, ec_major := (ec_major es)[i := MAJOR d]\<rparr>"
    have "\<exists>es' ds. alloc_regions k (Suc i) ?es (tr @ [ChrdevAlloc d 128]) =
          (0, es', (tr @ [ChrdevAlloc d 128]) @ map (\<lambda>d. ChrdevAlloc d 128) ds) \<and>
        ec_major es' = take (Suc i) (ec_major ?es) @ map MAJOR ds \<and> length ds = BOARD_TEPE_NUM - Suc i \<and>
        ec_class es' = ec_class ?es \<and> ec_addr es' = ec_addr ?es"
      by (rule "1.IH" [OF True d [symmetric] refl _ "1.prems"(1)]) (use 1 True in simp_all)
    then obtain es' ds where a: "alloc_regions k (Suc i) ?es (tr @ [ChrdevAlloc d 128]) =
          (0, es', (tr @ [ChrdevAlloc d 128]) @ map (\<lambda>d. ChrdevAlloc d 128) ds)"
        "ec_major es' = take (Suc i) (ec_major ?es) @ map MAJOR ds" "length ds = BOARD_TEPE_NUM - Suc i"
        "ec_class es' = ec_class ?es" "ec_addr es' = ec_addr ?es" by blast
    have "take (Suc i) (ec_major ?es) = take i (ec_major es) @ [MAJOR d]"
      using True "1.prems"(2) by (simp add: take_Suc_conv_app_nth)
    then have "ec_major es' = take i (ec_major es) @ map MAJOR (d # ds)" using a(2) by simp
    moreover have "alloc_regions k i es tr = (0, es', tr @ map (\<lambda>d. ChrdevAlloc d 128) (d # ds))"
      using True d a(1) by (subst alloc_regions.simps) simp
    ultimately show ?thesis using a(3-5) True by (intro exI [of _ es'] exI [of _ "d # ds"]) simp
  qed
qed

lemma cdev_init_result:
  assumes "k_kmalloc k (ks_trace s) = q" "q \<noteq> 0" "\<forall>tr. k_class_create k tr" "\<forall>tr. fst (k_alloc_chrdev_region k tr) = 0"
    "length (ec_major u) = BOARD_TEPE_NUM"
  obtains es ds where "vi53xx_cdev_init k u s = (0, s\<lparr>ks_es_cdev := Some es,
      ks_trace := ks_trace s @ [KAlloc q, ClassCreate True] @ map (\<lambda>d. ChrdevAlloc d 128) ds\<rparr>)" "ec_addr es = q"
    "ec_class es = ClassOk" "ec_major es = map MAJOR ds" "length ds = BOARD_TEPE_NUM"
proof -
  let ?es = "u\<lparr>ec_addr := q, ec_class := ClassOk\<rparr>"
  have "length (ec_major ?es) = BOARD_TEPE_NUM" "0 \<le> BOARD_TEPE_NUM" using assms(5) by simp_all
  from alloc_regions_result [OF assms(4) this, of "ks_trace s @ [KAlloc q, ClassCreate True]"]
  obtain es ds where "alloc_regions k 0 ?es (ks_trace s @ [KAlloc q, ClassCreate True]) =
      (0, es, (ks_trace s @ [KAlloc q, ClassCreate True]) @ map (\<lambda>d. ChrdevAlloc d 128) ds)"
    "ec_major es = take 0 (ec_major ?es) @ map MAJOR ds" "length ds = BOARD_TEPE_NUM - 0"
    "ec_class es = ec_class ?es" "ec_addr es = ec_addr ?es" by blast
  then show thesis using assms(1-3) by (intro that [where es = es and ds = ds]) (simp_all add: vi53xx_cdev_init_def Let_def)
qed

text \<open>What a load holds: the table, the numbers, the class, their ranges and the registration.\<close>

definition load_held :: "board_table \<Rightarrow> es_cdev \<Rightarrow> u32 list \<Rightarrow> resource \<Rightarrow> int" where
  "load_held bt es ds r = (case r of
     RMem a \<Rightarrow> (if a = bt_addr bt then 1 else 0) + (if a = ec_addr es then 1 else 0)
   | RClass \<Rightarrow> 1 | RDriver \<Rightarrow> 1 | RRange d n \<Rightarrow> if n = 128 then int (count_list ds d) else 0 | _ \<Rightarrow> 0)"

text \<open>What a load leaves behind when the kernel has memory, a class and device numbers.\<close>

definition loaded_state :: "kstate \<Rightarrow> board_table \<Rightarrow> es_cdev \<Rightarrow> u32 list \<Rightarrow> kstate \<Rightarrow> bool" where
  "loaded_state s bt es ds s1 \<longleftrightarrow> (\<exists>dir tr. s1 = s\<lparr>ks_boards := Some bt, ks_parent_dir := dir, ks_es_cdev := Some es, ks_trace := tr\<rparr>) \<and>
     bt_origin bt = Kmalloc \<and> bt_entries bt = init_entries \<and> bt_addr bt \<noteq> 0 \<and> ec_class es = ClassOk \<and> ec_addr es \<noteq> 0 \<and>
     ec_major es = map MAJOR ds \<and> length ds = BOARD_TEPE_NUM \<and>
     (\<forall>r. held (ks_trace s1) r = held (ks_trace s) r + load_held bt es ds r) \<and>
     outside ''vi53xx'' (proc_tree (ks_trace s1)) = outside ''vi53xx'' (proc_tree (ks_trace s))"

lemma loaded_table: "loaded_state s bt es ds s1 \<Longrightarrow> table_ok (ks_boards s1) \<and> (\<forall>t \<in> set known_types. count_of t (ks_boards s1) = 0)"
proof -
  assume l: "loaded_state s bt es ds s1"
  then have b: "ks_boards s1 = Some bt" "bt = \<lparr>bt_addr = bt_addr bt, bt_origin = bt_origin bt, bt_entries = init_entries\<rparr>"
    by (auto simp: loaded_state_def)
  then have "table_ok (ks_boards s1)" using init_table_ok by metis
  moreover have "count_of t (Some bt) = 0" if "t \<in> set known_types" for t
    using that l by (auto simp: known_types_def count_of_def loaded_state_def init_entries_def numeral_eq_Suc)
  ultimately show ?thesis using b(1) by simp
qed

lemma load_result:
  assumes "\<forall>tr. k_kmalloc k tr \<noteq> 0" "\<forall>tr. k_class_create k tr" "\<forall>tr. fst (k_alloc_chrdev_region k tr) = 0"
    "length (ec_major u) = BOARD_TEPE_NUM" "\<forall>tr. k_pci_register_driver k tr = 0"
  obtains bt es ds s1 where "loaded_state s bt es ds s1" "ks_devices s1 = ks_devices s" "ks_drvdata s1 = ks_drvdata s"
    "\<And>devs. xdma_mod_init k u devs s = bindR (probe_found k devs s1) (\<lambda>s2. Inr (0, s2))"
proof -
  define p where "p = k_kmalloc k (ks_trace s)"
  have nz: "p \<noteq> 0" using assms(1) by (simp add: p_def)
  obtain rv dir tr1 where pr: "create_boards_info_proc k (ks_trace s @ [KAlloc p]) = (rv, dir, tr1)"
    by (metis prod_cases3)
  let ?bt = "\<lparr>bt_addr = p, bt_origin = Kmalloc, bt_entries = init_entries\<rparr>"
  let ?s1 = "s\<lparr>ks_boards := Some ?bt, ks_parent_dir := dir, ks_trace := tr1\<rparr>"
  obtain es ds where c: "vi53xx_cdev_init k u ?s1 = (0, ?s1\<lparr>ks_es_cdev := Some es,
      ks_trace := ks_trace ?s1 @ [KAlloc (k_kmalloc k tr1), ClassCreate True] @ map (\<lambda>d. ChrdevAlloc d 128) ds\<rparr>)"
    "ec_addr es = k_kmalloc k tr1" "ec_class es = ClassOk" "ec_major es = map MAJOR ds" "length ds = BOARD_TEPE_NUM"
    by (rule cdev_init_result [of k ?s1 "k_kmalloc k tr1" u]) (use assms in auto)
  let ?tr = "tr1 @ [KAlloc (k_kmalloc k tr1), ClassCreate True] @ map (\<lambda>d. ChrdevAlloc d 128) ds @ [PciRegisterDriver 0]"
  let ?s2 = "s\<lparr>ks_boards := Some ?bt, ks_parent_dir := dir, ks_es_cdev := Some es, ks_trace := ?tr\<rparr>"
  have run: "xdma_mod_init k u devs s = bindR (probe_found k devs ?s2) (\<lambda>s2. Inr (0, s2))" for devs
    using nz pr c(1) assms(5)
    by (simp add: xdma_mod_init_def init_board_info_def p_def [symmetric] pci_register_driver_def Let_def)
  have q: "k_kmalloc k tr1 \<noteq> 0" using assms(1) by simp
  have h: "held ?tr r = held (ks_trace s) r + load_held ?bt es ds r" for r
    using boards_info_proc_result(1) [OF pr, of r] nz q c(2) by (simp add: load_held_def held_ranges split: resource.splits)
  have "loaded_state s ?bt es ds ?s2"
    unfolding loaded_state_def
    using h q nz c(2-5) boards_info_proc_result(2) [OF pr] by (auto simp del: held_append held_Cons)
  then show thesis by (rule that [OF _ _ _ run]) simp_all
qed

section \<open>Properties\<close>

text \<open>C6: When the kernel has memory, a class, device numbers and takes the driver, and no board is in
  the machine, loading the module returns 0 with every board counter at 0 and holds one class,
  one driver registration and three ranges of 128 device numbers; unloading it succeeds, and then
  both globals are NULL, nothing below \<open>/proc/vi53xx\<close> is left, and memory, class, registration and
  everything else is held as before loading - except the device numbers: the three ranges of 128
  stay taken, since what is unregistered is three ranges of 255 that were never taken.\<close>

theorem load_then_unload:
  assumes "\<forall>tr. k_kmalloc k tr \<noteq> 0" "\<forall>tr. k_class_create k tr" "\<forall>tr. fst (k_alloc_chrdev_region k tr) = 0"
    "length (ec_major u) = BOARD_TEPE_NUM" "\<forall>tr. k_pci_register_driver k tr = 0"
  shows "\<exists>s1 s2 ds. xdma_mod_init k u [] s = Inr (0, s1) \<and> table_ok (ks_boards s1) \<and>
    (\<forall>t \<in> set known_types. count_of t (ks_boards s1) = 0) \<and>
    held (ks_trace s1) RClass = held (ks_trace s) RClass + 1 \<and> held (ks_trace s1) RDriver = held (ks_trace s) RDriver + 1 \<and>
    length ds = 3 \<and> map_option ec_major (ks_es_cdev s1) = Some (map MAJOR ds) \<and>
    xdma_mod_exit [] s1 = Inr s2 \<and> ks_boards s2 = None \<and> ks_es_cdev s2 = None \<and>
    proc_tree (ks_trace s2) = outside ''vi53xx'' (proc_tree (ks_trace s)) \<and>
    (\<forall>r. held (ks_trace s2) r = held (ks_trace s) r +
      (case r of RRange d n \<Rightarrow> if n = 128 then int (count_list ds d)
         else if n = 255 then - int (count_list (map (\<lambda>d. MKDEV (MAJOR d) 0) ds) d) else 0 | _ \<Rightarrow> 0))"
proof -
  obtain bt es ds s1 where L: "loaded_state s bt es ds s1"
    "\<And>devs. xdma_mod_init k u devs s = bindR (probe_found k devs s1) (\<lambda>s2. Inr (0, s2))"
    by (rule load_result [OF assms, of s]) (rule that, assumption+)
  have f: "ks_boards s1 = Some bt" "ks_es_cdev s1 = Some es" "bt_origin bt = Kmalloc" "ec_class es = ClassOk"
    "ec_major es = map MAJOR ds" "length ds = 3" "\<And>r. held (ks_trace s1) r = held (ks_trace s) r + load_held bt es ds r"
    "outside ''vi53xx'' (proc_tree (ks_trace s1)) = outside ''vi53xx'' (proc_tree (ks_trace s))"
    using L(1) by (auto simp: loaded_state_def)
  have ranges: "map (\<lambda>i. ChrdevUnregister (MKDEV (ec_major es ! i) 0) 255) [0..<BOARD_TEPE_NUM] =
      map (\<lambda>d. ChrdevUnregister d 255) (map (\<lambda>d. MKDEV (MAJOR d) 0) ds)"
    by (rule nth_equalityI) (simp_all add: f(5,6))
  define tr where "tr = ks_trace s1 @ [PciUnregisterDriver, ClassDestroy] @
    map (\<lambda>d. ChrdevUnregister d 255) (map (\<lambda>d. MKDEV (MAJOR d) 0) ds) @
    [KFree (ec_addr es), ProcRemoveSubtree ''vi53xx'', KFree (bt_addr bt)]"
  let ?s2 = "s1\<lparr>ks_es_cdev := None, ks_boards := None, ks_trace := tr\<rparr>"
  have ex: "xdma_mod_exit [] s1 = Inr ?s2"
    using f(1-4) by (simp add: xdma_mod_exit_def vi53xx_cdev_exit_def board_info_exit_def remove_board_proc_def Let_def
        ranges tr_def del: map_map)
  have h: "held tr r = held (ks_trace s) r +
      (case r of RRange d n \<Rightarrow> if n = 128 then int (count_list ds d)
         else if n = 255 then - int (count_list (map (\<lambda>d. MKDEV (MAJOR d) 0) ds) d) else 0 | _ \<Rightarrow> 0)" for r
    using f(7) [of r] by (cases r) (simp_all add: tr_def held_ranges load_held_def del: map_map)
  have pt: "proc_tree tr = outside ''vi53xx'' (proc_tree (ks_trace s))"
    using f(8) by (simp add: tr_def del: map_map)
  show ?thesis
    by (rule exI [of _ s1], rule exI [of _ ?s2], rule exI [of _ ds])
      (use L(2) [of "[]"] loaded_table [OF L(1)] ex h pt f(1,2,5-7) in \<open>simp add: load_held_def\<close>)
qed

lemma load_then_unload_witness:
  "\<exists>s1 s2. xdma_mod_init (ram_kapi\<lparr>k_kmalloc := \<lambda>_. 5\<rparr>)
      \<lparr>ec_addr = 0, ec_major = [0, 0, 0], ec_class = ClassNull, ec_dev = 0, ec_device_name = [], ec_board_inst = 0\<rparr>
      [] kstart = Inr (0, s1) \<and> xdma_mod_exit [] s1 = Inr s2 \<and> held (ks_trace s2) (RMem 5) = 0 \<and>
      held (ks_trace s2) RClass = 0 \<and> proc_tree (ks_trace s2) = []"
proof -
  let ?k = "ram_kapi\<lparr>k_kmalloc := \<lambda>_. 5\<rparr>"
  have "\<forall>tr. k_kmalloc ?k tr \<noteq> 0" "\<forall>tr. k_class_create ?k tr" "\<forall>tr. fst (k_alloc_chrdev_region ?k tr) = 0"
    "length (ec_major \<lparr>ec_addr = 0, ec_major = [0, 0, 0], ec_class = ClassNull, ec_dev = 0, ec_device_name = [], ec_board_inst = 0\<rparr>) =
      BOARD_TEPE_NUM" "\<forall>tr. k_pci_register_driver ?k tr = 0"
    by (simp_all add: ram_kapi_def)
  from load_then_unload [OF this, of kstart] obtain s1 s2 ds where
    r: "xdma_mod_init ?k \<lparr>ec_addr = 0, ec_major = [0, 0, 0], ec_class = ClassNull, ec_dev = 0, ec_device_name = [], ec_board_inst = 0\<rparr>
      [] kstart = Inr (0, s1)" "xdma_mod_exit [] s1 = Inr s2"
    "proc_tree (ks_trace s2) = outside ''vi53xx'' (proc_tree (ks_trace kstart))"
    "\<And>r. held (ks_trace s2) r = held (ks_trace kstart) r +
      (case r of RRange d n \<Rightarrow> if n = 128 then int (count_list ds d)
         else if n = 255 then - int (count_list (map (\<lambda>d. MKDEV (MAJOR d) 0) ds) d) else 0 | _ \<Rightarrow> 0)" by blast
  then show ?thesis by (intro exI [of _ s1] exI [of _ s2]) (simp add: kstart_def proc_tree_def)
qed

text \<open>
  A driver that the kernel refuses: the load fails with the kernel's error, and everything the
  load took stays held; a module that failed to load is not unloaded.
\<close>

lemma refused_load_leaks:
  assumes "k_kmalloc k (ks_trace s) = p" "p \<noteq> 0" "\<forall>tr. k_pci_register_driver k tr = err" "err \<noteq> 0" "\<forall>tr. k_kmalloc k tr \<noteq> 0"
    "\<forall>tr. k_class_create k tr" "\<forall>tr. fst (k_alloc_chrdev_region k tr) = 0" "length (ec_major u) = BOARD_TEPE_NUM"
  shows "\<exists>s1. xdma_mod_init k u devs s = Inr (err, s1) \<and> held (ks_trace s1) RClass = held (ks_trace s) RClass + 1 \<and>
    held (ks_trace s) (RMem p) + 1 \<le> held (ks_trace s1) (RMem p)"
proof -
  obtain rv dir tr1 where pr: "create_boards_info_proc k (ks_trace s @ [KAlloc p]) = (rv, dir, tr1)"
    by (metis prod_cases3)
  let ?bt = "\<lparr>bt_addr = p, bt_origin = Kmalloc, bt_entries = init_entries\<rparr>"
  let ?s1 = "s\<lparr>ks_boards := Some ?bt, ks_parent_dir := dir, ks_trace := tr1\<rparr>"
  obtain es ds where c: "vi53xx_cdev_init k u ?s1 = (0, ?s1\<lparr>ks_es_cdev := Some es,
      ks_trace := ks_trace ?s1 @ [KAlloc (k_kmalloc k tr1), ClassCreate True] @ map (\<lambda>d. ChrdevAlloc d 128) ds\<rparr>)"
    by (rule cdev_init_result [of k ?s1 "k_kmalloc k tr1" u]) (use assms in auto)
  then show ?thesis
    using assms(1-4) pr boards_info_proc_result(1) [OF pr]
    by (simp add: xdma_mod_init_def init_board_info_def pci_register_driver_def held_ranges Let_def)
qed

text \<open>When the board table cannot be allocated, loading the module reports success without
  registering anything, and unloading it then dereferences the NULL pointer of the device
  numbers.\<close>

lemma failed_load_crashes_unload:
  assumes "k_kmalloc k (ks_trace s) = 0" "k_vmalloc k (ks_trace s @ [KAlloc 0]) = 0" "ks_es_cdev s = None"
  shows "\<exists>s'. xdma_mod_init k u devs s = Inr (0, s') \<and> ks_boards s' = None \<and>
    ks_trace s' = ks_trace s @ [KAlloc 0, VAlloc 0] \<and> xdma_mod_exit [] s' = Inl NullDeref"
  using assms by (simp add: xdma_mod_init_def init_board_info_def xdma_mod_exit_def vi53xx_cdev_exit_def Let_def)

lemma failed_load_crashes_unload_witness:
  "\<exists>s'. xdma_mod_init (ram_kapi\<lparr>k_kmalloc := \<lambda>_. 0, k_vmalloc := \<lambda>_. 0\<rparr>)
      \<lparr>ec_addr = 0, ec_major = [0, 0, 0], ec_class = ClassNull, ec_dev = 0, ec_device_name = [], ec_board_inst = 0\<rparr>
      [] kstart = Inr (0, s') \<and> xdma_mod_exit [] s' = Inl NullDeref"
  using failed_load_crashes_unload [of "ram_kapi\<lparr>k_kmalloc := \<lambda>_. 0, k_vmalloc := \<lambda>_. 0\<rparr>" kstart]
  by (auto simp: kstart_def)

end
