(* ===== verification/DriverHandlers.thy ===== *)
theory DriverHandlers
  imports BoardRemoval Led
begin

text \<open>
  What the handlers of a bound board (ioctl, mmap, the command file) leave alone: the device list,
  the board table, the identity of every board, and what the kernel holds. The invariant of the
  module's reachable states (\<open>DriverRuns\<close>) survives them for that reason.
\<close>

section \<open>What a handler of one board may change\<close>

text \<open>The identity of a board in its description: not its LED, its timer or its versions.\<close>

definition board_ident :: "device_info \<Rightarrow> string \<times> u32 \<times> u32" where
  "board_ident i = (di_device_name i, di_board_type i, di_board_id i)"

text \<open>What the invariant sees of a board: not its LED or mapped flags.\<close>

definition board_core :: "xdma_pci_dev \<Rightarrow> pci_dev \<times> xdma_dev option \<times> u64 \<times> u32 \<times> u64 \<times> u32 \<times> string \<times> u32 \<times> u32" where
  "board_core xp = (xp_pdev xp, xp_xdev xp, magic (ctrl_cdev xp), cdevno (ctrl_cdev xp), sys_device (ctrl_cdev xp), xp_flags xp,
     board_ident (cdev_info (ctrl_cdev xp)))"

definition quiet :: "kstate \<Rightarrow> kstate \<Rightarrow> bool" where
  "quiet s s' \<longleftrightarrow> ks_devices s' = ks_devices s \<and> ks_drvdata s' = ks_drvdata s \<and> ks_boards s' = ks_boards s \<and>
     ks_es_cdev s' = ks_es_cdev s \<and> (\<forall>p. map_option board_core (ks_xpdevs s' p) = map_option board_core (ks_xpdevs s p)) \<and>
     (\<forall>r. held (ks_trace s') r = held (ks_trace s) r)"

lemma quiet_refl [simp]: "quiet s s"
  by (simp add: quiet_def)

lemma quiet_trans: "quiet s s1 \<Longrightarrow> quiet s1 s2 \<Longrightarrow> quiet s s2"
  by (simp add: quiet_def)

named_theorems quiet_intros \<open>handlers that change nothing the invariant sees\<close>

lemma delta_copies [simp]: "delta (CopyToUser n l) r = 0" "delta (Printk t) r = 0"
  by (simp_all add: delta_def split: resource.splits)

text \<open>Only the trace, the settings, the buffers changed.\<close>

lemma quiet_trace:
  "(\<And>r. held tr r = held (ks_trace s) r) \<Longrightarrow> quiet s (s\<lparr>ks_trace := tr\<rparr>)"
  "(\<And>r. held tr r = held (ks_trace s) r) \<Longrightarrow> quiet s (s\<lparr>ks_bufs := b, ks_trace := tr\<rparr>)"
  "(\<And>r. held tr r = held (ks_trace s) r) \<Longrightarrow> quiet s (s\<lparr>ks_trace := tr, ks_setting := xi\<rparr>)"
  by (simp_all add: quiet_def)

lemma quiet_board:
  assumes "ks_xpdevs s p = Some xp" "board_core xp' = board_core xp" "\<And>r. held tr r = held (ks_trace s) r"
  shows "quiet s (s\<lparr>ks_trace := tr, ks_xpdevs := (ks_xpdevs s)(p \<mapsto> xp')\<rparr>)"
  using assms by (simp add: quiet_def)

section \<open>The ioctl commands\<close>

lemma copies_quiet [quiet_intros]:
  "copy_from_user_info k s = (ret, s') \<Longrightarrow> quiet s s'"
  "copy_from_user__buffer k p pos buf n w s = Inr (ret, s') \<Longrightarrow> quiet s s'"
  "copy_to_user__buffer k p pos buf n w s = Inr (ret, w', s') \<Longrightarrow> quiet s s'"
  "copy_to_user_word k v a w s = (ret, w', s') \<Longrightarrow> quiet s s'"
  by (auto simp: copy_from_user_info_def copy_from_user__buffer_def copy_to_user__buffer_def copy_to_user_word_def
      Let_def quiet_def split: if_splits)

lemma engine_held:
  "xdma_stop xdev c d tr = Inr (ret, tr') \<Longrightarrow> held tr' r = held tr r"
  "xdma_start k xdev c d tr = Inr (ret, tr') \<Longrightarrow> held tr' r = held tr r"
  "xdma_start_desc xdev c cfg tr = Inr (ret, tr') \<Longrightarrow> held tr' r = held tr r"
  "xdma_poll_init k xdev ch d tr = Inr (ret, tr') \<Longrightarrow> held tr' r = held tr r"
  "xdma_cofg_desc k xdev c cfg tr = Inr (ret, tr') \<Longrightarrow> held tr' r = held tr r"
proof -
  have wr: "held t' r = held t r" if "xdma_write_reg b off v t = Inr t'" for b off v t t'
    using that by (cases "b = 0") (auto simp: reg_simps)
  have rd: "held t' r = held t r" if "xdma_read_reg k b off t = Inr (v, t')" for b off v t t'
    using that by (cases "b = 0") (auto simp: reg_simps)
  show "xdma_stop xdev c d tr = Inr (ret, tr') \<Longrightarrow> held tr' r = held tr r"
    by (auto simp: xdma_stop_def Let_def dest!: wr rd split: if_splits)
  show "xdma_start k xdev c d tr = Inr (ret, tr') \<Longrightarrow> held tr' r = held tr r"
    by (auto simp: xdma_start_def Let_def dest!: wr rd split: if_splits)
  show "xdma_start_desc xdev c cfg tr = Inr (ret, tr') \<Longrightarrow> held tr' r = held tr r"
    by (auto simp: xdma_start_desc_def Let_def dest!: wr rd split: if_splits)
  show "xdma_poll_init k xdev ch d tr = Inr (ret, tr') \<Longrightarrow> held tr' r = held tr r"
    by (auto simp: xdma_poll_init_def Let_def dest!: wr rd split: if_splits)
  show "xdma_cofg_desc k xdev c cfg tr = Inr (ret, tr') \<Longrightarrow> held tr' r = held tr r"
    by (auto simp: xdma_cofg_desc_def Let_def dest!: wr rd split: if_splits)
qed

lemma with_trace_quiet:
  assumes "with_trace m s = Inr (ret, s')" "\<And>ret tr' r. m = Inr (ret, tr') \<Longrightarrow> held tr' r = held (ks_trace s) r"
  shows "quiet s s'"
  using assms by (auto simp: with_trace_def intro!: quiet_trace)

lemma drv_calls_quiet [quiet_intros]:
  "drv_xdma_stop xdev ch d s = Inr (ret, s') \<Longrightarrow> quiet s s'"
  "drv_xdma_start k u xdev ch d s = Inr (ret, s') \<Longrightarrow> quiet s s'"
proof -
  show "drv_xdma_stop xdev ch d s = Inr (ret, s') \<Longrightarrow> quiet s s'"
    by (auto simp: drv_xdma_stop_def intro: with_trace_quiet engine_held)
  assume "drv_xdma_start k u xdev ch d s = Inr (ret, s')"
  then obtain cfg r1 s1 r2 where
    "with_trace (xdma_start_desc xdev (word_of_int ch) cfg (ks_trace s)) s = Inr (r1, s1)"
    "with_trace (xdma_start k xdev (word_of_int ch) (word_of_int d) (ks_trace s1)) s1 = Inr (r2, s')"
    by (auto simp: drv_xdma_start_def)
  then have "quiet s s1" "quiet s1 s'" by (auto elim!: with_trace_quiet intro: engine_held)
  then show "quiet s s'" by (rule quiet_trans)
qed

lemma drv_reg_quiet [quiet_intros]:
  assumes "drv_xdma_reg k xdev xi w s = Inr (ret, w', s')"
  shows "quiet s s'"
proof -
  have rd: "held tr' r = held tr r" if "read_reg k b off tr = Inr (v, tr')" for b off tr v tr' r
    using that by (rule read_reg_held)
  have wr: "held tr' r = held tr r" if "write_reg b off v tr = Inr (x, tr')" for b off v tr x tr' r
    using that by (cases "b = 0") (auto simp: reg_simps)
  consider b v tr where "read_reg k b (x_offset xi) (ks_trace s) = Inr (v, tr)"
      "copy_to_user_word k v (x_r_val xi) w (s\<lparr>ks_trace := tr\<rparr>) = (ret, w', s')"
    | b v tr where "write_reg b (x_offset xi) (x_w_val xi) (ks_trace s) = Inr (v, tr)" "s' = s\<lparr>ks_trace := tr\<rparr>"
    | "s' = s"
    using assms by (auto simp: drv_xdma_reg_def split: if_splits)
  then show ?thesis
  proof cases
    case 1
    then have "quiet s (s\<lparr>ks_trace := tr\<rparr>)" by (intro quiet_trace rd)
    then show ?thesis using copies_quiet(4) [OF 1(2)] by (rule quiet_trans)
  next
    case 2
    then show ?thesis by (auto intro!: quiet_trace dest: wr)
  qed simp
qed

lemma ioctl_quiet [quiet_intros]:
  assumes "vi53xx_ioctl k u p cmd xi w s = Inr (ret, w', s')"
  shows "quiet s s'"
proof -
  have io: "quiet s s'" if "vi53xx_ioctl_xdma k u c xi xdev w s = Inr (ret, w', s')" for c xdev
  proof -
    obtain l s1 where c: "copy_from_user_info k s = (l, s1)" by force
    have q: "quiet s s1" by (rule copies_quiet(1) [OF c])
    have set: "quiet s1 (s1\<lparr>ks_setting := xi\<rparr>)" by (simp add: quiet_def)
    have "quiet s1 s' \<or> s' = s"
      using that c set
      by (auto simp: vi53xx_ioctl_xdma_def cmd_init_def cmd_print_def cmd_dump_def split: if_splits
          intro: copies_quiet drv_calls_quiet drv_reg_quiet)
    then show ?thesis using q quiet_trans by auto
  qed
  show ?thesis using assms io by (auto simp: vi53xx_ioctl_def split: if_splits)
qed

section \<open>mmap, the command file and the timer\<close>

lemma mmap_quiet [quiet_intros]:
  assumes "vi53xx_file_mmap k p sz s = Inr (ret, s')"
  shows "quiet s s'"
proof -
  obtain q xp cfg xp1 tr1 where q: "deref_xpdev q s = Inr xp" "xdma_mmap k (Some xp) sz cfg (ks_trace s) = Inr (ret, xp1, tr1)"
    "s' = s\<lparr>ks_trace := tr1, ks_xpdevs := (ks_xpdevs s)(q \<mapsto> xp1)\<rparr>"
    using assms by (auto simp: vi53xx_file_mmap_def drv_xdma_mmap_def i_xdma_mmap_def Let_def)
  have "ks_xpdevs s q = Some xp" using q(1) by (auto simp: deref_xpdev_def split: if_splits option.splits)
  moreover have "board_core xp1 = board_core xp" "held tr1 r = held (ks_trace s) r" for r
    using q(2) by (auto simp: xdma_mmap_def Let_def board_core_def split: if_splits)
  ultimately show ?thesis unfolding q(3) by (rule quiet_board)
qed

lemma blink_held:
  assumes "device_control now m2j bufs info cmd dc tr = Inr (info', tr')"
  shows "held tr' r = held tr r" "board_ident info' = board_ident info"
proof -
  have wr: "held t' r = held t r" if "write_reg b off v t = Inr (x, t')" for b off v t x t'
    using that by (cases "b = 0") (auto simp: reg_simps)
  show "held tr' r = held tr r" using assms
    by (auto simp: device_control_def call_blink_control_def call_dump_control_def Let_def dest!: wr split: if_splits)
  show "board_ident info' = board_ident info" using assms
    by (auto simp: device_control_def call_blink_control_def call_dump_control_def Let_def BlinkLED_def setup_timer_def
        del_timer_def board_ident_def split: if_splits)
qed

lemma board_core_info:
  "board_ident i = board_ident (cdev_info (ctrl_cdev xp)) \<Longrightarrow>
   board_core (xp\<lparr>ctrl_cdev := (ctrl_cdev xp)\<lparr>cdev_info := i\<rparr>\<rparr>) = board_core xp"
  by (simp add: board_core_def)

lemma deref_xpdevD: "deref_xpdev p s = Inr xp \<Longrightarrow> p \<noteq> 0 \<and> ks_xpdevs s p = Some xp"
  by (auto simp: deref_xpdev_def split: if_splits option.splits)

lemma command_quiet [quiet_intros]:
  assumes "device_write k now m2j u p buf count w s = Inr (ret, s')"
  shows "quiet s s'"
proof -
  let ?len = "if 255 > count then count else 255"
  let ?s1 = "s\<lparr>ks_trace := ks_trace s @ [CopyFromUser ?len (left_of k (ks_trace s) ?len)]\<rparr>"
  have q: "quiet s ?s1" by (intro quiet_trace) simp
  have led: "quiet t t'" if "cmd_led_file now m2j u p xp st count t = Inr (rv, t')" "deref_xpdev p t = Inr xp" for xp st t rv t'
    using that by (auto simp: cmd_led_file_def dest!: deref_xpdevD intro!: quiet_board board_core_info dest: blink_held)
  have dump: "quiet t t'" if "cmd_dump_file now m2j u xp len count kb t = Inr (rv, t')" for xp len kb t rv t'
    using that by (auto simp: cmd_dump_file_def split: option.splits if_splits intro!: quiet_trace dest: blink_held)
  have "quiet ?s1 s'"
    using assms led dump by (auto simp: device_write_def Let_def split: if_splits option.splits)
  then show ?thesis by (rule quiet_trans [OF q])
qed

end
