(* ===== verification/ProbeSteps.thy ===== *)
theory ProbeSteps
  imports DriverHandlers ModuleLife
begin

text \<open>
  What probing a board does to the parts of the module's state that all boards share
  (\<open>xdma_probe\<close> of \<open>driver/vi53xx_xdma_drv.c\<close>): DMA memory is handed out once, and a board takes
  the next number of its type.
\<close>

section \<open>Memory that is handed out once\<close>

text \<open>
  The documented behaviour of the kernel's allocators: what they return is not in use.
\<close>

definition fresh_memory :: "kapi \<Rightarrow> bool" where
  "fresh_memory k \<longleftrightarrow>
     (\<forall>tr. k_kmalloc k tr \<noteq> 0 \<longrightarrow> held tr (RMem (k_kmalloc k tr)) = 0) \<and>
     (\<forall>tr n v p. k_dma_alloc k tr n = Some (v, p) \<longrightarrow> v \<noteq> 0 \<longrightarrow> held tr (RDma v) = 0)"

definition dma_once :: "trace \<Rightarrow> bool" where
  "dma_once tr \<longleftrightarrow> (\<forall>a. a \<noteq> 0 \<longrightarrow> held tr (RDma a) \<le> 1)"

lemma dma_once_held: "(\<And>a. held tr' (RDma a) = held tr (RDma a)) \<Longrightarrow> dma_once tr' = dma_once tr"
  by (simp add: dma_once_def)

lemma dma_alloc_once:
  assumes "fresh_memory k" "dma_alloc_coherent k n tr = (r, tr')" "dma_once tr"
  shows "dma_once tr'"
proof (cases "k_dma_alloc k tr n")
  case None
  then show ?thesis using assms by (auto simp: dma_alloc_coherent_def dma_once_def)
next
  case (Some vp)
  obtain v p where vp: "vp = (v, p)" by force
  then have "tr' = tr @ [DmaAlloc v p n]" using assms(2) Some by (simp add: dma_alloc_coherent_def)
  moreover have "v \<noteq> 0 \<Longrightarrow> held tr (RDma v) = 0" using assms(1) Some vp unfolding fresh_memory_def by blast
  ultimately show ?thesis using assms(3) by (simp add: dma_once_def)
qed

lemma phys_init_once:
  "phys_init_from k i cfg s = Inr (rv, cfg', s') \<Longrightarrow> fresh_memory k \<Longrightarrow> dma_once (ks_trace s) \<Longrightarrow> dma_once (ks_trace s')"
proof (induction k i cfg s rule: phys_init_from.induct)
  case (1 k i cfg s)
  show ?case
  proof (cases "i < unat (SG_desc_num cfg)")
    case False
    then show ?thesis using "1.prems" by (subst (asm) phys_init_from.simps) simp
  next
    case True
    obtain o' tr1 where a: "dma_alloc_coherent k (unat (cfg_size cfg)) (ks_trace s) = (o', tr1)" by force
    have once: "dma_once tr1" by (rule dma_alloc_once [OF "1.prems"(2) a "1.prems"(3)])
    show ?thesis
    proof (cases o')
      case None
      then show ?thesis using "1.prems"(1) True a once by (subst (asm) phys_init_from.simps) auto
    next
      case (Some vp)
      obtain v p where vp: "vp = (v, p)" by force
      note step = "1.prems"(1) [unfolded phys_init_from.simps [of k i cfg s]]
      show ?thesis using step True a Some vp once "1.IH" [OF True, of o' tr1] "1.prems"(2)
        by (fastforce simp: updR_def guardR_def split: if_splits)
    qed
  qed
qed

lemma desc_alloc_once:
  assumes "xdma_desc_alloc k u cfg mem tr = Inr (v, cfg', mem', tr')" "fresh_memory k" "dma_once tr"
  shows "dma_once tr'"
proof -
  obtain r tr1 where a: "dma_alloc_coherent k (unat (SG_desc_num cfg) * 32) tr = (r, tr1)" by force
  then have "tr' = tr1" using assms(1) by (cases r) (auto simp: xdma_desc_alloc_def Let_def)
  then show ?thesis using dma_alloc_once [OF assms(2) a assms(3)] by simp
qed

lemma channel_once:
  assumes "i_xdma_channel_init k u x cfg s = Inr (cfg', s')" "fresh_memory k" "dma_once (ks_trace s)"
  shows "dma_once (ks_trace s')"
proof -
  obtain rv c1 s1 r2 t2 r3 t3 v c4 m4 t4 r5 t5 where
    c: "vi53xx_info_init k cfg s = Inr (rv, c1, s1)"
    "xdma_poll_init k x (channel c1) (direction c1) (ks_trace s1) = Inr (r2, t2)"
    "xdma_stop x (word_of_int (channel c1)) (direction c1) t2 = Inr (r3, t3)"
    "xdma_desc_alloc k u c1 (ks_descs s1) t3 = Inr (v, c4, m4, t4)"
    "xdma_cofg_desc k x (word_of_int (channel c1)) c4 t4 = Inr (r5, t5)" "ks_trace s' = t5"
    using assms(1) by (auto simp: i_xdma_channel_init_def with_trace_def xdma_create_transfer_def)
  have "dma_once (ks_trace s1)"
    using c(1) assms(2,3)
    by (auto simp: vi53xx_info_init_def Let_def xdma_physical_address_init_def dest!: phys_init_once split: if_splits)
  then have "dma_once t3" using c(2,3) engine_held(1,4) dma_once_held by metis
  then have "dma_once t4" by (rule desc_alloc_once [OF c(4) assms(2)])
  then show ?thesis using c(5,6) engine_held(5) dma_once_held by metis
qed

lemma all_channels_once:
  assumes "xdma_channel_init k u info x s = Inr (rv, x', s')" "fresh_memory k" "dma_once (ks_trace s)"
  shows "dma_once (ks_trace s')"
proof -
  have round: "dma_once (ks_trace t')" if "channel_round k u ch y t = Inr (y', t')" "dma_once (ks_trace t)" for ch y t y' t'
    using that channel_once [OF _ assms(2)] by (fastforce simp: channel_round_def Let_def split: if_splits)
  show ?thesis using assms(1,3) round by (fastforce simp: xdma_channel_init_def split: if_splits)
qed


section \<open>The number of a board\<close>

text \<open>A board of the type at position \<open>i\<close> of the table was given the next number of the type.\<close>

definition takes_number :: "u32 list \<Rightarrow> board_table option \<Rightarrow> board_table option \<Rightarrow> u32 \<Rightarrow> bool" where
  "takes_number ms bt bt' d \<longleftrightarrow> (\<exists>i < 3. d = MKDEV (ms ! i) (count_of (known_types ! i) bt) \<and>
     count_of (known_types ! i) bt' = count_of (known_types ! i) bt + 1 \<and>
     (\<forall>t. t \<noteq> known_types ! i \<longrightarrow> count_of t bt' = count_of t bt))"

text \<open>The module has its table and its class, and the majors \<open>ms\<close>.\<close>

definition set_up :: "u32 list \<Rightarrow> kstate \<Rightarrow> bool" where
  "set_up ms s \<longleftrightarrow> table_ok (ks_boards s) \<and> length ms = 3 \<and>
     (\<exists>es. ks_es_cdev s = Some es \<and> ec_class es = ClassOk \<and> ec_major es = ms)"

lemma known_types_nth: "drv_get_board_name dt = Some nm \<Longrightarrow> \<exists>i < 3. dt = known_types ! i"
  using known_index by metis

lemma identify_number:
  assumes "identify_board k xp s = Inr (res, xp', s')" "set_up ms s"
  shows "set_up ms s' \<and> (case res of Inl rv \<Rightarrow> ks_boards s' = ks_boards s
    | Inr _ \<Rightarrow> takes_number ms (ks_boards s) (ks_boards s') (cdevno (ctrl_cdev xp')))"
proof -
  obtain es where es: "ks_es_cdev s = Some es" "ec_class es = ClassOk" "ec_major es = ms" and ok: "table_ok (ks_boards s)"
    and len: "length ms = 3" using assms(2) by (auto simp: set_up_def)
  obtain xdev base dt tr1 inst bt1 where
    a: "xp_xdev xp = Some xdev" "nthR (bar xdev) 0 = Inr base" "read_reg k base DEVICE_BOARD_TYPE (ks_trace s) = Inr (dt, tr1)"
    "drv_get_board_instance dt (ks_boards s) = Inr (inst, bt1)"
    using assms(1) by (auto simp: identify_board_def derefR_def Let_def split: option.splits)
  show ?thesis
  proof (cases "drv_get_board_name dt")
    case None
    then have "dt \<notin> set known_types" by (simp add: known_types_iff)
    then have "bt1 = ks_boards s" using get_board_instance_unknown [OF ok] a(4) by simp
    then show ?thesis using assms a None ok es by (auto simp: identify_board_def set_up_def Let_def)
  next
    case (Some nm)
    obtain i where i: "i < 3" "dt = known_types ! i" using known_types_nth [OF Some] by blast
    have dt: "dt \<in> set known_types" using Some by (simp add: known_types_iff)
    obtain bt' where bt: "drv_get_board_instance dt (ks_boards s) = Inr (count_of dt (ks_boards s), bt')" "table_ok bt'"
      "count_of dt bt' = count_of dt (ks_boards s) + 1" "\<And>d. d \<noteq> dt \<Longrightarrow> count_of d bt' = count_of d (ks_boards s)"
      by (rule get_board_instance_known [OF ok dt]) (rule that, assumption+)
    then have b1: "inst = count_of dt (ks_boards s)" "bt1 = bt'" using a(4) by simp_all
    have mi: "get_major_idx dt bt' = Inr (of_nat i)" using get_major_idx_known [OF bt(2) i(1)] i(2) by simp
    have "i = 0 \<or> i = 1 \<or> i = 2" using i(1) by linarith
    then have ma: "nthI ms (sint (of_nat i :: u32)) = Inr (ms ! i)" using len by auto
    have nn: "\<not> inst < 0" by simp
    have "res = Inr () \<and> cdevno (ctrl_cdev xp') = MKDEV (ms ! i) inst \<and> ks_boards s' = bt' \<and>
        (\<exists>es'. ks_es_cdev s' = Some es' \<and> ec_class es' = ClassOk \<and> ec_major es' = ms)"
      using assms(1) a Some nn b1(2) mi ma es by (auto simp: identify_board_def Let_def)
    moreover have "takes_number ms (ks_boards s) bt' (MKDEV (ms ! i) inst)"
      unfolding takes_number_def using i b1(1) bt(3,4) by blast
    ultimately show ?thesis using bt(2) len by (auto simp: set_up_def)
  qed
qed

lemma publish_frame:
  assumes "publish_board k typ xp s = Inr (rv, xp', s')"
  shows "ks_boards s' = ks_boards s \<and> ks_es_cdev s' = ks_es_cdev s \<and> cdevno (ctrl_cdev xp') = cdevno (ctrl_cdev xp)"
  using assms
  by (auto simp: publish_board_def create_sys_device_def Let_def split: if_splits prod.splits)

lemma destroy_frame:
  "destroy_cdev xp s = Inr s' \<Longrightarrow> ks_boards s' = ks_boards s \<and> ks_es_cdev s' = ks_es_cdev s"
  by (auto simp: destroy_cdev_def destroy_xcdev_def split: if_splits)

lemma dev_init_number:
  assumes "vi53xx_dev_init k xp s = Inr (ret, xp', s')" "set_up ms s"
  shows "set_up ms s' \<and> (ks_boards s' = ks_boards s \<and> ret < 0 \<or>
    takes_number ms (ks_boards s) (ks_boards s') (cdevno (ctrl_cdev xp')))"
proof -
  obtain res xp1 s1 where i: "identify_board k xp s = Inr (res, xp1, s1)"
    using assms(1) by (auto simp: vi53xx_dev_init_def create_cdev_def)
  note n = identify_number [OF i assms(2)]
  show ?thesis
  proof (cases res)
    case (Inl rv)
    have "rv < 0" using i Inl by (auto simp: identify_board_def Let_def split: if_splits option.splits)
    then have "ret = - 1 \<and> ks_boards s' = ks_boards s1 \<and> ks_es_cdev s' = ks_es_cdev s1"
      using assms(1) i Inl by (auto simp: vi53xx_dev_init_def create_cdev_def dest: destroy_frame)
    then show ?thesis using n Inl by (auto simp: set_up_def)
  next
    case (Inr v)
    obtain rv xp2 s2 where p: "publish_board k CHAR_CTRL xp1 s1 = Inr (rv, xp2, s2)"
      using assms(1) i Inr by (auto simp: vi53xx_dev_init_def create_cdev_def)
    have "cdevno (ctrl_cdev xp') = cdevno (ctrl_cdev xp2) \<and> ks_boards s' = ks_boards s2 \<and> ks_es_cdev s' = ks_es_cdev s2"
      using assms(1) i Inr p
      by (auto simp: vi53xx_dev_init_def create_cdev_def xpdev_flag_set_def dest: destroy_frame split: if_splits)
    then show ?thesis using n Inr publish_frame [OF p] by (simp add: set_up_def)
  qed
qed

end
