(* ===== verification/DriverRuns.thy ===== *)
theory DriverRuns
  imports ProbeSteps Runs
begin

text \<open>
  The kernel module as a state machine: boards are probed and removed, files of boards are
  used through ioctl, mmap and the command file, LED timers fire, in any order. The invariant
  of the states it reaches ties the device list, the allocated board structures, the device
  numbers and the DMA memory together.
\<close>

section \<open>The steps\<close>

datatype drv_event = EvProbe pci_dev | EvRemove pci_dev | EvIoctl u64 u32 xdma_info | EvMmap u64 u64
  | EvCommand u64 nat | EvTimer u64

text \<open>
  The kernel takes a timer off its list before it calls the handler; the handler finds the
  structure of the board through the timer. An event whose handler goes wrong has no step: the
  removal of a listed board is one, as \<open>xdma_remove\<close> takes the freed structure off the list.
\<close>

inductive drv_step :: "kapi \<Rightarrow> kstate \<Rightarrow> drv_event \<Rightarrow> kstate \<Rightarrow> bool" for k where
  probe: "xdma_probe k u pdev info s = Inr (rv, s') \<Longrightarrow> drv_step k s (EvProbe pdev) s'"
| remove: "xdma_remove (Some pdev) s = Inr s' \<Longrightarrow> drv_step k s (EvRemove pdev) s'"
| ioctl: "vi53xx_ioctl k c p cmd xi (w :: umem) s = Inr (rv, w', s') \<Longrightarrow> drv_step k s (EvIoctl p cmd xi) s'"
| mmap: "vi53xx_file_mmap k p sz s = Inr (rv, s') \<Longrightarrow> drv_step k s (EvMmap p sz) s'"
| command: "device_write k now m2j d p buf count (w :: umem) s = Inr (rv, s') \<Longrightarrow> drv_step k s (EvCommand p count) s'"
| timer: "deref_xpdev p s = Inr xp \<Longrightarrow> info = cdev_info (ctrl_cdev xp) \<Longrightarrow> timer_pending (di_timer info) \<Longrightarrow>
    timer_isr now m2j (info\<lparr>di_timer := (di_timer info)\<lparr>timer_pending := False\<rparr>\<rparr>) (ks_trace s) = Inr (info', tr) \<Longrightarrow>
    drv_step k s (EvTimer p) (s\<lparr>ks_trace := tr,
      ks_xpdevs := (ks_xpdevs s)(p \<mapsto> xp\<lparr>ctrl_cdev := (ctrl_cdev xp)\<lparr>cdev_info := info'\<rparr>\<rparr>)\<rparr>)"

abbreviation drv_run :: "kapi \<Rightarrow> kstate \<Rightarrow> drv_event list \<Rightarrow> kstate \<Rightarrow> bool" where
  "drv_run k \<equiv> run (drv_step k)"

inductive_cases drv_stepE: "drv_step k s e s'"
inductive_cases drv_probeE: "drv_step k s (EvProbe pdev) s'"

fun is_probe :: "drv_event \<Rightarrow> bool" where
  "is_probe (EvProbe pdev) = True"
| "is_probe _ = False"

section \<open>The invariant\<close>

definition live_board :: "u32 list \<Rightarrow> board_table option \<Rightarrow> xdma_pci_dev \<Rightarrow> bool" where
  "live_board ms bt xp \<longleftrightarrow> (\<exists>x. xp_xdev xp = Some x \<and> xdev_wf x) \<and> magic (ctrl_cdev xp) = MAGIC_CHAR \<and>
     (\<exists>i < 3. \<exists>n. cdevno (ctrl_cdev xp) = MKDEV (ms ! i) n \<and> unat n < unat (count_of (known_types ! i) bt))"

definition devno_of :: "kstate \<Rightarrow> u64 \<Rightarrow> u32" where
  "devno_of s p = (case ks_xpdevs s p of None \<Rightarrow> 0 | Some xp \<Rightarrow> cdevno (ctrl_cdev xp))"

definition dma_of :: "kstate \<Rightarrow> u64 \<Rightarrow> resource \<Rightarrow> int" where
  "dma_of s p r = (case ks_xpdevs s p of None \<Rightarrow> 0
     | Some xp \<Rightarrow> (case xp_xdev xp of None \<Rightarrow> 0 | Some x \<Rightarrow> xdev_dma x r))"

definition drv_inv :: "u32 list \<Rightarrow> nat \<Rightarrow> kstate \<Rightarrow> bool" where
  "drv_inv ms n s \<longleftrightarrow> set_up ms s \<and> (\<forall>t \<in> set known_types. unat (count_of t (ks_boards s)) \<le> n) \<and>
     distinct (ks_devices s) \<and> dom (ks_xpdevs s) = set (ks_devices s) \<and>
     (\<forall>p xp. ks_xpdevs s p = Some xp \<longrightarrow>
        p \<noteq> 0 \<and> live_board ms (ks_boards s) xp \<and> 1 \<le> held (ks_trace s) (RMem p)) \<and>
     distinct (map (devno_of s) (ks_devices s)) \<and> dma_once (ks_trace s) \<and>
     (\<forall>a. a \<noteq> 0 \<longrightarrow> (\<Sum>p\<leftarrow>ks_devices s. dma_of s p (RDma a)) \<le> held (ks_trace s) (RDma a))"

lemma drv_inv_dom: "drv_inv ms n s \<Longrightarrow> dom (ks_xpdevs s) = set (ks_devices s)"
  by (simp add: drv_inv_def)

lemma drv_inv_board:
  "drv_inv ms n s \<Longrightarrow> ks_xpdevs s p = Some xp \<Longrightarrow>
     p \<noteq> 0 \<and> live_board ms (ks_boards s) xp \<and> 1 \<le> held (ks_trace s) (RMem p)"
  by (simp add: drv_inv_def)

text \<open>The module after it was loaded.\<close>

definition drv_loaded :: "u32 list \<Rightarrow> kstate \<Rightarrow> bool" where
  "drv_loaded ms s \<longleftrightarrow> set_up ms s \<and> (\<forall>t \<in> set known_types. count_of t (ks_boards s) = 0) \<and>
     ks_devices s = [] \<and> ks_xpdevs s = Map.empty \<and> ks_drvdata s = Map.empty \<and> (\<forall>a. held (ks_trace s) (RDma a) = 0)"

lemma drv_loaded_inv: "drv_loaded ms s \<Longrightarrow> drv_inv ms 0 s"
  by (simp add: drv_loaded_def drv_inv_def dma_once_def)

lemma load_then_loaded:
  assumes "\<forall>tr. k_kmalloc k tr \<noteq> 0" "\<forall>tr. k_class_create k tr" "\<forall>tr. fst (k_alloc_chrdev_region k tr) = 0"
    "length (ec_major u) = BOARD_TEPE_NUM" "\<forall>tr. k_pci_register_driver k tr = 0"
  shows "\<exists>s ms. drv_loaded ms s \<and> (\<forall>devs. xdma_mod_init k u devs kstart = bindR (probe_found k devs s) (\<lambda>s'. Inr (0, s')))"
proof -
  obtain bt es ds s where L: "loaded_state kstart bt es ds s" "ks_devices s = ks_devices kstart" "ks_drvdata s = ks_drvdata kstart"
    "\<And>devs. xdma_mod_init k u devs kstart = bindR (probe_found k devs s) (\<lambda>s'. Inr (0, s'))"
    by (rule load_result [OF assms, of kstart]) (rule that, assumption+)
  have f: "ks_es_cdev s = Some es" "ec_class es = ClassOk" "length (ec_major es) = 3" "ks_xpdevs s = ks_xpdevs kstart"
    "\<And>r. held (ks_trace s) r = held (ks_trace kstart) r + load_held bt es ds r"
    using L(1) by (auto simp: loaded_state_def)
  have "drv_loaded (ec_major es) s"
    using loaded_table [OF L(1)] f L(2,3) by (simp add: drv_loaded_def set_up_def load_held_def) (simp add: kstart_def)
  then show ?thesis using L(4) by blast
qed

text \<open>The boards that are there when the module is loaded are probed one after the other.\<close>

lemma probe_found_run: "probe_found k devs s = Inr s' \<Longrightarrow> drv_run k s (map (\<lambda>(pd, u, info). EvProbe pd) devs) s'"
proof (induction devs arbitrary: s)
  case (Cons d devs)
  obtain pd u info where d: "d = (pd, u, info)" by (metis prod_cases3)
  obtain rv s1 where p: "xdma_probe k u pd info s = Inr (rv, s1)" "probe_found k devs s1 = Inr s'"
    using Cons.prems by (auto simp: d)
  then show ?case using Cons.IH [OF p(2)] by (auto simp: d intro: run_more drv_step.probe)
qed simp

text \<open>The majors are those of different number ranges.\<close>

definition majors_ok :: "u32 list \<Rightarrow> bool" where
  "majors_ok ms \<longleftrightarrow> length ms = 3 \<and> distinct ms \<and> (\<forall>m \<in> set ms. unat m < 4096)"

lemma MKDEV_eq:
  assumes "unat a < 1048576" "unat b < 1048576" "unat m < 4096" "unat m' < 4096"
  shows "MKDEV m a = MKDEV m' b \<longleftrightarrow> m = m' \<and> a = b"
  using MAJOR_MKDEV [OF assms(1,3)] MINOR_MKDEV [OF assms(1)] MAJOR_MKDEV [OF assms(2,4)] MINOR_MKDEV [OF assms(2)]
  by metis

lemma known_types_inj: "i < 3 \<Longrightarrow> j < 3 \<Longrightarrow> known_types ! i = known_types ! j \<longleftrightarrow> i = j"
  by (rule nth_eq_iff_index_eq) (simp_all add: known_types_def)

section \<open>Handlers of a bound board\<close>

lemma quiet_core:
  "quiet s s' \<Longrightarrow> map_option board_core (ks_xpdevs s' p) = map_option board_core (ks_xpdevs s p)"
  by (simp add: quiet_def)

lemma quiet_board_eq:
  assumes "quiet s s'" "ks_xpdevs s' p = Some xp'"
  obtains xp where "ks_xpdevs s p = Some xp" "board_core xp' = board_core xp"
  using quiet_core [OF assms(1), of p] assms(2) by (cases "ks_xpdevs s p") simp_all

lemma quiet_dom:
  assumes "quiet s s'"
  shows "dom (ks_xpdevs s') = dom (ks_xpdevs s)"
proof -
  have "ks_xpdevs s' p = None \<longleftrightarrow> ks_xpdevs s p = None" for p
    using quiet_core [OF assms, of p] by (cases "ks_xpdevs s p"; cases "ks_xpdevs s' p") simp_all
  then show ?thesis by (simp add: dom_def)
qed

lemma quiet_lookups:
  assumes "quiet s s'"
  shows "devno_of s' p = devno_of s p" "dma_of s' p r = dma_of s p r"
proof -
  note c = quiet_core [OF assms, of p]
  then show "devno_of s' p = devno_of s p" "dma_of s' p r = dma_of s p r"
    by (auto simp: devno_of_def dma_of_def board_core_def split: option.splits)
qed

lemma drv_inv_quiet:
  assumes "drv_inv ms n s" "quiet s s'"
  shows "drv_inv ms n s'"
proof -
  have live: "live_board ms bt xp' = live_board ms bt xp" if "board_core xp' = board_core xp" for bt xp xp'
    using that by (simp add: live_board_def board_core_def)
  have f: "ks_devices s' = ks_devices s" "ks_boards s' = ks_boards s" "ks_es_cdev s' = ks_es_cdev s"
    "\<And>r. held (ks_trace s') r = held (ks_trace s) r" using assms(2) by (simp_all add: quiet_def)
  have b: "\<forall>p xp'. ks_xpdevs s' p = Some xp' \<longrightarrow>
      p \<noteq> 0 \<and> live_board ms (ks_boards s') xp' \<and> 1 \<le> held (ks_trace s') (RMem p)"
    using assms(1) quiet_board_eq [OF assms(2)] live unfolding f drv_inv_def by metis
  have "devno_of s' = devno_of s" using quiet_lookups(1) [OF assms(2)] by (rule ext)
  then show ?thesis
    using assms(1) b quiet_dom [OF assms(2)] quiet_lookups(2) [OF assms(2)] f
    by (simp add: drv_inv_def set_up_def dma_once_def)
qed

lemma remove_nothing: "xdma_remove (Some pdev) s = Inr s' \<Longrightarrow> s' = s"
  by (auto simp: xdma_remove_def release_board_def xpdev_free_def Let_def deref_xpdev_def split: option.splits if_splits)

lemma timer_quiet:
  assumes "deref_xpdev p s = Inr xp" "timer_isr now m2j info (ks_trace s) = Inr (info', tr)"
    "board_ident info = board_ident (cdev_info (ctrl_cdev xp))"
  shows "quiet s (s\<lparr>ks_trace := tr, ks_xpdevs := (ks_xpdevs s)(p \<mapsto> xp\<lparr>ctrl_cdev := (ctrl_cdev xp)\<lparr>cdev_info := info'\<rparr>\<rparr>)\<rparr>)"
proof -
  have "held t' r = held t r" if "write_reg b off v t = Inr (x, t')" for b off v t x t' r
    using that by (cases "b = 0") (auto simp: reg_simps)
  then have "held tr r = held (ks_trace s) r" for r
    using assms(2) by (auto simp: timer_isr_def timer_toggle_def Let_def)
  moreover have "board_ident info' = board_ident info"
    using assms(2) by (auto simp: timer_isr_def timer_toggle_def timer_rearm_def add_timer_def board_ident_def Let_def)
  ultimately show ?thesis using deref_xpdevD [OF assms(1)] assms(3) by (intro quiet_board [of s p xp] board_core_info) simp_all
qed

lemma step_quiet:
  assumes "drv_step k s e s'" "\<not> is_probe e"
  shows "quiet s s'"
  using assms(1)
proof cases
  case (timer p xp info now m2j info' tr)
  then show ?thesis by (simp add: timer_quiet board_ident_def)
qed (use assms(2) in \<open>auto intro: ioctl_quiet mmap_quiet command_quiet dest: remove_nothing\<close>)

section \<open>Probing\<close>

text \<open>Boards that are alive stay alive when numbers are taken.\<close>

lemma takes_number_grows:
  assumes "takes_number ms bt bt' d" "\<forall>t \<in> set known_types. unat (count_of t bt) \<le> n" "n < 4294967295"
  shows "t \<in> set known_types \<Longrightarrow> unat (count_of t bt) \<le> unat (count_of t bt')"
    "t \<in> set known_types \<Longrightarrow> unat (count_of t bt') \<le> Suc n"
proof -
  obtain i where i: "i < 3" "count_of (known_types ! i) bt' = count_of (known_types ! i) bt + 1"
    "\<And>t. t \<noteq> known_types ! i \<Longrightarrow> count_of t bt' = count_of t bt"
    using assms(1) by (auto simp: takes_number_def)
  assume t: "t \<in> set known_types"
  then have "unat (count_of t bt) \<le> n" using assms(2) by blast
  then have "Suc (unat (count_of t bt)) < 4294967296" using assms(3) by linarith
  then have "unat (count_of t bt + 1) = Suc (unat (count_of t bt))"
    by (simp add: unat_word_ariths)
  then have c: "unat (count_of t bt') = (if t = known_types ! i then Suc (unat (count_of t bt)) else unat (count_of t bt))"
    using i(2,3) by auto
  then show "unat (count_of t bt) \<le> unat (count_of t bt')" by simp
  show "unat (count_of t bt') \<le> Suc n" using c \<open>unat (count_of t bt) \<le> n\<close> by (auto split: if_splits)
qed

lemma live_board_grows:
  assumes "live_board ms bt xp" "\<And>t. t \<in> set known_types \<Longrightarrow> unat (count_of t bt) \<le> unat (count_of t bt')"
  shows "live_board ms bt' xp"
proof -
  obtain i m where i: "i < 3" "cdevno (ctrl_cdev xp) = MKDEV (ms ! i) m" "unat m < unat (count_of (known_types ! i) bt)"
    using assms(1) by (auto simp: live_board_def)
  have "known_types ! i \<in> set known_types" using i(1) by (intro nth_mem) (simp add: known_types_def)
  then have "unat m < unat (count_of (known_types ! i) bt')" using assms(2) i(3) less_le_trans by blast
  then show ?thesis using assms(1) i(1,2) by (auto simp: live_board_def)
qed

lemma drv_inv_counts:
  assumes "drv_inv ms n s" "n < 4294967295" "set_up ms s'"
    "ks_boards s' = ks_boards s \<or> takes_number ms (ks_boards s) (ks_boards s') d"
  shows "t \<in> set known_types \<Longrightarrow> unat (count_of t (ks_boards s)) \<le> unat (count_of t (ks_boards s'))"
    "t \<in> set known_types \<Longrightarrow> unat (count_of t (ks_boards s')) \<le> Suc n"
proof -
  have c: "\<forall>t \<in> set known_types. unat (count_of t (ks_boards s)) \<le> n" using assms(1) by (simp add: drv_inv_def)
  assume t: "t \<in> set known_types"
  then show "unat (count_of t (ks_boards s)) \<le> unat (count_of t (ks_boards s'))"
    using assms(4) takes_number_grows(1) [OF _ c assms(2)] by auto
  show "unat (count_of t (ks_boards s')) \<le> Suc n"
    using assms(4) takes_number_grows(2) [OF _ c assms(2)] c t by force
qed

lemma drv_inv_failed:
  assumes inv: "drv_inv ms n s" and n: "n < 4294967295" and up: "set_up ms s'"
    and nums: "ks_boards s' = ks_boards s \<or> takes_number ms (ks_boards s) (ks_boards s') d"
    and same: "ks_devices s' = ks_devices s" "ks_xpdevs s' = ks_xpdevs s"
    and h: "\<And>a. held (ks_trace s') (RMem a) = held (ks_trace s) (RMem a)"
      "\<And>a. held (ks_trace s') (RDma a) = held (ks_trace s) (RDma a)"
  shows "drv_inv ms (Suc n) s'"
proof -
  note C = drv_inv_counts [OF inv n up nums]
  have live: "live_board ms (ks_boards s') xp" if "ks_xpdevs s p = Some xp" for p xp
    by (rule live_board_grows [OF _ C(1)]) (use inv that in \<open>auto simp: drv_inv_def\<close>)
  have "devno_of s' = devno_of s" "dma_of s' = dma_of s"
    by (auto simp: fun_eq_iff devno_of_def dma_of_def same(2))
  then show ?thesis
    using inv up C(2) live by (auto simp: drv_inv_def same h dma_once_def)
qed

text \<open>The next number of a type is not the number of a listed board.\<close>

lemma known_nth: "i < 3 \<Longrightarrow> known_types ! i \<in> set known_types"
  by (intro nth_mem) (simp add: known_types_def)

lemma drv_inv_count: "drv_inv ms n s \<Longrightarrow> i < 3 \<Longrightarrow> unat (count_of (known_types ! i) (ks_boards s)) \<le> n"
  using known_nth [of i] by (simp add: drv_inv_def)

lemma next_number_unused:
  assumes inv: "drv_inv ms n s" and n: "n < 1048576" and ms: "majors_ok ms" and i: "i < 3" and q: "q \<in> set (ks_devices s)"
  shows "devno_of s q \<noteq> MKDEV (ms ! i) (count_of (known_types ! i) (ks_boards s))"
proof
  let ?c = "count_of (known_types ! i) (ks_boards s)"
  assume eq: "devno_of s q = MKDEV (ms ! i) ?c"
  obtain xq where xq: "ks_xpdevs s q = Some xq" using q unfolding drv_inv_dom [OF inv, symmetric] by blast
  then have "live_board ms (ks_boards s) xq" using drv_inv_board [OF inv] by blast
  then obtain j m where j: "j < 3" "devno_of s q = MKDEV (ms ! j) m" "unat m < unat (count_of (known_types ! j) (ks_boards s))"
    using xq by (auto simp: live_board_def devno_of_def)
  have b: "unat m < 1048576" "unat ?c < 1048576"
    using drv_inv_count [OF inv j(1)] drv_inv_count [OF inv i] j(3) n by linarith+
  have "unat (ms ! j) < 4096" "unat (ms ! i) < 4096" using ms i j(1) by (auto simp: majors_ok_def)
  then have e: "ms ! j = ms ! i" "m = ?c" using MKDEV_eq [OF b] eq j(2) by simp_all
  then have "j = i" using ms i j(1) nth_eq_iff_index_eq [of ms j i] by (simp add: majors_ok_def)
  then show False using j(3) e(2) by simp
qed

text \<open>A new board: its structure was not in use, its number is new, its DMA memory is its own.\<close>

lemma new_board_live:
  assumes "drv_inv ms n s" "n < 1048576" "takes_number ms (ks_boards s) bt (cdevno (ctrl_cdev xp))"
    "xp_xdev xp = Some x" "xdev_wf x" "magic (ctrl_cdev xp) = MAGIC_CHAR"
  shows "live_board ms bt xp"
proof -
  obtain i where i: "i < 3" "cdevno (ctrl_cdev xp) = MKDEV (ms ! i) (count_of (known_types ! i) (ks_boards s))"
    "count_of (known_types ! i) bt = count_of (known_types ! i) (ks_boards s) + 1"
    using assms(3) by (auto simp: takes_number_def)
  let ?c = "count_of (known_types ! i) (ks_boards s)"
  have "unat ?c \<le> n" by (rule drv_inv_count [OF assms(1) i(1)])
  then have "unat (?c + 1) = Suc (unat ?c)" using assms(2) by (simp add: unat_word_ariths)
  then show ?thesis
    unfolding live_board_def using assms(4-6) i by (intro conjI exI [of _ i] exI [of _ ?c]) auto
qed

lemma new_number_distinct:
  assumes "drv_inv ms n s" "n < 1048576" "majors_ok ms" "takes_number ms (ks_boards s) bt (cdevno (ctrl_cdev xp))"
    "p \<notin> set (ks_devices s)" "ks_devices s' = p # ks_devices s" "ks_xpdevs s' = (ks_xpdevs s)(p \<mapsto> xp)"
  shows "distinct (map (devno_of s') (ks_devices s'))"
proof -
  obtain i where i: "i < 3" "cdevno (ctrl_cdev xp) = MKDEV (ms ! i) (count_of (known_types ! i) (ks_boards s))"
    using assms(4) by (auto simp: takes_number_def)
  have same: "map (devno_of s') (ks_devices s) = map (devno_of s) (ks_devices s)"
    using assms(5) by (intro map_cong) (auto simp: devno_of_def assms(7))
  have mine: "devno_of s' p = MKDEV (ms ! i) (count_of (known_types ! i) (ks_boards s))" by (simp add: devno_of_def assms(7) i(2))
  have "distinct (map (devno_of s) (ks_devices s))" using assms(1) by (simp add: drv_inv_def)
  moreover have "MKDEV (ms ! i) (count_of (known_types ! i) (ks_boards s)) \<notin> set (map (devno_of s) (ks_devices s))"
    using next_number_unused [OF assms(1-3) i(1)] unfolding set_map by (metis imageE)
  ultimately show ?thesis unfolding assms(6) list.map distinct.simps same mine by (rule conjI [rotated])
qed

lemma drv_inv_bound:
  assumes inv: "drv_inv ms n s" and n: "n < 1048576" and ms: "majors_ok ms" and up: "set_up ms s'"
    and nums: "takes_number ms (ks_boards s) (ks_boards s') (cdevno (ctrl_cdev xp))"
    and xp: "p \<noteq> 0" "ks_xpdevs s p = None" "xp_xdev xp = Some x" "xdev_wf x" "magic (ctrl_cdev xp) = MAGIC_CHAR"
    and new: "ks_devices s' = p # ks_devices s" "ks_xpdevs s' = (ks_xpdevs s)(p \<mapsto> xp)"
    and h: "\<And>a. held (ks_trace s) (RMem a) \<le> held (ks_trace s') (RMem a)" "1 \<le> held (ks_trace s') (RMem p)"
      "\<And>a. held (ks_trace s') (RDma a) = held (ks_trace s) (RDma a) + xdev_dma x (RDma a)" "dma_once (ks_trace s')"
  shows "drv_inv ms (Suc n) s'"
proof -
  have n': "n < 4294967295" using n by simp
  have fresh: "p \<notin> set (ks_devices s)" using drv_inv_dom [OF inv] xp(2) by (metis domIff)
  note C = drv_inv_counts [OF inv n' up disjI2 [OF nums]]
  have live: "live_board ms (ks_boards s') xq \<and> q \<noteq> 0" if "ks_xpdevs s' q = Some xq" for q xq
    using that inv live_board_grows [OF _ C(1)] xp(1) new_board_live [OF inv n nums xp(3-5)]
    by (auto simp: new drv_inv_def split: if_splits)
  have mem: "1 \<le> held (ks_trace s') (RMem q)" if q: "ks_xpdevs s' q = Some xq" for q xq
  proof (cases "q = p")
    case False
    then have "1 \<le> held (ks_trace s) (RMem q)" using inv q by (auto simp: new drv_inv_def)
    then show ?thesis using h(1) [of q] by linarith
  qed (use h(2) in simp)
  have "dma_of s' q r = dma_of s q r" if "q \<in> set (ks_devices s)" for q r
    using that fresh by (auto simp: dma_of_def new)
  then have "(\<Sum>q\<leftarrow>ks_devices s. dma_of s' q r) = (\<Sum>q\<leftarrow>ks_devices s. dma_of s q r)" for r
    by (intro arg_cong [of _ _ sum_list] map_cong) simp_all
  then have dma: "(\<Sum>q\<leftarrow>ks_devices s'. dma_of s' q (RDma a)) \<le> held (ks_trace s') (RDma a)" if "a \<noteq> 0" for a
    using inv that xp(3) by (simp add: new h(3) drv_inv_def) (simp add: dma_of_def new)
  have dom: "dom (ks_xpdevs s') = set (ks_devices s')" using inv by (simp add: new drv_inv_def)
  show ?thesis
    using up C(2) fresh inv live mem new_number_distinct [OF inv n ms nums fresh new] dma dom h(4)
    by (simp add: drv_inv_def new(1))
qed

lemma channel_init_frame:
  assumes "fresh_xdev y" "xdma_channel_init k u True y s = Inr (0, x, s')"
  shows "dma_frame s s'"
proof -
  have "length (bar y) = XDMA_BAR_NUM" using assms(1) by (simp add: fresh_xdev_def xdev_wf_def)
  then have b: "bar1_ok y"
    using channel_init_needs_bar1 [OF assms(1), of k u s] assms(2) by (cases "bar y ! 1 = 0") (auto simp: bar1_ok_def)
  show ?thesis by (rule all_channels_result [OF assms(1) b, of k u s]) (use assms(2) in simp)
qed

text \<open>A board structure is allocated where none is.\<close>

lemma new_structure:
  assumes "drv_inv ms n s" "fresh_memory k" "k_kmalloc k (ks_trace s) = p" "p \<noteq> 0"
  shows "held (ks_trace s) (RMem p) = 0" "ks_xpdevs s p = None"
proof -
  show h: "held (ks_trace s) (RMem p) = 0" using assms(2-4) unfolding fresh_memory_def by blast
  show "ks_xpdevs s p = None"
  proof (cases "ks_xpdevs s p")
    case (Some xp)
    then have "1 \<le> held (ks_trace s) (RMem p)" using drv_inv_board [OF assms(1)] by blast
    then show ?thesis using h by simp
  qed
qed

text \<open>Before the channels are set up a probe has taken no DMA memory.\<close>

lemma no_dma_before_channels:
  assumes "xdma_device_map k (Some pdev) (ks_trace s @ [KAlloc p]) = (Some xdev, tr)"
    "vi53xx_dev_init k (fresh_board pdev\<lparr>xp_xdev := Some xdev\<rparr>) s2 = Inr (ret, xp1, s3)" "ks_trace s2 = tr"
    "map_option ec_class (ks_es_cdev s2) = Some ClassOk"
  shows "held (ks_trace s3) (RDma a) = held (ks_trace s) (RDma a)"
proof -
  have fl: "xp_flags (fresh_board pdev\<lparr>xp_xdev := Some xdev\<rparr>) = 0" by (simp add: fresh_board_def)
  have "held tr (RDma a) = held (ks_trace s) (RDma a)"
    using device_map_cases [OF assms(1), of "RDma a"] by (simp add: maps_def)
  then show ?thesis
    using dev_init_result [OF assms(2,4) fl] assms(3) by (cases "ret < 0") (simp_all add: cdev_held_def)
qed

text \<open>The course of a probe that ends with a bound board.\<close>

lemma drv_inv_probed:
  assumes inv: "drv_inv ms n s" and n: "n < 1048576" and ms: "majors_ok ms" and fresh: "fresh_memory k"
    and p: "p = k_kmalloc k (ks_trace s)" "p \<noteq> 0"
    and run: "xdma_probe k u pdev info s = Inr (0, s')"
    and dm: "xdma_device_map k (Some pdev) (ks_trace s @ [KAlloc p]) = (Some xdev, tr)"
    and di: "vi53xx_dev_init k (fresh_board pdev\<lparr>xp_xdev := Some xdev\<rparr>)
        (s\<lparr>ks_xpdevs := (ks_xpdevs s)(p \<mapsto> fresh_board pdev), ks_trace := tr\<rparr>) = Inr (ret, xp1, s3)" "\<not> ret < 0"
    and ci: "xdma_channel_init k u True xdev (store_xpdev p xp1 s3) = Inr (0, x, s5)"
    and s': "s' = s5\<lparr>ks_xpdevs := (ks_xpdevs s5)(p \<mapsto> xp1\<lparr>xp_xdev := Some x\<rparr>), ks_devices := p # ks_devices s5,
       ks_drvdata := (ks_drvdata s5)(pdev \<mapsto> p), ks_trace := ks_trace s5 @ [ListAdd p, SetDrvdata p]\<rparr>"
  shows "drv_inv ms (Suc n) s'"
proof -
  let ?s2 = "s\<lparr>ks_xpdevs := (ks_xpdevs s)(p \<mapsto> fresh_board pdev), ks_trace := tr\<rparr>"
  have up: "set_up ms ?s2" using inv by (simp add: drv_inv_def set_up_def)
  have cls: "map_option ec_class (ks_es_cdev s) = Some ClassOk" "map_option ec_class (ks_es_cdev ?s2) = Some ClassOk"
    using up by (auto simp: set_up_def)
  note N = dev_init_number [OF di(1) up]
  note st = new_structure [OF inv fresh p(1) [symmetric] p(2)]
  obtain xp y where B: "bound p pdev xp y s'" "ks_devices s' = p # ks_devices s"
    and H: "\<And>r. held (ks_trace s') r = held (ks_trace s) r + board_held p xp y r"
    by (rule probe_bound [OF run cls(1), folded p(1)]) (rule that, assumption+)
  have xp: "xp = xp1\<lparr>xp_xdev := Some x\<rparr>" "y = x" using B(1) by (auto simp: bound_def s')
  have "dma_once (ks_trace (store_xpdev p xp1 s3)) = dma_once (ks_trace s)"
    using no_dma_before_channels [OF dm di(1) _ cls(2)] by (intro dma_once_held) (simp add: store_xpdev_def)
  then have "dma_once (ks_trace s5)" using all_channels_once [OF ci fresh] inv by (simp add: drv_inv_def)
  then have once: "dma_once (ks_trace s')" by (simp add: s' dma_once_def)
  have fl: "xp_flags (fresh_board pdev\<lparr>xp_xdev := Some xdev\<rparr>) = 0" by (simp add: fresh_board_def)
  have F: "ks_boards s' = ks_boards s3" "ks_es_cdev s' = ks_es_cdev s3" "ks_xpdevs s' = (ks_xpdevs s)(p \<mapsto> xp)"
    using dma_frame_fields [OF channel_init_frame [OF device_map_fresh [OF dm] ci]] dev_init_result [OF di(1) cls(2) fl]
    by (simp_all add: s' store_xpdev_def same_tables_def xp)
  have nums: "takes_number ms (ks_boards s) (ks_boards s') (cdevno (ctrl_cdev xp))" using N di(2) by (simp add: F xp)
  have parts: "xp_xdev xp = Some y" "xdev_wf y" "magic (ctrl_cdev xp) = MAGIC_CHAR"
    using B(1) by (auto simp: bound_def releasable_def)
  have up': "set_up ms s'" using N di(2) by (simp add: F set_up_def)
  have b: "board_held p xp y (RDma a) = xdev_dma y (RDma a)" "(if a = p then 1 else 0) \<le> board_held p xp y (RMem a)" for a
    by (simp_all add: board_held_def cdev_held_def maps_def xdev_dma_def cfg_bufs_def cfg_desc_def)
  show ?thesis
    by (rule drv_inv_bound [OF inv n ms up' nums p(2) st(2) parts B(2) F(3) _ _ _ once])
      (use H b(2) [of p] b(1) st(1) in \<open>simp_all add: order_trans [OF _ b(2)]\<close>)
qed

lemma drv_inv_probe:
  assumes inv: "drv_inv ms n s" and n: "n < 1048576" and ms: "majors_ok ms" and fresh: "fresh_memory k"
    and run: "xdma_probe k u pdev info s = Inr (rv, s')"
  shows "drv_inv ms (Suc n) s'"
proof -
  define p where "p = k_kmalloc k (ks_trace s)"
  have up: "set_up ms s" using inv by (simp add: drv_inv_def)
  have n': "n < 4294967295" using n by simp
  have cls: "map_option ec_class (ks_es_cdev s) = Some ClassOk" using up by (auto simp: set_up_def)
  show ?thesis
  proof (cases "p = 0")
    case True
    then have "s' = s\<lparr>ks_trace := ks_trace s @ [KAlloc 0]\<rparr>"
      using run by (auto simp: xdma_probe_def xpdev_alloc_def Let_def p_def)
    then show ?thesis by (intro drv_inv_failed [OF inv n']) (use up in \<open>auto simp: set_up_def\<close>)
  next
    case nz: False
    have failed: "drv_inv ms (Suc n) s'" if "rv \<noteq> 0" "set_up ms s'"
      "ks_boards s' = ks_boards s \<or> takes_number ms (ks_boards s) (ks_boards s') d" for d
    proof -
      note R = failed_probe_result [OF run that(1) cls p_def]
      have "(ks_xpdevs s)(p := None) = ks_xpdevs s" using new_structure(2) [OF inv fresh p_def [symmetric] nz] by auto
      moreover have "(case o' of None \<Rightarrow> 0 | Some d \<Rightarrow> cdev_held d (RMem a)) = 0"
        "(case o' of None \<Rightarrow> 0 | Some d \<Rightarrow> cdev_held d (RDma a)) = 0" for o' a
        by (simp_all add: cdev_held_def split: option.splits)
      ultimately show ?thesis using R nz by (intro drv_inv_failed [OF inv n' that(2,3)]) simp_all
    qed
    from run p_def nz show ?thesis
    proof (cases rule: probe_steps)
      case (unmapped tr)
      then show ?thesis using up by (intro failed) (simp_all add: set_up_def)
    next
      case (refused xdev tr ret xp1 s3)
      let ?s2 = "s\<lparr>ks_xpdevs := (ks_xpdevs s)(p \<mapsto> fresh_board pdev), ks_trace := tr\<rparr>"
      have "set_up ms ?s2" using up by (simp add: set_up_def)
      note N = dev_init_number [OF refused(2) this] and E = probe_err_result [OF refused(4)]
      show ?thesis
        by (rule failed [of "cdevno (ctrl_cdev xp1)"]) (use N E(1-3) in \<open>auto simp: set_up_def store_xpdev_def\<close>)
    next
      case (bound xdev tr ret xp1 s3 x s5)
      show ?thesis by (rule drv_inv_probed [OF inv n ms fresh p_def nz run [unfolded bound(6)] bound(1-3,5,7)])
    qed
  qed
qed

section \<open>Reachable states\<close>

lemma step_inv:
  assumes "drv_inv ms n s" "drv_step k s e s'" "majors_ok ms" "fresh_memory k" "is_probe e \<Longrightarrow> n < 1048576"
  shows "drv_inv ms (if is_probe e then Suc n else n) s'"
proof (cases e)
  case (EvProbe pdev)
  obtain u info rv where "xdma_probe k u pdev info s = Inr (rv, s')" using assms(2) unfolding EvProbe by (rule drv_probeE)
  then show ?thesis using drv_inv_probe [OF assms(1) _ assms(3,4)] assms(5) by (simp add: EvProbe)
qed (use drv_inv_quiet [OF assms(1)] step_quiet [OF assms(2)] in simp_all)

text \<open>Each probe takes at most one of the 1048576 minor numbers of its type.\<close>

definition probe_cost :: "drv_event \<Rightarrow> nat" where
  "probe_cost e = (if is_probe e then 1 else 0)"

lemma probe_costs: "sum_list (map probe_cost es) = length (filter is_probe es)"
  by (induction es) (simp_all add: probe_cost_def)

interpretation driver: budgeted "drv_step k" probe_cost "\<lambda>n s. majors_ok ms \<and> fresh_memory k \<and> drv_inv ms n s" 1048576
  for k ms
proof unfold_locales
  fix n s e s'
  assume inv: "majors_ok ms \<and> fresh_memory k \<and> drv_inv ms n s" and st: "drv_step k s e s'"
    and n: "n + probe_cost e \<le> 1048576"
  have "drv_inv ms (if is_probe e then Suc n else n) s'"
    by (rule step_inv [OF _ st]) (use inv n in \<open>auto simp: probe_cost_def\<close>)
  then show "majors_ok ms \<and> fresh_memory k \<and> drv_inv ms (n + probe_cost e) s'"
    using inv by (simp add: probe_cost_def split: if_splits)
qed

lemma loaded_run_inv:
  assumes "drv_loaded ms s" "majors_ok ms" "fresh_memory k" "drv_run k s es s'" "length (filter is_probe es) \<le> 1048576"
  shows "drv_inv ms (length (filter is_probe es)) s'"
  using driver.run_inv [OF assms(4), of ms 0] drv_loaded_inv [OF assms(1)] assms(2,3,5) by (simp add: probe_costs)

section \<open>A kernel whose allocators are careful\<close>

definition careful_kapi :: kapi where
  "careful_kapi = ram_kapi\<lparr>
     k_kmalloc := (\<lambda>tr. let a = of_nat (length tr) + 1 in if held tr (RMem a) = 0 then a else 0),
     k_dma_alloc := (\<lambda>tr n. let v = 0x1000 * (of_nat (length tr) + 1) in
       if held tr (RDma v) = 0 then Some (v, 0x80000000) else None)\<rparr>"

lemma careful_fresh: "fresh_memory careful_kapi"
  by (simp add: fresh_memory_def careful_kapi_def Let_def)

lemma careful_steady: "steady careful_kapi" "publishes careful_kapi"
  using ram_kapi_steady example_publishes by (simp_all add: steady_def publishes_def careful_kapi_def)

lemma example_majors: "majors_ok [240, 241, 242]"
  by (auto simp: majors_ok_def)

lemma example_loaded: "drv_loaded [240, 241, 242] (example_kernel dt)"
  using example_table_ok [of dt]
  by (simp add: drv_loaded_def set_up_def example_kernel_def kstart_def known_types_def count_of_def init_entries_def numeral_eq_Suc)

lemma careful_probe:
  "\<exists>s'. drv_run careful_kapi (example_kernel ES5311_ID) [EvProbe example_pci] s' \<and> ks_devices s' = [2]"
proof -
  let ?s = "example_kernel ES5311_ID"
  have f: "k_kmalloc careful_kapi (ks_trace ?s) = 2" "k_kmalloc careful_kapi (ks_trace ?s @ [KAlloc 2]) = 3"
    by (simp_all add: careful_kapi_def example_kernel_def)
  obtain tr x where m: "xdma_device_map careful_kapi (Some example_pci) (ks_trace ?s @ [KAlloc 2]) = (Some x, tr)"
    "bar x ! 0 \<noteq> 0" "bar x ! 1 \<noteq> 0" "k_io careful_kapi tr (reg_addr (bar x ! 0) DEVICE_BOARD_TYPE) = ES5311_ID"
    using example_device_map_with [of "k_kmalloc careful_kapi" ES5311_ID "k_dma_alloc careful_kapi", OF f(2)]
    by (auto simp: careful_kapi_def)
  have nm: "drv_get_board_name (k_io careful_kapi tr (reg_addr (bar x ! 0) DEVICE_BOARD_TYPE)) = Some ''es5311''"
    by (simp only: m(4)) (simp add: drv_get_board_name_def)
  obtain s' where "xdma_probe careful_kapi (\<lambda>_. undefined) example_pci True ?s = Inr (0, s') \<and>
      ks_drvdata s' example_pci = Some 2 \<and> ks_devices s' = 2 # ks_devices ?s"
    using probe_works [OF f(1) example_kernel_fields(2) m(1-3) careful_steady example_table_ok example_kernel_fields(3-5) nm,
        of "\<lambda>_. undefined"] by (elim exE)
  then have p: "xdma_probe careful_kapi (\<lambda>_. undefined) example_pci True ?s = Inr (0, s')" "ks_devices s' = 2 # ks_devices ?s"
    by (simp_all only:)
  have "drv_run careful_kapi ?s [EvProbe example_pci] s'"
    by (rule run_more [where step = "drv_step careful_kapi", OF drv_step.probe [OF p(1)] run_done])
  moreover have "ks_devices ?s = []" by (simp add: example_kernel_def kstart_def)
  ultimately show ?thesis using p(2) by auto
qed

section \<open>Properties\<close>

text \<open>C19: Whatever boards are probed, successfully or not, and however their ioctls, mmap, command
  files and LED timers are used, in any order, the boards on the device list and the allocated
  board structures are the same, no board is listed twice, no two boards have the same device
  number, and every listed board can be opened; the minor numbers leave room for 1048576 probes.
  The removal of a board that is not bound changes nothing; that of a listed board uses freed
  memory and so ends a run.\<close>

theorem driver_boards_distinct:
  assumes "drv_loaded ms s" "majors_ok ms" "fresh_memory k" "drv_run k s es s'" "length (filter is_probe es) \<le> 1048576"
  shows "distinct (ks_devices s') \<and> dom (ks_xpdevs s') = set (ks_devices s') \<and>
    distinct (map (devno_of s') (ks_devices s')) \<and> (\<forall>p \<in> set (ks_devices s'). vi53xx_open p s' = Inr (0, p))"
proof -
  have inv: "drv_inv ms (length (filter is_probe es)) s'" by (rule loaded_run_inv [OF assms])
  have "vi53xx_open p s' = Inr (0, p)" if p: "p \<in> set (ks_devices s')" for p
  proof -
    obtain xp where xp: "ks_xpdevs s' p = Some xp" using p unfolding drv_inv_dom [OF inv, symmetric] by blast
    from xp drv_inv_board [OF inv xp] show ?thesis by (simp add: vi53xx_open_def deref_xpdev_def live_board_def)
  qed
  then show ?thesis using inv by (simp add: drv_inv_def)
qed

lemma driver_boards_distinct_witness:
  "\<exists>s'. drv_run careful_kapi (example_kernel ES5311_ID) [EvProbe example_pci] s' \<and> vi53xx_open 2 s' = Inr (0, 2)"
proof -
  obtain s' where r: "drv_run careful_kapi (example_kernel ES5311_ID) [EvProbe example_pci] s'" "ks_devices s' = [2]"
    using careful_probe by blast
  then show ?thesis
    using driver_boards_distinct [OF example_loaded example_majors careful_fresh r(1)] by auto
qed

text \<open>C20: In every state the module reaches from its load, no DMA memory is used by two channels, of
  the same board or of two boards: each address occurs at most once in the channel records of
  all listed boards.\<close>

theorem driver_buffers_disjoint:
  assumes "drv_loaded ms s" "majors_ok ms" "fresh_memory k" "drv_run k s es s'" "length (filter is_probe es) \<le> 1048576"
    and "a \<noteq> 0"
  shows "(\<Sum>p\<leftarrow>ks_devices s'. dma_of s' p (RDma a)) \<le> 1"
proof -
  have "drv_inv ms (length (filter is_probe es)) s'" by (rule loaded_run_inv [OF assms(1-5)])
  then have "(\<Sum>p\<leftarrow>ks_devices s'. dma_of s' p (RDma a)) \<le> held (ks_trace s') (RDma a)" "held (ks_trace s') (RDma a) \<le> 1"
    using assms(6) by (simp_all add: drv_inv_def dma_once_def)
  then show ?thesis by linarith
qed

lemma driver_buffers_disjoint_witness:
  "\<exists>s'. drv_run careful_kapi (example_kernel ES5311_ID) [EvProbe example_pci] s' \<and> dma_of s' 2 (RDma 0x5000) \<le> 1"
proof -
  obtain s' where r: "drv_run careful_kapi (example_kernel ES5311_ID) [EvProbe example_pci] s'" "ks_devices s' = [2]"
    using careful_probe by blast
  have "(\<Sum>p\<leftarrow>ks_devices s'. dma_of s' p (RDma 0x5000)) \<le> 1"
    by (rule driver_buffers_disjoint [OF example_loaded example_majors careful_fresh r(1)]) simp_all
  then show ?thesis using r by auto
qed

end
