(* ===== verification/DeviceNodes.thy ===== *)
theory DeviceNodes
  imports DriverRuns BoardList
begin

text \<open>
  The device files of the boards. The module makes a file named after the type and the minor
  number of each board (\<open>create_cdev\<close> of \<open>driver/vi53xx_cndev_core.c\<close>); its list names the
  type and the number separately. In every reachable state the descriptions of the listed
  boards say what the files are named after, and no two boards have a file of the same name.
\<close>

section \<open>The description of a board\<close>

definition node_name :: "xdma_pci_dev \<Rightarrow> string" where
  "node_name xp = di_device_name (cdev_info (ctrl_cdev xp)) @ ''_'' @ show_u (MINOR (cdevno (ctrl_cdev xp)))"

text \<open>The boards in the order of the device list.\<close>

definition listed :: "kstate \<Rightarrow> xdma_pci_dev list" where
  "listed s = map (\<lambda>p. the (ks_xpdevs s p)) (ks_devices s)"

text \<open>The type in the description is known, it has the name there and the major of the number.\<close>

definition described :: "u32 list \<Rightarrow> xdma_pci_dev \<Rightarrow> bool" where
  "described ms xp \<longleftrightarrow>
     drv_get_board_name (di_board_type (cdev_info (ctrl_cdev xp))) = Some (di_device_name (cdev_info (ctrl_cdev xp))) \<and>
     (\<exists>j < 3. \<exists>n. di_board_type (cdev_info (ctrl_cdev xp)) = known_types ! j \<and>
        cdevno (ctrl_cdev xp) = MKDEV (ms ! j) n \<and> unat n < 1048576)"

lemma described_core: "board_core xp' = board_core xp \<Longrightarrow> described ms xp' = described ms xp"
  by (simp add: described_def board_core_def board_ident_def)

text \<open>There are numbers left for every type.\<close>

definition numbers_left :: "kstate \<Rightarrow> bool" where
  "numbers_left s \<longleftrightarrow> (\<forall>t \<in> set known_types. unat (count_of t (ks_boards s)) < 1048576)"

lemma identify_described:
  assumes "identify_board k xp s = Inr (Inr (), xp', s')" "set_up ms s" "steady k" "numbers_left s"
  shows "described ms xp'"
proof -
  obtain es where es: "ks_es_cdev s = Some es" "ec_class es = ClassOk" "ec_major es = ms" and ok: "table_ok (ks_boards s)"
    and len: "length ms = 3" using assms(2) by (auto simp: set_up_def)
  obtain xdev base where
    a: "xp_xdev xp = Some xdev" "nthR (bar xdev) 0 = Inr base"
    using assms(1) by (auto simp: identify_board_def derefR_def split: option.splits)
  have nz: "base \<noteq> 0" using assms(1) a by (cases "base = 0") (auto simp: identify_board_def reg_simps Let_def)
  define dt where "dt = k_io k (ks_trace s) (reg_addr base DEVICE_BOARD_TYPE)"
  obtain inst bt1 where bt1: "drv_get_board_instance dt (ks_boards s) = Inr (inst, bt1)"
    using assms(1) a nz by (auto simp: identify_board_def Let_def reg_simps dt_def)
  obtain nm where nm: "drv_get_board_name dt = Some nm"
    using assms(1) a nz bt1 by (auto simp: identify_board_def Let_def reg_simps dt_def [symmetric] split: option.splits if_splits)
  obtain i where i: "i < 3" "dt = known_types ! i" by (rule known_index [OF nm])
  have b0: "base = bar xdev ! 0" "0 < length (bar xdev)" using a(2) by (auto simp: nthR_def split: if_splits)
  obtain xp1 s1 where r: "identify_board k xp s = Inr (Inr (), xp1, s1)"
    "cdevno (ctrl_cdev xp1) = board_devno es i (count_of dt (ks_boards s))"
    "di_device_name (cdev_info (ctrl_cdev xp1)) = nm" "di_board_type (cdev_info (ctrl_cdev xp1)) = dt"
    by (rule identify_board_known [OF a(1) b0 nz assms(3) ok es(1) _ dt_def nm i]) (use es(3) len in auto)
  have "unat (count_of dt (ks_boards s)) < 1048576" using assms(4) i known_nth [of i] by (simp add: numbers_left_def)
  then show ?thesis using r assms(1) nm i es(3)
    by (auto simp: described_def board_devno_def)
qed

lemma dev_init_described:
  assumes "vi53xx_dev_init k xp s = Inr (ret, xp', s')" "0 \<le> ret" "set_up ms s" "steady k" "numbers_left s"
  shows "described ms xp'"
proof -
  obtain res xp1 s1 where i: "identify_board k xp s = Inr (res, xp1, s1)"
    using assms(1) by (auto simp: vi53xx_dev_init_def create_cdev_def)
  obtain v where res: "res = Inr ()"
    using assms(1,2) i by (cases res)
      (auto simp: vi53xx_dev_init_def create_cdev_def identify_board_def Let_def split: if_splits option.splits)
  obtain rv xp2 s2 where p: "publish_board k CHAR_CTRL xp1 s1 = Inr (rv, xp2, s2)" "xp' = xpdev_flag_set CDEV_CTRL xp2"
    using assms(1,2) i res by (auto simp: vi53xx_dev_init_def create_cdev_def split: if_splits)
  have "described ms xp1" using i assms(3-5) unfolding res by (rule identify_described)
  moreover have "cdevno (ctrl_cdev xp2) = cdevno (ctrl_cdev xp1) \<and> cdev_info (ctrl_cdev xp2) = cdev_info (ctrl_cdev xp1)"
    using p(1) by (auto simp: publish_board_def create_sys_device_def Let_def split: if_splits prod.splits)
  ultimately show ?thesis by (simp add: p(2) described_def xpdev_flag_set_def)
qed

definition reachable_regs :: "xdma_pci_dev \<Rightarrow> bool" where
  "reachable_regs xp \<longleftrightarrow> (\<exists>x. xp_xdev xp = Some x \<and> bars_mapped x)"

lemma reachable_regs_core: "board_core xp' = board_core xp \<Longrightarrow> reachable_regs xp' = reachable_regs xp"
  by (simp add: reachable_regs_def board_core_def)

text \<open>Probing adds at most one board, describes it and maps its BARs.\<close>

lemma probe_described:
  assumes "xdma_probe k u pdev info s = Inr (rv, s')" "set_up ms s" "steady k" "numbers_left s" "ks_xpdevs s' q = Some xq"
  shows "ks_xpdevs s q = Some xq \<or> described ms xq \<and> reachable_regs xq"
proof -
  define p where "p = k_kmalloc k (ks_trace s)"
  have cls: "map_option ec_class (ks_es_cdev s) = Some ClassOk" using assms(2) by (auto simp: set_up_def)
  show ?thesis
  proof (cases "p = 0")
    case True
    then have "s' = s\<lparr>ks_trace := ks_trace s @ [KAlloc 0]\<rparr>"
      using assms(1) by (auto simp: xdma_probe_def xpdev_alloc_def Let_def p_def)
    then show ?thesis using assms(5) by simp
  next
    case nz: False
    have failed: ?thesis if "rv \<noteq> 0"
      using failed_probe_result [OF assms(1) that cls p_def] nz assms(5) by (auto split: if_splits)
    from assms(1) p_def nz show ?thesis
    proof (cases rule: probe_steps)
      case (bound xdev tr ret xp1 s3 x s5)
      let ?s2 = "s\<lparr>ks_xpdevs := (ks_xpdevs s)(p \<mapsto> fresh_board pdev), ks_trace := tr\<rparr>"
      have up: "set_up ms ?s2" using assms(2) by (simp add: set_up_def)
      have left: "numbers_left ?s2" using assms(4) by (simp add: numbers_left_def)
      have c2: "map_option ec_class (ks_es_cdev ?s2) = Some ClassOk" using cls by simp
      have "described ms xp1" by (rule dev_init_described [OF bound(2) _ up assms(3) left]) (use bound(3) in simp)
      then have new: "described ms (xp1\<lparr>xp_xdev := Some x\<rparr>)" by (simp add: described_def)
      obtain xp y where B: "bound p pdev xp y s'"
        by (rule probe_bound [OF assms(1) [unfolded bound(6)] cls, folded p_def]) blast
      then have "reachable_regs (xp1\<lparr>xp_xdev := Some x\<rparr>)" by (auto simp: bound_def bound(7) reachable_regs_def)
      moreover have "ks_xpdevs s5 = (ks_xpdevs s)(p \<mapsto> xp1)"
        using dma_frame_fields [OF channel_init_frame [OF device_map_fresh [OF bound(1)] bound(5)]]
          dev_init_result [OF bound(2) c2, simplified] by (simp add: store_xpdev_def same_tables_def)
      ultimately show ?thesis using assms(5) new by (auto simp: bound(7) split: if_splits)
    next
      case (refused xdev tr ret xp1 s3)
      then show ?thesis using probe_err_result(1) [OF refused(4)] by (intro failed) simp
    qed (use failed in simp)
  qed
qed

section \<open>Reachable states\<close>

definition all_described :: "u32 list \<Rightarrow> kstate \<Rightarrow> bool" where
  "all_described ms s \<longleftrightarrow> (\<forall>p xp. ks_xpdevs s p = Some xp \<longrightarrow> described ms xp \<and> reachable_regs xp)"

lemma all_describedD:
  "all_described ms s \<Longrightarrow> ks_xpdevs s p = Some xp \<Longrightarrow> described ms xp"
  "all_described ms s \<Longrightarrow> ks_xpdevs s p = Some xp \<Longrightarrow> reachable_regs xp"
  unfolding all_described_def by blast+

lemma step_described:
  assumes "drv_step k s e s'" "drv_inv ms n s" "all_described ms s" "steady k" "n + probe_cost e \<le> 1048576"
  shows "all_described ms s'"
proof (cases "is_probe e")
  case False
  then show ?thesis
    using step_quiet [OF assms(1)] quiet_board_eq described_core reachable_regs_core assms(3) unfolding all_described_def by metis
next
  case True
  then obtain pdev where e: "e = EvProbe pdev" by (cases e) simp_all
  obtain u info rv where run: "xdma_probe k u pdev info s = Inr (rv, s')" using assms(1) unfolding e by (rule drv_probeE)
  have up: "set_up ms s" using assms(2) by (simp add: drv_inv_def)
  have "n < 1048576" using assms(5) True by (simp add: probe_cost_def)
  then have left: "numbers_left s" using assms(2) by (auto simp: drv_inv_def numbers_left_def)
  show ?thesis using probe_described [OF run up assms(4) left] assms(3) unfolding all_described_def by blast
qed

interpretation nodes: budgeted "drv_step k" probe_cost
  "\<lambda>n s. majors_ok ms \<and> fresh_memory k \<and> steady k \<and> drv_inv ms n s \<and> all_described ms s" 1048576 for k ms
proof unfold_locales
  fix n s e s'
  assume inv: "majors_ok ms \<and> fresh_memory k \<and> steady k \<and> drv_inv ms n s \<and> all_described ms s"
    and st: "drv_step k s e s'" and n: "n + probe_cost e \<le> 1048576"
  then show "majors_ok ms \<and> fresh_memory k \<and> steady k \<and> drv_inv ms (n + probe_cost e) s' \<and> all_described ms s'"
    using driver.step_inv [OF _ st n, of ms] step_described [OF st _ _ _ n] by blast
qed

lemma loaded_run_nodes:
  assumes "drv_loaded ms s" "majors_ok ms" "fresh_memory k" "steady k" "drv_run k s es s'" "length (filter is_probe es) \<le> 1048576"
  shows "drv_inv ms (length (filter is_probe es)) s' \<and> all_described ms s'"
proof -
  have "all_described ms s" using assms(1) by (simp add: drv_loaded_def all_described_def)
  then show ?thesis
    using nodes.run_inv [OF assms(5), of ms 0] drv_loaded_inv [OF assms(1)] assms(2-4,6) by (simp add: probe_costs)
qed

section \<open>File names\<close>

lemma show_u_inj: "show_u a = show_u b \<longleftrightarrow> a = b"
proof
  assume "show_u a = show_u b"
  then have "scan_d (fmt_d (sint a) @ []) = scan_d (fmt_d (sint b) @ [])" by (simp add: show_u_def)
  then have "sint a = sint b" by (simp only: scan_d_fmt_d simp_thms) simp
  then show "a = b" by (rule signed_word_eqI)
qed simp

lemma board_name_inj: "drv_get_board_name t = Some nm \<Longrightarrow> drv_get_board_name t' = Some nm \<Longrightarrow> t = t'"
  by (auto simp: drv_get_board_name_def split: if_splits)

lemma board_name_length: "drv_get_board_name t = Some nm \<Longrightarrow> length nm = 6"
  by (auto dest: name_cases)

text \<open>Boards with the same file have the same number.\<close>

lemma node_name_devno:
  assumes "described ms xp" "described ms xq" "node_name xp = node_name xq"
  shows "cdevno (ctrl_cdev xp) = cdevno (ctrl_cdev xq)"
proof -
  let ?i = "cdev_info (ctrl_cdev xp)" and ?j = "cdev_info (ctrl_cdev xq)"
  have nm: "drv_get_board_name (di_board_type ?i) = Some (di_device_name ?i)"
    "drv_get_board_name (di_board_type ?j) = Some (di_device_name ?j)" using assms(1,2) by (simp_all add: described_def)
  have same: "di_device_name ?i = di_device_name ?j" "MINOR (cdevno (ctrl_cdev xp)) = MINOR (cdevno (ctrl_cdev xq))"
    using assms(3) board_name_length [OF nm(1)] board_name_length [OF nm(2)] by (simp_all add: node_name_def show_u_inj)
  have ty: "di_board_type ?i = di_board_type ?j" using board_name_inj nm same(1) by metis
  obtain j n where j: "j < 3" "di_board_type ?i = known_types ! j" "cdevno (ctrl_cdev xp) = MKDEV (ms ! j) n" "unat n < 1048576"
    using assms(1) by (auto simp: described_def)
  obtain j' n' where j': "j' < 3" "di_board_type ?j = known_types ! j'" "cdevno (ctrl_cdev xq) = MKDEV (ms ! j') n'" "unat n' < 1048576"
    using assms(2) by (auto simp: described_def)
  have "j = j'" using ty j(1,2) j'(1,2) known_types_inj [of j j'] by simp
  moreover have "n = n'" using same(2) MINOR_MKDEV [OF j(4)] MINOR_MKDEV [OF j'(4)] by (simp add: j(3) j'(3))
  ultimately show ?thesis by (simp add: j(3) j'(3))
qed

lemma listed_board:
  assumes "drv_inv ms n s" "p \<in> set (ks_devices s)"
  obtains xp where "ks_xpdevs s p = Some xp"
  using assms(2) unfolding drv_inv_dom [OF assms(1), symmetric] by blast

lemma distinct_nodes:
  assumes "drv_inv ms n s" "all_described ms s" "p \<in> set (ks_devices s)" "q \<in> set (ks_devices s)"
    "node_name (the (ks_xpdevs s p)) = node_name (the (ks_xpdevs s q))"
  shows "p = q"
proof -
  obtain xp where xp: "ks_xpdevs s p = Some xp" by (rule listed_board [OF assms(1,3)])
  obtain xq where xq: "ks_xpdevs s q = Some xq" by (rule listed_board [OF assms(1,4)])
  have "node_name xp = node_name xq" using assms(5) by (simp add: xp xq)
  from node_name_devno [OF all_describedD(1) [OF assms(2) xp] all_describedD(1) [OF assms(2) xq] this]
  have "devno_of s p = devno_of s q" by (simp add: devno_of_def xp xq)
  moreover have "inj_on (devno_of s) (set (ks_devices s))" using assms(1) by (simp add: drv_inv_def distinct_map)
  ultimately show ?thesis using assms(3,4) by (blast dest: inj_onD)
qed

end
