(* ===== verification/SystemOpen.thy ===== *)
theory SystemOpen
  imports DeviceNodes LibRuns StackCalls
begin

text \<open>
  From the list of the module to an open board of the library: a process reads the list, the
  library builds the name of a device file from it, and the system opens that file with the
  module's handler. The name is the one the module gave the file as long as the instance has one
  decimal digit, and then the open board of the library is the board of the module.
\<close>

section \<open>The file the library opens\<close>

lemma described_name_ok: "described ms xp \<Longrightarrow> name_ok (di_device_name (cdev_info (ctrl_cdev xp)))"
  by (auto simp: described_def name_ok_def separators_def dest!: name_cases)

lemma listed_described:
  assumes "drv_inv ms n s" "all_described ms s" "x \<in> set (listed s)"
  shows "described ms x"
proof -
  obtain p where p: "p \<in> set (ks_devices s)" "x = the (ks_xpdevs s p)" using assms(3) by (auto simp: listed_def)
  obtain xp where "ks_xpdevs s p = Some xp" by (rule listed_board [OF assms(1) p(1)])
  then show ?thesis using all_describedD(1) [OF assms(2)] p(2) by simp
qed

definition board_id_of :: "xdma_pci_dev \<Rightarrow> u32" where
  "board_id_of xp = di_board_id (cdev_info (ctrl_cdev xp))"

text \<open>Looking a board of the list up, by its id and by its type.\<close>

lemma lookup_board:
  assumes "board_info l = Some (map parsed_board bs @ rest)" "available_board_count l = int (length bs)"
    "xp \<in> set bs" "distinct (map board_id_of bs)" "\<forall>x \<in> set bs. described ms x"
  shows "vi53xx_get_board_type (board_id_of xp) l = Inr (di_board_type (cdev_info (ctrl_cdev xp)))"
    "lib_get_board_instance (board_id_of xp) l = Inr (bi_board_inst (parsed_board xp))"
    "lib_get_board_name (di_board_type (cdev_info (ctrl_cdev xp))) l = Inr (Some (di_device_name (cdev_info (ctrl_cdev xp))))"
proof -
  let ?l = "map parsed_board bs" and ?ty = "di_board_type (cdev_info (ctrl_cdev xp))"
  have scan: "scan_boards p 0 (available_board_count l) (board_info l) = Inr (List.find p ?l)" for p
    using scan_boards_all [of "int (length bs)" "?l @ rest" p] by (simp add: assms(1,2))
  have pb: "bi_board_id (parsed_board x) = board_id_of x" "bi_board_type (parsed_board x) = di_board_type (cdev_info (ctrl_cdev x))"
    "bi_board_name (parsed_board x) = di_device_name (cdev_info (ctrl_cdev x))" for x
    by (simp_all add: parsed_board_def board_id_of_def Let_def)
  have "distinct (map bi_board_id ?l)" using assms(4) by (simp add: pb o_def)
  then have id: "List.find (\<lambda>b. bi_board_id b = board_id_of xp) ?l = Some (parsed_board xp)"
    using find_distinct [of bi_board_id ?l "parsed_board xp"] assms(3) by (simp add: pb)
  show "vi53xx_get_board_type (board_id_of xp) l = Inr ?ty" "lib_get_board_instance (board_id_of xp) l = Inr (bi_board_inst (parsed_board xp))"
    by (simp_all add: vi53xx_get_board_type_def lib_get_board_instance_def i_lib_get_board_instance_def scan id pb)
  obtain b where b: "List.find (\<lambda>b. bi_board_type b = ?ty) ?l = Some b"
    using assms(3) pb(2) by (cases "List.find (\<lambda>b. bi_board_type b = ?ty) ?l") (auto simp: find_None_iff)
  then obtain i where i: "i < length bs" "di_board_type (cdev_info (ctrl_cdev (bs ! i))) = ?ty" "b = parsed_board (bs ! i)"
    by (auto simp: find_Some_iff pb)
  define x where "x = bs ! i"
  have x: "x \<in> set bs" "b = parsed_board x" "di_board_type (cdev_info (ctrl_cdev x)) = ?ty"
    using i by (simp_all add: x_def)
  then have "di_device_name (cdev_info (ctrl_cdev x)) = di_device_name (cdev_info (ctrl_cdev xp))"
    using assms(3,5) unfolding described_def by (metis option.inject)
  then show "lib_get_board_name ?ty l = Inr (Some (di_device_name (cdev_info (ctrl_cdev xp))))"
    by (simp add: lib_get_board_name_def i_lib_get_board_name_def scan b x(2) pb)
qed

definition lib_path :: "xdma_pci_dev \<Rightarrow> string" where
  "lib_path xp = dev_path (Some (di_device_name (cdev_info (ctrl_cdev xp)))) (bi_board_inst (parsed_board xp))"

lemma lib_path_node: "lib_path xp = ''/dev/'' @ node_name xp \<longleftrightarrow> MINOR (cdevno (ctrl_cdev xp)) < 10"
  unfolding parsed_inst_eq_iff [symmetric] by (simp add: lib_path_def dev_path_def node_name_def fmt_s_def show_u_inj)

lemma open_path:
  assumes "board_info l = Some (map parsed_board bs @ rest)" "available_board_count l = int (length bs)"
    "xp \<in> set bs" "distinct (map board_id_of bs)" "\<forall>x \<in> set bs. described ms x"
  shows "get_board_handle env (board_id_of xp) l =
    (let h = os_open env (os_log l) (lib_path xp) in Inr (h, l\<lparr>os_log := os_log l @ [OsOpen (lib_path xp) h]\<rparr>))"
proof -
  have "length (di_device_name (cdev_info (ctrl_cdev xp))) = 6"
    using assms(3,5) by (auto simp: described_def dest: board_name_length)
  then have "length (lib_path xp) < 32"
    using length_show_u [of "bi_board_inst (parsed_board xp)"] by (simp add: lib_path_def dev_path_def fmt_s_def)
  then show ?thesis using lookup_board [OF assms]
    by (simp add: get_board_handle_def fitsR_def lib_path_def [symmetric])
qed

section \<open>The board behind the file\<close>

text \<open>
  The kernel's part in opening a device file is a parameter: \<open>op\<close> gives, for a path, what the
  kernel keeps for the process that opened it. The documented behaviour the development relies on
  is that opening the file of a listed board runs the open handler of the module on the inode of
  that board, and keeps the \<open>private_data\<close> that the handler returns when it succeeds.
\<close>

definition opens_nodes :: "(string \<Rightarrow> u64) \<Rightarrow> kstate \<Rightarrow> bool" where
  "opens_nodes op s \<longleftrightarrow> (\<forall>p \<in> set (ks_devices s). \<forall>q.
     vi53xx_open p s = Inr (0, q) \<longrightarrow> op (''/dev/'' @ node_name (the (ks_xpdevs s p))) = q)"

lemma opens_nodes_listed:
  assumes "opens_nodes op s" "drv_inv ms n s" "p \<in> set (ks_devices s)" "ks_xpdevs s p = Some xp"
  shows "op (''/dev/'' @ node_name xp) = p"
proof -
  have "vi53xx_open p s = Inr (0, p)"
    using drv_inv_board [OF assms(2,4)] assms(4) by (simp add: vi53xx_open_def deref_xpdev_def live_board_def)
  then have "op (''/dev/'' @ node_name (the (ks_xpdevs s p))) = p" using assms(1,3) unfolding opens_nodes_def by blast
  then show ?thesis by (simp add: assms(4))
qed

section \<open>Discovery of a reachable module\<close>

text \<open>
  A process whose library has not looked for boards yet, with memory for the two arrays and a
  line buffer, and for which the board file holds the list of the module: at least one and at most
  64 boards, which answered with different board ids. The library asks for the list under another
  name than the module gives it, so the file must have been provided under that name.
\<close>

definition sees_boards :: "os \<Rightarrow> kstate \<Rightarrow> lib \<Rightarrow> bool" where
  "sees_boards env s l \<longleftrightarrow> init_check_ok l = 0 \<and> os_malloc env 0 \<and> os_malloc env 1 \<and> length (os_line env) = 256 \<and>
     os_fopen env boards_file = Some (mapping_show (listed s)) \<and>
     ks_devices s \<noteq> [] \<and> length (ks_devices s) \<le> 64 \<and> distinct (map board_id_of (listed s))"

lemma in_listed: "p \<in> set (ks_devices s) \<Longrightarrow> ks_xpdevs s p = Some xp \<Longrightarrow> xp \<in> set (listed s)"
  by (force simp: listed_def)

lemma discovered:
  assumes "\<forall>x \<in> set (listed s). described ms x" "sees_boards env s l"
  obtains c l' rest where "check_boards_info env l = Inr (c, l')"
    "board_info l' = Some (map parsed_board (listed s) @ rest)" "available_board_count l' = int (length (listed s))"
    "os_log l' = os_log l" "dev_handle_list l' = init_dev_handle_list (dev_handle_list l)"
proof -
  have a: "init_check_ok l = 0" "os_malloc env 0" "os_malloc env 1" "length (os_line env) = 256"
    "os_fopen env boards_file = Some (mapping_show (listed s))" "listed s \<noteq> []" "length (listed s) \<le> 64"
    using assms(2) by (simp_all add: sees_boards_def listed_def)
  have "\<forall>x \<in> set (listed s). name_ok (di_device_name (cdev_info (ctrl_cdev x)))"
    using assms(1) described_name_ok by blast
  from discovery_result [OF a this] show thesis using that by metis
qed

text \<open>The path of a listed board, once the list is read.\<close>

lemma discovered_path:
  assumes "\<forall>x \<in> set (listed s). described ms x" "sees_boards env s l" "xp \<in> set (listed s)"
  obtains c l' where "check_boards_info env l = Inr (c, l')"
    "get_board_handle env (board_id_of xp) l' = Inr (os_open env (os_log l) (lib_path xp),
       l'\<lparr>os_log := os_log l @ [OsOpen (lib_path xp) (os_open env (os_log l) (lib_path xp))]\<rparr>)"
    "available_board_count l' = int (length (listed s))" "dev_handle_list l' = init_dev_handle_list (dev_handle_list l)"
proof -
  have d: "distinct (map board_id_of (listed s))" using assms(2) by (simp add: sees_boards_def)
  obtain c l' rest where r: "check_boards_info env l = Inr (c, l')"
    "board_info l' = Some (map parsed_board (listed s) @ rest)" "available_board_count l' = int (length (listed s))"
    "os_log l' = os_log l" "dev_handle_list l' = init_dev_handle_list (dev_handle_list l)"
    by (rule discovered [OF assms(1,2)])
  show thesis by (rule that [OF r(1)]) (simp_all add: open_path [OF r(2,3) assms(3) d assms(1)] r Let_def)
qed

text \<open>Opening a board of the list for the first time puts it in the table.\<close>

lemma first_open:
  assumes "get_board_handle env b l = Inr (h, l1)" "0 \<le> h" "os_malloc env 0" "0 < available_board_count l"
    "available_board_count l \<le> 64" "dev_handle_list l = replicate MAX_DEV_HANDLE None"
  obtains l' dh where "vi53xx_device_open env b l = Inr (h, l')" "get_dev_handle b l' = Some dh" "dh_dev_handle dh = h"
proof -
  let ?cnt = "get_available_board_count l"
  obtain m where m: "nat ?cnt = Suc m" using assms(4,5) by (cases "nat ?cnt") (auto simp: get_available_board_count_def split: if_splits)
  have r: "dev_handle_list l = None # replicate 127 None"
    using assms(6) replicate_Suc [of 127 "None :: dev_handle option"] by simp
  have none: "get_dev_handle b l = None"
    by (simp add: get_dev_handle_def handle_find_def assms(6) take_replicate slot_find_None_iff)
  obtain nm where o: "vi53xx_device_open env b l =
      (let dh = \<lparr>dh_dev_handle = h, dh_board_id = b, dh_dev_name = nm\<rparr>; s2 = set_online_board_count (?cnt + 1) l1
       in case handle_put ?cnt dh (dev_handle_list l) of Some t' \<Rightarrow> Inr (h, s2\<lparr>dev_handle_list := t'\<rparr>) | None \<Rightarrow> Inr (0, s2))"
    "l1 = l\<lparr>os_log := os_log l @ [OsOpen nm h]\<rparr>"
    by (rule device_open_new [OF assms(1,2) _ none assms(3)]) (use m in auto)
  let ?dh = "\<lparr>dh_dev_handle = h, dh_board_id = b, dh_dev_name = nm\<rparr>"
  have put: "handle_put ?cnt ?dh (dev_handle_list l) =
      Some (Some ?dh # take m (replicate 127 None) @ drop m (replicate 127 None))"
    by (simp add: handle_put_def r m)
  let ?l' = "(set_online_board_count (?cnt + 1) l1)\<lparr>dev_handle_list :=
    Some ?dh # take m (replicate 127 None) @ drop m (replicate 127 None)\<rparr>"
  have "get_available_board_count ?l' = ?cnt"
    by (simp add: get_available_board_count_def set_online_board_count_def o(2))
  then have find: "get_dev_handle b ?l' = Some ?dh" by (simp add: get_dev_handle_def handle_find_def m)
  have "vi53xx_device_open env b l = Inr (h, ?l')" using o(1) put by (simp add: Let_def)
  then show thesis by (rule that [OF _ find]) simp
qed

section \<open>One board\<close>

text \<open>The module with one probed board, and a process that can read its list and open its file.\<close>

lemma one_board:
  obtains s' xp where "drv_run careful_kapi (example_kernel ES5311_ID) [EvProbe example_pci] s'"
    "ks_devices s' = [2]" "ks_xpdevs s' 2 = Some xp" "MINOR (cdevno (ctrl_cdev xp)) < 10"
proof -
  obtain s' where r: "drv_run careful_kapi (example_kernel ES5311_ID) [EvProbe example_pci] s'" "ks_devices s' = [2]"
    using careful_probe by blast
  have inv: "drv_inv [240, 241, 242] 1 s'"
    using loaded_run_inv [OF example_loaded example_majors careful_fresh r(1)] by simp
  have in2: "2 \<in> set (ks_devices s')" using r(2) by simp
  obtain xp where xp: "ks_xpdevs s' 2 = Some xp" by (rule listed_board [OF inv in2])
  have "live_board [240, 241, 242] (ks_boards s') xp" using drv_inv_board [OF inv xp] by blast
  then obtain j n where j: "j < 3" "cdevno (ctrl_cdev xp) = MKDEV ([240, 241, 242] ! j) n"
    "unat n < unat (count_of (known_types ! j) (ks_boards s'))" by (auto simp: live_board_def)
  then have "unat n = 0" using drv_inv_count [OF inv j(1)] by linarith
  then have "MINOR (cdevno (ctrl_cdev xp)) < 10"
    unfolding j(2) by (subst MINOR_MKDEV) (simp_all add: word_less_nat_alt)
  then show thesis by (rule that [OF r xp])
qed

definition example_reader :: "kstate \<Rightarrow> os" where
  "example_reader s = example_os\<lparr>os_fopen := \<lambda>_. Some (mapping_show (listed s))\<rparr>"

lemma example_sees: "ks_devices s = [p] \<Longrightarrow> sees_boards (example_reader s) s lib_start"
  by (simp add: sees_boards_def example_reader_def example_os_def lib_start_def listed_def)

section \<open>Properties\<close>

text \<open>C16: Suppose the board file that the library reads holds the list of the module (the module does
  not make a file of that name, so someone must have provided it), the listed boards are at most
  64 and answered with different board ids, and the library has not looked for boards before and
  gets its memory. Then, in every state that the module reaches from its load by at most 1048576
  probes with a careful allocator, the path that the library opens for a listed board, found by
  its board id in the list it read, is that of the file the module made for the board exactly when
  the minor number of the board is below 10; and no other listed board has a file of that name.\<close>

theorem device_file_agrees:
  assumes "drv_loaded ms s" "majors_ok ms" "fresh_memory k" "steady k" "drv_run k s es s'" "length (filter is_probe es) \<le> 1048576"
    and "sees_boards env s' l" "p \<in> set (ks_devices s')" "ks_xpdevs s' p = Some xp"
  shows "\<exists>c l' path l''. check_boards_info env l = Inr (c, l') \<and>
    get_board_handle env (board_id_of xp) l' = Inr (os_open env (os_log l) path, l'') \<and>
    os_log l'' = os_log l @ [OsOpen path (os_open env (os_log l) path)] \<and>
    (path = ''/dev/'' @ node_name xp \<longleftrightarrow> MINOR (cdevno (ctrl_cdev xp)) < 10) \<and>
    (\<forall>q \<in> set (ks_devices s'). node_name (the (ks_xpdevs s' q)) = node_name xp \<longrightarrow> q = p)"
proof -
  have run: "drv_inv ms (length (filter is_probe es)) s'" "all_described ms s'"
    using loaded_run_nodes [OF assms(1-6)] by simp_all
  have d: "\<forall>x \<in> set (listed s'). described ms x" using listed_described [OF run] by blast
  obtain c l' where r: "check_boards_info env l = Inr (c, l')"
    "get_board_handle env (board_id_of xp) l' = Inr (os_open env (os_log l) (lib_path xp),
       l'\<lparr>os_log := os_log l @ [OsOpen (lib_path xp) (os_open env (os_log l) (lib_path xp))]\<rparr>)"
    by (rule discovered_path [OF d assms(7) in_listed [OF assms(8,9)]])
  moreover have "q = p" if "q \<in> set (ks_devices s')" "node_name (the (ks_xpdevs s' q)) = node_name xp" for q
    using distinct_nodes [OF run that(1) assms(8)] that(2) assms(9) by simp
  ultimately show ?thesis using lib_path_node [of xp] by force
qed

lemma device_file_agrees_witness:
  "\<exists>s' xp c l' l''. drv_run careful_kapi (example_kernel ES5311_ID) [EvProbe example_pci] s' \<and> ks_xpdevs s' 2 = Some xp \<and>
    check_boards_info (example_reader s') lib_start = Inr (c, l') \<and>
    get_board_handle (example_reader s') (board_id_of xp) l' = Inr (3, l'') \<and> os_log l'' = [OsOpen (''/dev/'' @ node_name xp) 3]"
proof -
  obtain s' xp where r: "drv_run careful_kapi (example_kernel ES5311_ID) [EvProbe example_pci] s'"
    "ks_devices s' = [2]" "ks_xpdevs s' 2 = Some xp" "MINOR (cdevno (ctrl_cdev xp)) < 10" by (rule one_board)
  have h: "os_open (example_reader s') (os_log lib_start) path = 3" for path
    by (simp add: example_reader_def example_os_def lib_start_def)
  have "2 \<in> set (ks_devices s')" "length (filter is_probe [EvProbe example_pci]) \<le> 1048576" using r(2) by simp_all
  from device_file_agrees [OF example_loaded example_majors careful_fresh careful_steady(1) r(1) this(2) example_sees [OF r(2)] this(1) r(3)]
  obtain c l' path l'' where
    "check_boards_info (example_reader s') lib_start = Inr (c, l')" "path = ''/dev/'' @ node_name xp"
    "get_board_handle (example_reader s') (board_id_of xp) l' = Inr (3, l'')" "os_log l'' = os_log lib_start @ [OsOpen path 3]"
    unfolding h using r(4) by blast
  then show ?thesis using r(1,3) by (auto simp: lib_start_def)
qed

text \<open>C17: Under the same conditions (the board file holds the list of the module although the module
  does not make it under that name, at most 64 listed boards with different board ids, a library
  that has not looked for boards, memory), and when opening a device file runs the open handler
  of the module on its board: a listed board whose minor number is below 10 and whose file the
  process may open is open in the library after discovery and one open. The calls of the library
  on its board id then reach this board, whose two register BARs are mapped and whose channel
  records are well formed.\<close>

theorem opened_board_reached:
  assumes "drv_loaded ms s" "majors_ok ms" "fresh_memory k" "steady k" "drv_run k s es s'" "length (filter is_probe es) \<le> 1048576"
    and "sees_boards env s' l" "lib_ok l" "p \<in> set (ks_devices s')" "ks_xpdevs s' p = Some xp" "MINOR (cdevno (ctrl_cdev xp)) < 10"
    and "h = os_open env (os_log l) (''/dev/'' @ node_name xp)" "0 \<le> h"
    and "w_kernel w = s'" "w_oops w = None" "opens_nodes op s'" "w_files w h = op (''/dev/'' @ node_name xp)"
  shows "\<exists>c l' l'' x. check_boards_info env l = Inr (c, l') \<and> vi53xx_device_open env (board_id_of xp) l' = Inr (h, l'') \<and>
    w_files w h = p \<and> xp_xdev xp = Some x \<and> xdev_wf x \<and> bar_ok 0 x \<and> bar_ok 1 x \<and> board_open l'' (uint (board_id_of xp)) x w"
proof -
  have run: "drv_inv ms (length (filter is_probe es)) s'" "all_described ms s'"
    using loaded_run_nodes [OF assms(1-6)] by simp_all
  have d: "\<forall>x \<in> set (listed s'). described ms x" using listed_described [OF run] by blast
  have path: "lib_path xp = ''/dev/'' @ node_name xp" using lib_path_node assms(11) by blast
  obtain c l' where r: "check_boards_info env l = Inr (c, l')"
    "get_board_handle env (board_id_of xp) l' = Inr (os_open env (os_log l) (lib_path xp),
       l'\<lparr>os_log := os_log l @ [OsOpen (lib_path xp) (os_open env (os_log l) (lib_path xp))]\<rparr>)"
    "available_board_count l' = int (length (listed s'))" "dev_handle_list l' = init_dev_handle_list (dev_handle_list l)"
    by (rule discovered_path [OF d assms(7) in_listed [OF assms(9,10)]])
  have g: "get_board_handle env (board_id_of xp) l' = Inr (h, l'\<lparr>os_log := os_log l @ [OsOpen (lib_path xp) h]\<rparr>)"
    using r(2) path assms(12) by simp
  have env: "os_malloc env 0" "ks_devices s' \<noteq> []" "length (ks_devices s') \<le> 64" using assms(7) by (simp_all add: sees_boards_def)
  have n: "0 < available_board_count l'" "available_board_count l' \<le> 64"
    using env(2,3) by (simp_all add: r(3) listed_def)
  have t: "dev_handle_list l' = replicate MAX_DEV_HANDLE None"
    using init_dev_handle_list_eq [of "dev_handle_list l"] assms(8) by (simp add: r(4) lib_ok_def)
  obtain l'' dh where o: "vi53xx_device_open env (board_id_of xp) l' = Inr (h, l'')"
    "get_dev_handle (board_id_of xp) l'' = Some dh" "dh_dev_handle dh = h"
    by (rule first_open [OF g assms(13) env(1) n t])
  have fl: "w_files w h = p" using opens_nodes_listed [OF assms(16) run(1) assms(9,10)] assms(17) by simp
  obtain x where x: "xp_xdev xp = Some x" "xdev_wf x" "p \<noteq> 0" using drv_inv_board [OF run(1) assms(10)] assms(10) by (auto simp: live_board_def)
  have bars: "bar_ok 0 x" "bar_ok 1 x"
    using all_describedD(2) [OF run(2) assms(10)] x(1) by (auto simp: reachable_regs_def bars_mapped_def bar_ok_def)
  have "board_open l'' (uint (board_id_of xp)) x w"
    using o(2,3) fl x assms(10,14,15) by (simp add: board_open_def dev_handle_of_def)
  then show ?thesis using r(1) o(1) fl x(1,2) bars by blast
qed

lemma opened_board_reached_witness:
  "\<exists>s' xp c l' l'' x w. drv_run careful_kapi (example_kernel ES5311_ID) [EvProbe example_pci] s' \<and> ks_xpdevs s' 2 = Some xp \<and>
    check_boards_info (example_reader s') lib_start = Inr (c, l') \<and>
    vi53xx_device_open (example_reader s') (board_id_of xp) l' = Inr (3, l'') \<and>
    board_open l'' (uint (board_id_of xp)) x w \<and> w_files w 3 = 2"
proof -
  obtain s' xp where r: "drv_run careful_kapi (example_kernel ES5311_ID) [EvProbe example_pci] s'"
    "ks_devices s' = [2]" "ks_xpdevs s' 2 = Some xp" "MINOR (cdevno (ctrl_cdev xp)) < 10" by (rule one_board)
  let ?w = "(undefined :: world)\<lparr>w_kernel := s', w_oops := None, w_files := \<lambda>_. 2\<rparr>"
  let ?op = "\<lambda>path :: string. 2 :: u64"
  have h: "3 = os_open (example_reader s') (os_log lib_start) (''/dev/'' @ node_name xp)" "(0 :: int) \<le> 3"
    by (simp_all add: example_reader_def example_os_def lib_start_def)
  have a: "2 \<in> set (ks_devices s')" "length (filter is_probe [EvProbe example_pci]) \<le> 1048576"
    "w_kernel ?w = s'" "w_oops ?w = None" "opens_nodes ?op s'" "w_files ?w 3 = ?op (''/dev/'' @ node_name xp)"
    using r(2) by (simp_all add: opens_nodes_def vi53xx_open_def)
      (auto split: if_splits)
  from opened_board_reached [OF example_loaded example_majors careful_fresh careful_steady(1) r(1) a(2) example_sees [OF r(2)]
      lib_start_ok a(1) r(3,4) h a(3-6)] r(1,3)
  show ?thesis by blast
qed

end
