(* ===== verification/BoardFile.thy ===== *)
theory BoardFile
  imports LibBoards "HOL-Library.Sublist"
begin

text \<open>
  Board discovery on a file of any contents (\<open>extractValue\<close> and \<open>check_boards_info\<close> of
  \<open>lib/vi53xx_xdma.c\<close>): how many times the loop runs, and when every access it makes to the line
  buffer, to the board names and to the arrays is in bounds.
\<close>

section \<open>The pieces of a file\<close>

text \<open>The number of pieces of at most 255 bytes in which the line buffer gets a file.\<close>

function chunks :: "string \<Rightarrow> nat" where
  "chunks f = (case fgets 256 f of None \<Rightarrow> 0 | Some (c, r) \<Rightarrow> Suc (chunks r))"
  by pat_completeness auto
termination
  by (relation "measure length") (auto dest: fgets_shorter [rotated])

declare chunks.simps [simp del]

lemma chunks_None: "fgets 256 f = None \<Longrightarrow> chunks f = 0"
  by (simp add: chunks.simps [of f])

lemma chunks_Some: "fgets 256 f = Some (c, r) \<Longrightarrow> chunks f = Suc (chunks r)"
  by (simp add: chunks.simps [of f])

lemma first_line_prefix: "prefix (first_line f) f"
proof (cases "length (takeWhile (\<lambda>c. c \<noteq> newline) f) < length f")
  case True
  have "f ! length (takeWhile (\<lambda>c. c \<noteq> newline) f) = newline" using nth_length_takeWhile [OF True] by simp
  then have "first_line f = take (Suc (length (takeWhile (\<lambda>c. c \<noteq> newline) f))) f"
    using True by (simp add: first_line_def Let_def take_Suc_conv_app_nth flip: takeWhile_eq_take)
  then show ?thesis by (simp add: take_is_prefix)
qed (simp add: first_line_def Let_def takeWhile_is_prefix)

lemma fgets_append: "fgets n f = Some (c, r) \<Longrightarrow> f = c @ r"
proof -
  assume a: "fgets n f = Some (c, r)"
  have "prefix (take (n - 1) (first_line f)) f"
    using first_line_prefix take_is_prefix prefix_order.order_trans by blast
  moreover have "c = take (n - 1) (first_line f)" "r = drop (length c) f"
    using a by (auto simp: fgets_def Let_def split: if_splits)
  ultimately obtain z where "f = c @ z" unfolding prefix_def by blast
  then show "f = c @ r" using \<open>r = drop (length c) f\<close> by simp
qed

text \<open>Every word of the file fits a board name.\<close>

definition words_fit :: "string \<Rightarrow> bool" where
  "words_fit f \<longleftrightarrow> (\<forall>w. sublist w f \<longrightarrow> set w \<inter> set separators = {} \<longrightarrow> length w < 32)"

lemma words_fit_rest: "words_fit f \<Longrightarrow> f = c @ r \<Longrightarrow> words_fit r"
  unfolding words_fit_def by (metis sublist_appendI sublist_order.order_trans append.right_neutral)

text \<open>
  Every piece contains a word: a character that is no separator, before any NUL. A file whose
  pieces are whole lines satisfies this when no line is blank.
\<close>

function pieces_named :: "string \<Rightarrow> bool" where
  "pieces_named f = (case fgets 256 f of None \<Rightarrow> True
     | Some (c, r) \<Rightarrow> (\<exists>x \<in> set (takeWhile (\<lambda>c. c \<noteq> NUL) c). x \<notin> set separators) \<and> pieces_named r)"
  by pat_completeness auto
termination
  by (relation "measure length") (auto dest: fgets_shorter [rotated])

declare pieces_named.simps [simp del]

lemma pieces_named_None: "fgets 256 f = None \<Longrightarrow> pieces_named f"
  by (simp add: pieces_named.simps [of f])

lemma pieces_named_Some: "fgets 256 f = Some (c, r) \<Longrightarrow>
  pieces_named f \<longleftrightarrow> (\<exists>x \<in> set (takeWhile (\<lambda>c. c \<noteq> NUL) c). x \<notin> set separators) \<and> pieces_named r"
  by (simp add: pieces_named.simps [of f])

section \<open>The line buffer\<close>

text \<open>256 bytes of which the last is, and stays, NUL.\<close>

definition line_ok :: "string \<Rightarrow> bool" where
  "line_ok b \<longleftrightarrow> length b = 256 \<and> b ! 255 = NUL"

lemma line_ok_NUL:
  assumes "line_ok b" "k < 256"
  shows "NUL \<in> set (drop k b)"
proof -
  have "drop k b ! (255 - k) = NUL" "255 - k < length (drop k b)" using assms by (auto simp: line_ok_def)
  then show ?thesis by (metis nth_mem)
qed

lemma line_ok_copy:
  assumes "line_ok b" "length c < 256"
  shows "strcpyR b c = Inr (c @ NUL # drop (Suc (length c)) b)" "line_ok (c @ NUL # drop (Suc (length c)) b)"
  using assms by (auto simp: strcpyR_def line_ok_def nth_append nth_Cons')

text \<open>The token is a word of the piece that was copied.\<close>

lemma strtok_word:
  assumes "line_ok (c @ NUL # t)"
  obtains name b where "strtok (c @ NUL # t) separators = Inr (name, b)" "line_ok b"
    "\<And>w. name = Some w \<Longrightarrow> sublist w c \<and> set w \<inter> set separators = {}"
    "\<exists>x \<in> set (takeWhile (\<lambda>c. c \<noteq> NUL) c). x \<notin> set separators \<Longrightarrow> name \<noteq> None"
proof -
  let ?b = "c @ NUL # t"
  define s where "s = takeWhile (\<lambda>c. c \<noteq> NUL) ?b"
  define u where "u = dropWhile (\<lambda>c. c \<in> set separators) s"
  define w where "w = takeWhile (\<lambda>c. c \<notin> set separators) u"
  have s: "s = takeWhile (\<lambda>c. c \<noteq> NUL) c" unfolding s_def by (induction c) simp_all
  then have "sublist s c" by (simp add: prefix_imp_sublist takeWhile_is_prefix)
  moreover have "sublist u s" unfolding u_def by (simp add: suffix_imp_sublist suffix_dropWhile)
  moreover have "sublist w u" unfolding w_def by (simp add: prefix_imp_sublist takeWhile_is_prefix)
  ultimately have sub: "sublist w c" by (meson sublist_order.order_trans)
  have sep: "set w \<inter> set separators = {}" unfolding w_def by (auto dest: set_takeWhileD)
  have upd: "line_ok (?b[i := NUL])" for i
    using assms by (cases "i = 255") (auto simp: line_ok_def nth_list_update)
  have r: "strtok ?b separators = (if u = [] then Inr (None, ?b)
      else Inr (Some w, ?b[length (takeWhile (\<lambda>c. c \<in> set separators) s) + length w := NUL]))"
    unfolding strtok_def s_def [symmetric] u_def [symmetric] w_def [symmetric] Let_def by simp
  show thesis
  proof (cases "u = []")
    case True
    then have "\<forall>x \<in> set s. x \<in> set separators" by (simp add: u_def)
    then show thesis using that [of None ?b] r assms True s by simp
  next
    case False
    then show thesis using that [of "Some w"] r upd sub sep by simp
  qed
qed

section \<open>The loop\<close>

text \<open>One piece: it is copied and scanned, and at most one board is stored.\<close>

lemma extract_loop_piece:
  assumes "line_ok buf" "words_fit f" "fgets 256 f = Some (c, r)" "n < length info" "pieces_named f"
  obtains b nm e where "line_ok b" "extract_loop f buf info n = (case e of None \<Rightarrow> extract_loop r b info n
    | Some (inst, bid, ty) \<Rightarrow> extract_loop r b (info[n :=
        \<lparr>bi_board_inst = inst, bi_board_id = bid, bi_board_type = ty, bi_board_name = nm\<rparr>]) (Suc n))"
proof -
  have f: "f = c @ r" by (rule fgets_append [OF assms(3)])
  have c: "length c < 256" using fgets_length [OF _ assms(3)] by simp
  note cp = line_ok_copy [OF assms(1) c]
  obtain name b where b: "strtok (c @ NUL # drop (Suc (length c)) buf) separators = Inr (name, b)" "line_ok b"
    "\<And>w. name = Some w \<Longrightarrow> sublist w c \<and> set w \<inter> set separators = {}"
    "\<exists>x \<in> set (takeWhile (\<lambda>c. c \<noteq> NUL) c). x \<notin> set separators \<Longrightarrow> name \<noteq> None"
    by (rule strtok_word [OF cp(2)]) (rule that, assumption+)
  obtain w where w: "name = Some w" using b(4) assms(5) pieces_named_Some [OF assms(3)] by blast
  have at: "cstr_at b 11 = Inr (takeWhile (\<lambda>c. c \<noteq> NUL) (drop 11 b))"
    using line_ok_NUL [OF b(2), of 11] by (simp add: cstr_at_def)
  have "sublist w c" "set w \<inter> set separators = {}" using b(3) w by blast+
  moreover have "sublist c f" by (simp add: f)
  ultimately have "length w < 32" using assms(2) sublist_order.order_trans unfolding words_fit_def by blast
  then have fit: "fitsR 32 w = Inr w" by (simp add: fitsR_def)
  show thesis
    by (rule that [OF b(2), of w "scan_entry (takeWhile (\<lambda>c. c \<noteq> NUL) (drop 11 b))"])
      (use assms(4) in \<open>simp add: extract_loop.simps [of f] assms(3) cp(1) b(1) w at fit nthR_in split: option.splits\<close>)
qed

lemma extract_loop_returns:
  assumes "line_ok buf" "words_fit f" "n + chunks f \<le> length info" "pieces_named f"
  obtains m info' where "extract_loop f buf info n = Inr (m, info')" "m \<le> n + chunks f" "length info' = length info"
  using assms
proof (induction f arbitrary: buf info n thesis rule: chunks.induct)
  case (1 f)
  show ?case
  proof (cases "fgets 256 f")
    case None
    then have "extract_loop f buf info n = Inr (n, info)" by (simp add: extract_loop.simps [of f])
    then show ?thesis by (rule "1.prems"(1)) simp_all
  next
    case (Some cr)
    obtain c r where cr: "cr = (c, r)" by force
    have fg: "fgets 256 f = Some (c, r)" using Some cr by simp
    have n: "n + Suc (chunks r) \<le> length info" using "1.prems"(4) chunks_Some [OF fg] by simp
    have wr: "words_fit r" using "1.prems"(3) fgets_append [OF fg] by (rule words_fit_rest)
    have pr: "pieces_named r" using "1.prems"(5) pieces_named_Some [OF fg] by simp
    obtain b e nm where b: "line_ok b" and loop: "extract_loop f buf info n = (case e of None \<Rightarrow> extract_loop r b info n
      | Some (inst, bid, ty) \<Rightarrow> extract_loop r b (info[n :=
          \<lparr>bi_board_inst = inst, bi_board_id = bid, bi_board_type = ty, bi_board_name = nm\<rparr>]) (Suc n))"
      by (rule extract_loop_piece [OF "1.prems"(2,3) fg, of n info]) (use n "1.prems"(5) in simp_all)
    obtain info1 n1 where next1: "extract_loop f buf info n = extract_loop r b info1 n1" "n1 \<le> Suc n" "length info1 = length info"
      by (cases e) (use loop in auto)
    have le: "n1 + chunks r \<le> length info1" using n next1(2,3) by simp
    obtain m info' where "extract_loop r b info1 n1 = Inr (m, info')" "m \<le> n1 + chunks r" "length info' = length info1"
      by (rule "1.IH" [OF Some cr [symmetric] _ b wr le pr])
    then show ?thesis using next1 chunks_Some [OF fg] by (intro "1.prems"(1) [of m info']) simp_all
  qed
qed

section \<open>Properties\<close>

text \<open>C18: Whatever else the board file contains, the check ends and makes no access outside its
  buffers and through no NULL pointer, if memory is granted, the file is read in at most 64
  pieces, each piece contains a word (no line is blank), no word is longer than the 31 characters
  of a board name, and the last byte of the line buffer is NUL: it stores at most one board per
  piece, and reports at most two entries per board.\<close>

theorem discovery_returns:
  assumes "init_check_ok s = 0" "os_malloc env 0" "os_malloc env 1" "line_ok (os_line env)"
    "os_fopen env boards_file = Some f" "words_fit f" "pieces_named f" "chunks f \<le> 64" "available_board_count s = 0"
  shows "\<exists>n s' l. check_boards_info env s = Inr (n, s') \<and> board_info s' = Some l \<and> length l = BOARD_NUM \<and>
    0 \<le> available_board_count s' \<and> available_board_count s' \<le> int (chunks f) \<and> 0 \<le> n \<and> n \<le> 2 * available_board_count s'"
proof -
  let ?z = "replicate BOARD_NUM zero_board"
  have "0 + chunks f \<le> length ?z" using assms(8) by simp
  then obtain m info where x: "extract_loop f (os_line env) ?z 0 = Inr (m, info)" "m \<le> 0 + chunks f" "length info = length ?z"
    by (rule extract_loop_returns [OF assms(4,6) _ assms(7)])
  then have ex: "extractValue env boards_file ?z = Inr (int m, info)" by (simp add: extractValue_def assms(5))
  show ?thesis
  proof (cases "m = 0")
    case True
    then show ?thesis using assms(1-3,9) ex x
      by (simp add: check_boards_info_def requst_mem_def init_config_def Let_def)
  next
    case False
    obtain n err where "i_check_boards_info info ?z m = Inr (n, err)" "n \<le> 2 * m"
    proof (cases "m = 1")
      case True
      then show thesis using that [of 0] by (simp add: i_check_boards_info_def)
    next
      case False
      have "m < length info" "2 * m \<le> length ?z" using x assms(8) by simp_all
      then show thesis using that duplicate_check_eq [OF _ False] length_dup_pairs [of info m "[0..<m]"] by simp
    qed
    then show ?thesis using assms(1-3) ex x False
      by (simp add: check_boards_info_def requst_mem_def init_config_def Let_def)
  qed
qed

text \<open>A file that is not a board list: two lines without fields.\<close>

definition odd_file :: string where
  "odd_file = ''vi53xx'' @ newline # ''x'' @ [newline]"

lemma odd_file_pieces: "chunks odd_file = 2" "words_fit odd_file" "pieces_named odd_file"
proof -
  have a: "fgets 256 odd_file = Some (''vi53xx'' @ [newline], ''x'' @ [newline])"
    using fgets_line [of "''vi53xx''" 256 "''x'' @ [newline]"] by (simp add: odd_file_def)
  have b: "fgets 256 (''x'' @ [newline]) = Some (''x'' @ [newline], [])" using fgets_line [of "''x''" 256 "[]"] by simp
  have c: "fgets 256 [] = None" by (simp add: fgets_def)
  show "chunks odd_file = 2" unfolding chunks_Some [OF a] chunks_Some [OF b] chunks_None [OF c] by simp
  show "words_fit odd_file" unfolding words_fit_def odd_file_def by (auto dest: sublist_length_le)
  show "pieces_named odd_file"
    unfolding pieces_named_Some [OF a] pieces_named_Some [OF b] using pieces_named_None [OF c] by (simp add: separators_def)
qed

lemma discovery_returns_witness:
  "\<exists>n s' l. check_boards_info \<lparr>os_fopen = \<lambda>_. Some odd_file, os_open = \<lambda>_ _. 3, os_malloc = \<lambda>_. True, os_errno = 12,
      os_line = replicate 256 NUL\<rparr> lib_start = Inr (n, s') \<and> board_info s' = Some l \<and> available_board_count s' \<le> 2"
proof -
  let ?e = "\<lparr>os_fopen = \<lambda>_. Some odd_file, os_open = \<lambda>_ _. 3, os_malloc = \<lambda>_. True, os_errno = 12, os_line = replicate 256 NUL\<rparr>"
  have h: "init_check_ok lib_start = 0" "os_malloc ?e 0" "os_malloc ?e 1" "line_ok (os_line ?e)"
    "os_fopen ?e boards_file = Some odd_file" "chunks odd_file \<le> 64" "available_board_count lib_start = 0"
    by (simp_all add: lib_start_def line_ok_def odd_file_pieces(1))
  from discovery_returns [OF h(1-5) odd_file_pieces(2,3) h(6,7)] odd_file_pieces(1) show ?thesis by auto
qed

text \<open>
  The hypothesis on the line buffer is needed. The buffer is not initialised, and a first line of
  less than ten characters leaves the position that is scanned, 11, untouched: the scan reads
  what was there, past the end of the buffer when there is no NUL.
\<close>

lemma short_line_reads_past:
  assumes "os_fopen env filename = Some ''x''" "length (os_line env) = 256" "NUL \<notin> set (os_line env)"
  shows "extractValue env filename info = Inl OutOfBounds"
proof -
  have f: "fgets 256 ''x'' = Some (''x'', [])" by (simp add: fgets_def first_line_def Let_def)
  have c: "strcpyR (os_line env) ''x'' = Inr (CHR ''x'' # NUL # drop 2 (os_line env))"
    using assms(2) by (simp add: strcpyR_def numeral_2_eq_2)
  have "takeWhile (\<lambda>c. c \<notin> set separators) ''x'' = ''x''" by (simp add: separators_def)
  then have t: "strtok (CHR ''x'' # NUL # drop 2 (os_line env)) separators = Inr (Some ''x'', CHR ''x'' # NUL # drop 2 (os_line env))"
    by (simp add: strtok_def separators_def Let_def)
  have "NUL \<notin> set (drop 11 (os_line env))" using assms(3) by (meson in_set_dropD)
  then have "cstr_at (CHR ''x'' # NUL # drop 2 (os_line env)) 11 = Inl OutOfBounds"
    by (simp add: cstr_at_def numeral_eq_Suc)
  then show ?thesis by (simp add: extractValue_def assms(1) extract_loop.simps [of "''x''"] f c t)
qed

lemma short_line_reads_past_witness:
  "extractValue \<lparr>os_fopen = \<lambda>_. Some ''x'', os_open = \<lambda>_ _. 3, os_malloc = \<lambda>_. True, os_errno = 12,
     os_line = replicate 256 (CHR ''y'')\<rparr> boards_file [] = Inl OutOfBounds"
  by (rule short_line_reads_past) simp_all

end
