(* ===== verification/Spec2Isabelle.thy ===== *)
theory Spec2Isabelle
  imports StackCalls BoardList LibHandles LibRuns LibLog Led BoardRemoval DmaEdges ModuleLife DriverRuns
    SystemOpen BoardFile
begin

text \<open>
  A verification development for the vi53xx PCIe boards: the kernel module under
  \<open>src/driver\<close> and the user library under \<open>src/lib\<close>.

  The program. The module finds boards on the PCI bus (\<open>xdma_probe\<close>), maps their BARs,
  allocates DMA memory and descriptors for two channels in each direction, programs the DMA
  engine, gives each board a character device and a proc file, and serves \<open>ioctl\<close> and
  \<open>mmap\<close> on it. It publishes a text list of its boards in \<open>/proc/vi53xx\<close>. The library
  reads that list, opens the device file of a board, and offers registers, DMA buffers, an
  oscilloscope module and the digital inputs and outputs of the ES5341 as calls that end in an
  \<open>ioctl\<close>. A LED of each board blinks from a kernel timer that a command in the board's proc
  file starts and stops.

  How code becomes definitions. A struct is a record, a w-bit integer a \<open>w word\<close>, a C
  \<open>int\<close> an integer with its conversions written out, a string a character list, a C array a
  list whose accesses are checked. What C leaves undefined, or the kernel forbids (NULL, an index
  outside an array, a use after free, a wrong free), is the value \<open>Inl\<close> of a fault; an error that
  the code reports itself is an ordinary result (theory \<open>Prelude\<close>). State is passed
  explicitly: the record \<open>lib\<close> for the globals of the library, \<open>kstate\<close> for those of
  the module. Loops are recursive functions, each with a measure that proves it ends, so no fuel is
  used anywhere. What is not in the sources is an argument: the kernel and the device answer
  through the record \<open>kapi\<close>, whose answers may depend on the whole trace of earlier events,
  the system calls of the library through the record \<open>os\<close> and the arguments \<open>ioctl\<close>
  and \<open>mmap\<close>, and the matio library through the record \<open>matio\<close>. A theorem that does not
  restrict them holds for every device and kernel. Every device gets the same constant table of
  functions when it is mapped (\<open>platform_setup_fops\<close> of \<open>driver/libxdma.c\<close>), so a call through
  that table is a call of the function it names. The name of a library function that the module
  uses too has the prefix \<open>lib_\<close>, that of a driver function the prefix \<open>drv_\<close>, and a
  leading underscore of the source is the prefix \<open>i_\<close>.

  The library (\<open>lib/vi53xx_xdma.c\<close> unless another file is named):
  \<^item> \<open>IdBitmap\<close>: the pool of 128 identifiers (\<open>get_unique_id\<close>, \<open>destroy_id\<close>),
    a refinement of a finite set of identifiers.
  \<^item> \<open>SlotTable\<close>: arrays of pointers searched by key, with the contract \<open>keyed_slots\<close>.
  \<^item> \<open>LibIdx\<close>: the index of a board (\<open>get_idx\<close>, \<open>release_idx\<close>), an invariant over
    table and pool.
  \<^item> \<open>Parvar\<close>: the parameter file (\<open>set_parvar_mat_path\<close> and its readers).
  \<^item> \<open>LibState\<close>, \<open>LibBoards\<close>, \<open>LibHandles\<close>: the globals, the board list with the
    duplicate check (\<open>extractValue\<close>, \<open>check_boards_info\<close>), and opening and closing
    boards (\<open>vi53xx_device_open\<close>, \<open>vi53xx_device_close\<close>).
  \<^item> \<open>LibRuns\<close>: the library as a state machine over these calls; the invariant of its globals, and
    the refinement of its handle table to an abstract table of open boards with the two counts that
    decide when it is emptied.
  \<^item> \<open>LibLog\<close>: the log messages and the dumps (\<open>vi53xx_log\<close>, \<open>vi53xx_dump_info\<close>), as text.
  \<^item> \<open>LibRegs\<close>, \<open>RegFile\<close>: the calls that end in an \<open>ioctl\<close> or \<open>mmap\<close>, and the
    contract \<open>bar0_regs\<close> of the register writes that the next three rely on.
  \<^item> \<open>Scope\<close>, \<open>DiCfg\<close> (\<open>lib/es5341_di_cfg.c\<close>), \<open>DoCfg\<close> (\<open>lib/es5341_do_cfg.c\<close>): the
    registers each routine writes, and their contents afterwards.

  What both sides share:
  \<^item> \<open>XdmaInfo\<close>: the structure an \<open>ioctl\<close> passes and the request numbers
    (\<open>lib/vi53xx_api.h\<close>, \<open>driver/vi53xx_xdma_ctrl.h\<close>); the contract \<open>codec\<close>.
  \<^item> \<open>CStdio\<close>: what the sources use of \<open>sprintf\<close>, \<open>sscanf\<close>, \<open>fgets\<close>, \<open>strtok\<close>.

  The module:
  \<^item> \<open>Kernel\<close>, \<open>DriverTypes\<close>, \<open>DriverState\<close>: the trace of events and the answers of the
    kernel, the structures of the headers, the state and the copies to and from user memory.
  \<^item> \<open>LibXdma\<close> (\<open>driver/libxdma.c\<close>): the descriptor chain, start, stop and set-up of the
    engine, \<open>mmap\<close>.
  \<^item> \<open>XdmaCtrl\<close> (\<open>driver/vi53xx_xdma_ctrl.c\<close>): the eight ioctl commands.
  \<^item> \<open>XdmaDrv\<close>, \<open>Probe\<close> (\<open>driver/vi53xx_xdma_drv.c\<close>): BARs, regions, DMA memory; probe,
    remove, load and unload. Registering the PCI driver calls \<open>xdma_probe\<close> for every board
    that is present, unregistering it \<open>xdma_remove\<close> for every board that is bound: the two lists of
    boards, which the PCI core keeps, are arguments of \<open>xdma_mod_init\<close> and \<open>xdma_mod_exit\<close>.
  \<^item> \<open>Cndev\<close> (\<open>driver/vi53xx_cndev_core.c\<close>): the character devices.
  \<^item> \<open>BoardRegistry\<close> (\<open>driver/board_info.c\<close>), \<open>ProcShow\<close> (\<open>driver/vi53xx_proc.c\<close>): the
    table of board types, the instance counters, the text of the proc files.
  \<^item> \<open>Led\<close>: the timer handler, the blink command and the command file, with a step relation
    for the handler and the commands running side by side. A timer records whether it was ever set
    up and whether it is pending; adding a pending timer, and adding or deleting one that was never
    set up, is a fault, as the kernel forbids it.

  What the lemmas show:
  \<^item> \<open>Ledger\<close>, \<open>BoardResources\<close>, \<open>DmaRelease\<close>, \<open>DmaInit\<close>, \<open>BoardRemoval\<close>,
    \<open>ModuleLife\<close>: how often each resource is held after a trace (a mapping of a BAR, the enabled
    device and its regions, a block of memory, a DMA buffer, a character device, a device file, the
    class, a range of device numbers with its size, the registration of the driver), and which
    entries \<open>/proc\<close> has. What mapping and unmapping, probe and remove, a failed probe, and load and
    unload leave behind: nothing, except where the theorems name it. A probe whose channels are not set
    up leaves its character device, unloading gives back ranges of 255 numbers where 128 were taken.
    The name of the character device belongs to the kernel's object and is not a resource of its
    own. The proc file of a board is not removed with the board, only with the whole directory when
    the module is unloaded; \<open>parent_dir\<close> then still names the removed directory.
  \<^item> \<open>DriverHandlers\<close>, \<open>ProbeSteps\<close>, \<open>DriverRuns\<close>: the module as a state machine. What the
    handlers of a board leave alone, what a probe does to what boards share, and the invariant of every state
    a loaded module reaches: device list and allocated boards agree, device numbers and DMA memory
    are never shared. The hypothesis \<open>fresh_memory\<close> says that an allocator returns memory that is
    not in use.
  \<^item> \<open>Runs\<close>: sequences of steps, and the two contracts from which invariants of runs follow,
    \<open>budgeted\<close> (each step uses up part of a budget) and \<open>simulation\<close>.
  \<^item> \<open>BoardLife\<close>: what a board of a known and of an unknown type becomes.
  \<^item> \<open>DmaEdges\<close>: what happens without DMA memory, and to the cache attribute of mapped buffers.
  \<^item> \<open>BoardList\<close>: the way of a board from the module's text list into the library's table.
  \<^item> \<open>BoardFile\<close>: the same parser on a file of any contents, at most 64 pieces of 255 bytes.
  \<^item> \<open>DeviceNodes\<close>, \<open>SystemOpen\<close>: from a reachable state of the module to an open board of the
    library. Each listed board has a device file of its own, and the file the library opens for it
    is this one while the minor number has one digit. The open of the system is an argument, with
    the hypothesis \<open>opens_nodes\<close> that it gives each file of the module the structure \<open>vi53xx_open\<close>
    stores. Both theorems are about a system whose list is found under the name the library uses,
    which is not the name the module gives it (the last property of this theory).
  \<^item> \<open>Stack\<close>, \<open>StackCalls\<close>: the library on top of the module, its system calls being the
    module's handlers; the interpretation \<open>stack_regs\<close> proves the register contract for it.
  \<^item> This theory: the properties of the whole stack.

  A NULL string. \<open>sprintf\<close> of a NULL argument prints \<open>(null)\<close> in the kernel and in the C library
  the code is built with, where a longer format is used (\<open>init_device_info\<close>, the path of a device file);
  \<open>CStdio\<close> models this. The format \<open>"%s"\<close> alone is turned into a copy of the string by the
  compiler, so a NULL argument of it is a fault of the model (\<open>extractValue\<close>).

  Bounds of the source that the model keeps: 128 boards and handles, a bitmap of 16 bytes, 10
  entries in the table of board types of which 3 are used, 2 channels in each direction, 6 BARs, 64
  descriptors, lines of 256 characters, device names of 32. The hypothesis \<open>ram_like\<close> of some
  properties says that the registers keep what is written and that user memory is all there; the
  hypothesis \<open>steady\<close> that registers do not change while they are only read.

  Not modelled: the kernel log (\<open>printk\<close>), the formatting of the arguments of a log message, the
  delays, the semaphore around the device list (probe and remove run one after the other), the
  byte order conversion of descriptors (the identity on the machines the
  module is built for), build and packaging files. Voltages are rational numbers; the product and
  the quotient the code forms of them are taken to be exact.
\<close>


section \<open>Registers through the library and the driver\<close>

text \<open>C10: On a device whose registers keep what is written, a register written through the library
  and the driver reads back as the value written, every other register of the BAR as before;
  both calls return 0, the value arrives at the address the caller gave and no other word of the
  caller's memory changes.\<close>

theorem register_roundtrip:
  assumes "ram_like k" "board_open s b xdev w" "bar_ok i xdev" "i < 2"
    "vi53xx_write_register (sys_ioctl k u) ui s b (int i) off v w = (r1, w1)"
    "vi53xx_read_register (sys_ioctl k u) uj s b (int i) off' a w1 = (r2, w2)"
  shows "r1 = 0 \<and> r2 = 0 \<and> w_oops w2 = None \<and>
    u_words w2 a = (if off' = off then v else dev_reg (bar xdev ! i) off' w) \<and>
    (\<forall>c. c \<noteq> a \<longrightarrow> u_words w2 c = u_words w c)"
proof -
  let ?w = "after_write (bar xdev ! i) off v w"
  have w1: "r1 = 0" "w1 = ?w" using assms(5) write_register_stack [OF assms(1-4)] by auto
  have "board_open s b xdev ?w" using assms(2) by simp
  from read_register_stack [OF assms(1) this assms(3,4)] have
    "r2 = 0" "w2 = ?w\<lparr>u_words := (u_words ?w)(a := dev_reg (bar xdev ! i) off' ?w),
          w_kernel := (w_kernel ?w)\<lparr>ks_trace := ks_trace (w_kernel ?w) @ [CopyFromUser 56 0,
            IoRead (reg_addr (bar xdev ! i) off') (dev_reg (bar xdev ! i) off' ?w), CopyToUser 4 0]\<rparr>\<rparr>"
    using assms(6) unfolding w1(2) by auto
  then show ?thesis using w1(1) assms(2) by (simp add: dev_reg_after_write) (simp add: after_write_def board_open_def)
qed

section \<open>An example process\<close>

text \<open>A process that opened board 5, the only board of the library and of the module.\<close>

definition open_lib :: lib where
  "open_lib = example_lib\<lparr>dev_handle_list := Some \<lparr>dh_dev_handle = 3, dh_board_id = 5, dh_dev_name = ''/dev/es5341_0''\<rparr>
     # replicate 127 None, online_board_count := 2\<rparr>"

definition open_xdev :: xdma_dev where
  "open_xdev = example_xdev\<lparr>H2C_dma_cfg := replicate 2 (zero_cfg\<lparr>pData := replicate MAX_DESC_NUM 0x9000\<rparr>)\<rparr>"

definition open_world :: world where
  "open_world = \<lparr>u_words = \<lambda>_. 0, u_bytes = \<lambda>a. ucast a,
     w_kernel = (example_kernel ES5341_ID)\<lparr>ks_xpdevs := [0x50 \<mapsto> example_board\<lparr>xp_xdev := Some open_xdev\<rparr>],
       ks_drvdata := [example_pci \<mapsto> 0x50], ks_bufs := [0x9000 \<mapsto> replicate 16 0]\<rparr>,
     w_files = \<lambda>fd. if fd = 3 then 0x50 else 0, w_oops = None\<rparr>"

lemma open_lib_handle:
  "dev_handle_of 5 open_lib = Some \<lparr>dh_dev_handle = 3, dh_board_id = 5, dh_dev_name = ''/dev/es5341_0''\<rparr>"
  by (simp add: dev_handle_of_def get_dev_handle_def handle_find_def get_available_board_count_def
      open_lib_def example_lib_def)

lemma open_world_ok:
  "board_open open_lib 5 open_xdev open_world" "bar_ok 0 open_xdev" "bar_ok 1 open_xdev" "bar open_xdev ! 0 = 0x1000000"
  "xdev_wf open_xdev" "ch_buffer open_xdev 1 = 0x9000" "ks_bufs (w_kernel open_world) 0x9000 = Some (replicate 16 0)"
proof -
  show "board_open open_lib 5 open_xdev open_world" by (simp add: board_open_def open_lib_handle open_world_def)
  show "bar_ok 0 open_xdev" "bar_ok 1 open_xdev" "bar open_xdev ! 0 = 0x1000000"
    by (simp_all add: bar_ok_def open_xdev_def example_xdev_def)
  show "xdev_wf open_xdev" using zero_cfg_wf by (simp add: xdev_wf_def open_xdev_def example_xdev_def zero_xdev_def cfg_wf_def)
  show "ch_buffer open_xdev 1 = 0x9000" by (simp add: ch_buffer_def open_xdev_def)
  show "ks_bufs (w_kernel open_world) 0x9000 = Some (replicate 16 0)" by (simp add: open_world_def)
qed

lemma open_stack_ok: "stack_ok ram_kapi open_lib 5 0x1000000 open_world"
  using open_world_ok(1,2,4) unfolding stack_ok_def by (intro conjI ram_kapi_like exI [of _ open_xdev])

lemma register_roundtrip_witness:
  "\<exists>w1 w2. vi53xx_write_register (sys_ioctl ram_kapi zero_cfg) zero_xdma_info open_lib 5 1 0x44 7 open_world = (0, w1) \<and>
    vi53xx_read_register (sys_ioctl ram_kapi zero_cfg) zero_xdma_info open_lib 5 1 0x44 0x100 w1 = (0, w2) \<and>
    u_words w2 0x100 = 7"
proof -
  obtain r1 w1 where 1: "vi53xx_write_register (sys_ioctl ram_kapi zero_cfg) zero_xdma_info open_lib 5 (int 1) 0x44 7 open_world = (r1, w1)"
    by fastforce
  obtain r2 w2 where 2: "vi53xx_read_register (sys_ioctl ram_kapi zero_cfg) zero_xdma_info open_lib 5 (int 1) 0x44 0x100 w1 = (r2, w2)"
    by fastforce
  have "(1 :: nat) < 2" by simp
  from register_roundtrip [OF ram_kapi_like open_world_ok(1,3) this 1 2] 1 2 show ?thesis by auto
qed


section \<open>Digital inputs, digital outputs, channel selection\<close>

text \<open>C11: For a channel from 1 to 16, the low or the high level and a threshold of at least 0 volt that
  1024 times over fits 32 bits, configuring a digital input ends with the channel's group register
  holding the level selector of the tables from bit 12 on and, from bit 2 on, the threshold in
  steps of 2.5/1024 volt (rounded down to 1/1024 volt first); the other three group registers are
  cleared, the latch is back to 0, and no other register changes. Selector and threshold can both
  be read back from the register exactly when the threshold is below 2.5 volt: the routine does not
  check it, and from 2.5 volt on the threshold has more than its ten bits and runs into the
  selector.\<close>

theorem di_config_registers:
  assumes "stack_ok k s (sint bid) base w" "1 \<le> ch" "ch \<le> 16" "hl = 0 \<or> hl = 1"
    "0 \<le> (v :: rat)" "v * 1024 < 4294967296"
  shows "\<exists>w'. handler_di_config (sys_ioctl k u) ui s bid ch hl v w = Inr w' \<and>
    dev_reg base (din_reg ch) w' =
      (push_bit 12 (di_hl ! nat hl ! nat ch) OR push_bit 2 (of_nat (2 * nat \<lfloor>v * 1024\<rfloor> div 5))) \<and>
    (di_unpack (dev_reg base (din_reg ch) w') =
      (di_hl ! nat hl ! nat ch, of_nat (2 * nat \<lfloor>v * 1024\<rfloor> div 5)) \<longleftrightarrow> v < 5 / 2) \<and>
    (\<forall>r \<in> {DIN1, DIN2, DIN3, DIN4} - {din_reg ch}. dev_reg base r w' = 0) \<and>
    dev_reg base DIN_VLD w' = 0 \<and>
    (\<forall>r. r \<notin> {DIN1, DIN2, DIN3, DIN4, DIN_VLD} \<longrightarrow> dev_reg base r w' = dev_reg base r w)"
proof -
  let ?code = "of_nat (2 * nat \<lfloor>v * 1024\<rfloor> div 5) :: u32" and ?ctl = "di_hl ! nat hl ! nat ch"
  have code: "get_input_code v = Inr ?code" using assms(5,6) by (intro get_input_code_eq)
  have ctl: "get_control ch hl = Inr ?ctl" "unat ?ctl < 16" by (rule get_control_table [OF assms(2-4)])+
  have val: "get_di_value ch hl v = Inr (di_pack (?ctl, ?code))"
    by (simp add: get_di_value_def code get_reg_value_def ctl(1) di_pack_def)
  have rd: "dev_reg base a (Call_DI_Config (sys_ioctl k u) ui s bid ch (di_pack (?ctl, ?code)) w) =
    (if a = DIN_VLD then 0 else if a = din_reg ch then di_pack (?ctl, ?code)
     else if a \<in> {DIN1, DIN2, DIN3, DIN4} then 0 else dev_reg base a w)" for a
    by (rule stack_regs.di_config_effect [OF assms(1-3) refl])
  have g: "din_reg ch \<in> {DIN1, DIN2, DIN3, DIN4}" by (simp add: din_reg_def)
  then have n: "din_reg ch \<noteq> DIN_VLD" by auto
  have own: "dev_reg base (din_reg ch) (Call_DI_Config (sys_ioctl k u) ui s bid ch (di_pack (?ctl, ?code)) w) = di_pack (?ctl, ?code)"
    using n by (simp only: rd) simp
  show ?thesis
  proof (intro exI conjI ballI allI impI)
    show "handler_di_config (sys_ioctl k u) ui s bid ch hl v w =
        Inr (Call_DI_Config (sys_ioctl k u) ui s bid ch (di_pack (?ctl, ?code)) w)"
      by (simp add: handler_di_config_def val)
    show "dev_reg base (din_reg ch) (Call_DI_Config (sys_ioctl k u) ui s bid ch (di_pack (?ctl, ?code)) w) =
        (push_bit 12 ?ctl OR push_bit 2 ?code)"
      unfolding own by (simp add: di_pack_def)
    show "di_unpack (dev_reg base (din_reg ch) (Call_DI_Config (sys_ioctl k u) ui s bid ch (di_pack (?ctl, ?code)) w)) = (?ctl, ?code)
        \<longleftrightarrow> v < 5 / 2"
      unfolding own by (rule di_readable_iff [OF ctl(2) assms(5,6)])
  qed (use g in \<open>auto simp only: rd split: if_splits\<close>)
qed

lemma di_config_registers_witness:
  "\<exists>w'. handler_di_config (sys_ioctl ram_kapi zero_cfg) zero_xdma_info open_lib 5 6 1 (5 / 4) open_world = Inr w' \<and>
    di_unpack (dev_reg 0x1000000 (din_reg 6) w') = (6, 512) \<and> dev_reg 0x1000000 DIN_VLD w' = 0"
proof -
  have ok: "stack_ok ram_kapi open_lib (sint (5 :: u32)) 0x1000000 open_world" using open_stack_ok by simp
  have v: "nat \<lfloor>(5 / 4 :: rat) * 1024\<rfloor> = 1280" by simp
  have t: "di_hl ! nat 1 ! nat 6 = 6" by (simp add: di_hl_def)
  from di_config_registers [OF ok, of 6 1 "5 / 4" zero_cfg zero_xdma_info] show ?thesis
    unfolding v t by simp blast
qed


text \<open>C12: Configuring a digital output writes the enable and the reference value to the two registers of
  the channel, sixteen register pairs that do not overlap, and changes no other register; a
  channel outside 1 to 16 changes nothing.\<close>

theorem do_config_registers:
  assumes "stack_ok k s (sint bid) base w"
  shows "dev_reg base a (handler_do_config (sys_ioctl k u) ui s bid ch en ref w) =
    (if 1 \<le> ch \<and> ch \<le> 16 \<and> a = do_en_reg ch then ucast en
     else if 1 \<le> ch \<and> ch \<le> 16 \<and> a = do_en_reg ch + 4 then ucast ref else dev_reg base a w) \<and>
    inj_on do_en_reg {1..16} \<and> do_en_reg ` {1..16} \<inter> (\<lambda>c. do_en_reg c + 4) ` {1..16} = {}"
proof -
  have "dev_reg base a (handler_do_config (sys_ioctl k u) ui s bid ch en ref w) =
    (if 1 \<le> ch \<and> ch \<le> 16 \<and> a = do_en_reg ch then ucast en
     else if 1 \<le> ch \<and> ch \<le> 16 \<and> a = do_en_reg ch + 4 then ucast ref else dev_reg base a w)"
  proof (cases "1 \<le> ch \<and> ch \<le> 16")
    case True
    then show ?thesis using stack_regs.do_config_effect [OF assms _ _ refl, of ch] by simp
  next
    case False
    have "handler_do_config (sys_ioctl k u) ui s bid ch en ref w = w"
      unfolding handler_do_config_def Call_DO_Config_eq by (rule if_not_P [OF False])
    then show ?thesis using False by auto
  qed
  moreover have "inj_on do_en_reg {1..16}" by (rule inj_onI) (auto simp: do_en_reg_inj(1))
  moreover have "do_en_reg ` {1..16} \<inter> (\<lambda>c. do_en_reg c + 4) ` {1..16} = {}"
    using do_en_reg_inj(2) by fastforce
  ultimately show ?thesis by blast
qed

lemma do_config_registers_witness:
  "dev_reg 0x1000000 0x10110 (handler_do_config (sys_ioctl ram_kapi zero_cfg) zero_xdma_info open_lib 5 3 1 9 open_world) = 1 \<and>
   dev_reg 0x1000000 0x10114 (handler_do_config (sys_ioctl ram_kapi zero_cfg) zero_xdma_info open_lib 5 3 1 9 open_world) = 9"
proof -
  have ok: "stack_ok ram_kapi open_lib (sint (5 :: u32)) 0x1000000 open_world" using open_stack_ok by simp
  have r: "do_en_reg 3 = 0x10110" by (simp add: do_en_reg_def)
  show ?thesis
    using do_config_registers [OF ok, where a = "0x10110" and u = zero_cfg and ui = zero_xdma_info and ch = "3" and en = "1" and ref = "9"]
      do_config_registers [OF ok, where a = "0x10114" and u = zero_cfg and ui = zero_xdma_info and ch = "3" and en = "1" and ref = "9"]
    by (simp add: r)
qed

text \<open>C13: Selecting scope channels packs eight selectors into two registers so that each can be read
  back from its byte, and changes no other register; fewer than eight selectors are read outside
  the array.\<close>

theorem scope_select_roundtrip:
  assumes "stack_ok k s b base w"
  shows "if 8 \<le> length xs
    then \<exists>w'. scope_select_ch (sys_ioctl k u) ui s b xs w = Inr w' \<and>
      (\<forall>i < 4. byte_of i (dev_reg base 0 w') = xs ! i \<and> byte_of i (dev_reg base 8 w') = xs ! (4 + i)) \<and>
      (\<forall>a. a \<noteq> 0 \<and> a \<noteq> 8 \<longrightarrow> dev_reg base a w' = dev_reg base a w)
    else scope_select_ch (sys_ioctl k u) ui s b xs w = Inl OutOfBounds"
proof (cases "8 \<le> length xs")
  case True
  obtain w' where w': "scope_select_ch (sys_ioctl k u) ui s b xs w = Inr w'" "stack_ok k s b base w'"
    "dev_reg base 0 w' = pack4 (xs ! 0) (xs ! 1) (xs ! 2) (xs ! 3)"
    "dev_reg base 8 w' = pack4 (xs ! 4) (xs ! 5) (xs ! 6) (xs ! 7)"
    "\<And>a. a \<noteq> 0 \<Longrightarrow> a \<noteq> 8 \<Longrightarrow> dev_reg base a w' = dev_reg base a w"
    by (rule stack_regs.scope_select_ch_effect [OF assms True, of u ui]) (rule that, assumption+)
  have "\<forall>i < 4. byte_of i (dev_reg base 0 w') = xs ! i \<and> byte_of i (dev_reg base 8 w') = xs ! (4 + i)"
    using byte_of_pack4_nth [of _ "\<lambda>i. xs ! i"] byte_of_pack4_nth [of _ "\<lambda>i. xs ! (4 + i)"] by (simp add: w'(3,4))
  then show ?thesis using True w'(1,5) by auto
next
  case False
  then show ?thesis
    using pack_from_short [of xs 4] pack_from_short [of xs 0] pack_from_eq [of 0 xs]
    by (cases "length xs \<le> 3") (simp_all add: scope_select_ch_def Let_def)
qed

lemma scope_select_roundtrip_witness:
  "\<exists>w'. scope_select_ch (sys_ioctl ram_kapi zero_cfg) zero_xdma_info open_lib 5 [1, 2, 3, 4, 5, 6, 7, 8] open_world = Inr w' \<and>
    byte_of 2 (dev_reg 0x1000000 8 w') = 7"
  using scope_select_roundtrip [OF open_stack_ok, of "[1, 2, 3, 4, 5, 6, 7, 8]" zero_cfg zero_xdma_info] by fastforce

section \<open>DMA buffers\<close>

text \<open>C14: Bytes that the library writes to the buffer of a DMA channel are the bytes it reads back, to
  any place in user memory, while the buffer keeps its length and its other bytes; both calls
  return 0.\<close>

theorem buffer_roundtrip:
  assumes "ram_like k" "board_open s b xdev w" "xdev_wf xdev" "1 \<le> ch" "ch \<le> 2" "buff \<noteq> 0" "dst \<noteq> 0"
    "ch_buffer xdev ch = p" "p \<noteq> 0" "ks_bufs (w_kernel w) p = Some bs" "in_buffer pos n bs"
    "vi53xx_xdma_set_ch_buff (sys_ioctl k u) ui s b ch buff pos n w = (r1, w1)"
    "vi53xx_xdma_dump_ch_data (sys_ioctl k u) uj s b ch dst pos n w1 = (r2, w2)"
  shows "r1 = 0 \<and> r2 = 0 \<and> w_oops w2 = None \<and> user_read w2 dst (unat n) = user_read w buff (unat n) \<and>
    (\<exists>bs'. ks_bufs (w_kernel w2) p = Some bs' \<and> length bs' = length bs \<and>
       (\<forall>i < length bs. i < unat pos \<or> unat pos + unat n \<le> i \<longrightarrow> bs' ! i = bs ! i))"
proof -
  let ?new = "user_read w buff (unat n)" and ?tr = "ks_trace (w_kernel w) @ [CopyFromUser 56 0, CopyFromUser (unat n) 0]"
  let ?bs = "overwrite (unat pos) ?new bs"
  let ?w1 = "w\<lparr>w_kernel := (w_kernel w)\<lparr>ks_bufs := (ks_bufs (w_kernel w))(p \<mapsto> ?bs), ks_trace := ?tr\<rparr>\<rparr>"
  have fit: "unat pos + length ?new \<le> length bs" using assms(11) by (simp add: in_buffer_def)
  have w1: "r1 = 0" "w1 = ?w1" using assms(12) set_ch_buff_stack [OF assms(1-6,8-11), of u ui] by simp_all
  have o: "board_open s b xdev ?w1" using assms(2) by (simp add: board_open_def)
  have b1: "ks_bufs (w_kernel ?w1) p = Some ?bs" by simp
  have ib: "in_buffer pos n ?bs" using assms(11) fit by (simp add: in_buffer_def)
  have w2: "r2 = 0" "w2 = (user_write dst (take (unat n) (drop (unat pos) ?bs)) ?w1)\<lparr>w_kernel := (w_kernel ?w1)\<lparr>
       ks_trace := ks_trace (w_kernel ?w1) @ [CopyFromUser 56 0, CopyToUser (unat n) 0]\<rparr>\<rparr>"
    using assms(13) dump_ch_data_stack [OF assms(1) o assms(3-5,7-9) b1 ib, of u uj] unfolding w1(2) by simp_all
  have got: "take (unat n) (drop (unat pos) ?bs) = ?new" using take_drop_overwrite [OF fit] by simp
  have "length ?new < 2 ^ 64" using unsigned_less [where 'a = nat, of n] by simp
  then have "user_read (user_write dst ?new ?w1) dst (unat n) = ?new"
    using user_read_write [of ?new dst ?w1] by simp
  then have "user_read w2 dst (unat n) = ?new" unfolding w2(2) got by (simp add: user_read_def)
  moreover have "w_oops w2 = None" "ks_bufs (w_kernel w2) p = Some ?bs"
    using assms(2) unfolding w2(2) by (simp_all add: user_write_def board_open_def)
  moreover have "\<forall>i < length bs. i < unat pos \<or> unat pos + unat n \<le> i \<longrightarrow> ?bs ! i = bs ! i"
    using nth_overwrite_other [OF fit] by simp
  ultimately show ?thesis using w1(1) w2(1) fit by (intro conjI exI [of _ ?bs]) simp_all
qed

lemma buffer_roundtrip_witness:
  "\<exists>w1 w2. vi53xx_xdma_set_ch_buff (sys_ioctl ram_kapi zero_cfg) zero_xdma_info open_lib 5 1 0x41 3 2 open_world = (0, w1) \<and>
    vi53xx_xdma_dump_ch_data (sys_ioctl ram_kapi zero_cfg) zero_xdma_info open_lib 5 1 0x80 3 2 w1 = (0, w2) \<and>
    user_read w2 0x80 2 = [0x41, 0x42]"
proof -
  obtain r1 w1 where 1: "vi53xx_xdma_set_ch_buff (sys_ioctl ram_kapi zero_cfg) zero_xdma_info open_lib 5 1 0x41 3 2 open_world = (r1, w1)"
    by fastforce
  obtain r2 w2 where 2: "vi53xx_xdma_dump_ch_data (sys_ioctl ram_kapi zero_cfg) zero_xdma_info open_lib 5 1 0x80 3 2 w1 = (r2, w2)"
    by fastforce
  have h: "(1 :: int) \<le> 1" "(1 :: int) \<le> 2" "(0x41 :: u64) \<noteq> 0" "(0x80 :: u64) \<noteq> 0" "(0x9000 :: u64) \<noteq> 0" by simp_all
  have ib: "in_buffer 3 2 (replicate 16 0)" by (simp add: in_buffer_def)
  have "user_read open_world 0x41 2 = [0x41, 0x42]" by (simp add: user_read_def open_world_def upt_conv_Cons)
  then show ?thesis
    using buffer_roundtrip [OF ram_kapi_like open_world_ok(1,5) h(1-4) open_world_ok(6) h(5) open_world_ok(7) ib 1 2] 1 2
    by simp
qed


section \<open>Mapping DMA memory\<close>

text \<open>C35: When the driver refuses to map a buffer, the library does not notice: it compares the result
  with NULL, but a failed mmap is the address -1, which is returned to the caller as if it were
  the mapped buffer.\<close>

theorem mmap_failure_not_detected:
  assumes "dev_handle_of b s = Some dh" "w_files w (dh_dev_handle dh) \<noteq> 0" "w_oops w = None"
    "i_vi53xx_xdma_mmap_setting (sys_ioctl k u) (dh_dev_handle dh)
       (Some (ui\<lparr>x_channel := ch, x_dir := word_of_int dir\<rparr>)) w = (r, w1)"
    "w_oops w1 = None" "w_files w1 = w_files w"
    "vi53xx_file_mmap k (w_files w (dh_dev_handle dh)) sz (w_kernel w1) = Inr (ret, s1)" "ret < 0"
  shows "vi53xx_xdma_mmap (sys_ioctl k u) (sys_mmap k a) ui s b ch dir sz w =
    (- 1, s, w1\<lparr>w_kernel := s1\<rparr>) \<and> (- 1 :: u64) \<noteq> 0"
proof -
  have "sys_mmap k a (dh_dev_handle dh) sz w1 = (- 1, w1\<lparr>w_kernel := s1\<rparr>)"
    using assms(2,5-8) by (simp add: sys_mmap_def)
  then show ?thesis using assms(1,4) by (simp add: vi53xx_xdma_mmap_def i_vi53xx_xdma_mmap_def)
qed

lemma mmap_failure_not_detected_witness:
  "\<exists>w2. vi53xx_xdma_mmap (sys_ioctl (ram_kapi\<lparr>k_dma_common_mmap := \<lambda>_ _ _ _. - 22\<rparr>) zero_cfg)
      (sys_mmap (ram_kapi\<lparr>k_dma_common_mmap := \<lambda>_ _ _ _. - 22\<rparr>) 0x7000) zero_xdma_info open_lib 5 1 0 0x1000 open_world =
    (- 1, open_lib, w2)"
proof -
  let ?k = "ram_kapi\<lparr>k_dma_common_mmap := \<lambda>_ _ _ _. - 22\<rparr>" and ?xi = "zero_xdma_info\<lparr>x_channel := 1, x_dir := 0\<rparr>"
  let ?w1 = "open_world\<lparr>w_kernel := (info_copied (w_kernel open_world))\<lparr>ks_setting := ?xi\<rparr>\<rparr>"
  have left: "\<forall>tr n. k_left ?k tr n = 0" by (simp add: ram_kapi_def)
  have "i_vi53xx_xdma_mmap_setting (sys_ioctl ?k zero_cfg) 3 (Some ?xi) open_world =
      sys_ioctl ?k zero_cfg (dh_dev_handle \<lparr>dh_dev_handle = 3, dh_board_id = 5, dh_dev_name = ''/dev/es5341_0''\<rparr>)
        (RTPC_IOCTL CMD_XDMA_SETTING) ?xi open_world"
    by (simp add: i_vi53xx_xdma_mmap_setting_def xdma_call_ioctl_def)
  also have "\<dots> = (0, ?w1)"
    by (subst sys_ioctl_open [OF open_world_ok(1) open_lib_handle])
      (simp_all add: vi53xx_ioctl_xdma_def copy_from_user_info_full [OF left])
  finally have st: "i_vi53xx_xdma_mmap_setting (sys_ioctl ?k zero_cfg) 3 (Some ?xi) open_world = (0, ?w1)" .
  have f: "w_files open_world 3 = 0x50" "w_oops open_world = None" by (simp_all add: open_world_def)
  have cfg: "get_xdma_cfg open_xdev ?xi = Inr (zero_cfg\<lparr>pData := replicate MAX_DESC_NUM 0x9000\<rparr>)"
    by (simp add: get_xdma_cfg_def open_xdev_def Let_def)
  have "\<exists>s1. vi53xx_file_mmap ?k 0x50 0x1000 (w_kernel ?w1) = Inr (- 22, s1)"
    by (simp add: vi53xx_file_mmap_def deref_xpdev_def drv_xdma_mmap_def i_xdma_mmap_def get_xdma_setting_def cfg
        xdma_mmap_def open_world_def info_copied_def example_board_def Let_def zero_cfg_def)
  then obtain s1 where "vi53xx_file_mmap ?k 0x50 0x1000 (w_kernel ?w1) = Inr (- 22, s1)" by blast
  then show ?thesis
    using mmap_failure_not_detected [OF open_lib_handle, where w = open_world and k = ?k and u = zero_cfg and ui = zero_xdma_info
        and ch = 1 and dir = 0 and r = 0 and ?w1.0 = ?w1 and sz = "0x1000" and ret = "- 22" and ?s1.0 = s1 and a = "0x7000"]
      st f by auto
qed


section \<open>Finding the boards\<close>

text \<open>C15: When the file the library opens holds the driver's list, the check stores every board of the
  list, at most 64, in order, with the driver's board id, type and name; the instance number is the
  driver's exactly when it is below 10, because it is printed in decimal and read in hexadecimal.\<close>

theorem discovery_roundtrip:
  assumes "init_check_ok s = 0" "os_malloc env 0" "os_malloc env 1" "length (os_line env) = 256"
    "os_fopen env boards_file = Some (mapping_show bs)" "bs \<noteq> []" "length bs \<le> 64"
    "\<forall>x \<in> set bs. name_ok (di_device_name (cdev_info (ctrl_cdev x)))"
  shows "\<exists>n s' l. check_boards_info env s = Inr (n, s') \<and> available_board_count s' = int (length bs) \<and>
    board_info s' = Some l \<and> length l = BOARD_NUM \<and>
    (\<forall>i < length bs. let c = ctrl_cdev (bs ! i); d = cdev_info c; b = l ! i in
       bi_board_id b = di_board_id d \<and> bi_board_type b = di_board_type d \<and> bi_board_name b = di_device_name d \<and>
       (bi_board_inst b = MINOR (cdevno c) \<longleftrightarrow> MINOR (cdevno c) < 10))"
proof -
  let ?rest = "drop (length bs) (replicate BOARD_NUM zero_board)"
  obtain n s' where s': "check_boards_info env s = Inr (n, s')" "board_info s' = Some (map parsed_board bs @ ?rest)"
    "available_board_count s' = int (length bs)" by (rule discovery_result [OF assms])
  have "length (map parsed_board bs @ ?rest) = BOARD_NUM" using assms(7) by simp
  moreover have "\<forall>i < length bs. let c = ctrl_cdev (bs ! i); d = cdev_info c; b = (map parsed_board bs @ ?rest) ! i in
       bi_board_id b = di_board_id d \<and> bi_board_type b = di_board_type d \<and> bi_board_name b = di_device_name d \<and>
       (bi_board_inst b = MINOR (cdevno c) \<longleftrightarrow> MINOR (cdevno c) < 10)"
    by (simp add: Let_def nth_append parsed_inst_eq_iff) (simp add: parsed_board_def Let_def)
  ultimately show ?thesis using s' by blast
qed

text \<open>A list of one board, the twelfth of its type.\<close>

definition twelfth_board :: xdma_pci_dev where
  "twelfth_board = example_board\<lparr>ctrl_cdev := zero_cdev\<lparr>cdevno := MKDEV 240 11,
     cdev_info := zero_info\<lparr>di_board_id := 5, di_board_type := ES5341_ID, di_device_name := ''es5341''\<rparr>\<rparr>\<rparr>"

lemma discovery_roundtrip_witness:
  "\<exists>n s' l. check_boards_info (example_os\<lparr>os_fopen := \<lambda>_. Some (mapping_show [twelfth_board])\<rparr>) lib_start = Inr (n, s') \<and>
    board_info s' = Some l \<and> bi_board_id (l ! 0) = 5 \<and> bi_board_inst (l ! 0) \<noteq> 11"
proof -
  let ?e = "example_os\<lparr>os_fopen := \<lambda>_. Some (mapping_show [twelfth_board])\<rparr>"
  have h: "init_check_ok lib_start = 0" "os_malloc ?e 0" "os_malloc ?e 1" "length (os_line ?e) = 256"
    "os_fopen ?e boards_file = Some (mapping_show [twelfth_board])" "[twelfth_board] \<noteq> []" "length [twelfth_board] \<le> 64"
    by (simp_all add: example_os_def lib_start_def)
  have nm: "\<forall>x \<in> set [twelfth_board]. name_ok (di_device_name (cdev_info (ctrl_cdev x)))"
    by (simp add: twelfth_board_def name_ok_def separators_def)
  have m: "MINOR (MKDEV 240 11) = 11" by (rule MINOR_MKDEV) simp
  from discovery_roundtrip [OF h nm] show ?thesis
    by (simp add: Let_def twelfth_board_def m) blast
qed

text \<open>C36: The library looks for the board list under a name that the driver never creates. If the files
  of /proc/vi53xx are those the driver made (the module-wide ones and one per board), the check
  finds no board and still returns 0, and opening any board then fails with -ENODEV.\<close>

theorem wrong_file_finds_no_board:
  assumes "create_boards_info_proc k tr = (rv, dir, tr')" "\<forall>f. ProcCreate f True \<notin> set tr"
    "\<forall>f. os_fopen env (''/proc/vi53xx/'' @ f) \<noteq> None \<longrightarrow>
      ProcCreate f True \<in> set tr' \<or> (\<exists>dt nm i. drv_get_board_name dt = Some nm \<and> f = nm @ ''_'' @ show_u i)"
    "init_check_ok s = 0" "os_malloc env 0" "os_malloc env 1" "available_board_count s = 0"
  shows "\<exists>s'. check_boards_info env s = Inr (0, s') \<and> available_board_count s' = 0 \<and>
    (\<forall>b. \<exists>s''. vi53xx_device_open env b s' = Inr (- ENODEV, s''))"
proof -
  have "os_fopen env (''/proc/vi53xx/'' @ ''maping'') = None"
  proof (rule ccontr)
    assume "os_fopen env (''/proc/vi53xx/'' @ ''maping'') \<noteq> None"
    with assms(3) have "ProcCreate ''maping'' True \<in> set tr' \<or>
      (\<exists>dt nm i. drv_get_board_name dt = Some nm \<and> ''maping'' = nm @ ''_'' @ show_u i)" by blast
    moreover have "ProcCreate ''maping'' True \<notin> set tr'"
      using assms(1,2) by (auto simp: create_boards_info_proc_def create_board_proc_def
          create_instance_board_id_mmap_def Let_def split: if_splits)
    moreover have "''maping'' \<noteq> nm @ ''_'' @ r" if "drv_get_board_name dt = Some nm" for dt nm r
      using name_cases [OF that] by auto
    ultimately show False by metis
  qed
  then have f: "os_fopen env boards_file = None" by (simp add: boards_file_def)
  obtain s' where s': "check_boards_info env s = Inr (0, s')" "available_board_count s' = 0"
    using assms(4-7) f by (simp add: check_boards_info_def requst_mem_def init_config_def extractValue_def Let_def)
  have "\<exists>s''. vi53xx_device_open env b s' = Inr (- ENODEV, s'')" for b
    using s'(2) show_u_0
    by (simp add: vi53xx_device_open_def get_available_board_count_def get_board_handle_def vi53xx_get_board_type_def
        lib_get_board_instance_def i_lib_get_board_instance_def lib_get_board_name_def i_lib_get_board_name_def
        dev_path_def fitsR_def fmt_s_def Let_def)
  then show ?thesis using s' by blast
qed

lemma wrong_file_finds_no_board_witness:
  "\<exists>tr' s'. create_boards_info_proc ram_kapi [] = (0, True, tr') \<and> ProcCreate ''mapping'' True \<in> set tr' \<and>
    check_boards_info (example_os\<lparr>os_fopen := \<lambda>f. if f = ''/proc/vi53xx/mapping'' then Some [] else None\<rparr>) lib_start = Inr (0, s') \<and>
    available_board_count s' = 0"
proof -
  let ?e = "example_os\<lparr>os_fopen := \<lambda>f. if f = ''/proc/vi53xx/mapping'' then Some [] else None\<rparr>"
  have c: "create_boards_info_proc ram_kapi [] =
      (0, True, [ProcMkdir ''vi53xx'' True, ProcCreate ''boards'' True, ProcCreate ''mapping'' True])"
    by (simp add: create_boards_info_proc_def create_board_proc_def create_instance_board_id_mmap_def Let_def ram_kapi_def)
  have h: "\<forall>f. ProcCreate f True \<notin> set []" "init_check_ok lib_start = 0" "os_malloc ?e 0" "os_malloc ?e 1"
    "available_board_count lib_start = 0"
    "\<forall>f. os_fopen ?e (''/proc/vi53xx/'' @ f) \<noteq> None \<longrightarrow>
      ProcCreate f True \<in> set [ProcMkdir ''vi53xx'' True, ProcCreate ''boards'' True, ProcCreate ''mapping'' True] \<or>
      (\<exists>dt nm i. drv_get_board_name dt = Some nm \<and> f = nm @ ''_'' @ show_u i)"
    by (simp_all add: example_os_def lib_start_def)
  from wrong_file_finds_no_board [OF c h(1,6,2-5)] c show ?thesis by auto
qed

end
